(* ===== verification/Prelude.thy ===== *)
theory Prelude
  imports Main "HOL-Library.AList"
begin

text \<open>
  Shared vocabulary of the development: instants and durations, tables with a primary key
  (what a SQL table is to the code), the result type of a database operation and its
  sequencing, the decimal rendering of identifiers, and the collections of hints the component
  theories extend.

  \<^item> An instant (\<open>time.Time\<close>, \<open>timestamptz\<close>) and a duration (\<open>time.Duration\<close>) are
    integers counting nanoseconds.
  \<^item> A table is an association list from its primary key to its row. \<open>tget\<close>, \<open>tins\<close>,
    \<open>tupd\<close>, \<open>tdel\<close> are SELECT, INSERT \<dots> ON CONFLICT DO NOTHING, UPDATE and DELETE by
    primary key.
  \<^item> A database operation returns \<open>Inl\<close> an error, or \<open>Inr\<close> its value with the new database;
    \<open>andthen\<close> is the code's \<open>if err != nil { return err }\<close>.
\<close>

named_theorems table_simps \<open>what a read of a table returns after a write\<close>
named_theorems keeps \<open>operations that keep the invariant of their component\<close>
named_theorems frame \<open>parts of the state an operation does not touch\<close>

section \<open>Time\<close>

type_synonym time = int
type_synonym duration = int

abbreviation msecs :: "int \<Rightarrow> duration" where "msecs n \<equiv> n * 1000000"
abbreviation secs :: "int \<Rightarrow> duration" where "secs n \<equiv> n * 1000000000"
abbreviation minutes :: "int \<Rightarrow> duration" where "minutes n \<equiv> n * 60000000000"
abbreviation hours :: "int \<Rightarrow> duration" where "hours n \<equiv> n * 3600000000000"
abbreviation days :: "int \<Rightarrow> duration" where "days n \<equiv> n * 86400000000000"

text \<open>SQL's \<open>GREATEST(COALESCE(t, now), now)\<close>, the base every extension is counted from.\<close>

definition greatest_now :: "time option \<Rightarrow> time \<Rightarrow> time" where
  "greatest_now t now = (case t of None \<Rightarrow> now | Some e \<Rightarrow> max e now)"

lemma greatest_now_ge_now [simp, intro]: "now \<le> greatest_now t now"
  by (simp add: greatest_now_def split: option.split)

lemma greatest_now_simps [simp]:
  "greatest_now None now = now"
  "greatest_now (Some e) now = max e now"
  by (simp_all add: greatest_now_def)

section \<open>Tables\<close>

type_synonym ('k, 'v) table = "('k \<times> 'v) list"

definition tget :: "('k, 'v) table \<Rightarrow> 'k \<Rightarrow> 'v option" where
  "tget t k = map_of t k"

definition tkeys :: "('k, 'v) table \<Rightarrow> 'k set" where
  "tkeys t = fst ` set t"

definition tins :: "'k \<Rightarrow> 'v \<Rightarrow> ('k, 'v) table \<Rightarrow> ('k, 'v) table" where
  "tins k v t = (case map_of t k of None \<Rightarrow> t @ [(k, v)] | Some _ \<Rightarrow> t)"

definition tupd :: "'k \<Rightarrow> ('v \<Rightarrow> 'v) \<Rightarrow> ('k, 'v) table \<Rightarrow> ('k, 'v) table" where
  "tupd k f t = map (\<lambda>(k', v). (k', if k' = k then f v else v)) t"

definition tdel :: "'k \<Rightarrow> ('k, 'v) table \<Rightarrow> ('k, 'v) table" where
  "tdel k t = filter (\<lambda>(k', _). k' \<noteq> k) t"

definition twf :: "('k, 'v) table \<Rightarrow> bool" where
  "twf t \<longleftrightarrow> distinct (map fst t)"

lemma tget_Nil [simp]: "tget [] k = None"
  by (simp add: tget_def)

lemma twf_Nil [simp]: "twf []"
  by (simp add: twf_def)

lemma tget_Cons: "tget ((k', v) # t) k = (if k = k' then Some v else tget t k)"
  by (simp add: tget_def)

lemma tkeys_iff: "k \<in> tkeys t \<longleftrightarrow> tget t k \<noteq> None"
  by (simp add: tkeys_def tget_def map_of_eq_None_iff)

lemma tget_tins [table_simps]:
  "tget (tins k v t) k' = (if k' = k \<and> tget t k = None then Some v else tget t k')"
  by (auto simp: tins_def tget_def map_add_def split: option.splits)

lemma tget_tupd [table_simps]:
  "tget (tupd k f t) k' = (if k' = k then map_option f (tget t k) else tget t k')"
  by (induction t) (auto simp: tupd_def tget_def)

lemma tget_tdel [table_simps]:
  "tget (tdel k t) k' = (if k' = k then None else tget t k')"
  by (induction t) (auto simp: tdel_def tget_def)

lemma twf_tins [simp, intro]: "twf t \<Longrightarrow> twf (tins k v t)"
  by (auto simp: twf_def tins_def map_of_eq_None_iff split: option.splits)

lemma twf_tupd [simp]: "twf (tupd k f t) = twf t"
proof -
  have "map fst (tupd k f t) = map fst t"
    by (induction t) (auto simp: tupd_def)
  then show ?thesis by (simp add: twf_def)
qed

lemma twf_tdel [simp, intro]: "twf t \<Longrightarrow> twf (tdel k t)"
  by (auto simp: twf_def tdel_def intro: distinct_map_filter)

lemma tget_in_set: "twf t \<Longrightarrow> tget t k = Some v \<longleftrightarrow> (k, v) \<in> set t"
  by (simp add: twf_def tget_def)

section \<open>Results of database operations\<close>

definition andthen ::
    "'e + ('a \<times> 's) \<Rightarrow> ('a \<Rightarrow> 's \<Rightarrow> 'e + ('b \<times> 's)) \<Rightarrow> 'e + ('b \<times> 's)" where
  "andthen r k = (case r of Inl e \<Rightarrow> Inl e | Inr (a, s) \<Rightarrow> k a s)"

lemma andthen_simps [simp]:
  "andthen (Inl e) k = Inl e"
  "andthen (Inr (a, s)) k = k a s"
  by (simp_all add: andthen_def)

lemma andthen_Inr_iff:
  "andthen r k = Inr (b, s') \<longleftrightarrow> (\<exists>a s. r = Inr (a, s) \<and> k a s = Inr (b, s'))"
  by (cases r) (auto simp: andthen_def)

lemma andthen_InrE [elim!]:
  assumes "andthen r k = Inr (b, s')"
  obtains a s where "r = Inr (a, s)" and "k a s = Inr (b, s')"
  using assms by (auto simp: andthen_Inr_iff)

text \<open>\<open>ends P r\<close>: whenever the operation returns, its value and new state satisfy \<open>P\<close>.\<close>

definition ends :: "('a \<Rightarrow> 's \<Rightarrow> bool) \<Rightarrow> 'e + ('a \<times> 's) \<Rightarrow> bool" where
  "ends P r = (case r of Inl _ \<Rightarrow> True | Inr (a, s) \<Rightarrow> P a s)"

lemma ends_simps [simp]:
  "ends P (Inl e)"
  "ends P (Inr (a, s)) = P a s"
  by (simp_all add: ends_def)

lemma ends_andthen: "ends (\<lambda>a s. ends P (k a s)) r \<Longrightarrow> ends P (andthen r k)"
  by (cases r) (auto simp: ends_def andthen_def)

lemma ends_weaken: "ends P r \<Longrightarrow> (\<And>a s. P a s \<Longrightarrow> Q a s) \<Longrightarrow> ends Q r"
  by (cases r) (auto simp: ends_def)

lemma endsD: "ends P r \<Longrightarrow> r = Inr (a, s) \<Longrightarrow> P a s"
  by simp

lemma endsI: "(\<And>a s. r = Inr (a, s) \<Longrightarrow> P a s) \<Longrightarrow> ends P r"
  by (cases r) (auto simp: ends_def)

text \<open>
  \<open>keeps_tx P R r d\<close>: started in a state satisfying \<open>P\<close>, the operation with the result
  \<open>r\<close> either fails (and its transaction will be rolled back) or ends in a state that satisfies
  \<open>P\<close> and is related to the first by \<open>R\<close>, a history relation such as "no counter went down".
  It composes along \<open>andthen\<close> when \<open>R\<close> is transitive.
\<close>

definition keeps_tx :: "('s \<Rightarrow> bool) \<Rightarrow> ('s \<Rightarrow> 's \<Rightarrow> bool) \<Rightarrow> 's \<Rightarrow> 'e + ('a \<times> 's) \<Rightarrow> bool" where
  "keeps_tx P R d r \<longleftrightarrow> (P d \<longrightarrow> ends (\<lambda>_ d'. P d' \<and> R d d') r)"

lemma keeps_tx_Inl [simp, intro]: "keeps_tx P R d (Inl e)"
  by (simp add: keeps_tx_def)

lemma keeps_tx_Inr [simp]: "keeps_tx P R d (Inr (a, d')) \<longleftrightarrow> (P d \<longrightarrow> P d' \<and> R d d')"
  by (simp add: keeps_tx_def)

lemma keeps_txD: "keeps_tx P R d r \<Longrightarrow> r = Inr (a, d') \<Longrightarrow> P d \<Longrightarrow> P d' \<and> R d d'"
  by simp

text \<open>The same for a step that always ends in a state.\<close>

definition stays :: "('s \<Rightarrow> bool) \<Rightarrow> ('s \<Rightarrow> 's \<Rightarrow> bool) \<Rightarrow> 's \<Rightarrow> 's \<Rightarrow> bool" where
  "stays P R d d' \<longleftrightarrow> (P d \<longrightarrow> P d' \<and> R d d')"

lemma staysD: "stays P R d d' \<Longrightarrow> P d \<Longrightarrow> P d' \<and> R d d'"
  by (simp add: stays_def)

lemma staysI: "(P d \<Longrightarrow> P d') \<Longrightarrow> (P d \<Longrightarrow> R d d') \<Longrightarrow> stays P R d d'"
  by (simp add: stays_def)

locale history =
  fixes valid :: "'s \<Rightarrow> bool" and later :: "'s \<Rightarrow> 's \<Rightarrow> bool"
  assumes later_refl: "later d d"
    and later_trans: "later d1 d2 \<Longrightarrow> later d2 d3 \<Longrightarrow> later d1 d3"
begin

lemma keeps_return: "keeps_tx valid later d (Inr (a, d))"
  by (simp add: later_refl)

lemma keeps_andthen:
  assumes "keeps_tx valid later d r" and "\<And>a d'. r = Inr (a, d') \<Longrightarrow> keeps_tx valid later d' (k a d')"
  shows "keeps_tx valid later d (andthen r k)"
proof (cases r)
  case (Inr x)
  obtain a d' where r: "r = Inr (a, d')" using Inr by (cases x) auto
  show ?thesis
    using assms(1) assms(2) [OF r] r
    by (auto simp: keeps_tx_def ends_def split: sum.splits intro: later_trans)
qed simp

lemma stays_refl: "stays valid later d d"
  by (simp add: stays_def later_refl)

lemma keeps_value: "stays valid later d d' \<Longrightarrow> keeps_tx valid later d (Inr (a, d'))"
  by (simp add: stays_def)

lemma keeps_after: "stays valid later d d' \<Longrightarrow> keeps_tx valid later d' r \<Longrightarrow> keeps_tx valid later d r"
  by (auto simp: stays_def keeps_tx_def ends_def split: sum.splits intro: later_trans)

lemma stays_trans: "stays valid later d1 d2 \<Longrightarrow> stays valid later d2 d3 \<Longrightarrow> stays valid later d1 d3"
  by (auto simp: stays_def intro: later_trans)

lemma keeps_if: "(b \<Longrightarrow> keeps_tx valid later d r1) \<Longrightarrow> (\<not> b \<Longrightarrow> keeps_tx valid later d r2)
    \<Longrightarrow> keeps_tx valid later d (if b then r1 else r2)"
  by simp

end

section \<open>Decimal rendering\<close>

text \<open>
  \<open>fmt.Sprint\<close> of an integer. Message keys and deduplication keys are built from it, so its
  injectivity is what keeps the keys of two users apart.
\<close>

fun show_nat :: "nat \<Rightarrow> string" where
  "show_nat n = (if n < 10 then [char_of (48 + n)]
     else show_nat (n div 10) @ [char_of (48 + n mod 10)])"

declare show_nat.simps [simp del]

definition show_int :: "int \<Rightarrow> string" where
  "show_int i = (if i < 0 then CHR ''-'' # show_nat (nat (- i)) else show_nat (nat i))"

definition read_nat :: "string \<Rightarrow> nat" where
  "read_nat s = foldl (\<lambda>a c. 10 * a + (of_char c - 48)) 0 s"

lemma read_nat_snoc: "read_nat (s @ [c]) = 10 * read_nat s + (of_char c - 48)"
  by (simp add: read_nat_def)

lemma of_char_of_digit: "d < 10 \<Longrightarrow> (of_char (char_of (48 + d :: nat)) :: nat) = 48 + d"
  by (simp add: of_char_of)

lemma read_show_nat: "read_nat (show_nat n) = n"
proof (induction n rule: show_nat.induct)
  case (1 n)
  show ?case
  proof (cases "n < 10")
    case True
    then show ?thesis
      by (subst show_nat.simps) (simp add: read_nat_def of_char_of_digit)
  next
    case False
    with "1.IH" show ?thesis
      by (subst show_nat.simps) (simp add: read_nat_snoc of_char_of_digit)
  qed
qed

lemma show_nat_digits: "c \<in> set (show_nat n) \<Longrightarrow> (48::nat) \<le> of_char c \<and> (of_char c :: nat) < 58"
proof (induction n rule: show_nat.induct)
  case (1 n)
  show ?case
  proof (cases "n < 10")
    case True
    with "1.prems" show ?thesis
      by (subst (asm) show_nat.simps) (simp add: of_char_of_digit)
  next
    case False
    with "1.prems" have "c \<in> set (show_nat (n div 10)) \<or> c = char_of (48 + n mod 10)"
      by (subst (asm) show_nat.simps) auto
    with "1.IH" False show ?thesis by (auto simp: of_char_of_digit)
  qed
qed

lemma show_nat_nonempty [simp]: "show_nat n \<noteq> []"
  by (subst show_nat.simps) simp

lemma show_nat_inject [simp]: "show_nat m = show_nat n \<longleftrightarrow> m = n"
  by (metis read_show_nat)

lemma minus_not_digit: "CHR ''-'' \<notin> set (show_nat n)"
  by (auto dest: show_nat_digits)

lemma colon_not_digit: "CHR '':'' \<notin> set (show_nat n)"
  by (auto dest: show_nat_digits)

lemma show_int_inject [simp]: "show_int i = show_int j \<longleftrightarrow> i = j"
proof
  assume eq: "show_int i = show_int j"
  have hd_neg: "hd (show_nat n) \<noteq> CHR ''-''" for n
    using minus_not_digit [of n] by (cases "show_nat n") auto
  show "i = j"
    using eq hd_neg [of "nat i"] hd_neg [of "nat j"]
    by (auto simp: show_int_def split: if_splits) (metis list.sel(1))+
qed simp

lemma colon_not_in_show_int: "CHR '':'' \<notin> set (show_int i)"
  by (simp add: show_int_def colon_not_digit)

section \<open>Settings read from the environment\<close>

text \<open>
  \<open>strings.TrimSpace\<close> (its ASCII white space) and \<open>strconv.Atoi\<close>: an optional sign and a
  non-empty string of decimal digits whose value fits an \<open>int64\<close>, otherwise an error.
\<close>

definition is_space :: "char \<Rightarrow> bool" where
  "is_space c \<longleftrightarrow> (of_char c :: nat) \<in> {9, 10, 11, 12, 13, 32}"

definition trim_space :: "string \<Rightarrow> string" where
  "trim_space s = rev (dropWhile is_space (rev (dropWhile is_space s)))"

definition is_digit :: "char \<Rightarrow> bool" where
  "is_digit c \<longleftrightarrow> (48::nat) \<le> of_char c \<and> (of_char c :: nat) < 58"

definition atoi :: "string \<Rightarrow> int option" where
  "atoi s =
     (let neg = (s \<noteq> [] \<and> hd s = CHR ''-'');
          ds = (if s \<noteq> [] \<and> (hd s = CHR ''-'' \<or> hd s = CHR ''+'') then tl s else s);
          n = (if neg then - int (read_nat ds) else int (read_nat ds))
      in if ds = [] \<or> \<not> list_all is_digit ds \<or> n < - (2 ^ 63) \<or> 2 ^ 63 \<le> n then None else Some n)"

text \<open>
  The pattern every service uses for a positive setting: trim the variable, fall back when it is
  empty, does not parse or is not positive.
\<close>

definition positive_env :: "(string \<Rightarrow> int option) \<Rightarrow> string \<Rightarrow> int \<Rightarrow> int" where
  "positive_env parse raw fallback =
     (let v = trim_space raw in
      if v = [] then fallback
      else case parse v of None \<Rightarrow> fallback | Some n \<Rightarrow> if n \<le> 0 then fallback else n)"

definition to_lower :: "char \<Rightarrow> char" where
  "to_lower c = (if (65::nat) \<le> of_char c \<and> (of_char c :: nat) \<le> 90 then char_of (of_char c + 32 :: nat) else c)"

definition env_or :: "(string \<Rightarrow> string) \<Rightarrow> string \<Rightarrow> string \<Rightarrow> string" where
  "env_or getenv name fallback = (let v = trim_space (getenv name) in if v = [] then fallback else v)"

definition join_str :: "string \<Rightarrow> string list \<Rightarrow> string" where
  "join_str sep parts = (case parts of [] \<Rightarrow> [] | p # ps \<Rightarrow> p @ concat (map (\<lambda>q. sep @ q) ps))"

lemma positive_env_pos: "0 < fallback \<Longrightarrow> 0 < positive_env parse raw fallback"
  by (simp add: positive_env_def Let_def split: option.split)

lemma list_all_show_nat: "list_all is_digit (show_nat n)"
  using show_nat_digits by (auto simp: list_all_iff is_digit_def)

lemma atoi_show_int: "- (2 ^ 63) \<le> i \<Longrightarrow> i < 2 ^ 63 \<Longrightarrow> atoi (show_int i) = Some i"
proof -
  assume b: "- (2 ^ 63) \<le> i" "i < 2 ^ 63"
  have hd: "hd (show_nat n) \<in> set (show_nat n)" for n by simp
  have "hd (show_nat n) \<noteq> CHR ''-''" "hd (show_nat n) \<noteq> CHR ''+''" for n
    using show_nat_digits [OF hd, of n] by auto
  then show ?thesis
    using b by (auto simp: atoi_def show_int_def read_show_nat list_all_show_nat Let_def)
qed

section \<open>Numbers of the machine\<close>

text \<open>A sum of \<open>int64\<close> values wraps around.\<close>

definition wrap64 :: "int \<Rightarrow> int" where
  "wrap64 n = (n + 2 ^ 63) mod 2 ^ 64 - 2 ^ 63"

lemma wrap64_add [simp]: "wrap64 (wrap64 a + b) = wrap64 (a + b)" "wrap64 (a + wrap64 b) = wrap64 (a + b)"
proof -
  have "wrap64 (wrap64 a + b) = wrap64 (a + b)" for a b
    unfolding wrap64_def using mod_add_left_eq [of "a + 2 ^ 63" "2 ^ 64" b] by (simp add: algebra_simps)
  from this [of a b] this [of b a]
  show "wrap64 (wrap64 a + b) = wrap64 (a + b)" "wrap64 (a + wrap64 b) = wrap64 (a + b)"
    by (simp_all add: add.commute)
qed

lemma wrap64_id [simp]: "- (2 ^ 63) \<le> n \<Longrightarrow> n < 2 ^ 63 \<Longrightarrow> wrap64 n = n"
  by (simp add: wrap64_def)

text \<open>
  Go's \<open>float64\<close>, whose arithmetic, parsing and formatting are a parameter: a type \<open>'f\<close> with the
  operations the code applies to it; \<open>fl_dec m k\<close> is the literal \<open>m\<close> with \<open>k\<close> decimals, and
  \<open>fl_dec m 0\<close> the conversion of an integer.
\<close>

record 'f float_lib =
  fl_dec :: "int \<Rightarrow> nat \<Rightarrow> 'f"
  fl_parse :: "string \<Rightarrow> 'f option"
  fl_format :: "'f \<Rightarrow> nat \<Rightarrow> string"
  fl_add :: "'f \<Rightarrow> 'f \<Rightarrow> 'f"
  fl_sub :: "'f \<Rightarrow> 'f \<Rightarrow> 'f"
  fl_mul :: "'f \<Rightarrow> 'f \<Rightarrow> 'f"
  fl_div :: "'f \<Rightarrow> 'f \<Rightarrow> 'f"
  fl_less :: "'f \<Rightarrow> 'f \<Rightarrow> bool"
  fl_le :: "'f \<Rightarrow> 'f \<Rightarrow> bool"
  fl_eq :: "'f \<Rightarrow> 'f \<Rightarrow> bool"

end
