(* ===== verification/Contracts.thy ===== *)
theory Contracts
  imports Prelude
begin

text \<open>
  The messages the services exchange over Kafka, \<open>internal/contracts/kafka\<close>: one datatype per
  family, one constructor per struct, one selector per field in the struct's order (the \<open>Type\<close>
  field, a constant of each struct, is \<open>sub_event_type\<close> and its kin). What \<open>encoding/json\<close>
  does with them is modelled on JSON objects: \<open>fld_str\<close>, \<open>fld_int\<close>, \<dots> are
  \<open>json.Unmarshal\<close> of one field of a struct (an absent field is the zero value, a value of the
  wrong kind is an error), and an encoder builds the object \<open>json.Marshal\<close> builds, with
  \<open>omitempty\<close> fields left out when zero. Texts shown to users are the constructors of
  \<open>tg_text\<close>, one per message template of the source with its arguments.
\<close>

section \<open>Topics, plans, message types\<close>

definition TopicSubscriptionCommands :: string where "TopicSubscriptionCommands = ''subscription.commands''"
definition TopicSubscriptionEvents :: string where "TopicSubscriptionEvents = ''subscription.events''"
definition TopicBillingCommands :: string where "TopicBillingCommands = ''billing.commands''"
definition TopicBillingEvents :: string where "TopicBillingEvents = ''billing.events''"
definition TopicCryptoCommands :: string where "TopicCryptoCommands = ''crypto.commands''"
definition TopicTgNotifications :: string where "TopicTgNotifications = ''tg.notifications''"

definition TopicVPNCommands :: string where "TopicVPNCommands = ''vpn.commands''"
definition TopicVPNEvents :: string where "TopicVPNEvents = ''vpn.events''"

lemmas topic_defs = TopicSubscriptionCommands_def TopicSubscriptionEvents_def
  TopicBillingCommands_def TopicBillingEvents_def TopicTgNotifications_def

section \<open>JSON objects\<close>

datatype json = JStr string | JNum int | JBool bool | JTime time | JNull

type_synonym json_obj = "(string \<times> json) list"

definition int64_ok :: "int \<Rightarrow> bool" where
  "int64_ok n \<longleftrightarrow> - (2 ^ 63) \<le> n \<and> n < 2 ^ 63"

definition fld_str :: "json_obj \<Rightarrow> string \<Rightarrow> string option" where
  "fld_str ob k = (case map_of ob k of
     None \<Rightarrow> Some [] | Some JNull \<Rightarrow> Some [] | Some (JStr s) \<Rightarrow> Some s | Some _ \<Rightarrow> None)"

definition fld_int :: "json_obj \<Rightarrow> string \<Rightarrow> int option" where
  "fld_int ob k = (case map_of ob k of
     None \<Rightarrow> Some 0 | Some JNull \<Rightarrow> Some 0
   | Some (JNum n) \<Rightarrow> if int64_ok n then Some n else None | Some _ \<Rightarrow> None)"

definition fld_bool :: "json_obj \<Rightarrow> string \<Rightarrow> bool option" where
  "fld_bool ob k = (case map_of ob k of
     None \<Rightarrow> Some False | Some JNull \<Rightarrow> Some False | Some (JBool b) \<Rightarrow> Some b | Some _ \<Rightarrow> None)"

text \<open>The zero \<open>time.Time\<close> (year 1) is the parameter-free instant \<open>zero_time\<close>.\<close>

definition zero_time :: time where
  "zero_time = - secs 62135596800"

definition fld_time :: "json_obj \<Rightarrow> string \<Rightarrow> time option" where
  "fld_time ob k = (case map_of ob k of
     None \<Rightarrow> Some zero_time | Some JNull \<Rightarrow> Some zero_time | Some (JTime t) \<Rightarrow> Some t | Some _ \<Rightarrow> None)"

definition omit_str :: "string \<Rightarrow> string \<Rightarrow> json_obj" where
  "omit_str k v = (if v = [] then [] else [(k, JStr v)])"

definition omit_int :: "string \<Rightarrow> int \<Rightarrow> json_obj" where
  "omit_int k n = (if n = 0 then [] else [(k, JNum n)])"

lemmas fld_defs = fld_str_def fld_int_def fld_bool_def fld_time_def omit_str_def omit_int_def

section \<open>Commands to the subscription service\<close>

datatype subscription_command =
    StartTrialCommand (sc_command_id: string) (sc_telegram_id: int)
  | GetStatusCommand (sc_command_id: string) (sc_telegram_id: int)
  | GetLinksCommand (sc_command_id: string) (sc_telegram_id: int) (sc_client_group: string)
  | CancelSubscriptionCommand (sc_command_id: string) (sc_telegram_id: int)
  | ReferralAttributeCommand (sc_command_id: string) (sc_telegram_id: int) (sc_referrer_code: string)
  | ReferralRedeemCommand (sc_command_id: string) (sc_telegram_id: int)
  | RotateTokenCommand (sc_command_id: string) (sc_telegram_id: int) (sc_reason: string)

text \<open>\<open>sc_telegram_id\<close> of \<open>ReferralAttributeCommand\<close> is its \<open>RefereeTelegramID\<close>.\<close>

fun subscription_command_type :: "subscription_command \<Rightarrow> string" where
  "subscription_command_type (StartTrialCommand _ _) = ''subscription.start_trial''"
| "subscription_command_type (GetStatusCommand _ _) = ''subscription.get_status''"
| "subscription_command_type (GetLinksCommand _ _ _) = ''subscription.get_links''"
| "subscription_command_type (CancelSubscriptionCommand _ _) = ''subscription.cancel''"
| "subscription_command_type (ReferralAttributeCommand _ _ _) = ''subscription.referral_attribute''"
| "subscription_command_type (ReferralRedeemCommand _ _) = ''subscription.referral_redeem''"
| "subscription_command_type (RotateTokenCommand _ _ _) = ''subscription.rotate_token''"

text \<open>The struct tags of each command: what \<open>json.Marshal\<close> writes for it.\<close>

fun encode_subscription_command :: "subscription_command \<Rightarrow> json_obj" where
  "encode_subscription_command (GetLinksCommand i t g) =
     [(''type'', JStr ''subscription.get_links''), (''command_id'', JStr i), (''telegram_id'', JNum t)]
       @ omit_str ''client_group'' g"
| "encode_subscription_command (RotateTokenCommand i t r) =
     [(''type'', JStr ''subscription.rotate_token''), (''command_id'', JStr i), (''telegram_id'', JNum t)]
       @ omit_str ''reason'' r"
| "encode_subscription_command (ReferralAttributeCommand i t c) =
     [(''type'', JStr ''subscription.referral_attribute''), (''command_id'', JStr i),
      (''referee_telegram_id'', JNum t), (''referrer_code'', JStr c)]"
| "encode_subscription_command c =
     [(''type'', JStr (subscription_command_type c)), (''command_id'', JStr (sc_command_id c)),
      (''telegram_id'', JNum (sc_telegram_id c))]"

section \<open>Events of the billing services\<close>

datatype billing_event =
    BillingPaymentSucceededEvent (be_checkout: string) (be_source: string) (be_telegram_id: int)
      (be_order_id: string) (be_payment_id: string) (be_plan_code: string) (be_duration_days: int)
      (be_amount: string) (be_currency: string) (be_method_id: string) (be_attempt_no: int)
      (be_auto_renew: bool) (be_at: time) (be_provider: string)
  | BillingPaymentCanceledEvent (be_checkout: string) (be_source: string) (be_telegram_id: int)
      (be_order_id: string) (be_payment_id: string) (be_reason: string) (be_attempt_no: int)
      (be_next_retry_at: "time option") (be_grace_until: "time option") (be_at: time)
      (be_provider: string)
  | BillingPaymentMethodBoundEvent (be_telegram_id: int) (be_order_id: string)
      (be_payment_id: string) (be_method_id: string) (be_last4: string) (be_at: time)
  | BillingPaymentMethodUnboundEvent (be_telegram_id: int) (be_at: time)
  | BillingRenewalRetryScheduledEvent (be_telegram_id: int) (be_plan_code: string)
      (be_payment_id: string) (be_reason: string) (be_attempt_no: int) (be_retry_at: time) (be_at: time)
  | BillingGraceStartedEvent (be_telegram_id: int) (be_plan_code: string) (be_payment_id: string)
      (be_reason: string) (be_until: time) (be_at: time)
  | BillingAccessExpiredEvent (be_telegram_id: int) (be_reason: string) (be_at: time)
  | BillingAutoRenewDisabledEvent (be_telegram_id: int) (be_reason: string) (be_at: time)

definition BillingCheckoutTypeSubscription :: string where
  "BillingCheckoutTypeSubscription = ''subscription_purchase''"
definition BillingCheckoutTypeBindCard :: string where
  "BillingCheckoutTypeBindCard = ''bind_card''"
definition BillingChargeSourceInitial :: string where
  "BillingChargeSourceInitial = ''initial''"
definition BillingChargeSourceRecurring :: string where
  "BillingChargeSourceRecurring = ''recurring''"

fun billing_event_type :: "billing_event \<Rightarrow> string" where
  "billing_event_type (BillingPaymentSucceededEvent _ _ _ _ _ _ _ _ _ _ _ _ _ _) = ''billing.payment_succeeded''"
| "billing_event_type (BillingPaymentCanceledEvent _ _ _ _ _ _ _ _ _ _ _) = ''billing.payment_canceled''"
| "billing_event_type (BillingPaymentMethodBoundEvent _ _ _ _ _ _) = ''billing.payment_method_bound''"
| "billing_event_type (BillingPaymentMethodUnboundEvent _ _) = ''billing.payment_method_unbound''"
| "billing_event_type (BillingRenewalRetryScheduledEvent _ _ _ _ _ _ _) = ''billing.renewal_retry_scheduled''"
| "billing_event_type (BillingGraceStartedEvent _ _ _ _ _ _) = ''billing.grace_started''"
| "billing_event_type (BillingAccessExpiredEvent _ _ _) = ''billing.access_expired''"
| "billing_event_type (BillingAutoRenewDisabledEvent _ _ _) = ''billing.auto_renew_disabled''"

definition omit_time :: "string \<Rightarrow> time option \<Rightarrow> json_obj" where
  "omit_time k t = (case t of None \<Rightarrow> [] | Some t \<Rightarrow> [(k, JTime t)])"

text \<open>What \<open>json.Marshal\<close> writes for each event.\<close>

fun encode_billing_event :: "billing_event \<Rightarrow> json_obj" where
  "encode_billing_event (BillingPaymentSucceededEvent ct src tid oi pid pc n am cu mi an ar at pr) =
     [(''type'', JStr ''billing.payment_succeeded''), (''checkout_type'', JStr ct), (''charge_source'', JStr src),
      (''telegram_id'', JNum tid), (''order_id'', JStr oi), (''payment_id'', JStr pid)]
     @ omit_str ''plan_code'' pc @ omit_int ''duration_days'' n
     @ [(''amount_value'', JStr am), (''currency'', JStr cu)]
     @ omit_str ''payment_method_id'' mi @ omit_int ''attempt_no'' an
     @ [(''auto_renew_enabled'', JBool ar), (''paid_at'', JTime at)] @ omit_str ''payment_provider'' pr"
| "encode_billing_event (BillingPaymentCanceledEvent ct src tid oi pid r an nr gu at pr) =
     [(''type'', JStr ''billing.payment_canceled''), (''checkout_type'', JStr ct), (''charge_source'', JStr src),
      (''telegram_id'', JNum tid), (''order_id'', JStr oi), (''payment_id'', JStr pid)]
     @ omit_str ''reason'' r @ omit_int ''attempt_no'' an @ omit_time ''next_retry_at'' nr
     @ omit_time ''grace_until'' gu @ [(''canceled_at'', JTime at)] @ omit_str ''payment_provider'' pr"
| "encode_billing_event (BillingPaymentMethodBoundEvent tid oi pid mi l4 at) =
     [(''type'', JStr ''billing.payment_method_bound''), (''telegram_id'', JNum tid), (''order_id'', JStr oi),
      (''payment_id'', JStr pid), (''payment_method_id'', JStr mi)] @ omit_str ''last4'' l4
     @ [(''bound_at'', JTime at)]"
| "encode_billing_event (BillingPaymentMethodUnboundEvent tid at) =
     [(''type'', JStr ''billing.payment_method_unbound''), (''telegram_id'', JNum tid), (''unbound_at'', JTime at)]"
| "encode_billing_event (BillingRenewalRetryScheduledEvent tid pc pid r an nr at) =
     [(''type'', JStr ''billing.renewal_retry_scheduled''), (''telegram_id'', JNum tid), (''plan_code'', JStr pc)]
     @ omit_str ''payment_id'' pid @ omit_str ''reason'' r
     @ [(''attempt_no'', JNum an), (''next_retry_at'', JTime nr), (''created_at'', JTime at)]"
| "encode_billing_event (BillingGraceStartedEvent tid pc pid r gu at) =
     [(''type'', JStr ''billing.grace_started''), (''telegram_id'', JNum tid), (''plan_code'', JStr pc)]
     @ omit_str ''payment_id'' pid @ omit_str ''reason'' r
     @ [(''grace_until'', JTime gu), (''started_at'', JTime at)]"
| "encode_billing_event (BillingAccessExpiredEvent tid r at) =
     [(''type'', JStr ''billing.access_expired''), (''telegram_id'', JNum tid)] @ omit_str ''reason'' r
     @ [(''expired_at'', JTime at)]"
| "encode_billing_event (BillingAutoRenewDisabledEvent tid r at) =
     [(''type'', JStr ''billing.auto_renew_disabled''), (''telegram_id'', JNum tid)] @ omit_str ''reason'' r
     @ [(''disabled_at'', JTime at)]"

section \<open>Commands to the billing service\<close>

datatype billing_command =
    CreateSubscriptionCheckoutCommand (bc_command_id: string) (bc_trace_id: string)
      (bc_telegram_id: int) (bc_plan_code: string) (bc_save_method: bool) (bc_return_url: string)
  | BindCardCommand (bc_command_id: string) (bc_telegram_id: int) (bc_return_url: string)
  | UnbindCardCommand (bc_command_id: string) (bc_telegram_id: int)
  | DisableAutoRenewCommand (bc_command_id: string) (bc_telegram_id: int) (bc_reason: string)

fun encode_billing_command :: "billing_command \<Rightarrow> json_obj" where
  "encode_billing_command (CreateSubscriptionCheckoutCommand i tr tid pc save url) =
     [(''type'', JStr ''billing.create_subscription_checkout''), (''command_id'', JStr i)]
     @ omit_str ''trace_id'' tr @ [(''telegram_id'', JNum tid), (''plan_code'', JStr pc)]
     @ (if save then [(''save_payment_method'', JBool True)] else []) @ omit_str ''return_url'' url"
| "encode_billing_command (BindCardCommand i tid url) =
     [(''type'', JStr ''billing.bind_card''), (''command_id'', JStr i), (''telegram_id'', JNum tid)]
     @ omit_str ''return_url'' url"
| "encode_billing_command (UnbindCardCommand i tid) =
     [(''type'', JStr ''billing.unbind_card''), (''command_id'', JStr i), (''telegram_id'', JNum tid)]"
| "encode_billing_command (DisableAutoRenewCommand i tid r) =
     [(''type'', JStr ''billing.disable_auto_renew''), (''command_id'', JStr i), (''telegram_id'', JNum tid)]
     @ omit_str ''reason'' r"

section \<open>Commands to the crypto billing service\<close>

datatype crypto_command =
    CreateCryptoCheckoutCommand (cr_command_id: string) (cr_telegram_id: int) (cr_plan_code: string) (cr_asset: string)

fun encode_crypto_command :: "crypto_command \<Rightarrow> json_obj" where
  "encode_crypto_command (CreateCryptoCheckoutCommand i tid pc asset) =
     [(''type'', JStr ''crypto.create_checkout''), (''command_id'', JStr i), (''telegram_id'', JNum tid),
      (''plan_code'', JStr pc)] @ omit_str ''asset'' asset"

section \<open>Events of the subscription service\<close>

datatype access_link = SubscriptionAccessLink (al_kind: string) (al_title: string) (al_url: string)

datatype subscription_event =
    SubscriptionTrialStartedEvent (se_telegram_id: int) (se_until: time) (se_days_left: int)
      (se_country: string) (se_access_rev: int)
  | SubscriptionActivatedEvent (se_telegram_id: int) (se_plan_code: string) (se_at: time)
      (se_until: time) (se_days_left: int) (se_country: string) (se_source: string)
      (se_payment_id: string) (se_auto_renew: bool) (se_access_rev: int)
  | SubscriptionCanceledEvent (se_telegram_id: int) (se_at: time) (se_access_until: "time option")
      (se_at_period_end: bool) (se_access_rev: int)
  | SubscriptionGraceStartedEvent (se_telegram_id: int) (se_until: time) (se_reason: string)
      (se_access_rev: int)
  | SubscriptionSuspendedEvent (se_telegram_id: int) (se_at: time) (se_reason: string)
      (se_access_rev: int)
  | SubscriptionLinksIssuedEvent (se_telegram_id: int) (se_until: time) (se_links: "access_link list")

fun sub_event_type :: "subscription_event \<Rightarrow> string" where
  "sub_event_type (SubscriptionTrialStartedEvent _ _ _ _ _) = ''subscription.trial_started''"
| "sub_event_type (SubscriptionActivatedEvent _ _ _ _ _ _ _ _ _ _) = ''subscription.activated''"
| "sub_event_type (SubscriptionCanceledEvent _ _ _ _ _) = ''subscription.canceled''"
| "sub_event_type (SubscriptionGraceStartedEvent _ _ _ _) = ''subscription.grace_started''"
| "sub_event_type (SubscriptionSuspendedEvent _ _ _ _) = ''subscription.suspended''"
| "sub_event_type (SubscriptionLinksIssuedEvent _ _ _) = ''subscription.links_issued''"

section \<open>Commands to the agents of the VPN nodes, and their events\<close>

text \<open>\<open>Level\<close> is a \<open>uint32\<close> the code only compares with zero and copies.\<close>

record VPNNodeUserProfile =
  up_item_key :: string
  up_country_code :: string
  up_title :: string
  up_profile_type :: string
  up_inbound_tag :: string
  up_email :: string
  up_vless_uuid :: string
  up_flow :: string
  up_level :: int
  up_access_until :: "time option"
  up_optional :: bool

datatype revoke_scope = RevokeScopeAll | RevokeScopeListedProfiles

datatype vpn_command =
    NodeSyncUserCommand (vc_command_id: string) (vc_node_id: string) (vc_server_key: string)
      (vc_telegram_id: int) (vc_access_rev: int) (vc_access_until: "time option")
      (vc_profiles: "VPNNodeUserProfile list") (vc_created_at: time)
  | NodeRevokeUserCommand (vc_command_id: string) (vc_node_id: string) (vc_server_key: string)
      (vc_telegram_id: int) (vc_access_rev: int) (vc_reason: string) (vc_scope: revoke_scope)
      (vc_profiles: "VPNNodeUserProfile list") (vc_created_at: time)

fun vpn_command_type :: "vpn_command \<Rightarrow> string" where
  "vpn_command_type (NodeSyncUserCommand _ _ _ _ _ _ _ _) = ''vpn.node_sync_user''"
| "vpn_command_type (NodeRevokeUserCommand _ _ _ _ _ _ _ _ _) = ''vpn.node_revoke_user''"

record VPNNodeTrafficItem =
  ti_telegram_id :: int
  ti_email :: string
  ti_uplink :: int
  ti_downlink :: int
  ti_inbound_tag :: string

record VPNNodeHeartbeatEvent =
  hb_node_id :: string
  hb_server_key :: string
  hb_online :: bool
  hb_applied_users :: int
  hb_online_users :: int
  hb_uplink_bps :: int
  hb_downlink_bps :: int
  hb_xray_api_addr :: string
  hb_agent_version :: string
  hb_created_at :: time

record VPNNodeUserSyncedEvent =
  ny_command_id :: string
  ny_node_id :: string
  ny_server_key :: string
  ny_telegram_id :: int
  ny_access_rev :: int
  ny_profiles :: int
  ny_success :: bool
  ny_error :: string
  ny_created_at :: time

text \<open>The two acknowledgements have the same fields.\<close>

datatype vpn_event =
    EvNodeHeartbeat VPNNodeHeartbeatEvent
  | EvNodeUserSynced VPNNodeUserSyncedEvent
  | EvNodeUserRevoked VPNNodeUserSyncedEvent
  | EvNodeError (nx_command_id: string) (nx_node_id: string) (nx_server_key: string) (nx_error: string)
      (nx_created_at: time)
  | EvNodeTraffic (nt_node_id: string) (nt_server_key: string) (nt_items: "VPNNodeTrafficItem list")
      (nt_created_at: time)

section \<open>Notifications\<close>

datatype tg_keyboard =
    KbNone | KbMainMenu | KbBuyMenu | KbTrialOrBuy | KbMySubscriptionConfig | KbMainMenuWithBack

text \<open>
  \<open>pluralDays\<close> renders a number of days with the Russian word in the right form; the three
  words are \<open>DaysMany\<close> (\<open>5 dnej\<close>), \<open>DayOne\<close> (\<open>1 den'\<close>) and \<open>DaysFew\<close> (\<open>3 dnja\<close>).
\<close>

datatype day_word = DaysMany | DayOne | DaysFew

type_synonym day_count = "int \<times> day_word"

datatype reminder_stage = stageNone | stageD7 | stageD3 | stageD1 | stageExpired

datatype tg_text =
    TxtNoFreeMonths int
  | TxtMonthsGranted int time
  | TxtTrialDeferredGrace
  | TxtTrialOnTopOfPaid day_count time day_count
  | TxtTrialGranted day_count time
  | TxtTrialRunning time day_count
  | TxtTrialUsedPaidActive time day_count
  | TxtTrialUsedBuy
  | TxtNothingToCancel
  | TxtAutoRenewCanceled "time option"
  | TxtTrialStopped
  | TxtReferralConverted
  | TxtPaid bool time day_count
  | TxtGraceStarted time
  | TxtSuspended
  | TxtCardUnbound "time option option"
  | TxtAutoRenewDisabled "time option option"
  | TxtStatusNone day_count
  | TxtStatusTrial time day_count
  | TxtStatusActive time day_count bool
  | TxtStatusGrace "time option"
  | TxtStatusExpired
  | TxtNoAccess
  | TxtLinks bool string "time option"
  | TxtRotateRefused
  | TxtRotated string time
  | TxtReminder bool reminder_stage
  | TxtPayLink
  | TxtBindLink string string
  | TxtCardRemoved
  | TxtCardBound
  | TxtPaymentCanceled
  | TxtCryptoPayLink string string string string time
  | TxtCryptoFailed
  | TxtCryptoStuck
  | TxtCryptoPaid string string

record tg_notification =
  ntf_telegram_id :: int
  ntf_message :: tg_text
  ntf_markdown :: bool
  ntf_keyboard :: tg_keyboard
  ntf_pay_url :: string

section \<open>What an outbox row carries\<close>

datatype payload =
    PNotification tg_notification
  | PSubscriptionEvent subscription_event
  | PBillingCommand billing_command
  | PBillingEvent billing_event
  | PVpnCommand vpn_command

end
