(* ===== verification/Outbox.thy ===== *)
theory Outbox
  imports Contracts "HOL-Library.Sublist" "HOL-Library.Multiset"
begin

text \<open>
  The transactional outbox and the inbox, \<open>internal/common/outbox\<close>: the tables of
  \<open>migrations/platform\<close> as a record every service's database extends, \<open>AddTx\<close>,
  \<open>MarkProcessed\<close>, \<open>LockPending\<close>, \<open>MarkPublished\<close>, \<open>MarkRetry\<close>,
  \<open>SaveFailedMessage\<close>, one pass of \<open>RunPublisher\<close>, and \<open>cleanupOnce\<close>. The broker is a
  parameter: \<open>send w e\<close> is \<open>PublishJSON\<close> on the broker's state \<open>w\<close>, returning the text of an
  error or \<open>None\<close>. So is the order in which the server hands back the rows an
  UPDATE \<dots> RETURNING has changed, and the set of rows other transactions hold locked.
\<close>

section \<open>Tables\<close>

datatype outbox_status = OPending | ORetry | OProcessing | OPublished | OFailed

record outbox_row =
  ob_id :: int
  ob_aggregate_type :: string
  ob_aggregate_id :: string
  ob_topic :: string
  ob_message_key :: string
  ob_event_type :: string
  ob_payload :: payload
  ob_status :: outbox_status
  ob_attempts :: int
  ob_next_attempt_at :: time
  ob_last_error :: string
  ob_created_at :: time
  ob_published_at :: "time option"

record inbox_row =
  ib_source :: string
  ib_message_type :: string
  ib_processed_at :: time

record failed_row =
  fm_source :: string
  fm_topic :: string
  fm_message_key :: string
  fm_message_type :: string
  fm_payload :: payload
  fm_error :: string

record attempt_row =
  at_attempts :: int
  at_updated_at :: time

text \<open>\<open>node_sync_results\<close> is None in a database that does not have the orchestrator's table.\<close>

record platform =
  event_outbox :: "outbox_row list"
  outbox_seq :: int
  processed_messages :: "(string, inbox_row) table"
  failed_messages :: "failed_row list"
  consumer_attempts :: "(string, attempt_row) table"
  node_sync_results :: "time list option"

record outbox_event =
  oe_aggregate_type :: string
  oe_aggregate_id :: string
  oe_topic :: string
  oe_message_key :: string
  oe_event_type :: string
  oe_payload :: payload

section \<open>outbox.go\<close>

definition new_row :: "time \<Rightarrow> int \<Rightarrow> outbox_event \<Rightarrow> outbox_row" where
  "new_row now i e = \<lparr>ob_id = i, ob_aggregate_type = oe_aggregate_type e,
     ob_aggregate_id = oe_aggregate_id e, ob_topic = oe_topic e,
     ob_message_key = oe_message_key e, ob_event_type = oe_event_type e,
     ob_payload = oe_payload e, ob_status = OPending, ob_attempts = 0,
     ob_next_attempt_at = now, ob_last_error = [], ob_created_at = now,
     ob_published_at = None\<rparr>"

definition AddTx :: "time \<Rightarrow> outbox_event \<Rightarrow> 'z platform_scheme \<Rightarrow> 'z platform_scheme" where
  "AddTx now e d = d\<lparr>event_outbox := event_outbox d @ [new_row now (outbox_seq d) e],
                      outbox_seq := outbox_seq d + 1\<rparr>"

text \<open>The message id of \<open>processed_messages\<close>; an empty source or id is refused.\<close>

definition inbox_key :: "string \<Rightarrow> string \<Rightarrow> string" where
  "inbox_key source mid = source @ '':'' @ mid"

definition MarkProcessed ::
    "time \<Rightarrow> string \<Rightarrow> string \<Rightarrow> string \<Rightarrow> 'z platform_scheme \<Rightarrow> string + (bool \<times> 'z platform_scheme)" where
  "MarkProcessed now source mid mtype d =
     (if source = [] \<or> mid = [] then Inl ''source and messageID are required''
      else let k = inbox_key source mid in
        Inr (tget (processed_messages d) k = None,
             d\<lparr>processed_messages := tins k
                 \<lparr>ib_source = source, ib_message_type = mtype, ib_processed_at = now\<rparr>
                 (processed_messages d)\<rparr>))"

record pending_event =
  pe_id :: int
  pe_topic :: string
  pe_key :: string
  pe_payload :: payload
  pe_attempts :: int

definition pending_of :: "outbox_row \<Rightarrow> pending_event" where
  "pending_of r = \<lparr>pe_id = ob_id r, pe_topic = ob_topic r, pe_key = ob_message_key r,
     pe_payload = ob_payload r, pe_attempts = ob_attempts r\<rparr>"

definition due :: "time \<Rightarrow> outbox_row \<Rightarrow> bool" where
  "due now r \<longleftrightarrow> (ob_status r = OPending \<or> ob_status r = ORetry) \<and> ob_next_attempt_at r \<le> now"

definition picked :: "time \<Rightarrow> (int \<Rightarrow> bool) \<Rightarrow> nat \<Rightarrow> outbox_row list \<Rightarrow> int list" where
  "picked now locked limit rows =
     take limit (map ob_id (filter (\<lambda>r. due now r \<and> \<not> locked (ob_id r)) (sort_key ob_id rows)))"

definition lock_row :: "outbox_row \<Rightarrow> outbox_row" where
  "lock_row r = r\<lparr>ob_status := OProcessing, ob_attempts := ob_attempts r + 1\<rparr>"

definition update_ids :: "int list \<Rightarrow> (outbox_row \<Rightarrow> outbox_row) \<Rightarrow> outbox_row list \<Rightarrow> outbox_row list" where
  "update_ids ids f rows = map (\<lambda>r. if ob_id r \<in> set ids then f r else r) rows"

definition LockPending ::
    "(pending_event list \<Rightarrow> pending_event list) \<Rightarrow> (int \<Rightarrow> bool) \<Rightarrow> time \<Rightarrow> nat
      \<Rightarrow> 'z platform_scheme \<Rightarrow> pending_event list \<times> 'z platform_scheme" where
  "LockPending ret locked now limit d =
     (let ids = picked now locked limit (event_outbox d);
          rows = update_ids ids lock_row (event_outbox d)
      in (ret (map pending_of (filter (\<lambda>r. ob_id r \<in> set ids) rows)), d\<lparr>event_outbox := rows\<rparr>))"

definition MarkPublished :: "time \<Rightarrow> int \<Rightarrow> 'z platform_scheme \<Rightarrow> 'z platform_scheme" where
  "MarkPublished now i d = d\<lparr>event_outbox := update_ids [i]
     (\<lambda>r. r\<lparr>ob_status := OPublished, ob_published_at := Some now, ob_last_error := []\<rparr>)
     (event_outbox d)\<rparr>"

text \<open>\<open>LEAST(3600, POWER(2, LEAST(attempts, 10))::int) || ' seconds'\<close>\<close>

definition backoff :: "int \<Rightarrow> duration" where
  "backoff attempts = secs (min 3600 (2 ^ nat (min attempts 10)))"

definition retry_row :: "time \<Rightarrow> string \<Rightarrow> outbox_row \<Rightarrow> outbox_row" where
  "retry_row now err r =
     (if 20 \<le> ob_attempts r then r\<lparr>ob_status := OFailed, ob_last_error := err\<rparr>
      else r\<lparr>ob_status := ORetry, ob_next_attempt_at := now + backoff (ob_attempts r),
             ob_last_error := err\<rparr>)"

definition MarkRetry :: "time \<Rightarrow> int \<Rightarrow> string \<Rightarrow> 'z platform_scheme \<Rightarrow> 'z platform_scheme" where
  "MarkRetry now i err d = d\<lparr>event_outbox := update_ids [i] (retry_row now err) (event_outbox d)\<rparr>"

definition SaveFailedMessage ::
    "string \<Rightarrow> string \<Rightarrow> string \<Rightarrow> string \<Rightarrow> payload \<Rightarrow> string \<Rightarrow> 'z platform_scheme \<Rightarrow> 'z platform_scheme" where
  "SaveFailedMessage source topic key mtype p err d =
     d\<lparr>failed_messages := failed_messages d @
        [\<lparr>fm_source = source, fm_topic = topic, fm_message_key = key, fm_message_type = mtype,
          fm_payload = p, fm_error = err\<rparr>]\<rparr>"

section \<open>worker.go\<close>

definition outboxBatchSize :: "string \<Rightarrow> int" where
  "outboxBatchSize raw = positive_env atoi raw 50"

definition blocked_error :: string where
  "blocked_error = ''blocked by earlier failed event with same key''"

text \<open>
  The body of the loop over one batch. The result adds, as a ghost, the events the broker has
  acknowledged, in order.
\<close>

fun publish_events ::
    "('w \<Rightarrow> pending_event \<Rightarrow> string option \<times> 'w) \<Rightarrow> string \<Rightarrow> time \<Rightarrow> string list
      \<Rightarrow> pending_event list \<Rightarrow> 'w \<Rightarrow> 'z platform_scheme
      \<Rightarrow> pending_event list \<times> 'w \<times> 'z platform_scheme" where
  "publish_events send svc now blocked [] w d = ([], w, d)"
| "publish_events send svc now blocked (e # es) w d =
     (if pe_key e \<in> set blocked then
        publish_events send svc now blocked es w (MarkRetry now (pe_id e) blocked_error d)
      else case send w e of
        (Some err, w') \<Rightarrow>
          (let d1 = MarkRetry now (pe_id e) err d;
               d2 = (if 20 \<le> pe_attempts e
                     then SaveFailedMessage svc (pe_topic e) (pe_key e) ''outbox'' (pe_payload e) err d1
                     else d1)
           in publish_events send svc now (pe_key e # blocked) es w' d2)
      | (None, w') \<Rightarrow>
          (case publish_events send svc now blocked es w' (MarkPublished now (pe_id e) d) of
             (sent, w'', d') \<Rightarrow> (e # sent, w'', d')))"

definition publisher_pass ::
    "('w \<Rightarrow> pending_event \<Rightarrow> string option \<times> 'w) \<Rightarrow> string \<Rightarrow> (pending_event list \<Rightarrow> pending_event list)
      \<Rightarrow> (int \<Rightarrow> bool) \<Rightarrow> nat \<Rightarrow> time \<Rightarrow> 'w \<Rightarrow> 'z platform_scheme
      \<Rightarrow> pending_event list \<times> 'w \<times> 'z platform_scheme" where
  "publisher_pass send svc ret locked batch now w d =
     (case LockPending ret locked now batch d of
        (events, d') \<Rightarrow> publish_events send svc now [] events w d')"

text \<open>
  A pass that dies after \<open>n\<close> events of its batch: \<open>LockPending\<close> has committed by itself, the
  rest of the batch is never looked at.
\<close>

definition crashed_pass ::
    "('w \<Rightarrow> pending_event \<Rightarrow> string option \<times> 'w) \<Rightarrow> string \<Rightarrow> (pending_event list \<Rightarrow> pending_event list)
      \<Rightarrow> (int \<Rightarrow> bool) \<Rightarrow> nat \<Rightarrow> time \<Rightarrow> nat \<Rightarrow> 'w \<Rightarrow> 'z platform_scheme
      \<Rightarrow> pending_event list \<times> 'w \<times> 'z platform_scheme" where
  "crashed_pass send svc ret locked batch now n w d =
     (case LockPending ret locked now batch d of
        (events, d') \<Rightarrow> publish_events send svc now [] (take n events) w d')"

section \<open>The polling interval\<close>

text \<open>What \<open>RunPublisher\<close> does with \<open>idleSleep\<close> after each look at the table.\<close>

datatype poll_result = PollError | PollEmpty | PollEvents

definition next_idle_sleep :: "poll_result \<Rightarrow> duration \<Rightarrow> duration" where
  "next_idle_sleep r idle = (case r of
     PollError \<Rightarrow> secs 2
   | PollEmpty \<Rightarrow> if idle < secs 2 then idle * 2 else idle
   | PollEvents \<Rightarrow> msecs 200)"

section \<open>cleanup.go\<close>

text \<open>\<open>intervalString\<close> keeps whole seconds of the TTL.\<close>

definition whole_seconds :: "duration \<Rightarrow> duration" where
  "whole_seconds d = secs (d div 1000000000)"

definition cleanupOnce ::
    "time \<Rightarrow> duration \<Rightarrow> duration \<Rightarrow> duration \<Rightarrow> 'z platform_scheme \<Rightarrow> 'z platform_scheme" where
  "cleanupOnce now outboxTTL inboxTTL syncTTL d =
     (let d1 = d\<lparr>event_outbox := filter (\<lambda>r. \<not> (ob_status r = OPublished \<and>
                    (case ob_published_at r of None \<Rightarrow> False
                     | Some p \<Rightarrow> p < now - whole_seconds outboxTTL))) (event_outbox d)\<rparr>;
          d2 = d1\<lparr>processed_messages := filter (\<lambda>(k, r).
                    \<not> ib_processed_at r < now - whole_seconds inboxTTL) (processed_messages d1)\<rparr>;
          d3 = d2\<lparr>consumer_attempts := filter (\<lambda>(k, r).
                    \<not> at_updated_at r < now - whole_seconds inboxTTL) (consumer_attempts d2)\<rparr>
      in if 0 < syncTTL
         then d3\<lparr>node_sync_results := map_option
                (filter (\<lambda>t. \<not> t < now - whole_seconds syncTTL)) (node_sync_results d3)\<rparr>
         else d3)"

definition envDurationCleanup :: "(string \<Rightarrow> duration option) \<Rightarrow> string \<Rightarrow> duration \<Rightarrow> duration" where
  "envDurationCleanup parseDuration raw fallback = positive_env parseDuration raw fallback"

section \<open>Rows of the outbox\<close>

definition outbox_get :: "'z platform_scheme \<Rightarrow> int \<Rightarrow> outbox_row option" where
  "outbox_get d i = find (\<lambda>r. ob_id r = i) (event_outbox d)"

definition outbox_ids :: "'z platform_scheme \<Rightarrow> int list" where
  "outbox_ids d = map ob_id (event_outbox d)"

definition outbox_wf :: "'z platform_scheme \<Rightarrow> bool" where
  "outbox_wf d \<longleftrightarrow> sorted_wrt (<) (outbox_ids d) \<and> (\<forall>i \<in> set (outbox_ids d). i < outbox_seq d)"

lemma find_append_iff: "find P (xs @ ys) = (case find P xs of None \<Rightarrow> find P ys | Some x \<Rightarrow> Some x)"
  by (induction xs) auto

lemma find_update_ids:
  "(\<And>r. ob_id (f r) = ob_id r) \<Longrightarrow>
   find (\<lambda>r. ob_id r = i) (update_ids ids f rows) =
     (if i \<in> set ids then map_option f (find (\<lambda>r. ob_id r = i) rows)
      else find (\<lambda>r. ob_id r = i) rows)"
  by (induction rows) (auto simp: update_ids_def)

lemma ob_id_steps [simp]:
  "ob_id (lock_row r) = ob_id r"
  "ob_id (retry_row now err r) = ob_id r"
  by (simp_all add: lock_row_def retry_row_def)

lemma map_id_update_ids [simp]:
  "(\<And>r. ob_id (f r) = ob_id r) \<Longrightarrow> map ob_id (update_ids ids f rows) = map ob_id rows"
  by (simp add: update_ids_def)

lemma outbox_get_MarkPublished [table_simps]:
  "outbox_get (MarkPublished now i d) j = (if j = i then map_option
     (\<lambda>r. r\<lparr>ob_status := OPublished, ob_published_at := Some now, ob_last_error := []\<rparr>) (outbox_get d i)
     else outbox_get d j)"
  by (simp add: outbox_get_def MarkPublished_def find_update_ids)

lemma outbox_get_MarkRetry [table_simps]:
  "outbox_get (MarkRetry now i err d) j =
     (if j = i then map_option (retry_row now err) (outbox_get d i) else outbox_get d j)"
  by (simp add: outbox_get_def MarkRetry_def find_update_ids)

lemma outbox_get_SaveFailedMessage [table_simps]:
  "outbox_get (SaveFailedMessage s t k m p err d) j = outbox_get d j"
  by (simp add: outbox_get_def SaveFailedMessage_def)

lemma outbox_get_AddTx [table_simps]:
  "outbox_get (AddTx now e d) j = (case outbox_get d j of Some r \<Rightarrow> Some r
     | None \<Rightarrow> if j = outbox_seq d then Some (new_row now j e) else None)"
  by (auto simp: outbox_get_def AddTx_def new_row_def find_append_iff split: option.split)

lemma outbox_get_id: "outbox_get d i = Some r \<Longrightarrow> ob_id r = i"
  by (auto simp: outbox_get_def find_Some_iff)

lemma outbox_get_mem: "outbox_get d i = Some r \<Longrightarrow> r \<in> set (event_outbox d)"
  by (auto simp: outbox_get_def find_Some_iff)

lemma outbox_wf_distinct: "outbox_wf d \<Longrightarrow> distinct (map ob_id (event_outbox d))"
  by (auto simp: outbox_wf_def outbox_ids_def strict_sorted_iff)

lemma mem_outbox_get:
  assumes "outbox_wf d" and "r \<in> set (event_outbox d)"
  shows "outbox_get d (ob_id r) = Some r"
proof -
  have "distinct (map ob_id rows) \<Longrightarrow> r \<in> set rows \<Longrightarrow> find (\<lambda>r'. ob_id r' = ob_id r) rows = Some r" for rows
    by (induction rows) auto
  with assms outbox_wf_distinct [OF assms(1)] show ?thesis by (simp add: outbox_get_def)
qed

lemma outbox_wf_sort: "outbox_wf d \<Longrightarrow> sort_key ob_id (event_outbox d) = event_outbox d"
  by (intro sort_key_id_if_sorted) (auto simp: outbox_wf_def outbox_ids_def intro: strict_sorted_imp_sorted)

section \<open>A batch settles every event it locked\<close>

definition settles_to :: "bool \<Rightarrow> int \<Rightarrow> outbox_status" where
  "settles_to acked attempts =
     (if acked then OPublished else if 20 \<le> attempts then OFailed else ORetry)"

lemma publish_events_sent:
  "publish_events send svc now blocked es w d = (sent, w', d') \<Longrightarrow> subseq sent es"
proof (induction send svc now blocked es w d arbitrary: sent w' d' rule: publish_events.induct)
  case (2 send svc now blocked e es w d)
  then show ?case
    by (auto simp: Let_def split: if_splits prod.splits option.splits intro: subseq_order.order_trans)
qed simp

lemma publish_events_sent_mem:
  "publish_events send svc now blocked es w d = (sent, w', d') \<Longrightarrow> e \<in> set sent \<Longrightarrow> e \<in> set es"
  by (auto dest!: publish_events_sent elim: list_emb_set)

lemma publish_events_frame:
  "publish_events send svc now blocked es w d = (sent, w', d') \<Longrightarrow> i \<notin> pe_id ` set es
     \<Longrightarrow> outbox_get d' i = outbox_get d i"
proof (induction send svc now blocked es w d arbitrary: sent w' d' rule: publish_events.induct)
  case (2 send svc now blocked e es w d)
  then show ?case
    by (auto simp: Let_def table_simps split: if_splits prod.splits option.splits)
qed simp

lemma publish_events_settles:
  assumes "publish_events send svc now blocked es w d = (sent, w', d')"
    and "distinct (map pe_id es)" and "e \<in> set es"
    and "outbox_get d (pe_id e) = Some r" and "ob_attempts r = pe_attempts e"
  shows "map_option ob_status (outbox_get d' (pe_id e)) = Some (settles_to (e \<in> set sent) (pe_attempts e))"
  using assms
proof (induction send svc now blocked es w d arbitrary: sent w' d' rule: publish_events.induct)
  case (2 send svc now blocked x es w d)
  have other: "pe_id x \<notin> pe_id ` set es" using "2.prems"(2) by auto
  then have x_not: "x \<notin> set es" by auto
  show ?case
  proof (cases "e = x")
    case True
    with other "2.prems" x_not show ?thesis
      by (auto simp: Let_def table_simps retry_row_def settles_to_def publish_events_frame
          split: if_splits prod.splits option.splits dest: publish_events_sent_mem)
  next
    case False
    then have mem: "e \<in> set es" using "2.prems"(3) by simp
    with other have ne: "pe_id e \<noteq> pe_id x" by (metis imageI)
    show ?thesis
      using "2.prems" "2.IH" False ne mem
      by (auto simp: Let_def table_simps split: if_splits prod.splits option.splits)
  qed
qed simp

text \<open>Per key, what was acknowledged is a prefix of what was in the batch.\<close>

lemma publish_events_prefix:
  "publish_events send svc now blocked es w d = (sent, w', d') \<Longrightarrow>
     prefix (filter (\<lambda>e. pe_key e = k) sent) (filter (\<lambda>e. pe_key e = k) es) \<and>
     (k \<in> set blocked \<longrightarrow> filter (\<lambda>e. pe_key e = k) sent = [])"
proof (induction send svc now blocked es w d arbitrary: sent w' d' rule: publish_events.induct)
  case (2 send svc now blocked x es w d)
  then show ?case
    by (fastforce simp: Let_def split: if_splits prod.splits option.splits)
qed simp

lemma filter_update_ids:
  "(\<And>r. ob_id (f r) = ob_id r) \<Longrightarrow>
    filter (\<lambda>r. ob_id r \<in> set ids) (update_ids ids f rows) =
      map f (filter (\<lambda>r. ob_id r \<in> set ids) rows)"
  by (induction rows) (auto simp: update_ids_def)

lemma LockPending_spec:
  assumes wf: "outbox_wf d" and ret: "\<And>xs. mset (ret xs) = mset xs"
    and lp: "LockPending ret locked now batch d = (ev, d')"
  shows "distinct (map pe_id ev)"
    and "pe_id ` set ev = set (picked now locked batch (event_outbox d)) \<inter> ob_id ` set (event_outbox d)"
    and "e \<in> set ev \<Longrightarrow> \<exists>r. outbox_get d (pe_id e) = Some r \<and> e = pending_of (lock_row r)"
    and "outbox_get d' i = (if i \<in> set (picked now locked batch (event_outbox d))
           then map_option lock_row (outbox_get d i) else outbox_get d i)"
proof -
  let ?ids = "picked now locked batch (event_outbox d)"
  let ?sel = "filter (\<lambda>r. ob_id r \<in> set ?ids) (event_outbox d)"
  have ev: "ev = ret (map (\<lambda>r. pending_of (lock_row r)) ?sel)"
    and d': "d' = d\<lparr>event_outbox := update_ids ?ids lock_row (event_outbox d)\<rparr>"
    using lp by (auto simp: LockPending_def Let_def filter_update_ids comp_def)
  have pid: "pe_id (pending_of (lock_row r)) = ob_id r" for r by (simp add: pending_of_def)
  have set_ev: "set ev = (\<lambda>r. pending_of (lock_row r)) ` set ?sel"
    using ret by (metis ev mset_eq_setD list.set_map)
  have "mset (map pe_id (ret xs)) = mset (map pe_id xs)" for xs
    by (simp add: ret)
  then have "mset (map pe_id ev) = mset (map ob_id ?sel)"
    unfolding ev by (simp only: map_map comp_def pid)
  then have "distinct (map pe_id ev) = distinct (map ob_id ?sel)"
    by (rule mset_eq_imp_distinct_iff)
  then show "distinct (map pe_id ev)"
    using distinct_map_filter [OF outbox_wf_distinct [OF wf]] by simp
  show "pe_id ` set ev = set ?ids \<inter> ob_id ` set (event_outbox d)"
    by (auto simp: set_ev pid image_image)
  show "\<exists>r. outbox_get d (pe_id e) = Some r \<and> e = pending_of (lock_row r)" if "e \<in> set ev"
    using that mem_outbox_get [OF wf] by (auto simp: set_ev pid)
  show "outbox_get d' i = (if i \<in> set ?ids then map_option lock_row (outbox_get d i) else outbox_get d i)"
    by (simp add: d' outbox_get_def find_update_ids)
qed

lemma picked_ids: "set (picked now locked batch rows) \<subseteq> ob_id ` set (filter (due now) rows)"
  by (auto simp: picked_def dest!: in_set_takeD)

text \<open>
  A pass that handles the first \<open>n\<close> events of its batch, seen from the table: rows it did not
  pick are untouched, rows it handled are settled, rows it picked and did not reach are left in
  \<open>processing\<close>.
\<close>

lemma crashed_pass_spec:
  assumes wf: "outbox_wf d" and ret: "\<And>xs. mset (ret xs) = mset xs"
    and pass: "crashed_pass send svc ret locked batch now n w d = (sent, w', d')"
  defines "ids \<equiv> picked now locked batch (event_outbox d)"
    and "reached \<equiv> pe_id ` set (take n (fst (LockPending ret locked now batch d)))"
  shows "i \<notin> set ids \<Longrightarrow> outbox_get d' i = outbox_get d i"
    and "i \<in> reached \<Longrightarrow> outbox_get d i = Some r \<Longrightarrow> map_option ob_status (outbox_get d' i) =
        Some (settles_to (i \<in> pe_id ` set sent) (ob_attempts r + 1))"
    and "i \<in> set ids \<Longrightarrow> i \<notin> reached \<Longrightarrow> outbox_get d' i = map_option lock_row (outbox_get d i)"
    and "distinct (map pe_id sent)"
    and "pe_id ` set sent \<subseteq> reached"
    and "reached \<subseteq> set ids"
proof -
  obtain ev d1 where lp: "LockPending ret locked now batch d = (ev, d1)" by fastforce
  note spec = LockPending_spec [OF wf ret lp]
  have reached: "reached = pe_id ` set (take n ev)" by (simp add: reached_def lp)
  have sub: "set (take n ev) \<subseteq> set ev" by (rule set_take_subset)
  have dist: "distinct (map pe_id (take n ev))"
    using spec(1) by (simp flip: take_map)
  have loop: "publish_events send svc now [] (take n ev) w d1 = (sent, w', d')"
    using pass lp by (simp add: crashed_pass_def)
  show "distinct (map pe_id sent)"
    using publish_events_sent [OF loop] dist by (metis in_set_subseqs subseq_map subseqs_distinctD)
  show "pe_id ` set sent \<subseteq> reached"
    using publish_events_sent_mem [OF loop] reached by auto
  show sub_ids: "reached \<subseteq> set ids"
    using spec(2) sub reached by (auto simp: ids_def)
  show "outbox_get d' i = outbox_get d i" if "i \<notin> set ids"
    using that sub_ids spec(4) [of i] publish_events_frame [OF loop, of i] reached
    by (auto simp: ids_def)
  show "outbox_get d' i = map_option lock_row (outbox_get d i)" if "i \<in> set ids" "i \<notin> reached"
    using that spec(4) [of i] publish_events_frame [OF loop, of i] reached by (auto simp: ids_def)
  show "map_option ob_status (outbox_get d' i) = Some (settles_to (i \<in> pe_id ` set sent) (ob_attempts r + 1))"
    if i: "i \<in> reached" and r: "outbox_get d i = Some r"
  proof -
    from i obtain e where e: "e \<in> set (take n ev)" "pe_id e = i" by (auto simp: reached)
    have at: "pe_attempts e = ob_attempts r + 1"
      using spec(3) [of e] r e sub by (auto simp: pending_of_def lock_row_def)
    have get1: "outbox_get d1 (pe_id e) = Some (lock_row r)"
      using spec(4) [of i] i sub_ids r e(2) by (auto simp: ids_def)
    have same: "i \<in> pe_id ` set sent \<longleftrightarrow> e \<in> set sent"
      using e dist publish_events_sent_mem [OF loop] by (auto simp: distinct_map inj_on_def)
    show ?thesis
      using publish_events_settles [OF loop dist e(1) get1] e(2)
      by (simp add: at same lock_row_def)
  qed
qed

lemma publisher_pass_is_crashed_pass:
  "publisher_pass send svc ret locked batch now w d =
     crashed_pass send svc ret locked batch now (length (fst (LockPending ret locked now batch d))) w d"
  by (simp add: publisher_pass_def crashed_pass_def split: prod.split)

lemma all_reached:
  assumes "outbox_wf d" and "\<And>xs. mset (ret xs) = mset xs"
  shows "pe_id ` set (fst (LockPending ret locked now batch d)) = set (picked now locked batch (event_outbox d))"
proof -
  obtain ev d1 where lp: "LockPending ret locked now batch d = (ev, d1)" by fastforce
  show ?thesis
    using LockPending_spec(2) [OF assms lp] picked_ids [of now locked batch "event_outbox d"]
    by (auto simp: lp)
qed

section \<open>The life of the table\<close>

text \<open>
  A state is the database, the broker and the list of the events the broker has acknowledged so
  far. Passes may die at any point of their batch.
\<close>

inductive outbox_step ::
    "('w \<Rightarrow> pending_event \<Rightarrow> string option \<times> 'w)
      \<Rightarrow> 'z platform_scheme \<times> 'w \<times> pending_event list \<Rightarrow> 'z platform_scheme \<times> 'w \<times> pending_event list \<Rightarrow> bool"
  for send where
  ob_add: "outbox_step send (d, w, acked) (AddTx now e d, w, acked)"
| ob_pass: "\<lbrakk>\<And>xs. mset (ret xs) = mset xs;
     crashed_pass send svc ret locked batch now n w d = (sent, w', d')\<rbrakk>
     \<Longrightarrow> outbox_step send (d, w, acked) (d', w', acked @ sent)"
| ob_clean: "outbox_step send (d, w, acked) (cleanupOnce now t1 t2 t3 d, w, acked)"

definition outbox_steps ::
    "('w \<Rightarrow> pending_event \<Rightarrow> string option \<times> 'w)
      \<Rightarrow> 'z platform_scheme \<times> 'w \<times> pending_event list \<Rightarrow> 'z platform_scheme \<times> 'w \<times> pending_event list \<Rightarrow> bool" where
  "outbox_steps send = (outbox_step send)\<^sup>*\<^sup>*"

text \<open>What every reachable state keeps.\<close>

definition outbox_inv :: "'z platform_scheme \<Rightarrow> pending_event list \<Rightarrow> bool" where
  "outbox_inv d acked \<longleftrightarrow> outbox_wf d \<and> distinct (map pe_id acked) \<and>
     (\<forall>e \<in> set acked. pe_id e < outbox_seq d \<and>
        (\<forall>r. outbox_get d (pe_id e) = Some r \<longrightarrow> ob_status r = OPublished))"

lemma outbox_ids_steps [simp]:
  "outbox_ids (MarkRetry now i err d) = outbox_ids d"
  "outbox_ids (MarkPublished now i d) = outbox_ids d"
  "outbox_ids (SaveFailedMessage s t k m p err d) = outbox_ids d"
  "outbox_seq (MarkRetry now i err d) = outbox_seq d"
  "outbox_seq (MarkPublished now i d) = outbox_seq d"
  "outbox_seq (SaveFailedMessage s t k m p err d) = outbox_seq d"
  by (simp_all add: outbox_ids_def MarkRetry_def MarkPublished_def SaveFailedMessage_def)

lemma publish_events_ids:
  "outbox_ids (snd (snd (publish_events send svc now blocked es w d))) = outbox_ids d \<and>
   outbox_seq (snd (snd (publish_events send svc now blocked es w d))) = outbox_seq d"
proof (induction send svc now blocked es w d rule: publish_events.induct)
  case (2 send svc now blocked e es w d)
  obtain r w1 where "send w e = (r, w1)" by fastforce
  with "2.IH" show ?case
    by (cases "pe_key e \<in> set blocked"; cases r) (auto simp: Let_def split: prod.split)
qed simp

lemma crashed_pass_ids:
  assumes "crashed_pass send svc ret locked batch now n w d = (sent, w', d')"
  shows "outbox_ids d' = outbox_ids d" and "outbox_seq d' = outbox_seq d"
    and "outbox_wf d' = outbox_wf d"
proof -
  obtain ev d1 where lp: "LockPending ret locked now batch d = (ev, d1)" by fastforce
  have "outbox_ids d1 = outbox_ids d" "outbox_seq d1 = outbox_seq d"
    using lp by (auto simp: LockPending_def Let_def outbox_ids_def)
  moreover have "publish_events send svc now [] (take n ev) w d1 = (sent, w', d')"
    using assms lp by (simp add: crashed_pass_def)
  ultimately show "outbox_ids d' = outbox_ids d" and "outbox_seq d' = outbox_seq d"
    using publish_events_ids [of send svc now "[]" "take n ev" w d1] by simp_all
  then show "outbox_wf d' = outbox_wf d" by (simp add: outbox_wf_def)
qed

lemma outbox_get_None: "outbox_get d i = None \<longleftrightarrow> i \<notin> set (outbox_ids d)"
  by (auto simp: outbox_get_def outbox_ids_def find_None_iff)

lemma picked_due: "i \<in> set (picked now locked batch (event_outbox d)) \<Longrightarrow> outbox_wf d \<Longrightarrow>
    \<exists>r. outbox_get d i = Some r \<and> due now r"
  using picked_ids mem_outbox_get by fastforce

lemma sorted_wrt_filter_map: "sorted_wrt (<) (map f xs) \<Longrightarrow> sorted_wrt (<) (map f (filter P xs))"
  by (induction xs) auto

lemma cleanupOnce_get:
  assumes "outbox_wf d"
  shows "outbox_get (cleanupOnce now t1 t2 t3 d) i = (case outbox_get d i of None \<Rightarrow> None
    | Some r \<Rightarrow> if ob_status r = OPublished \<and>
        (\<exists>p. ob_published_at r = Some p \<and> p < now - whole_seconds t1) then None else Some r)"
proof -
  have "distinct (map ob_id rows) \<Longrightarrow> find (\<lambda>r. ob_id r = i) (filter P rows) =
      (case find (\<lambda>r. ob_id r = i) rows of None \<Rightarrow> None | Some r \<Rightarrow> if P r then Some r else None)" for P rows
    by (induction rows) (auto simp: find_None_iff find_Some_iff split: option.splits)
  from this [OF outbox_wf_distinct [OF assms]] show ?thesis
    by (auto simp: outbox_get_def cleanupOnce_def Let_def split: option.splits)
qed

lemma cleanupOnce_wf: "outbox_wf d \<Longrightarrow> outbox_wf (cleanupOnce now t1 t2 t3 d)"
  by (auto simp: outbox_wf_def outbox_ids_def cleanupOnce_def Let_def intro: sorted_wrt_filter_map)

lemma cleanupOnce_seq [simp]: "outbox_seq (cleanupOnce now t1 t2 t3 d) = outbox_seq d"
  by (simp add: cleanupOnce_def Let_def)

lemma AddTx_wf [simp, intro]: "outbox_wf d \<Longrightarrow> outbox_wf (AddTx now e d)"
  by (auto simp: outbox_wf_def outbox_ids_def AddTx_def new_row_def sorted_wrt_append)

lemma outbox_inv_acked:
  "outbox_inv d acked \<Longrightarrow> i \<in> pe_id ` set acked \<Longrightarrow> outbox_get d i = Some r \<Longrightarrow> ob_status r = OPublished"
  by (auto simp: outbox_inv_def)

lemma outbox_inv_add: "outbox_inv d acked \<Longrightarrow> outbox_inv (AddTx now e d) acked"
proof -
  assume inv: "outbox_inv d acked"
  have "outbox_seq (AddTx now e d) = outbox_seq d + 1" by (simp add: AddTx_def)
  with inv show ?thesis
    by (fastforce simp: outbox_inv_def table_simps split: option.splits)
qed

lemma outbox_inv_clean: "outbox_inv d acked \<Longrightarrow> outbox_inv (cleanupOnce now t1 t2 t3 d) acked"
  by (auto simp: outbox_inv_def cleanupOnce_wf cleanupOnce_get split: option.splits if_splits)

lemma outbox_inv_pass:
  assumes inv: "outbox_inv d acked" and ret: "\<And>xs. mset (ret xs) = mset xs"
    and pass: "crashed_pass send svc ret locked batch now n w d = (sent, w', d')"
  shows "outbox_inv d' (acked @ sent)"
proof -
  have wf: "outbox_wf d" using inv by (simp add: outbox_inv_def)
  note spec = crashed_pass_spec [OF wf ret pass] and ids = crashed_pass_ids [OF pass]
  let ?picked = "set (picked now locked batch (event_outbox d))"
  have open_rows: "\<exists>r. outbox_get d i = Some r \<and> ob_status r \<noteq> OPublished \<and> i < outbox_seq d"
    if pk: "i \<in> ?picked" for i
  proof -
    obtain r where r: "outbox_get d i = Some r" "due now r"
      using picked_due [OF pk wf] by blast
    moreover have "i \<in> set (outbox_ids d)" using r(1) by (metis outbox_get_None option.distinct(1))
    ultimately show ?thesis using wf by (auto simp: due_def outbox_wf_def)
  qed
  have old: "pe_id e \<notin> ?picked" if "e \<in> set acked" for e
    using inv open_rows [of "pe_id e"] that by (auto simp: outbox_inv_def)
  have new: "pe_id e \<in> ?picked" if "e \<in> set sent" for e
    using that spec(5,6) by blast
  have "\<forall>e \<in> set (acked @ sent). pe_id e < outbox_seq d' \<and>
      (\<forall>r. outbox_get d' (pe_id e) = Some r \<longrightarrow> ob_status r = OPublished)"
  proof
    fix e assume "e \<in> set (acked @ sent)"
    then consider "e \<in> set acked" | "e \<in> set sent" by auto
    then show "pe_id e < outbox_seq d' \<and> (\<forall>r. outbox_get d' (pe_id e) = Some r \<longrightarrow> ob_status r = OPublished)"
    proof cases
      case 1
      then show ?thesis using inv spec(1) [OF old [OF 1]] ids(2) by (auto simp: outbox_inv_def)
    next
      case 2
      obtain r where "outbox_get d (pe_id e) = Some r" "pe_id e < outbox_seq d"
        using open_rows [OF new [OF 2]] by blast
      then show ?thesis using spec(2) [of "pe_id e"] spec(5) 2 ids(2) by (force simp: settles_to_def)
    qed
  qed
  moreover have "distinct (map pe_id (acked @ sent))"
    using inv spec(4) old new by (fastforce simp: outbox_inv_def)
  ultimately show ?thesis using wf ids(3) by (simp add: outbox_inv_def)
qed

lemma outbox_step_inv:
  "outbox_step send (d, w, acked) (d', w', acked') \<Longrightarrow> outbox_inv d acked \<Longrightarrow> outbox_inv d' acked'"
  by (cases rule: outbox_step.cases, assumption)
    (auto intro: outbox_inv_add outbox_inv_clean outbox_inv_pass)

lemma outbox_steps_induct [consumes 1, case_names refl step]:
  assumes "outbox_steps send (d, w, acked) (d', w', acked')"
    and "P d w acked"
    and "\<And>d1 w1 a1 d2 w2 a2. outbox_steps send (d, w, acked) (d1, w1, a1) \<Longrightarrow> P d1 w1 a1 \<Longrightarrow>
           outbox_step send (d1, w1, a1) (d2, w2, a2) \<Longrightarrow> P d2 w2 a2"
  shows "P d' w' acked'"
  using assms(1) unfolding outbox_steps_def
proof (induction "(d', w', acked')" arbitrary: d' w' acked' rule: rtranclp_induct)
  case base
  then show ?case using assms(2) by simp
next
  case (step y)
  obtain d1 w1 a1 where y: "y = (d1, w1, a1)" by (cases y)
  show ?case using step assms(3) by (auto simp: y outbox_steps_def)
qed

lemma outbox_steps_inv:
  "outbox_steps send (d, w, acked) (d', w', acked') \<Longrightarrow> outbox_inv d acked \<Longrightarrow> outbox_inv d' acked'"
  by (induction rule: outbox_steps_induct) (auto dest: outbox_step_inv)

text \<open>A row left in \<open>processing\<close> stays there, whatever happens next.\<close>

lemma outbox_step_processing:
  assumes "outbox_step send (d, w, acked) (d', w', acked')" and "outbox_wf d"
    and "outbox_get d i = Some r" and "ob_status r = OProcessing"
  shows "outbox_get d' i = Some r \<and> (i \<in> pe_id ` set acked' \<longrightarrow> i \<in> pe_id ` set acked)"
  using assms(1)
proof cases
  case (ob_add now e)
  then show ?thesis using assms by (simp add: table_simps)
next
  case (ob_pass ret svc locked batch now n sent)
  have "i \<notin> set (picked now locked batch (event_outbox d))"
    using picked_due [of i] assms(2-4) by (fastforce simp: due_def)
  moreover have "i \<notin> pe_id ` set sent"
    using calculation crashed_pass_spec(5,6) [OF assms(2) ob_pass(2,3)] by blast
  ultimately show ?thesis
    using ob_pass(1) crashed_pass_spec(1) [OF assms(2) ob_pass(2,3)] assms(3) by auto
next
  case (ob_clean now t1 t2 t3)
  then show ?thesis using assms by (simp add: cleanupOnce_get)
qed

lemma outbox_step_wf:
  "outbox_step send (d, w, acked) (d', w', acked') \<Longrightarrow> outbox_wf d \<Longrightarrow> outbox_wf d'"
  by (cases rule: outbox_step.cases, assumption) (auto simp: cleanupOnce_wf crashed_pass_ids(3))

section \<open>Properties\<close>

definition empty_platform :: platform where
  "empty_platform = \<lparr>event_outbox = [], outbox_seq = 1, processed_messages = [],
     failed_messages = [], consumer_attempts = [], node_sync_results = None\<rparr>"

lemma outbox_inv_empty: "outbox_inv empty_platform []"
  by (simp add: outbox_inv_def outbox_wf_def outbox_ids_def empty_platform_def)

definition sample_event :: outbox_event where
  "sample_event = \<lparr>oe_aggregate_type = ''subscription'', oe_aggregate_id = ''7'',
     oe_topic = ''subscription.events'', oe_message_key = ''7'', oe_event_type = ''t'',
     oe_payload = PNotification \<lparr>ntf_telegram_id = 7, ntf_message = TxtSuspended,
       ntf_markdown = False, ntf_keyboard = KbNone,
       ntf_pay_url = []\<rparr>\<rparr>"

text \<open>The broker of the witnesses: it refuses as many sends as its state says, then accepts.\<close>

fun sample_send :: "nat \<Rightarrow> pending_event \<Rightarrow> string option \<times> nat" where
  "sample_send 0 e = (None, 0)"
| "sample_send (Suc n) e = (Some ''down'', n)"

lemmas pass_simps = publisher_pass_def crashed_pass_def LockPending_def picked_def due_def AddTx_def
  new_row_def update_ids_def lock_row_def pending_of_def MarkPublished_def MarkRetry_def
  retry_row_def backoff_def SaveFailedMessage_def outbox_get_def empty_platform_def sample_event_def
  settles_to_def Let_def

text \<open>
  One pass of \<open>RunPublisher\<close> settles everything it locks and touches nothing else: a row it did
  not pick is unchanged; a picked row ends \<open>published\<close> exactly when the broker acknowledged it,
  otherwise \<open>retry\<close>, or \<open>failed\<close> from the twentieth attempt on; nothing is sent twice and nothing
  is left in \<open>processing\<close>.
\<close>

theorem publisher_pass_settles:
  assumes "outbox_wf d" and "\<And>xs. mset (ret xs) = mset xs"
    and "publisher_pass send svc ret locked batch now w d = (sent, w', d')"
    and "outbox_get d i = Some r"
  shows "(if i \<in> set (picked now locked batch (event_outbox d))
     then map_option ob_status (outbox_get d' i) =
            Some (settles_to (i \<in> pe_id ` set sent) (ob_attempts r + 1))
     else outbox_get d' i = Some r)
   \<and> distinct (map pe_id sent) \<and> pe_id ` set sent \<subseteq> set (picked now locked batch (event_outbox d))"
proof -
  note pass = assms(3) [unfolded publisher_pass_is_crashed_pass]
  note spec = crashed_pass_spec [OF assms(1,2) pass]
  show ?thesis
    using spec(1) [of i] spec(2) [of i r] spec(4,5) assms(4)
    by (simp add: all_reached [OF assms(1,2)])
qed

lemma publisher_pass_settles_witness:
  "map_option ob_status (outbox_get (snd (snd (publisher_pass sample_send ''svc'' id (\<lambda>_. False) 50 10 1
     (AddTx 5 sample_event empty_platform)))) 1) = Some ORetry"
proof -
  let ?d = "AddTx 5 sample_event empty_platform"
  let ?p = "publisher_pass sample_send ''svc'' id (\<lambda>_. False) 50 10 1 ?d"
  have p: "?p = (fst ?p, fst (snd ?p), snd (snd ?p))" by simp
  have wf: "outbox_wf ?d" using outbox_inv_empty by (auto simp: outbox_inv_def)
  have get: "outbox_get ?d 1 = Some (new_row 5 1 sample_event)" by (simp add: pass_simps)
  have sent: "fst ?p = []" by (simp add: pass_simps)
  have in_picked: "1 \<in> set (picked 10 (\<lambda>_. False) 50 (event_outbox ?d))" by (simp add: pass_simps)
  show ?thesis
    using publisher_pass_settles [OF wf _ p get] in_picked sent
    by (simp add: settles_to_def new_row_def)
qed





text \<open>
  An event whose publisher stops between \<open>LockPending\<close> and the event's turn in the batch is
  never published afterwards: no later pass, of this or any other publisher, picks it up again, and
  its row stays in \<open>processing\<close> for good. The outbox is at-most-once, not at-least-once.
\<close>

theorem crashed_batch_is_never_published:
  assumes "outbox_inv d acked" and "\<And>xs. mset (ret xs) = mset xs"
    and "crashed_pass send svc ret locked batch now n w d = (sent, w1, d1)"
    and "outbox_get d i = Some r" and "i \<in> set (picked now locked batch (event_outbox d))"
    and "i \<notin> pe_id ` set (take n (fst (LockPending ret locked now batch d)))"
    and "outbox_steps send (d1, w1, acked @ sent) (d2, w2, acked2)"
  shows "map_option ob_status (outbox_get d2 i) = Some OProcessing \<and> i \<notin> pe_id ` set acked2"
proof -
  have wf: "outbox_wf d" using assms(1) by (simp add: outbox_inv_def)
  note spec = crashed_pass_spec [OF wf assms(2,3)]
  have stuck: "outbox_get d1 i = Some (lock_row r)"
    using spec(3) [OF assms(5,6)] assms(4) by simp
  have inv1: "outbox_inv d1 (acked @ sent)"
    by (rule outbox_inv_pass [OF assms(1-3)])
  then have fresh: "i \<notin> pe_id ` set (acked @ sent)"
    using stuck outbox_inv_acked [OF inv1, of i "lock_row r"] by (auto simp: lock_row_def)
  have "outbox_wf d2 \<and> outbox_get d2 i = Some (lock_row r) \<and> i \<notin> pe_id ` set acked2"
    using assms(7)
  proof (induction rule: outbox_steps_induct)
    case refl
    then show ?case using inv1 stuck fresh by (simp add: outbox_inv_def)
  next
    case (step d1' w1' a1 d2' w2' a2)
    then show ?case
      using outbox_step_processing [OF step.hyps(2), of i "lock_row r"] outbox_step_wf [OF step.hyps(2)]
      by (auto simp: lock_row_def)
  qed
  then show ?thesis by (simp add: lock_row_def)
qed

lemma crashed_batch_is_never_published_witness:
  "map_option ob_status (outbox_get (snd (snd (crashed_pass sample_send ''svc'' id (\<lambda>_. False) 50 10 0 0
     (AddTx 5 sample_event empty_platform)))) 1) = Some OProcessing"
proof -
  let ?d = "AddTx 5 sample_event empty_platform"
  let ?p = "crashed_pass sample_send ''svc'' id (\<lambda>_. False) 50 10 0 0 ?d"
  have inv: "outbox_inv ?d []" by (rule outbox_inv_add [OF outbox_inv_empty])
  have p: "?p = (fst ?p, fst (snd ?p), snd (snd ?p))" by simp
  have get: "outbox_get ?d 1 = Some (new_row 5 1 sample_event)" by (simp add: pass_simps)
  have pick: "1 \<in> set (picked 10 (\<lambda>_. False) 50 (event_outbox ?d))" by (simp add: pass_simps)
  have refl: "outbox_steps sample_send (snd (snd ?p), fst (snd ?p), [] @ fst ?p)
      (snd (snd ?p), fst (snd ?p), [] @ fst ?p)" by (simp add: outbox_steps_def)
  show ?thesis
    using crashed_batch_is_never_published [OF inv _ p get pick _ refl] by simp
qed

text \<open>
  Across passes the order per key is lost: while an event waits out its backoff, a later event
  with the same key that is due is sent by the next pass, ahead of it.
\<close>

theorem waiting_event_is_overtaken:
  assumes "outbox_wf d" and "event_outbox d = [r1, r2]"
    and "ob_message_key r1 = ob_message_key r2"
    and "ob_status r1 = ORetry" and "now < ob_next_attempt_at r1"
    and "due now r2" and "send w (pending_of (lock_row r2)) = (None, w')"
  shows "\<exists>d'. publisher_pass send svc id (\<lambda>_. False) 50 now w d = ([pending_of (lock_row r2)], w', d')
    \<and> ob_id r1 < ob_id r2 \<and> outbox_get d' (ob_id r1) = Some r1"
proof -
  have lt: "ob_id r1 < ob_id r2" using assms(1,2) by (simp add: outbox_wf_def outbox_ids_def)
  have sort: "sort_key ob_id (event_outbox d) = [r1, r2]"
    using outbox_wf_sort [OF assms(1)] assms(2) by simp
  have pick: "picked now (\<lambda>_. False) 50 (event_outbox d) = [ob_id r2]"
    unfolding picked_def sort using assms(5,6) by (simp add: due_def)
  have lock: "LockPending id (\<lambda>_. False) now 50 d =
      ([pending_of (lock_row r2)], d\<lparr>event_outbox := [r1, lock_row r2]\<rparr>)"
    using lt by (simp add: LockPending_def pick [unfolded assms(2)] assms(2) update_ids_def Let_def)
  show ?thesis
    using lt assms(7)
    by (simp add: publisher_pass_def lock MarkPublished_def update_ids_def outbox_get_def pending_of_def)
qed

lemma waiting_event_is_overtaken_witness:
  "\<exists>d'. publisher_pass sample_send ''svc'' id (\<lambda>_. False) 50 (secs 1) 0
     (AddTx (secs 1) sample_event (snd (snd (publisher_pass sample_send ''svc'' id (\<lambda>_. False) 50 0 1
        (AddTx 0 sample_event empty_platform)))))
     = ([pending_of (lock_row (new_row (secs 1) 2 sample_event))], 0, d')"
proof -
  let ?d = "AddTx (secs 1) sample_event (snd (snd (publisher_pass sample_send ''svc'' id (\<lambda>_. False) 50 0 1
        (AddTx 0 sample_event empty_platform))))"
  let ?r1 = "(new_row 0 1 sample_event)\<lparr>ob_status := ORetry, ob_attempts := 1,
      ob_next_attempt_at := secs 2, ob_last_error := ''down''\<rparr>"
  let ?r2 = "new_row (secs 1) 2 sample_event"
  have rows: "event_outbox ?d = [?r1, ?r2]" by (simp add: pass_simps)
  have seq: "outbox_seq ?d = 3" by (simp add: pass_simps)
  have wf: "outbox_wf ?d" unfolding outbox_wf_def outbox_ids_def rows seq by (simp add: new_row_def)
  show ?thesis
    using waiting_event_is_overtaken [OF wf rows, where now = "secs 1" and send = sample_send and w = 0]
    by (auto simp: due_def new_row_def sample_event_def)
qed

text \<open>
  An event that is only ever held back behind another of its key still uses up its twenty
  attempts: it ends \<open>failed\<close> without having been offered to the broker, and unlike the one it
  waited for it leaves no row in \<open>failed_messages\<close>.
\<close>

theorem blocked_event_fails_unrecorded:
  assumes "pe_key e1 = pe_key e2" and "pe_id e1 \<noteq> pe_id e2"
    and "20 \<le> pe_attempts e1" and "20 \<le> pe_attempts e2"
    and "outbox_get d (pe_id e1) = Some r1" and "ob_attempts r1 = pe_attempts e1"
    and "outbox_get d (pe_id e2) = Some r2" and "ob_attempts r2 = pe_attempts e2"
    and "send w e1 = (Some err, w')"
  shows "\<exists>d'. publish_events send svc now [] [e1, e2] w d = ([], w', d')
    \<and> map_option ob_status (outbox_get d' (pe_id e1)) = Some OFailed
    \<and> map_option ob_status (outbox_get d' (pe_id e2)) = Some OFailed
    \<and> failed_messages d' = failed_messages d @
        [\<lparr>fm_source = svc, fm_topic = pe_topic e1, fm_message_key = pe_key e1,
          fm_message_type = ''outbox'', fm_payload = pe_payload e1, fm_error = err\<rparr>]"
  using assms
  by (auto simp: table_simps retry_row_def) (simp_all add: MarkRetry_def SaveFailedMessage_def)

lemma blocked_event_fails_unrecorded_witness:
  "\<exists>e1 e2 d d'. publish_events sample_send ''svc'' 0 [] [e1, e2] 1 (d :: platform) = ([], 0, d')
     \<and> map_option ob_status (outbox_get d' (pe_id e2)) = Some OFailed \<and> length (failed_messages d') = 1"
proof -
  let ?r = "\<lambda>i. (new_row 0 i sample_event)\<lparr>ob_status := OProcessing, ob_attempts := 20\<rparr>"
  let ?d = "empty_platform\<lparr>event_outbox := [?r 1, ?r 2], outbox_seq := 3\<rparr>"
  have get: "outbox_get ?d 1 = Some (?r 1)" "outbox_get ?d 2 = Some (?r 2)"
    by (simp_all add: outbox_get_def new_row_def)
  have "failed_messages ?d = []" by (simp add: empty_platform_def)
  with blocked_event_fails_unrecorded [where ?e1.0 = "pending_of (?r 1)" and ?e2.0 = "pending_of (?r 2)"
      and d = ?d and ?r1.0 = "?r 1" and ?r2.0 = "?r 2" and send = sample_send and w = 1 and err = "''down''"
      and w' = 0 and svc = "''svc''" and now = 0] get
  show ?thesis by (fastforce simp: pending_of_def new_row_def)
qed

text \<open>
  Cleanup never removes an event that is not published, nor one published within its TTL, nor a
  deduplication record younger than its own TTL; what it keeps it does not change.
\<close>

theorem cleanup_keeps_live_rows:
  assumes "outbox_wf d" and "outbox_get d i = Some r"
    and "ob_status r \<noteq> OPublished \<or> (\<exists>p. ob_published_at r = Some p \<and> now - whole_seconds t1 \<le> p)"
  shows "outbox_get (cleanupOnce now t1 t2 t3 d) i = Some r
    \<and> (\<forall>k m. tget (processed_messages d) k = Some m \<longrightarrow> now - whole_seconds t2 \<le> ib_processed_at m
         \<longrightarrow> twf (processed_messages d) \<longrightarrow>
         tget (processed_messages (cleanupOnce now t1 t2 t3 d)) k = Some m)"
proof -
  have keep: "tget (processed_messages (cleanupOnce now t1 t2 t3 d)) k = Some m"
    if "tget (processed_messages d) k = Some m" "now - whole_seconds t2 \<le> ib_processed_at m"
      "twf (processed_messages d)" for k m
  proof -
    have "twf (filter P t)" if "twf t" for P and t :: "(string, inbox_row) table"
      using that by (auto simp: twf_def intro: distinct_map_filter)
    with that show ?thesis by (auto simp: cleanupOnce_def Let_def tget_in_set)
  qed
  show ?thesis
    using assms keep by (auto simp: cleanupOnce_get)
qed

lemma cleanup_keeps_live_rows_witness:
  "outbox_get (cleanupOnce (days 9) (days 7) (days 30) (days 14) (AddTx 0 sample_event empty_platform)) 1
     = Some (new_row 0 1 sample_event)"
proof -
  have wf: "outbox_wf (AddTx 0 sample_event empty_platform)" using outbox_inv_empty by (auto simp: outbox_inv_def)
  have get: "outbox_get (AddTx 0 sample_event empty_platform) 1 = Some (new_row 0 1 sample_event)"
    by (simp add: pass_simps)
  show ?thesis
    using cleanup_keeps_live_rows [OF wf get, of "days 9" "days 7" "days 30" "days 14"]
    by (simp add: new_row_def)
qed

end
