(* ===== verification/SubModel.thy ===== *)
theory SubModel
  imports Outbox
begin

text \<open>
  The data of the user-subscription service: the tables of
  \<open>migrations/user-subscription-service\<close> as a record that extends the platform's (the services
  share one database), the rows and the state structs of \<open>internal/user_subscription/models.go\<close>,
  the errors a database operation can end with, and the transaction every handler runs in.

  A transaction reads the clock several times, in Go and in SQL; the model reads it once, so
  \<open>now\<close> is one instant per transaction. \<open>created_at\<close> and \<open>updated_at\<close>, which no code reads
  back, are left out. Fresh UUIDs are parameters.
\<close>

section \<open>models.go\<close>

datatype SubscriptionStatus = StatusNone | StatusTrial | StatusActive | StatusGrace | StatusExpired

definition TrialPlanCode :: string where "TrialPlanCode = ''trial_3d''"

record SubscriptionState =
  st_telegram_id :: int
  st_status :: SubscriptionStatus
  st_plan :: string
  st_trial_used :: bool
  st_started_at :: "time option"
  st_expires_at :: "time option"
  st_grace_until :: "time option"
  st_canceled_at :: "time option"
  st_last_payment_id :: string
  st_country :: string
  st_auto_renew :: bool
  st_cancel_at_period_end :: bool
  st_access_rev :: int
  st_days_left :: int

datatype TrialGrantOutcome =
  TrialGranted | TrialGrantedOnTopOfPaid | TrialAlreadyUsed | TrialDeferredGrace

record TrialGrantResult =
  tr_state :: SubscriptionState
  tr_outcome :: TrialGrantOutcome
  tr_trial_days :: int
  tr_paid_active_before :: bool

definition Granted :: "TrialGrantResult \<Rightarrow> bool" where
  "Granted r \<longleftrightarrow> tr_outcome r = TrialGranted \<or> tr_outcome r = TrialGrantedOnTopOfPaid"

record SubscriptionLink =
  sl_kind :: string
  sl_title :: string
  sl_url :: string
  sl_expires_at :: "time option"

section \<open>Tables\<close>

record sub_row =
  us_status :: SubscriptionStatus
  us_plan :: "string option"
  us_trial_used :: bool
  us_started_at :: "time option"
  us_expires_at :: "time option"
  us_grace_until :: "time option"
  us_canceled_at :: "time option"
  us_last_payment_id :: "string option"
  us_country :: string
  us_auto_renew :: bool
  us_cancel_at_period_end :: bool
  us_access_rev :: int
  us_reminder_stage :: "reminder_stage option"
  us_reminder_anchor :: "time option"

record token_row =
  tk_token :: string
  tk_expires_at :: "time option"
  tk_last_issued_at :: time
  tk_revoked_at :: "time option"
  tk_rotate_reason :: string

text \<open>\<open>chk_subscription_grants_source\<close> allows four sources; the service writes the first two.\<close>

datatype grant_source = GrantTrial | GrantPaid | GrantReferral | GrantAdmin

record grant_row =
  gr_duration_days :: int
  gr_effective_from :: time
  gr_effective_until :: time
  gr_granted_at :: time

datatype referral_status = RefPending | RefConverted

record referral_row =
  rf_referrer :: int
  rf_status :: referral_status
  rf_converted_at :: "time option"

record reward_row =
  rw_referrer :: int
  rw_months :: int

text \<open>
  \<open>subscription_grants\<close> is keyed by its unique index (user, source, business key).
\<close>

record sub_db = platform +
  subscription_plans :: "string list"
  telegram_users :: "(int, unit) table"
  user_subscriptions :: "(int, sub_row) table"
  subscription_tokens :: "(int, token_row) table"
  subscription_grants :: "(int \<times> grant_source \<times> string, grant_row) table"
  referral_codes :: "(int, string) table"
  referrals :: "(int, referral_row) table"
  referral_reward_grants :: "reward_row list"

section \<open>Errors and transactions\<close>

text \<open>
  \<open>NilDeref\<close> is a panic: it ends the process, and with it the transaction. \<open>ConnLost\<close> stands
  for any failure to reach the database, a deadline included.
\<close>

datatype tx_error =
  NoRows | NullScan | FkViolation | UniqueViolation | CheckViolation | Refused string
  | NilDeref | ConnLost

type_synonym 'a tx_result = "tx_error + ('a \<times> sub_db)"

text \<open>
  BEGIN, the handler's body, COMMIT. An error of the body, or of any statement, leaves through the
  deferred \<open>Rollback\<close>. \<open>Lost\<close> is a connection lost before the commit took effect, \<open>LostAck\<close>
  one lost after it did and before the service heard of it.
\<close>

datatype outage = Up | Lost | LostAck

definition run_tx :: "outage \<Rightarrow> ('s \<Rightarrow> tx_error + ('a \<times> 's)) \<Rightarrow> 's \<Rightarrow> tx_error option \<times> 's" where
  "run_tx out f d = (case out of
     Lost \<Rightarrow> (Some ConnLost, d)
   | _ \<Rightarrow> (case f d of
       Inl e \<Rightarrow> (Some e, d)
     | Inr (_, d') \<Rightarrow> (if out = Up then None else Some ConnLost, d')))"

lemma run_tx_simps [simp]:
  "run_tx Lost f d = (Some ConnLost, d)"
  "run_tx Up f d = (case f d of Inl e \<Rightarrow> (Some e, d) | Inr (_, d') \<Rightarrow> (None, d'))"
  "run_tx LostAck f d = (case f d of Inl e \<Rightarrow> (Some e, d) | Inr (_, d') \<Rightarrow> (Some ConnLost, d'))"
  by (simp_all add: run_tx_def)

lemma run_tx_ok: "run_tx out f d = (None, d') \<longleftrightarrow> out = Up \<and> (\<exists>a. f d = Inr (a, d'))"
  by (auto simp: run_tx_def split: outage.split sum.split prod.split)

text \<open>The state after a transaction is the state before it or the state its body ended in.\<close>

lemma run_tx_cases:
  obtains "snd (run_tx out f d) = d" | a where "f d = Inr (a, snd (run_tx out f d))"
proof (cases "out = Lost")
  case False
  show thesis
  proof (cases "f d")
    case (Inl e)
    with False show thesis by (cases out) (auto intro: that(1))
  next
    case (Inr x)
    with False show thesis by (cases out; cases x) (auto intro: that(2))
  qed
qed (auto intro: that(1))

section \<open>Rows and states\<close>

definition new_sub_row :: "string \<Rightarrow> sub_row" where
  "new_sub_row country = \<lparr>us_status = StatusNone, us_plan = None, us_trial_used = False,
     us_started_at = None, us_expires_at = None, us_grace_until = None, us_canceled_at = None,
     us_last_payment_id = None, us_country = country, us_auto_renew = False,
     us_cancel_at_period_end = False, us_access_rev = 0, us_reminder_stage = None,
     us_reminder_anchor = None\<rparr>"

text \<open>
  \<open>computeDaysLeft\<close>: \<open>int(expiresAt.Sub(now).Hours()/24) + 1\<close>, in exact arithmetic (the code's
  \<open>float64\<close> can round an interval less than a microsecond short of a whole number of days up).
\<close>

definition computeDaysLeft :: "time \<Rightarrow> time option \<Rightarrow> int" where
  "computeDaysLeft now expiresAt = (case expiresAt of
     None \<Rightarrow> 0
   | Some e \<Rightarrow> if \<not> now < e then 0 else (e - now) div days 1 + 1)"

definition or_empty :: "string option \<Rightarrow> string" where
  "or_empty v = (case v of None \<Rightarrow> [] | Some s \<Rightarrow> s)"

definition scanState :: "time \<Rightarrow> int \<Rightarrow> sub_row \<Rightarrow> SubscriptionState" where
  "scanState now tid r = \<lparr>st_telegram_id = tid, st_status = us_status r,
     st_plan = or_empty (us_plan r), st_trial_used = us_trial_used r,
     st_started_at = us_started_at r, st_expires_at = us_expires_at r,
     st_grace_until = us_grace_until r, st_canceled_at = us_canceled_at r,
     st_last_payment_id = or_empty (us_last_payment_id r), st_country = us_country r,
     st_auto_renew = us_auto_renew r, st_cancel_at_period_end = us_cancel_at_period_end r,
     st_access_rev = us_access_rev r,
     st_days_left = (if us_status r = StatusGrace \<and> us_grace_until r \<noteq> None
       then computeDaysLeft now (us_grace_until r) else computeDaysLeft now (us_expires_at r))\<rparr>"

text \<open>The row of a user, and an UPDATE of it by primary key.\<close>

definition sub_of :: "sub_db \<Rightarrow> int \<Rightarrow> sub_row option" where
  "sub_of d tid = tget (user_subscriptions d) tid"

definition token_of :: "sub_db \<Rightarrow> int \<Rightarrow> token_row option" where
  "token_of d tid = tget (subscription_tokens d) tid"

definition upd_sub :: "int \<Rightarrow> (sub_row \<Rightarrow> sub_row) \<Rightarrow> sub_db \<Rightarrow> sub_db" where
  "upd_sub tid f d = d\<lparr>user_subscriptions := tupd tid f (user_subscriptions d)\<rparr>"

definition upd_token :: "int \<Rightarrow> (token_row \<Rightarrow> token_row) \<Rightarrow> sub_db \<Rightarrow> sub_db" where
  "upd_token tid f d = d\<lparr>subscription_tokens := tupd tid f (subscription_tokens d)\<rparr>"

lemma sub_of_upd_sub [simp]:
  "sub_of (upd_sub tid f d) t = (if t = tid then map_option f (sub_of d tid) else sub_of d t)"
  by (simp add: sub_of_def upd_sub_def table_simps)

lemma token_of_upd_token [simp]:
  "token_of (upd_token tid f d) t = (if t = tid then map_option f (token_of d tid) else token_of d t)"
  by (simp add: token_of_def upd_token_def table_simps)

lemma sub_of_upd_token [simp]: "sub_of (upd_token tid f d) = sub_of d"
  by (simp add: fun_eq_iff sub_of_def upd_token_def)

lemma token_of_upd_sub [simp]: "token_of (upd_sub tid f d) = token_of d"
  by (simp add: fun_eq_iff token_of_def upd_sub_def)

lemma upd_frames [simp]:
  "event_outbox (upd_sub tid f d) = event_outbox d" "event_outbox (upd_token tid g d) = event_outbox d"
  "outbox_seq (upd_sub tid f d) = outbox_seq d" "outbox_seq (upd_token tid g d) = outbox_seq d"
  "processed_messages (upd_sub tid f d) = processed_messages d"
  "processed_messages (upd_token tid g d) = processed_messages d"
  "subscription_plans (upd_sub tid f d) = subscription_plans d"
  "subscription_plans (upd_token tid g d) = subscription_plans d"
  "telegram_users (upd_sub tid f d) = telegram_users d"
  "telegram_users (upd_token tid g d) = telegram_users d"
  "subscription_tokens (upd_sub tid f d) = subscription_tokens d"
  "user_subscriptions (upd_token tid g d) = user_subscriptions d"
  "subscription_grants (upd_sub tid f d) = subscription_grants d"
  "subscription_grants (upd_token tid g d) = subscription_grants d"
  "referral_codes (upd_sub tid f d) = referral_codes d"
  "referral_codes (upd_token tid g d) = referral_codes d"
  "referrals (upd_sub tid f d) = referrals d" "referrals (upd_token tid g d) = referrals d"
  "referral_reward_grants (upd_sub tid f d) = referral_reward_grants d"
  "referral_reward_grants (upd_token tid g d) = referral_reward_grants d"
  by (simp_all add: upd_sub_def upd_token_def)

end
