(* ===== verification/BillModel.thy ===== *)
theory BillModel
  imports SubModel
begin

text \<open>
  The state of the billing service, \<open>internal/billing\<close> and \<open>migrations/billing-service\<close>: its tables
  beside the platform's, its settings (\<open>NewService\<close>), and its errors. Statements outside a
  transaction commit one by one, so a handler that fails half-way keeps the effects of its first
  half: an operation of this service returns its value or error \<^emph>\<open>and\<close> the state, and \<open>proceed\<close> is
  its \<open>if err != nil { return err }\<close>. The payment provider (YooKassa, behind HTTP) is a state of
  any type inside the record, which only the function given as \<open>bv_http\<close> reads or changes; no
  transaction rolls it back, because none of the transactions calls it.
\<close>

section \<open>Tables\<close>

text \<open>
  \<open>PaymentRecord\<close> is the struct and the row of \<open>payments\<close>, whose key is the order id. The columns
  \<open>raw_response\<close>, \<open>created_at\<close> and \<open>updated_at\<close> are written and never read back; a NULL
  \<open>payment_method_id\<close> or \<open>cancellation_reason\<close> is read as the empty string and never written.
\<close>

record PaymentRecord =
  pr_order_id :: string
  pr_command_id :: string
  pr_telegram_id :: int
  pr_checkout_type :: string
  pr_plan_code :: string
  pr_duration_days :: int
  pr_payment_id :: string
  pr_status :: string
  pr_amount :: string
  pr_currency :: string
  pr_description :: string
  pr_confirmation_url :: string
  pr_idempotence_key :: string
  pr_save_method :: bool
  pr_method_id :: string
  pr_cancel_reason :: string
  pr_metadata :: "(string \<times> string) list"

text \<open>\<open>chk_billing_recurring_status\<close>\<close>

datatype profile_status =
  PfActive | PfProcessing | PfRetry | PfGrace | PfExpiring | PfExpired | PfDisabled

record RecurringProfile =
  rp_plan_code :: string
  rp_duration_days :: int
  rp_amount :: string
  rp_currency :: string
  rp_method_id :: string
  rp_auto_renew :: bool
  rp_status :: profile_status
  rp_next_charge_at :: "time option"
  rp_retry_count :: int
  rp_grace_until :: "time option"
  rp_last_payment_id :: string
  rp_last_failure :: string
  rp_locked_at :: "time option"

record customer_row =
  cu_method_id :: string
  cu_method_type :: string
  cu_last4 :: string
  cu_expiry_month :: string
  cu_expiry_year :: string

record PendingRefund =
  pf_amount :: string
  pf_currency :: string
  pf_attempts :: int
  pf_next_attempt_at :: time
  pf_last_error :: string

text \<open>\<open>billing_webhook_events\<close> is keyed by the fingerprint: the provider column is constant.\<close>

record 'w bill_db = platform +
  payments :: "(string, PaymentRecord) table"
  billing_customers :: "(int, customer_row) table"
  recurring_profiles :: "(int, RecurringProfile) table"
  webhook_events :: "(string, string \<times> string) table"
  pending_refunds :: "(string, PendingRefund) table"
  yookassa :: 'w

section \<open>The provider's messages\<close>

record yooKassaPaymentMethodRef =
  pm_id :: string
  pm_type :: string
  pm_saved :: bool
  pm_last4 :: string
  pm_expiry_month :: string
  pm_expiry_year :: string

definition no_method :: yooKassaPaymentMethodRef where
  "no_method = \<lparr>pm_id = [], pm_type = [], pm_saved = False, pm_last4 = [], pm_expiry_month = [],
     pm_expiry_year = []\<rparr>"

record yooKassaPaymentResponse =
  yp_id :: string
  yp_status :: string
  yp_paid :: bool
  yp_confirmation_url :: string
  yp_method :: yooKassaPaymentMethodRef

record yooKassaCreatePaymentRequest =
  yr_amount :: string
  yr_currency :: string
  yr_capture :: bool
  yr_confirmation :: "(string \<times> string) option"
  yr_method_id :: string
  yr_description :: string
  yr_save_method :: bool
  yr_metadata :: "(string \<times> string) list"

record yooKassaWebhookNotification =
  wn_type :: string
  wn_event :: string
  wn_id :: string
  wn_status :: string
  wn_paid :: bool
  wn_method :: yooKassaPaymentMethodRef
  wn_cancel_reason :: string

text \<open>The three requests the service makes; the last string of the first two POSTs is the
  \<open>Idempotence-Key\<close>.\<close>

datatype yk_request =
    PostPayment yooKassaCreatePaymentRequest string
  | GetPayment string
  | PostRefund string string string string

text \<open>
  The answer to a request: a failure of the transport or of reading the body, or the HTTP status
  and what the body decodes to as a \<open>yooKassaPaymentResponse\<close> (None when it does not).
\<close>

type_synonym yk_answer = "string + (int \<times> yooKassaPaymentResponse option)"

section \<open>Settings\<close>

record Plan =
  pl_code :: string
  pl_title :: string
  pl_amount :: string
  pl_currency :: string
  pl_duration_days :: int

record bill_config =
  bl_shop_id :: string
  bl_secret_key :: string
  bl_return_url :: string
  bl_bind_amount :: string
  bl_grace_period :: duration
  bl_plans :: "(string, Plan) table"
  bl_retry_schedule :: "duration list"

definition firstNotEmpty :: "string list \<Rightarrow> string" where
  "firstNotEmpty values = (case filter (\<lambda>v. trim_space v \<noteq> []) values of [] \<Rightarrow> [] | v # _ \<Rightarrow> v)"

definition parseDurationEnv :: "(string \<Rightarrow> duration option) \<Rightarrow> string \<Rightarrow> duration \<Rightarrow> duration" where
  "parseDurationEnv parseDuration raw fallback =
     (let v = trim_space raw in
      if v = [] then fallback else case parseDuration v of None \<Rightarrow> fallback | Some d \<Rightarrow> d)"

text \<open>\<open>strings.Split(v, ",")\<close>\<close>

fun split_comma :: "string \<Rightarrow> string \<Rightarrow> string list" where
  "split_comma acc [] = [acc]"
| "split_comma acc (c # cs) = (if c = CHR '','' then acc # split_comma [] cs else split_comma (acc @ [c]) cs)"

text \<open>The loop over the parts: one bad part and the fallback is returned.\<close>

fun parse_parts :: "(string \<Rightarrow> duration option) \<Rightarrow> string list \<Rightarrow> duration list option" where
  "parse_parts parseDuration [] = Some []"
| "parse_parts parseDuration (p # ps) = (case parseDuration (trim_space p) of
     None \<Rightarrow> None
   | Some d \<Rightarrow> if d \<le> 0 then None else map_option (\<lambda>ds. d # ds) (parse_parts parseDuration ps))"

definition parseRetryScheduleEnv ::
    "(string \<Rightarrow> duration option) \<Rightarrow> string \<Rightarrow> duration list \<Rightarrow> duration list" where
  "parseRetryScheduleEnv parseDuration raw fallback =
     (let v = trim_space raw in
      if v = [] then fallback
      else case parse_parts parseDuration (split_comma [] v) of
        None \<Rightarrow> fallback
      | Some result \<Rightarrow> if result = [] then fallback else result)"

definition subscription_plan :: "string \<Rightarrow> string \<Rightarrow> int \<Rightarrow> Plan" where
  "subscription_plan code price n = \<lparr>pl_code = code, pl_title = ''subscription'' @ show_int n,
     pl_amount = price, pl_currency = ''RUB'', pl_duration_days = n\<rparr>"

text \<open>\<open>NewService\<close>; the titles of the plans are fixed Russian texts with the number of days.\<close>

definition NewBillingService :: "(string \<Rightarrow> duration option) \<Rightarrow> (string \<Rightarrow> string) \<Rightarrow> bill_config" where
  "NewBillingService parseDuration getenv =
     \<lparr>bl_shop_id = trim_space (getenv ''YOOKASSA_SHOP_ID''),
      bl_secret_key = trim_space (getenv ''YOOKASSA_SECRET_KEY''),
      bl_return_url = env_or getenv ''YOOKASSA_RETURN_URL'' ''https://race-src.com/payment-return'',
      bl_bind_amount = env_or getenv ''YOOKASSA_BIND_AMOUNT_RUB'' ''1.00'',
      bl_grace_period = parseDurationEnv parseDuration (getenv ''BILLING_GRACE_PERIOD'') (hours 72),
      bl_plans =
        [(''monthly_30d'', subscription_plan ''monthly_30d'' (env_or getenv ''PLAN_MONTHLY_PRICE_RUB'' ''89.00'') 30),
         (''quarterly_90d'', subscription_plan ''quarterly_90d'' (env_or getenv ''PLAN_QUARTERLY_PRICE_RUB'' ''249.00'') 90),
         (''semiannual_180d'', subscription_plan ''semiannual_180d'' (env_or getenv ''PLAN_SEMIANNUAL_PRICE_RUB'' ''439.00'') 180),
         (''annual_360d'', subscription_plan ''annual_360d'' (env_or getenv ''PLAN_ANNUAL_PRICE_RUB'' ''799.00'') 360)],
      bl_retry_schedule = parseRetryScheduleEnv parseDuration (getenv ''BILLING_RETRY_SCHEDULE'')
        [minutes 15, hours 6, hours 24]\<rparr>"

section \<open>Errors, statements, transactions\<close>

text \<open>\<open>BillSkip\<close> wraps \<open>ErrSkip\<close>; \<open>InvoiceNotFound\<close> is only used by the crypto billing service.\<close>

datatype bill_error =
  BillDb tx_error | BillFailed string | BillSkip string | DuplicateWebhook | InvoiceNotFound

text \<open>
  What a handler is given: the provider, the outages of its statements and transactions in the order
  the code makes them, the clock, a fresh UUID, and the database's cast of a string to
  \<open>NUMERIC(12,2)\<close> and back to text.
\<close>

record 'w bill_env =
  bv_http :: "yk_request \<Rightarrow> 'w \<Rightarrow> yk_answer \<times> 'w"
  bv_out :: "nat \<Rightarrow> outage"
  bv_now :: time
  bv_uuid :: string
  bv_numeric :: "string \<Rightarrow> string option"

definition proceed :: "('e + 'a) \<times> 's \<Rightarrow> ('a \<Rightarrow> 's \<Rightarrow> ('e + 'b) \<times> 's) \<Rightarrow> ('e + 'b) \<times> 's" where
  "proceed r k = (case r of (Inl e, s) \<Rightarrow> (Inl e, s) | (Inr a, s) \<Rightarrow> k a s)"

lemma proceed_simps [simp]:
  "proceed (Inl e, s) k = (Inl e, s)"
  "proceed (Inr a, s) k = k a s"
  by (simp_all add: proceed_def)

lemma proceed_InrE:
  assumes "proceed r k = (Inr b, s')"
  obtains a s where "r = (Inr a, s)" and "k a s = (Inr b, s')"
  using assms by (auto simp: proceed_def split: prod.splits sum.splits)

text \<open>A statement or a transaction on the pool, with the outage it meets.\<close>

definition commit ::
    "outage \<Rightarrow> ('s \<Rightarrow> tx_error + ('a \<times> 's)) \<Rightarrow> 's \<Rightarrow> (bill_error + 'a) \<times> 's" where
  "commit out f d = (case out of
     Lost \<Rightarrow> (Inl (BillDb ConnLost), d)
   | _ \<Rightarrow> (case f d of
       Inl e \<Rightarrow> (Inl (BillDb e), d)
     | Inr (a, d') \<Rightarrow> (if out = Up then Inr a else Inl (BillDb ConnLost), d')))"

lemma commit_simps [simp]:
  "commit Lost f d = (Inl (BillDb ConnLost), d)"
  "commit Up f d = (case f d of Inl e \<Rightarrow> (Inl (BillDb e), d) | Inr (a, d') \<Rightarrow> (Inr a, d'))"
  "commit LostAck f d = (case f d of Inl e \<Rightarrow> (Inl (BillDb e), d) | Inr (a, d') \<Rightarrow> (Inl (BillDb ConnLost), d'))"
  by (auto simp: commit_def split: sum.split prod.split)

text \<open>The state after a commit is the one before it or the one the body ended in.\<close>

lemma commit_cases:
  obtains "snd (commit out f d) = d" "\<And>a. fst (commit out f d) \<noteq> Inr a"
  | a d' where "f d = Inr (a, d')" "snd (commit out f d) = d'"
      "\<And>b. fst (commit out f d) = Inr b \<Longrightarrow> b = a \<and> out = Up"
proof (cases "f d")
  case (Inl e)
  then show thesis by (cases out) (auto intro: that(1))
next
  case (Inr x)
  obtain a d' where x: "x = (a, d')" by (cases x)
  show thesis
  proof (cases out)
    case Lost
    then show thesis by (auto intro: that(1))
  qed (use Inr x in \<open>auto intro: that(2)\<close>)
qed

lemma commit_InrE:
  assumes "commit out f d = (Inr a, d')"
  obtains "out = Up" and "f d = Inr (a, d')"
  using assms by (cases out; cases "f d") (auto split: prod.splits)


context history
begin

lemma stays_proceed:
  assumes "stays valid later d (snd r)"
    and "\<And>a d1. r = (Inr a, d1) \<Longrightarrow> stays valid later d1 (snd (k a d1))"
  shows "stays valid later d (snd (proceed r k))"
  using assms by (cases r; cases "fst r") (auto intro: stays_trans)

lemma stays_commit_value:
  "stays valid later d (g d) \<Longrightarrow> stays valid later d (snd (commit out (\<lambda>d. Inr (a, g d)) d))"
  by (cases out) (auto intro: stays_refl)

lemma stays_commit:
  "keeps_tx valid later d (f d) \<Longrightarrow> stays valid later d (snd (commit out f d))"
  by (cases out; cases "f d") (auto simp: stays_def later_refl)

end

text \<open>A call of the provider.\<close>

definition call_yookassa :: "'w bill_env \<Rightarrow> yk_request \<Rightarrow> 'w bill_db \<Rightarrow> yk_answer \<times> 'w bill_db" where
  "call_yookassa env q d = (case bv_http env q (yookassa d) of (a, w) \<Rightarrow> (a, d\<lparr>yookassa := w\<rparr>))"

section \<open>Rows\<close>

definition profile_of :: "'w bill_db \<Rightarrow> int \<Rightarrow> RecurringProfile option" where
  "profile_of d tid = tget (recurring_profiles d) tid"

definition upd_profile :: "int \<Rightarrow> (RecurringProfile \<Rightarrow> RecurringProfile) \<Rightarrow> 'w bill_db \<Rightarrow> 'w bill_db" where
  "upd_profile tid f d = d\<lparr>recurring_profiles := tupd tid f (recurring_profiles d)\<rparr>"

lemma profile_of_upd [simp]:
  "profile_of (upd_profile tid f d) t = (if t = tid then map_option f (profile_of d tid) else profile_of d t)"
  by (simp add: profile_of_def upd_profile_def table_simps)

end
