(* ===== verification/BillRepository.thy ===== *)
theory BillRepository
  imports BillModel
begin

text \<open>
  The statements of \<open>internal/billing/repository.go\<close>. A statement that cannot fail on its data is a
  function on the database; one that a constraint or a cast can refuse returns a \<open>tx_error\<close>. Whether
  the statement commits by itself or inside a transaction is up to its caller.
\<close>

section \<open>Payments\<close>

definition payment_id_taken :: "string \<Rightarrow> string \<Rightarrow> 'w bill_db \<Rightarrow> bool" where
  "payment_id_taken orderID p d \<longleftrightarrow>
     p \<noteq> [] \<and> list_ex (\<lambda>(i, r). i \<noteq> orderID \<and> pr_payment_id r = p) (payments d)"

definition command_id_taken :: "string \<Rightarrow> string \<Rightarrow> 'w bill_db \<Rightarrow> bool" where
  "command_id_taken orderID c d \<longleftrightarrow>
     c \<noteq> [] \<and> list_ex (\<lambda>(i, r). i \<noteq> orderID \<and> pr_command_id r = c) (payments d)"

definition InsertPayment ::
    "(string \<Rightarrow> string option) \<Rightarrow> PaymentRecord \<Rightarrow> 'w bill_db \<Rightarrow> tx_error + (unit \<times> 'w bill_db)" where
  "InsertPayment numeric p d = (case numeric (pr_amount p) of
     None \<Rightarrow> Inl (Refused ''invalid input syntax for type numeric'')
   | Some a \<Rightarrow>
       if tget (payments d) (pr_order_id p) \<noteq> None then Inr ((), d)
       else if command_id_taken (pr_order_id p) (pr_command_id p) d
             \<or> payment_id_taken (pr_order_id p) (pr_payment_id p) d then Inl UniqueViolation
       else Inr ((), d\<lparr>payments := tins (pr_order_id p) (p\<lparr>pr_amount := a\<rparr>) (payments d)\<rparr>))"

definition keep_if_empty :: "string \<Rightarrow> string \<Rightarrow> string" where
  "keep_if_empty new old = (if new = [] then old else new)"

definition UpdatePaymentCreated ::
    "string \<Rightarrow> string \<Rightarrow> string \<Rightarrow> string \<Rightarrow> string \<Rightarrow> 'w bill_db \<Rightarrow> tx_error + (unit \<times> 'w bill_db)" where
  "UpdatePaymentCreated orderID paymentID status url methodID d =
     (if tget (payments d) orderID \<noteq> None \<and> payment_id_taken orderID paymentID d then Inl UniqueViolation
      else Inr ((), d\<lparr>payments := tupd orderID (\<lambda>p. p\<lparr>pr_payment_id := paymentID, pr_status := status,
             pr_confirmation_url := url, pr_method_id := keep_if_empty methodID (pr_method_id p)\<rparr>) (payments d)\<rparr>))"

definition UpdatePaymentWebhookState ::
    "string \<Rightarrow> string \<Rightarrow> string \<Rightarrow> string \<Rightarrow> 'w bill_db \<Rightarrow> 'w bill_db" where
  "UpdatePaymentWebhookState paymentID status methodID reason d =
     d\<lparr>payments := map (\<lambda>(i, p). (i, if pr_payment_id p = paymentID
         then p\<lparr>pr_status := status, pr_method_id := keep_if_empty methodID (pr_method_id p),
                pr_cancel_reason := keep_if_empty reason (pr_cancel_reason p)\<rparr> else p)) (payments d)\<rparr>"

text \<open>The SELECT has no \<open>command_id\<close>.\<close>

definition GetPaymentByPaymentID :: "string \<Rightarrow> 'w bill_db \<Rightarrow> tx_error + (PaymentRecord \<times> 'w bill_db)" where
  "GetPaymentByPaymentID paymentID d =
     (case List.find (\<lambda>(_, p). pr_payment_id p = paymentID) (payments d) of
        None \<Rightarrow> Inl NoRows
      | Some (_, p) \<Rightarrow> Inr (p\<lparr>pr_command_id := []\<rparr>, d))"

section \<open>Recurring profiles\<close>

definition UpdateNextChargeAt :: "int \<Rightarrow> time \<Rightarrow> 'w bill_db \<Rightarrow> 'w bill_db" where
  "UpdateNextChargeAt tid activeUntil d = upd_profile tid (\<lambda>p.
     if rp_auto_renew p then p\<lparr>rp_next_charge_at := Some activeUntil, rp_status := PfActive\<rparr> else p) d"

text \<open>ORDER BY \<open>key\<close> ASC NULLS FIRST.\<close>

definition nulls_first :: "('r \<Rightarrow> time option) \<Rightarrow> (int, 'r) table \<Rightarrow> (int, 'r) table" where
  "nulls_first key t = filter (\<lambda>(_, r). key r = None) t
     @ sort_key (\<lambda>(_, r). the (key r)) (filter (\<lambda>(_, r). key r \<noteq> None) t)"

text \<open>
  WITH picked AS (SELECT \<dots> LIMIT \<dots> FOR UPDATE SKIP LOCKED) UPDATE \<dots> RETURNING: \<open>locked\<close> are the rows
  other transactions hold, \<open>ret\<close> the order in which the updated rows come back.
\<close>

definition claim_profiles ::
    "(RecurringProfile \<Rightarrow> bool) \<Rightarrow> (RecurringProfile \<Rightarrow> time option) \<Rightarrow> profile_status \<Rightarrow> (int list \<Rightarrow> int list)
      \<Rightarrow> (int \<Rightarrow> bool) \<Rightarrow> time \<Rightarrow> nat \<Rightarrow> 'w bill_db \<Rightarrow> (int \<times> RecurringProfile) list \<times> 'w bill_db" where
  "claim_profiles wanted key st ret locked now limit d =
     (let ids = map fst (take limit (filter (\<lambda>(t, r). wanted r \<and> \<not> locked t)
                  (nulls_first key (recurring_profiles d))));
          d' = d\<lparr>recurring_profiles := map (\<lambda>(t, r). (t, if t \<in> set ids
                  then r\<lparr>rp_status := st, rp_locked_at := Some now\<rparr> else r)) (recurring_profiles d)\<rparr>
      in (List.map_filter (\<lambda>t. map_option (Pair t) (profile_of d' t)) (ret ids), d'))"

definition stale_lock :: "time \<Rightarrow> RecurringProfile \<Rightarrow> bool" where
  "stale_lock now p \<longleftrightarrow> (case rp_locked_at p of None \<Rightarrow> False | Some l \<Rightarrow> l < now - minutes 30)"

definition renewal_due :: "time \<Rightarrow> RecurringProfile \<Rightarrow> bool" where
  "renewal_due now p \<longleftrightarrow>
     (rp_auto_renew p \<and> rp_method_id p \<noteq> [] \<and> (rp_status p = PfActive \<or> rp_status p = PfRetry)
        \<and> (case rp_next_charge_at p of None \<Rightarrow> False | Some t \<Rightarrow> t \<le> now))
   \<or> (rp_status p = PfProcessing \<and> stale_lock now p)"

definition LockDueRenewals ::
    "(int list \<Rightarrow> int list) \<Rightarrow> (int \<Rightarrow> bool) \<Rightarrow> time \<Rightarrow> nat \<Rightarrow> 'w bill_db
      \<Rightarrow> (int \<times> RecurringProfile) list \<times> 'w bill_db" where
  "LockDueRenewals ret locked now limit d =
     claim_profiles (renewal_due now) rp_next_charge_at PfProcessing ret locked now limit d"

definition grace_over :: "time \<Rightarrow> RecurringProfile \<Rightarrow> bool" where
  "grace_over now p \<longleftrightarrow>
     (rp_status p = PfGrace \<and> (case rp_grace_until p of None \<Rightarrow> False | Some t \<Rightarrow> t \<le> now))
   \<or> (rp_status p = PfExpiring \<and> stale_lock now p)"

definition LockExpiredGraceProfiles ::
    "(int list \<Rightarrow> int list) \<Rightarrow> (int \<Rightarrow> bool) \<Rightarrow> time \<Rightarrow> nat \<Rightarrow> 'w bill_db
      \<Rightarrow> (int \<times> RecurringProfile) list \<times> 'w bill_db" where
  "LockExpiredGraceProfiles ret locked now limit d =
     claim_profiles (grace_over now) rp_grace_until PfExpiring ret locked now limit d"

text \<open>INSERT \<dots> ON CONFLICT (telegram_id) DO UPDATE; \<open>locked_at\<close> is not among the columns set.\<close>

definition tupsert :: "'k \<Rightarrow> 'v \<Rightarrow> ('v \<Rightarrow> 'v) \<Rightarrow> ('k, 'v) table \<Rightarrow> ('k, 'v) table" where
  "tupsert k v f t = (case tget t k of None \<Rightarrow> tins k v t | Some _ \<Rightarrow> tupd k f t)"

definition UpsertRecurringProfileTx ::
    "(string \<Rightarrow> string option) \<Rightarrow> int \<Rightarrow> RecurringProfile \<Rightarrow> 'w bill_db \<Rightarrow> tx_error + (unit \<times> 'w bill_db)" where
  "UpsertRecurringProfileTx numeric tid p d = (case numeric (rp_amount p) of
     None \<Rightarrow> Inl (Refused ''invalid input syntax for type numeric'')
   | Some a \<Rightarrow>
       let new = p\<lparr>rp_amount := a, rp_retry_count := 0, rp_grace_until := None, rp_last_failure := [],
                   rp_locked_at := None\<rparr>
       in Inr ((), d\<lparr>recurring_profiles := tupsert tid new
            (\<lambda>old. new\<lparr>rp_locked_at := rp_locked_at old\<rparr>) (recurring_profiles d)\<rparr>))"

definition DisableAutoRenewTx :: "int \<Rightarrow> string \<Rightarrow> 'w bill_db \<Rightarrow> 'w bill_db" where
  "DisableAutoRenewTx tid reason d = upd_profile tid (\<lambda>p. p\<lparr>rp_auto_renew := False, rp_locked_at := None,
     rp_status := PfDisabled, rp_last_failure := reason\<rparr>) d"

definition ScheduleRenewalRetryTx ::
    "int \<Rightarrow> time \<Rightarrow> int \<Rightarrow> string \<Rightarrow> string \<Rightarrow> 'w bill_db \<Rightarrow> 'w bill_db" where
  "ScheduleRenewalRetryTx tid nextRetryAt retryCount reason paymentID d = upd_profile tid (\<lambda>p.
     p\<lparr>rp_status := PfRetry, rp_locked_at := None, rp_next_charge_at := Some nextRetryAt,
       rp_retry_count := retryCount, rp_last_failure := reason,
       rp_last_payment_id := keep_if_empty paymentID (rp_last_payment_id p)\<rparr>) d"

definition StartGracePeriodTx :: "int \<Rightarrow> time \<Rightarrow> string \<Rightarrow> string \<Rightarrow> 'w bill_db \<Rightarrow> 'w bill_db" where
  "StartGracePeriodTx tid graceUntil reason paymentID d = upd_profile tid (\<lambda>p.
     p\<lparr>rp_status := PfGrace, rp_locked_at := None, rp_grace_until := Some graceUntil,
       rp_next_charge_at := None, rp_last_failure := reason,
       rp_last_payment_id := keep_if_empty paymentID (rp_last_payment_id p)\<rparr>) d"

definition MarkRecurringSuccessTx :: "int \<Rightarrow> string \<Rightarrow> time \<Rightarrow> 'w bill_db \<Rightarrow> 'w bill_db" where
  "MarkRecurringSuccessTx tid paymentID nextChargeAt d = upd_profile tid (\<lambda>p.
     p\<lparr>rp_status := PfActive, rp_locked_at := None, rp_retry_count := 0, rp_grace_until := None,
       rp_last_payment_id := paymentID, rp_last_failure := [], rp_next_charge_at := Some nextChargeAt\<rparr>) d"

definition SuspendExpiredGraceTx :: "int \<Rightarrow> string \<Rightarrow> 'w bill_db \<Rightarrow> 'w bill_db" where
  "SuspendExpiredGraceTx tid reason d = upd_profile tid (\<lambda>p.
     p\<lparr>rp_auto_renew := False, rp_locked_at := None, rp_status := PfExpired, rp_next_charge_at := None,
       rp_last_failure := reason\<rparr>) d"

section \<open>Customers\<close>

definition SaveCustomerBindingTx :: "int \<Rightarrow> string \<Rightarrow> yooKassaPaymentMethodRef \<Rightarrow> 'w bill_db \<Rightarrow> 'w bill_db" where
  "SaveCustomerBindingTx tid methodID m d =
     (let row = \<lparr>cu_method_id = methodID, cu_method_type = pm_type m, cu_last4 = pm_last4 m,
                 cu_expiry_month = pm_expiry_month m, cu_expiry_year = pm_expiry_year m\<rparr>
      in d\<lparr>billing_customers := tupsert tid row (\<lambda>_. row) (billing_customers d)\<rparr>)"

definition ClearCustomerBindingTx :: "int \<Rightarrow> 'w bill_db \<Rightarrow> 'w bill_db" where
  "ClearCustomerBindingTx tid d = d\<lparr>billing_customers := tdel tid (billing_customers d)\<rparr>"

section \<open>Webhooks\<close>

definition RecordWebhookFingerprint :: "string \<Rightarrow> string \<Rightarrow> string \<Rightarrow> 'w bill_db \<Rightarrow> tx_error + (bool \<times> 'w bill_db)" where
  "RecordWebhookFingerprint paymentID eventType fp d =
     Inr (tget (webhook_events d) fp = None,
          d\<lparr>webhook_events := tins fp (paymentID, eventType) (webhook_events d)\<rparr>)"

definition DeleteWebhookFingerprint :: "string \<Rightarrow> string \<Rightarrow> string \<Rightarrow> 'w bill_db \<Rightarrow> tx_error + (unit \<times> 'w bill_db)" where
  "DeleteWebhookFingerprint paymentID eventType fp d = Inr ((), d\<lparr>webhook_events :=
     filter (\<lambda>(f, p, e). \<not> (p = paymentID \<and> e = eventType \<and> f = fp)) (webhook_events d)\<rparr>)"

section \<open>Refunds\<close>

definition refund_due :: "time \<Rightarrow> PendingRefund \<Rightarrow> bool" where
  "refund_due now r \<longleftrightarrow> pf_attempts r < 10 \<and> pf_next_attempt_at r \<le> now"

definition LockDueRefunds ::
    "(string list \<Rightarrow> string list) \<Rightarrow> (string \<Rightarrow> bool) \<Rightarrow> time \<Rightarrow> nat \<Rightarrow> 'w bill_db
      \<Rightarrow> (string \<times> PendingRefund) list \<times> 'w bill_db" where
  "LockDueRefunds ret locked now limit d =
     (let ids = map fst (take limit (filter (\<lambda>(p, r). refund_due now r \<and> \<not> locked p)
                  (sort_key (\<lambda>(_, r). pf_next_attempt_at r) (pending_refunds d))));
          d' = d\<lparr>pending_refunds := map (\<lambda>(p, r). (p, if p \<in> set ids
                  then r\<lparr>pf_attempts := pf_attempts r + 1\<rparr> else r)) (pending_refunds d)\<rparr>
      in (List.map_filter (\<lambda>p. map_option (Pair p) (tget (pending_refunds d') p)) (ret ids), d'))"

definition MarkRefundSucceeded :: "string \<Rightarrow> 'w bill_db \<Rightarrow> 'w bill_db" where
  "MarkRefundSucceeded paymentID d = d\<lparr>pending_refunds := tdel paymentID (pending_refunds d)\<rparr>"

definition refund_delay :: "int \<Rightarrow> duration" where
  "refund_delay attempts = minutes (if 0 < attempts then 2 ^ nat (min attempts 8) else 1)"

definition MarkRefundRetry :: "time \<Rightarrow> string \<Rightarrow> string \<Rightarrow> int \<Rightarrow> 'w bill_db \<Rightarrow> 'w bill_db" where
  "MarkRefundRetry now paymentID err attempts d = d\<lparr>pending_refunds := tupd paymentID (\<lambda>r.
     r\<lparr>pf_last_error := err, pf_next_attempt_at := now + refund_delay attempts\<rparr>) (pending_refunds d)\<rparr>"

definition AddPendingRefundTx ::
    "time \<Rightarrow> string \<Rightarrow> string \<Rightarrow> string \<Rightarrow> string \<Rightarrow> 'w bill_db \<Rightarrow> 'w bill_db" where
  "AddPendingRefundTx now paymentID amount currency err d =
     d\<lparr>pending_refunds := tupsert paymentID
         \<lparr>pf_amount = amount, pf_currency = currency, pf_attempts = 0, pf_next_attempt_at = now,
          pf_last_error = err\<rparr>
         (\<lambda>r. r\<lparr>pf_amount := amount, pf_currency := currency, pf_last_error := err,
               pf_next_attempt_at := min (pf_next_attempt_at r) now\<rparr>) (pending_refunds d)\<rparr>"

end
