(* ===== verification/BillService.thy ===== *)
theory BillService
  imports BillRepository
begin

text \<open>
  The operations of \<open>internal/billing/service.go\<close>: the commands of the bot, the webhooks of the
  provider, and the passes of the three workers of \<open>renewal_worker.go\<close> (charge what is due, expire
  what outlived its grace period, repeat refunds). Each takes its settings, a \<open>bill_env\<close> and what
  the Go function takes; \<open>bv_out env k\<close> is the outage of the \<open>k\<close>-th statement or transaction on the
  pool, counted along the longest path of the operation. None stands for a nil pointer.
\<close>

section \<open>The provider\<close>

definition createYooKassaPayment ::
    "'w bill_env \<Rightarrow> yooKassaCreatePaymentRequest \<Rightarrow> string \<Rightarrow> 'w bill_db
      \<Rightarrow> (bill_error + yooKassaPaymentResponse) \<times> 'w bill_db" where
  "createYooKassaPayment env q key d = (case call_yookassa env (PostPayment q key) d of
     (Inl e, d1) \<Rightarrow> (Inl (BillFailed e), d1)
   | (Inr (code, body), d1) \<Rightarrow>
       if code \<noteq> 200 \<and> code \<noteq> 202 then (Inl (BillFailed ''yookassa create payment''), d1)
       else (case body of None \<Rightarrow> (Inl (BillFailed ''json''), d1) | Some p \<Rightarrow> (Inr p, d1)))"

definition is_paid :: "yooKassaPaymentResponse \<Rightarrow> bool" where
  "is_paid p \<longleftrightarrow> yp_status p = ''succeeded'' \<or> yp_paid p"

definition assertYooKassaPaymentPaid ::
    "'w bill_env \<Rightarrow> string \<Rightarrow> 'w bill_db \<Rightarrow> (bill_error + unit) \<times> 'w bill_db" where
  "assertYooKassaPaymentPaid env paymentID d =
     (if trim_space paymentID = [] then (Inl (BillFailed ''empty payment id for verification''), d)
      else case call_yookassa env (GetPayment paymentID) d of
        (Inl e, d1) \<Rightarrow> (Inl (BillFailed e), d1)
      | (Inr (code, body), d1) \<Rightarrow>
          if code \<noteq> 200 then (Inl (BillFailed ''verify yookassa payment status''), d1)
          else (case body of
            None \<Rightarrow> (Inl (BillFailed ''decode verify payment''), d1)
          | Some p \<Rightarrow> if \<not> is_paid p then (Inl (BillFailed ''payment not actually paid''), d1)
                      else (Inr (), d1)))"

definition createRefund ::
    "'w bill_env \<Rightarrow> string \<Rightarrow> string \<Rightarrow> string \<Rightarrow> 'w bill_db \<Rightarrow> (bill_error + unit) \<times> 'w bill_db" where
  "createRefund env paymentID amount currency d =
     (case call_yookassa env (PostRefund paymentID amount currency (''refund:'' @ paymentID)) d of
        (Inl e, d1) \<Rightarrow> (Inl (BillFailed e), d1)
      | (Inr (code, _), d1) \<Rightarrow>
          if code \<noteq> 200 \<and> code \<noteq> 202 then (Inl (BillFailed ''yookassa refund''), d1) else (Inr (), d1))"

fun error_text :: "bill_error \<Rightarrow> string" where
  "error_text (BillFailed s) = s"
| "error_text (BillSkip s) = s"
| "error_text (BillDb e) = ''database''"
| "error_text DuplicateWebhook = ''duplicate webhook''"
| "error_text InvoiceNotFound = ''crypto invoice not found''"

section \<open>The outbox\<close>

definition billing_notification :: "int \<Rightarrow> tg_text \<Rightarrow> tg_keyboard \<Rightarrow> string \<Rightarrow> tg_notification" where
  "billing_notification tid txt kb url = \<lparr>ntf_telegram_id = tid, ntf_message = txt, ntf_markdown = False,
     ntf_keyboard = kb, ntf_pay_url = url\<rparr>"

definition publishNotificationTx :: "time \<Rightarrow> tg_notification \<Rightarrow> 'w bill_db \<Rightarrow> 'w bill_db" where
  "publishNotificationTx now n d = AddTx now
     \<lparr>oe_aggregate_type = ''telegram'', oe_aggregate_id = show_int (ntf_telegram_id n),
      oe_topic = TopicTgNotifications, oe_message_key = show_int (ntf_telegram_id n),
      oe_event_type = ''tg.notification'', oe_payload = PNotification n\<rparr> d"

definition publishNotification ::
    "outage \<Rightarrow> time \<Rightarrow> tg_notification \<Rightarrow> 'w bill_db \<Rightarrow> (bill_error + unit) \<times> 'w bill_db" where
  "publishNotification out now n d = commit out (\<lambda>d. Inr ((), publishNotificationTx now n d)) d"

definition publishBillingEventTx :: "time \<Rightarrow> billing_event \<Rightarrow> 'w bill_db \<Rightarrow> 'w bill_db" where
  "publishBillingEventTx now e d = AddTx now
     \<lparr>oe_aggregate_type = ''billing'', oe_aggregate_id = show_int (be_telegram_id e),
      oe_topic = TopicBillingEvents, oe_message_key = show_int (be_telegram_id e),
      oe_event_type = billing_event_type e, oe_payload = PBillingEvent e\<rparr> d"

definition publishBillingEvent ::
    "outage \<Rightarrow> time \<Rightarrow> billing_event \<Rightarrow> 'w bill_db \<Rightarrow> (bill_error + unit) \<times> 'w bill_db" where
  "publishBillingEvent out now e d = commit out (\<lambda>d. Inr ((), publishBillingEventTx now e d)) d"

section \<open>A payment that succeeded\<close>

definition billingChargeSourceFromMetadata :: "(string \<times> string) list \<Rightarrow> string" where
  "billingChargeSourceFromMetadata meta =
     (if map_of meta ''charge_source'' = Some BillingChargeSourceRecurring
      then BillingChargeSourceRecurring else BillingChargeSourceInitial)"

definition intFromMetadata :: "(string \<times> string) list \<Rightarrow> string \<Rightarrow> int" where
  "intFromMetadata meta key = (case map_of meta key of
     None \<Rightarrow> 0 | Some v \<Rightarrow> (case atoi v of None \<Rightarrow> 0 | Some n \<Rightarrow> n))"

definition firstPaymentMethod ::
    "yooKassaPaymentMethodRef \<Rightarrow> yooKassaPaymentMethodRef \<Rightarrow> yooKassaPaymentMethodRef" where
  "firstPaymentMethod primary fallback = (if pm_id primary \<noteq> [] then primary else fallback)"

definition paid_profile :: "PaymentRecord \<Rightarrow> string \<Rightarrow> time \<Rightarrow> RecurringProfile" where
  "paid_profile record methodID nextCharge = \<lparr>rp_plan_code = pr_plan_code record,
     rp_duration_days = pr_duration_days record, rp_amount = pr_amount record,
     rp_currency = pr_currency record, rp_method_id = methodID, rp_auto_renew = True,
     rp_status = PfActive, rp_next_charge_at = Some nextCharge, rp_retry_count = 0,
     rp_grace_until = None, rp_last_payment_id = pr_payment_id record, rp_last_failure = [],
     rp_locked_at = None\<rparr>"

definition paid_event :: "PaymentRecord \<Rightarrow> string \<Rightarrow> bool \<Rightarrow> time \<Rightarrow> billing_event" where
  "paid_event record methodID autoRenew paidAt =
     BillingPaymentSucceededEvent BillingCheckoutTypeSubscription
       (billingChargeSourceFromMetadata (pr_metadata record)) (pr_telegram_id record)
       (pr_order_id record) (pr_payment_id record) (pr_plan_code record) (pr_duration_days record)
       (pr_amount record) (pr_currency record) methodID
       (intFromMetadata (pr_metadata record) ''attempt_no'') autoRenew paidAt ''yookassa''"

text \<open>The transaction of \<open>handleSubscriptionPaymentSucceeded\<close>.\<close>

definition paid_body ::
    "(string \<Rightarrow> string option) \<Rightarrow> time \<Rightarrow> PaymentRecord \<Rightarrow> yooKassaWebhookNotification
      \<Rightarrow> 'w bill_db \<Rightarrow> tx_error + (unit \<times> 'w bill_db)" where
  "paid_body numeric paidAt record n d =
     (let tid = pr_telegram_id record;
          methodID = firstNotEmpty [pm_id (wn_method n), pr_method_id record];
          autoRenew = (methodID \<noteq> [] \<and> pm_saved (wn_method n));
          nextCharge = paidAt + days (pr_duration_days record)
      in andthen
          (if autoRenew then
             andthen (UpsertRecurringProfileTx numeric tid (paid_profile record methodID nextCharge)
                 (SaveCustomerBindingTx tid methodID (wn_method n) d)) (\<lambda>_ d2.
               Inr ((), if billingChargeSourceFromMetadata (pr_metadata record) = BillingChargeSourceRecurring
                        then MarkRecurringSuccessTx tid (pr_payment_id record) nextCharge d2 else d2))
           else Inr ((), DisableAutoRenewTx tid ''payment_method_id_missing'' d))
          (\<lambda>_ d3. Inr ((), publishBillingEventTx paidAt (paid_event record methodID autoRenew paidAt) d3)))"

definition handleSubscriptionPaymentSucceeded ::
    "'w bill_env \<Rightarrow> nat \<Rightarrow> PaymentRecord \<Rightarrow> yooKassaWebhookNotification \<Rightarrow> 'w bill_db
      \<Rightarrow> (bill_error + unit) \<times> 'w bill_db" where
  "handleSubscriptionPaymentSucceeded env k record n d =
     proceed (assertYooKassaPaymentPaid env (pr_payment_id record) d) (\<lambda>_ d1.
       commit (bv_out env k) (paid_body (bv_numeric env) (bv_now env) record n) d1)"

definition bound_event :: "time \<Rightarrow> PaymentRecord \<Rightarrow> yooKassaPaymentMethodRef \<Rightarrow> billing_event" where
  "bound_event now record m = BillingPaymentMethodBoundEvent (pr_telegram_id record)
     (pr_order_id record) (pr_payment_id record) (pm_id m) (pm_last4 m) now"

definition handleBindCardPaymentSucceeded ::
    "'w bill_env \<Rightarrow> nat \<Rightarrow> PaymentRecord \<Rightarrow> yooKassaWebhookNotification \<Rightarrow> 'w bill_db
      \<Rightarrow> (bill_error + unit) \<times> 'w bill_db" where
  "handleBindCardPaymentSucceeded env k record n d =
     (let m = wn_method n; tid = pr_telegram_id record; now = bv_now env
      in case (if pr_amount record \<noteq> [] \<and> pr_amount record \<noteq> ''0'' \<and> pr_amount record \<noteq> ''0.00''
               then createRefund env (pr_payment_id record) (pr_amount record) (pr_currency record) d
               else (Inr (), d)) of
        (refund, d1) \<Rightarrow> commit (bv_out env k) (\<lambda>d.
          let d2 = (if pm_id m \<noteq> [] then SaveCustomerBindingTx tid (pm_id m) m d else d);
              d3 = (case refund of
                      Inl e \<Rightarrow> AddPendingRefundTx now (pr_payment_id record) (pr_amount record)
                                 (pr_currency record) (error_text e) d2
                    | Inr _ \<Rightarrow> d2);
              d4 = publishBillingEventTx now (bound_event now record m) d3
          in Inr ((), publishNotificationTx now (billing_notification tid TxtCardBound KbBuyMenu []) d4)) d1)"

definition handlePaymentSucceeded ::
    "'w bill_env \<Rightarrow> nat \<Rightarrow> PaymentRecord \<Rightarrow> yooKassaWebhookNotification \<Rightarrow> 'w bill_db
      \<Rightarrow> (bill_error + unit) \<times> 'w bill_db" where
  "handlePaymentSucceeded env k record n d =
     (if pr_checkout_type record = BillingCheckoutTypeSubscription
        then handleSubscriptionPaymentSucceeded env k record n d
      else if pr_checkout_type record = BillingCheckoutTypeBindCard
        then handleBindCardPaymentSucceeded env k record n d
      else (Inl (BillFailed ''unknown checkout type''), d))"

section \<open>A payment that failed\<close>

text \<open>
  The value is (\<open>nextRetryAt\<close>, \<open>graceUntil\<close>). An attempt number below 1 would index the schedule out
  of range, which panics.
\<close>

definition handleRecurringPaymentFailed ::
    "bill_config \<Rightarrow> outage \<Rightarrow> time \<Rightarrow> int \<Rightarrow> string \<Rightarrow> string \<Rightarrow> int \<Rightarrow> string \<Rightarrow> 'w bill_db
      \<Rightarrow> (bill_error + (time option \<times> time option)) \<times> 'w bill_db" where
  "handleRecurringPaymentFailed cfg out now tid planCode paymentID attemptNo reason d =
     commit out (\<lambda>d.
       if attemptNo \<le> int (length (bl_retry_schedule cfg)) then
         (if attemptNo < 1 then Inl NilDeref
          else let nextRetryAt = now + bl_retry_schedule cfg ! nat (attemptNo - 1) in
            Inr ((Some nextRetryAt, None), publishBillingEventTx now
              (BillingRenewalRetryScheduledEvent tid planCode paymentID reason attemptNo nextRetryAt now)
              (ScheduleRenewalRetryTx tid nextRetryAt attemptNo reason paymentID d)))
       else let graceUntil = now + bl_grace_period cfg in
         Inr ((None, Some graceUntil), publishBillingEventTx now
           (BillingGraceStartedEvent tid planCode paymentID reason graceUntil now)
           (StartGracePeriodTx tid graceUntil reason paymentID d))) d"

definition canceled_event ::
    "time \<Rightarrow> PaymentRecord \<Rightarrow> string \<Rightarrow> time option \<times> time option \<Rightarrow> billing_event" where
  "canceled_event now record reason next = BillingPaymentCanceledEvent (pr_checkout_type record)
     (billingChargeSourceFromMetadata (pr_metadata record)) (pr_telegram_id record)
     (pr_order_id record) (pr_payment_id record) reason
     (intFromMetadata (pr_metadata record) ''attempt_no'') (fst next) (snd next) now ''yookassa''"

definition handlePaymentCanceled ::
    "bill_config \<Rightarrow> 'w bill_env \<Rightarrow> nat \<Rightarrow> PaymentRecord \<Rightarrow> yooKassaWebhookNotification \<Rightarrow> 'w bill_db
      \<Rightarrow> (bill_error + unit) \<times> 'w bill_db" where
  "handlePaymentCanceled cfg env k record n d =
     (let chargeSource = billingChargeSourceFromMetadata (pr_metadata record);
          attemptNo = intFromMetadata (pr_metadata record) ''attempt_no'';
          reason = firstNotEmpty [wn_cancel_reason n, ''payment_canceled''];
          now = bv_now env
      in proceed
          (if pr_checkout_type record = BillingCheckoutTypeSubscription
              \<and> chargeSource = BillingChargeSourceRecurring
           then handleRecurringPaymentFailed cfg (bv_out env k) now (pr_telegram_id record)
                  (pr_plan_code record) (pr_payment_id record) attemptNo reason d
           else (Inr (None, None), d)) (\<lambda>next d1.
         proceed (publishBillingEvent (bv_out env (k + 1)) now (canceled_event now record reason next) d1)
           (\<lambda>_ d2. if chargeSource = BillingChargeSourceRecurring then (Inr (), d2)
             else publishNotification (bv_out env (k + 2)) now
               (billing_notification (pr_telegram_id record) TxtPaymentCanceled KbBuyMenu []) d2)))"

section \<open>Commands\<close>

definition notifyCardPaymentUnavailable :: "bill_error \<Rightarrow> bill_error" where
  "notifyCardPaymentUnavailable cause = BillSkip (''card payment unavailable: '' @ error_text cause)"

definition immediate_notification :: "yooKassaPaymentResponse \<Rightarrow> yooKassaPaymentMethodRef
    \<Rightarrow> yooKassaWebhookNotification" where
  "immediate_notification resp m = \<lparr>wn_type = ''notification'', wn_event = ''payment.succeeded'',
     wn_id = yp_id resp, wn_status = yp_status resp, wn_paid = yp_paid resp, wn_method = m,
     wn_cancel_reason = []\<rparr>"

definition checkout_record :: "Plan \<Rightarrow> string \<Rightarrow> int \<Rightarrow> string \<Rightarrow> bool \<Rightarrow> PaymentRecord" where
  "checkout_record plan commandID tid planCode save =
     \<lparr>pr_order_id = commandID, pr_command_id = commandID, pr_telegram_id = tid,
      pr_checkout_type = BillingCheckoutTypeSubscription, pr_plan_code = planCode,
      pr_duration_days = pl_duration_days plan, pr_payment_id = [], pr_status = ''local_creating'',
      pr_amount = pl_amount plan, pr_currency = pl_currency plan, pr_description = pl_title plan,
      pr_confirmation_url = [], pr_idempotence_key = ''checkout:'' @ commandID, pr_save_method = save,
      pr_method_id = [], pr_cancel_reason = [],
      pr_metadata = [(''order_id'', commandID), (''telegram_id'', show_int tid), (''plan_code'', planCode),
        (''duration_days'', show_int (pl_duration_days plan)),
        (''checkout_type'', BillingCheckoutTypeSubscription),
        (''charge_source'', BillingChargeSourceInitial), (''attempt_no'', ''0'')]\<rparr>"

definition bind_record :: "bill_config \<Rightarrow> string \<Rightarrow> int \<Rightarrow> PaymentRecord" where
  "bind_record cfg commandID tid =
     \<lparr>pr_order_id = commandID, pr_command_id = commandID, pr_telegram_id = tid,
      pr_checkout_type = BillingCheckoutTypeBindCard, pr_plan_code = [], pr_duration_days = 0,
      pr_payment_id = [], pr_status = ''local_creating'', pr_amount = bl_bind_amount cfg,
      pr_currency = ''RUB'', pr_description = ''bind card'', pr_confirmation_url = [],
      pr_idempotence_key = ''bind-card:'' @ commandID, pr_save_method = True, pr_method_id = [],
      pr_cancel_reason = [],
      pr_metadata = [(''order_id'', commandID), (''telegram_id'', show_int tid),
        (''checkout_type'', BillingCheckoutTypeBindCard)]\<rparr>"

definition redirect_request :: "PaymentRecord \<Rightarrow> string \<Rightarrow> yooKassaCreatePaymentRequest" where
  "redirect_request record returnURL = \<lparr>yr_amount = pr_amount record, yr_currency = pr_currency record,
     yr_capture = True, yr_confirmation = Some (''redirect'', returnURL), yr_method_id = [],
     yr_description = pr_description record, yr_save_method = pr_save_method record,
     yr_metadata = pr_metadata record\<rparr>"

definition fresh_command_id :: "'w bill_env \<Rightarrow> string \<Rightarrow> string" where
  "fresh_command_id env raw = (let c = trim_space raw in if c = [] then bv_uuid env else c)"

text \<open>\<open>cmd\<close> is (command id, user, plan, save the method, return URL).\<close>

definition HandleCreateSubscriptionCheckout ::
    "bill_config \<Rightarrow> 'w bill_env \<Rightarrow> (string \<times> int \<times> string \<times> bool \<times> string) option \<Rightarrow> 'w bill_db
      \<Rightarrow> (bill_error + unit) \<times> 'w bill_db" where
  "HandleCreateSubscriptionCheckout cfg env cmd d = (case cmd of
     None \<Rightarrow> (Inl (BillFailed ''nil create checkout command''), d)
   | Some (commandID, tid, planCode, save, returnURL) \<Rightarrow> (case tget (bl_plans cfg) planCode of
       None \<Rightarrow> (Inl (BillFailed ''unsupported plan code''), d)
     | Some plan \<Rightarrow>
        let record = checkout_record plan (fresh_command_id env commandID) tid planCode save in
        proceed (commit (bv_out env 0) (InsertPayment (bv_numeric env) record) d) (\<lambda>_ d1.
        case createYooKassaPayment env
            (redirect_request record (firstNotEmpty [returnURL, bl_return_url cfg]))
            (pr_idempotence_key record) d1 of
          (Inl e, d2) \<Rightarrow> (Inl (notifyCardPaymentUnavailable e), d2)
        | (Inr resp, d2) \<Rightarrow>
            proceed (commit (bv_out env 1) (UpdatePaymentCreated (pr_order_id record) (yp_id resp)
                (yp_status resp) (yp_confirmation_url resp) (pm_id (yp_method resp))) d2) (\<lambda>_ d3.
              if is_paid resp
              then handlePaymentSucceeded env 2
                     (record\<lparr>pr_payment_id := yp_id resp, pr_status := yp_status resp\<rparr>)
                     (immediate_notification resp (yp_method resp)) d3
              else publishNotification (bv_out env 2) (bv_now env)
                     (billing_notification tid TxtPayLink KbNone (yp_confirmation_url resp)) d3))))"

text \<open>\<open>cmd\<close> is (command id, user, return URL).\<close>

definition HandleBindCard ::
    "bill_config \<Rightarrow> 'w bill_env \<Rightarrow> (string \<times> int \<times> string) option \<Rightarrow> 'w bill_db
      \<Rightarrow> (bill_error + unit) \<times> 'w bill_db" where
  "HandleBindCard cfg env cmd d = (case cmd of
     None \<Rightarrow> (Inl (BillFailed ''nil bind card command''), d)
   | Some (commandID, tid, returnURL) \<Rightarrow>
       let record = bind_record cfg (fresh_command_id env commandID) tid in
       proceed (commit (bv_out env 0) (InsertPayment (bv_numeric env) record) d) (\<lambda>_ d1.
       case createYooKassaPayment env
           (redirect_request record (firstNotEmpty [returnURL, bl_return_url cfg]))
           (pr_idempotence_key record) d1 of
         (Inl e, d2) \<Rightarrow> (Inl (notifyCardPaymentUnavailable e), d2)
       | (Inr resp, d2) \<Rightarrow>
           proceed (commit (bv_out env 1) (UpdatePaymentCreated (pr_order_id record) (yp_id resp)
               (yp_status resp) (yp_confirmation_url resp) (pm_id (yp_method resp))) d2) (\<lambda>_ d3.
             publishNotification (bv_out env 2) (bv_now env) (billing_notification tid
               (TxtBindLink (bl_bind_amount cfg) (yp_confirmation_url resp)) KbNone []) d3)))"

definition HandleUnbindCard ::
    "'w bill_env \<Rightarrow> int option \<Rightarrow> 'w bill_db \<Rightarrow> (bill_error + unit) \<times> 'w bill_db" where
  "HandleUnbindCard env cmd d = (case cmd of
     None \<Rightarrow> (Inl (BillFailed ''nil unbind card command''), d)
   | Some tid \<Rightarrow> commit (bv_out env 0) (\<lambda>d.
       let now = bv_now env; reason = ''payment_method_unbound'';
           d1 = DisableAutoRenewTx tid reason (ClearCustomerBindingTx tid d);
           d2 = publishBillingEventTx now (BillingPaymentMethodUnboundEvent tid now) d1;
           d3 = publishBillingEventTx now (BillingAutoRenewDisabledEvent tid reason now) d2
       in Inr ((), publishNotificationTx now (billing_notification tid TxtCardRemoved KbNone []) d3)) d)"

definition HandleDisableAutoRenew ::
    "'w bill_env \<Rightarrow> (int \<times> string) option \<Rightarrow> 'w bill_db \<Rightarrow> (bill_error + unit) \<times> 'w bill_db" where
  "HandleDisableAutoRenew env cmd d = (case cmd of
     None \<Rightarrow> (Inl (BillFailed ''nil disable auto-renew command''), d)
   | Some (tid, r) \<Rightarrow> commit (bv_out env 0) (\<lambda>d.
       let reason = firstNotEmpty [r, ''disabled_by_command'']; now = bv_now env in
       Inr ((), publishBillingEventTx now (BillingAutoRenewDisabledEvent tid reason now)
                  (DisableAutoRenewTx tid reason d))) d)"

definition HandleSubscriptionActivated ::
    "'w bill_env \<Rightarrow> subscription_event option \<Rightarrow> 'w bill_db \<Rightarrow> (bill_error + unit) \<times> 'w bill_db" where
  "HandleSubscriptionActivated env e d = (case e of
     Some (SubscriptionActivatedEvent tid plan at until left country source paymentID autoRenew accessRev) \<Rightarrow>
       if \<not> autoRenew then (Inr (), d)
       else commit (bv_out env 0) (\<lambda>d. Inr ((), UpdateNextChargeAt tid until d)) d
   | _ \<Rightarrow> (Inr (), d))"

section \<open>Webhooks\<close>

definition processWebhookPayload ::
    "bill_config \<Rightarrow> 'w bill_env \<Rightarrow> yooKassaWebhookNotification \<Rightarrow> 'w bill_db
      \<Rightarrow> (bill_error + unit) \<times> 'w bill_db" where
  "processWebhookPayload cfg env n d =
     proceed (commit (bv_out env 1) (GetPaymentByPaymentID (wn_id n)) d) (\<lambda>record d1.
     proceed (commit (bv_out env 2) (\<lambda>d. Inr ((), UpdatePaymentWebhookState (wn_id n) (wn_status n)
         (pm_id (wn_method n)) (wn_cancel_reason n) d)) d1) (\<lambda>_ d2.
       if wn_event n = ''payment.succeeded'' then handlePaymentSucceeded env 3 record n d2
       else if wn_event n = ''payment.canceled'' then handlePaymentCanceled cfg env 3 record n d2
       else (Inr (), d2)))"

definition ProcessWebhook ::
    "bill_config \<Rightarrow> 'w bill_env \<Rightarrow> yooKassaWebhookNotification option \<Rightarrow> string \<Rightarrow> 'w bill_db
      \<Rightarrow> (bill_error + unit) \<times> 'w bill_db" where
  "ProcessWebhook cfg env n fp d = (case n of
     None \<Rightarrow> (Inl (BillFailed ''nil webhook''), d)
   | Some n \<Rightarrow>
      if wn_type n \<noteq> ''notification'' then (Inl (BillFailed ''unexpected webhook type''), d)
      else if wn_id n = [] then (Inl (BillFailed ''empty payment id in webhook''), d)
      else proceed (commit (bv_out env 0) (RecordWebhookFingerprint (wn_id n) (wn_event n) fp) d)
        (\<lambda>inserted d1.
          if \<not> inserted then (Inl DuplicateWebhook, d1)
          else case processWebhookPayload cfg env n d1 of
            (Inr _, d2) \<Rightarrow> (Inr (), d2)
          | (Inl e, d2) \<Rightarrow>
              (Inl e, snd (commit (bv_out env 6) (DeleteWebhookFingerprint (wn_id n) (wn_event n) fp) d2))))"

section \<open>Recurring charges\<close>

definition renewal_order_id :: "int \<Rightarrow> string \<Rightarrow> int \<Rightarrow> string" where
  "renewal_order_id tid planCode attemptNo =
     ''renewal:'' @ show_int tid @ '':'' @ planCode @ '':'' @ show_int attemptNo"

definition renewal_record :: "int \<Rightarrow> RecurringProfile \<Rightarrow> PaymentRecord" where
  "renewal_record tid p =
     (let attemptNo = rp_retry_count p + 1; orderID = renewal_order_id tid (rp_plan_code p) attemptNo
      in \<lparr>pr_order_id = orderID, pr_command_id = [], pr_telegram_id = tid,
          pr_checkout_type = BillingCheckoutTypeSubscription, pr_plan_code = rp_plan_code p,
          pr_duration_days = rp_duration_days p, pr_payment_id = [], pr_status = ''local_creating'',
          pr_amount = rp_amount p, pr_currency = rp_currency p,
          pr_description = ''renewal '' @ rp_plan_code p, pr_confirmation_url = [],
          pr_idempotence_key = orderID, pr_save_method = False, pr_method_id = rp_method_id p,
          pr_cancel_reason = [],
          pr_metadata = [(''order_id'', orderID), (''telegram_id'', show_int tid),
            (''plan_code'', rp_plan_code p), (''duration_days'', show_int (rp_duration_days p)),
            (''checkout_type'', BillingCheckoutTypeSubscription),
            (''charge_source'', BillingChargeSourceRecurring), (''attempt_no'', show_int attemptNo)]\<rparr>)"

definition renewal_request :: "PaymentRecord \<Rightarrow> yooKassaCreatePaymentRequest" where
  "renewal_request record = \<lparr>yr_amount = pr_amount record, yr_currency = pr_currency record,
     yr_capture = True, yr_confirmation = None, yr_method_id = pr_method_id record,
     yr_description = pr_description record, yr_save_method = False, yr_metadata = pr_metadata record\<rparr>"

definition chargeRecurringProfile ::
    "bill_config \<Rightarrow> 'w bill_env \<Rightarrow> int \<Rightarrow> RecurringProfile \<Rightarrow> 'w bill_db \<Rightarrow> (bill_error + unit) \<times> 'w bill_db" where
  "chargeRecurringProfile cfg env tid p d =
     (if rp_method_id p = [] \<or> \<not> rp_auto_renew p then (Inr (), d)
      else
        let attemptNo = rp_retry_count p + 1; record = renewal_record tid p;
            failed = handleRecurringPaymentFailed cfg (bv_out env 2) (bv_now env) tid (rp_plan_code p)
        in proceed (commit (bv_out env 0) (InsertPayment (bv_numeric env) record) d) (\<lambda>_ d1.
          case createYooKassaPayment env (renewal_request record) (pr_idempotence_key record) d1 of
            (Inl e, d2) \<Rightarrow>
              proceed (failed [] attemptNo (error_text e) d2) (\<lambda>_ d3. (Inl e, d3))
          | (Inr resp, d2) \<Rightarrow>
              proceed (commit (bv_out env 1) (UpdatePaymentCreated (pr_order_id record) (yp_id resp)
                  (yp_status resp) (yp_confirmation_url resp) (pm_id (yp_method resp))) d2) (\<lambda>_ d3.
                if is_paid resp
                then handlePaymentSucceeded env 2
                       (record\<lparr>pr_payment_id := yp_id resp, pr_status := yp_status resp\<rparr>)
                       (immediate_notification resp
                          (firstPaymentMethod (yp_method resp) (no_method\<lparr>pm_id := rp_method_id p\<rparr>))) d3
                else if yp_status resp = ''canceled''
                then proceed (failed (yp_id resp) attemptNo ''payment_canceled'' d3) (\<lambda>_ d4. (Inr (), d4))
                else (Inr (), d3))))"

text \<open>The loop of \<open>ProcessDueRenewals\<close>: an error is logged and the next profile is charged.\<close>

fun charge_profiles ::
    "bill_config \<Rightarrow> (int \<Rightarrow> 'w bill_env) \<Rightarrow> (int \<times> RecurringProfile) list \<Rightarrow> 'w bill_db \<Rightarrow> 'w bill_db" where
  "charge_profiles cfg envs [] d = d"
| "charge_profiles cfg envs ((tid, p) # ps) d =
     charge_profiles cfg envs ps (snd (chargeRecurringProfile cfg (envs tid) tid p d))"

text \<open>\<open>out\<close> is the outage of the claim; when its answer is lost the rows stay claimed.\<close>

definition ProcessDueRenewals ::
    "bill_config \<Rightarrow> outage \<Rightarrow> (int list \<Rightarrow> int list) \<Rightarrow> (int \<Rightarrow> bool) \<Rightarrow> (int \<Rightarrow> 'w bill_env) \<Rightarrow> time \<Rightarrow> int
      \<Rightarrow> 'w bill_db \<Rightarrow> (bill_error + unit) \<times> 'w bill_db" where
  "ProcessDueRenewals cfg out ret locked envs now limit d =
     proceed (commit out (\<lambda>d. Inr (LockDueRenewals ret locked now
         (nat (if limit \<le> 0 then 50 else limit)) d)) d)
       (\<lambda>profiles d1. (Inr (), charge_profiles cfg envs profiles d1))"

section \<open>The end of the grace period\<close>

definition expire_profile :: "time \<Rightarrow> int \<Rightarrow> RecurringProfile \<Rightarrow> 'w bill_db \<Rightarrow> 'w bill_db" where
  "expire_profile now tid p d =
     (let reason = firstNotEmpty [rp_last_failure p, ''grace_period_expired''] in
      publishBillingEventTx now (BillingAccessExpiredEvent tid reason now) (SuspendExpiredGraceTx tid reason d))"

fun expire_profiles :: "(int \<Rightarrow> outage) \<Rightarrow> time \<Rightarrow> (int \<times> RecurringProfile) list \<Rightarrow> 'w bill_db \<Rightarrow> 'w bill_db" where
  "expire_profiles outs now [] d = d"
| "expire_profiles outs now ((tid, p) # ps) d =
     expire_profiles outs now ps (snd (commit (outs tid) (\<lambda>d. Inr ((), expire_profile now tid p d)) d))"

definition ProcessExpiredGrace ::
    "outage \<Rightarrow> (int list \<Rightarrow> int list) \<Rightarrow> (int \<Rightarrow> bool) \<Rightarrow> (int \<Rightarrow> outage) \<Rightarrow> time \<Rightarrow> int
      \<Rightarrow> 'w bill_db \<Rightarrow> (bill_error + unit) \<times> 'w bill_db" where
  "ProcessExpiredGrace out ret locked outs now limit d =
     proceed (commit out (\<lambda>d. Inr (LockExpiredGraceProfiles ret locked now
         (nat (if limit \<le> 0 then 50 else limit)) d)) d)
       (\<lambda>profiles d1. (Inr (), expire_profiles outs now profiles d1))"

section \<open>Refunds\<close>

fun repeat_refunds :: "(string \<Rightarrow> 'w bill_env) \<Rightarrow> (string \<times> PendingRefund) list \<Rightarrow> 'w bill_db \<Rightarrow> 'w bill_db" where
  "repeat_refunds envs [] d = d"
| "repeat_refunds envs ((p, r) # rs) d =
     (let env = envs p in
      repeat_refunds envs rs (case createRefund env p (pf_amount r) (pf_currency r) d of
        (Inl e, d1) \<Rightarrow> snd (commit (bv_out env 0) (\<lambda>d. Inr ((), MarkRefundRetry (bv_now env) p
                          (error_text e) (pf_attempts r) d)) d1)
      | (Inr _, d1) \<Rightarrow> snd (commit (bv_out env 0) (\<lambda>d. Inr ((), MarkRefundSucceeded p d)) d1)))"

definition ProcessPendingRefunds ::
    "outage \<Rightarrow> (string list \<Rightarrow> string list) \<Rightarrow> (string \<Rightarrow> bool) \<Rightarrow> (string \<Rightarrow> 'w bill_env) \<Rightarrow> time \<Rightarrow> nat
      \<Rightarrow> 'w bill_db \<Rightarrow> (bill_error + unit) \<times> 'w bill_db" where
  "ProcessPendingRefunds out ret locked envs now limit d =
     proceed (commit out (\<lambda>d. Inr (LockDueRefunds ret locked now limit d)) d)
       (\<lambda>items d1. (Inr (), repeat_refunds envs items d1))"

end
