(* ===== verification/SubRepository.thy ===== *)
theory SubRepository
  imports SubModel
begin

text \<open>
  \<open>internal/user_subscription/repository.go\<close> and the token rotation of \<open>token_rotation.go\<close>: the
  operations on a user's subscription, each a function on the database inside a transaction.
  Every SQL statement is one update of the tables; the CASE and GREATEST expressions of the
  UPDATEs are kept in the row functions next to them.
\<close>

section \<open>Creating and reading the row of a user\<close>

definition ensureUserAndStateTx :: "int \<Rightarrow> string \<Rightarrow> sub_db \<Rightarrow> unit tx_result" where
  "ensureUserAndStateTx tid country d =
     (let country = (if country = [] then ''LT'' else country);
          d1 = d\<lparr>telegram_users := tins tid () (telegram_users d)\<rparr>
      in Inr ((), d1\<lparr>user_subscriptions := tins tid (new_sub_row country) (user_subscriptions d1)\<rparr>))"

definition shouldExpire :: "time \<Rightarrow> SubscriptionState \<Rightarrow> bool" where
  "shouldExpire now s \<longleftrightarrow>
     ((st_status s = StatusTrial \<or> st_status s = StatusActive)
        \<and> (case st_expires_at s of None \<Rightarrow> False | Some e \<Rightarrow> e \<le> now))
   \<or> (st_status s = StatusGrace \<and> (case st_grace_until s of None \<Rightarrow> False | Some g \<Rightarrow> g \<le> now))"

definition expire_sub :: "sub_row \<Rightarrow> sub_row" where
  "expire_sub r = r\<lparr>us_status := StatusExpired, us_auto_renew := False,
     us_cancel_at_period_end := True, us_access_rev := us_access_rev r + 1\<rparr>"

definition expireIfNeededTx :: "time \<Rightarrow> SubscriptionState \<Rightarrow> sub_db \<Rightarrow> SubscriptionState tx_result" where
  "expireIfNeededTx now s d =
     (if \<not> shouldExpire now s then Inr (s, d)
      else let d1 = upd_sub (st_telegram_id s) expire_sub d;
               d2 = upd_token (st_telegram_id s) (\<lambda>t. t\<lparr>tk_expires_at := Some now\<rparr>) d1
           in Inr (s\<lparr>st_status := StatusExpired, st_auto_renew := False,
                     st_cancel_at_period_end := True, st_days_left := 0,
                     st_access_rev := st_access_rev s + 1\<rparr>, d2))"

definition getStateForUpdateTx :: "time \<Rightarrow> int \<Rightarrow> sub_db \<Rightarrow> SubscriptionState tx_result" where
  "getStateForUpdateTx now tid d = (case sub_of d tid of
     None \<Rightarrow> Inl NoRows
   | Some r \<Rightarrow> expireIfNeededTx now (scanState now tid r) d)"

definition GetStatusTx :: "time \<Rightarrow> int \<Rightarrow> string \<Rightarrow> sub_db \<Rightarrow> SubscriptionState tx_result" where
  "GetStatusTx now tid country d =
     andthen (ensureUserAndStateTx tid country d) (\<lambda>_ d1. getStateForUpdateTx now tid d1)"

section \<open>The access token\<close>

definition token_taken :: "string \<Rightarrow> sub_db \<Rightarrow> bool" where
  "token_taken t d \<longleftrightarrow> list_ex (\<lambda>(_, r). tk_token r = t) (subscription_tokens d)"

definition ensureTokenTx :: "time \<Rightarrow> string \<Rightarrow> int \<Rightarrow> time option \<Rightarrow> sub_db \<Rightarrow> string tx_result" where
  "ensureTokenTx now fresh tid expiresAt d =
     (if token_of d tid = None \<and> token_taken fresh d then Inl UniqueViolation
      else if token_of d tid = None \<and> tget (telegram_users d) tid = None then Inl FkViolation
      else let d1 = d\<lparr>subscription_tokens := tins tid
                 \<lparr>tk_token = fresh, tk_expires_at = expiresAt, tk_last_issued_at = now,
                  tk_revoked_at = None, tk_rotate_reason = []\<rparr> (subscription_tokens d)\<rparr>
           in case token_of d1 tid of
                None \<Rightarrow> Inl NoRows
              | Some t \<Rightarrow> Inr (tk_token t, upd_token tid
                   (\<lambda>t. t\<lparr>tk_expires_at := expiresAt, tk_last_issued_at := now\<rparr>) d1))"

section \<open>Statements of the grants\<close>

text \<open>
  An UPDATE \<dots> RETURNING expires_at of one row, with the constraints on the columns it writes: the
  plan code references \<open>subscription_plans\<close>, a non-empty last payment is unique, the revision is
  not negative.
\<close>

definition payment_taken :: "int \<Rightarrow> string \<Rightarrow> sub_db \<Rightarrow> bool" where
  "payment_taken tid p d \<longleftrightarrow>
     p \<noteq> [] \<and> list_ex (\<lambda>(t, r). t \<noteq> tid \<and> us_last_payment_id r = Some p) (user_subscriptions d)"

definition update_returning_expiry :: "int \<Rightarrow> (sub_row \<Rightarrow> sub_row) \<Rightarrow> sub_db \<Rightarrow> time tx_result" where
  "update_returning_expiry tid f d = (case sub_of d tid of
     None \<Rightarrow> Inl NoRows
   | Some r \<Rightarrow>
       if us_access_rev (f r) < 0 then Inl CheckViolation
       else if (case us_last_payment_id (f r) of None \<Rightarrow> False | Some p \<Rightarrow> payment_taken tid p d)
         then Inl UniqueViolation
       else if (case us_plan (f r) of None \<Rightarrow> False | Some c \<Rightarrow> c \<notin> set (subscription_plans d))
         then Inl FkViolation
       else (case us_expires_at (f r) of
               None \<Rightarrow> Inl NullScan
             | Some e \<Rightarrow> Inr (e, upd_sub tid f d)))"

text \<open>INSERT INTO subscription_grants \<dots> ON CONFLICT DO NOTHING; the value is \<open>RowsAffected() \<noteq> 0\<close>.\<close>

definition insert_grant :: "int \<Rightarrow> grant_source \<Rightarrow> string \<Rightarrow> grant_row \<Rightarrow> sub_db \<Rightarrow> bool tx_result" where
  "insert_grant tid src key g d =
     (if gr_duration_days g \<le> 0 \<or> gr_effective_until g \<le> gr_effective_from g then Inl CheckViolation
      else Inr (tget (subscription_grants d) (tid, src, key) = None,
                d\<lparr>subscription_grants := tins (tid, src, key) g (subscription_grants d)\<rparr>))"

section \<open>The trial\<close>

definition trial_update :: "time \<Rightarrow> int \<Rightarrow> bool \<Rightarrow> sub_row \<Rightarrow> sub_row" where
  "trial_update now trialDays paidActive r = r\<lparr>
     us_status := (if paidActive then StatusActive else StatusTrial),
     us_plan := (if paidActive then us_plan r else Some TrialPlanCode),
     us_trial_used := True,
     us_started_at := (case us_started_at r of None \<Rightarrow> Some now | Some t \<Rightarrow> Some t),
     us_expires_at := Some (greatest_now (us_expires_at r) now + days trialDays),
     us_grace_until := None,
     us_canceled_at := (if paidActive then us_canceled_at r else None),
     us_last_payment_id := (if paidActive then us_last_payment_id r else None),
     us_auto_renew := (if paidActive then us_auto_renew r else False),
     us_cancel_at_period_end := (if paidActive then us_cancel_at_period_end r else False),
     us_access_rev := us_access_rev r + 1\<rparr>"

definition trial_result ::
    "SubscriptionState \<Rightarrow> TrialGrantOutcome \<Rightarrow> int \<Rightarrow> bool \<Rightarrow> TrialGrantResult" where
  "trial_result s outcome trialDays paidBefore = \<lparr>tr_state = s, tr_outcome = outcome,
     tr_trial_days = trialDays, tr_paid_active_before = paidBefore\<rparr>"

definition StartTrialTx ::
    "time \<Rightarrow> string \<Rightarrow> int \<Rightarrow> string \<Rightarrow> int \<Rightarrow> sub_db \<Rightarrow> TrialGrantResult tx_result" where
  "StartTrialTx now fresh tid country trialDays d =
     (if trialDays \<le> 0 then Inl (Refused ''start trial tx: non-positive trial days'')
      else andthen (ensureUserAndStateTx tid country d) (\<lambda>_ d1.
        andthen (getStateForUpdateTx now tid d1) (\<lambda>s d2.
          if st_trial_used s then
            Inr (trial_result s TrialAlreadyUsed trialDays (st_status s = StatusActive), d2)
          else if st_status s = StatusGrace then
            Inr (trial_result s TrialDeferredGrace trialDays True, d2)
          else
            let paidActive = (st_status s = StatusActive
                  \<and> (case st_expires_at s of None \<Rightarrow> False | Some e \<Rightarrow> now < e))
            in andthen (update_returning_expiry tid (trial_update now trialDays paidActive) d2)
                 (\<lambda>newExpiresAt d3.
               andthen (insert_grant tid GrantTrial ''trial''
                   \<lparr>gr_duration_days = trialDays, gr_effective_from = now,
                    gr_effective_until = newExpiresAt, gr_granted_at = now\<rparr> d3) (\<lambda>inserted d4.
                 if \<not> inserted then Inl (Refused ''trial grant already recorded: refusing to grant twice'')
                 else andthen (ensureTokenTx now fresh tid (Some newExpiresAt) d4) (\<lambda>_ d5.
                   andthen (getStateForUpdateTx now tid d5) (\<lambda>s' d6.
                     Inr (trial_result s' (if paidActive then TrialGrantedOnTopOfPaid else TrialGranted)
                            trialDays paidActive, d6))))))))"

section \<open>Payments\<close>

definition paid_update :: "time \<Rightarrow> string \<Rightarrow> int \<Rightarrow> string \<Rightarrow> bool \<Rightarrow> sub_row \<Rightarrow> sub_row" where
  "paid_update now planCode durationDays paymentID autoRenew r = r\<lparr>
     us_status := StatusActive,
     us_plan := Some planCode,
     us_started_at := (case us_started_at r of None \<Rightarrow> Some now | Some t \<Rightarrow> Some t),
     us_expires_at := Some (greatest_now (us_expires_at r) now + days durationDays),
     us_grace_until := None,
     us_canceled_at := None,
     us_last_payment_id := Some paymentID,
     us_auto_renew := us_auto_renew r \<or> autoRenew,
     us_cancel_at_period_end := (if autoRenew then False else us_cancel_at_period_end r),
     us_access_rev := us_access_rev r + 1\<rparr>"

text \<open>
  The value is the state and \<open>applied\<close>. The payment is looked for in three places: the inbox, the
  row's last payment and the ledger of grants.
\<close>

definition payment_key :: "string \<Rightarrow> string" where
  "payment_key paymentID = ''payment:'' @ paymentID"

definition insert_payment_message :: "time \<Rightarrow> string \<Rightarrow> sub_db \<Rightarrow> bool tx_result" where
  "insert_payment_message now paymentID d =
     Inr (tget (processed_messages d) (payment_key paymentID) = None,
          d\<lparr>processed_messages := tins (payment_key paymentID)
              \<lparr>ib_source = ''billing-service'', ib_message_type = ''billing.payment_succeeded'',
               ib_processed_at = now\<rparr> (processed_messages d)\<rparr>)"

definition ActivatePaidTx ::
    "time \<Rightarrow> string \<Rightarrow> int \<Rightarrow> string \<Rightarrow> string \<Rightarrow> int \<Rightarrow> string \<Rightarrow> bool \<Rightarrow> sub_db
      \<Rightarrow> (SubscriptionState \<times> bool) tx_result" where
  "ActivatePaidTx now fresh tid country planCode durationDays paymentID autoRenew d =
     andthen (ensureUserAndStateTx tid country d) (\<lambda>_ d1.
     andthen (getStateForUpdateTx now tid d1) (\<lambda>s d2.
     andthen (if paymentID \<noteq> [] then insert_payment_message now paymentID d2 else Inr (True, d2))
       (\<lambda>inserted d3.
        if \<not> inserted then Inr ((s, False), d3)
        else if paymentID \<noteq> [] \<and> st_last_payment_id s = paymentID then Inr ((s, False), d3)
        else if durationDays \<le> 0 then Inl (Refused ''activate paid tx: non-positive duration'')
        else andthen (if paymentID \<noteq> []
            then insert_grant tid GrantPaid paymentID
              \<lparr>gr_duration_days = durationDays, gr_effective_from = now,
               gr_effective_until = now + days durationDays, gr_granted_at = now\<rparr> d3
            else Inr (True, d3)) (\<lambda>recorded d4.
          if \<not> recorded then Inr ((s, False), d4)
          else andthen (update_returning_expiry tid
              (paid_update now planCode durationDays paymentID autoRenew) d4) (\<lambda>newExpiresAt d5.
            andthen (ensureTokenTx now fresh tid (Some newExpiresAt) d5) (\<lambda>_ d6.
            andthen (getStateForUpdateTx now tid d6) (\<lambda>s' d7. Inr ((s', True), d7))))))))"

section \<open>Cancellation, auto-renewal, grace, suspension\<close>

definition cancel_trial_update :: "time \<Rightarrow> sub_row \<Rightarrow> sub_row" where
  "cancel_trial_update now r = r\<lparr>us_status := StatusExpired, us_expires_at := Some now,
     us_grace_until := None, us_canceled_at := Some now, us_auto_renew := False,
     us_cancel_at_period_end := True, us_access_rev := us_access_rev r + 1\<rparr>"

definition cancel_paid_update :: "time \<Rightarrow> sub_row \<Rightarrow> sub_row" where
  "cancel_paid_update now r =
     r\<lparr>us_auto_renew := False, us_cancel_at_period_end := True, us_canceled_at := Some now\<rparr>"

definition CancelTx :: "time \<Rightarrow> int \<Rightarrow> string \<Rightarrow> sub_db \<Rightarrow> (SubscriptionState \<times> bool) tx_result" where
  "CancelTx now tid country d =
     andthen (ensureUserAndStateTx tid country d) (\<lambda>_ d1.
     andthen (getStateForUpdateTx now tid d1) (\<lambda>s d2.
       if st_status s \<noteq> StatusTrial \<and> st_status s \<noteq> StatusActive \<and> st_status s \<noteq> StatusGrace
       then Inr ((s, False), d2)
       else
         let d3 = (if st_status s = StatusTrial
               then upd_token tid (\<lambda>t. t\<lparr>tk_expires_at := Some now\<rparr>)
                      (upd_sub tid (cancel_trial_update now) d2)
               else upd_sub tid (cancel_paid_update now) d2)
         in andthen (getStateForUpdateTx now tid d3) (\<lambda>s' d4. Inr ((s', True), d4))))"

definition auto_renew_off :: "sub_row \<Rightarrow> sub_row" where
  "auto_renew_off r = r\<lparr>us_auto_renew := False,
     us_cancel_at_period_end := (if us_status r = StatusActive \<or> us_status r = StatusGrace
       then True else us_cancel_at_period_end r)\<rparr>"

definition MarkAutoRenewDisabledTx :: "time \<Rightarrow> int \<Rightarrow> string \<Rightarrow> sub_db \<Rightarrow> SubscriptionState tx_result" where
  "MarkAutoRenewDisabledTx now tid country d =
     andthen (ensureUserAndStateTx tid country d)
       (\<lambda>_ d1. getStateForUpdateTx now tid (upd_sub tid auto_renew_off d1))"

definition grace_update :: "time \<Rightarrow> sub_row \<Rightarrow> sub_row" where
  "grace_update graceUntil r =
     (if us_status r = StatusActive \<or> us_status r = StatusGrace
      then r\<lparr>us_status := StatusGrace, us_grace_until := Some graceUntil\<rparr> else r)"

definition MarkGraceStartedTx :: "time \<Rightarrow> int \<Rightarrow> string \<Rightarrow> time \<Rightarrow> sub_db \<Rightarrow> SubscriptionState tx_result" where
  "MarkGraceStartedTx now tid country graceUntil d =
     andthen (ensureUserAndStateTx tid country d)
       (\<lambda>_ d1. getStateForUpdateTx now tid (upd_sub tid (grace_update graceUntil) d1))"

definition suspend_update :: "time \<Rightarrow> sub_row \<Rightarrow> sub_row" where
  "suspend_update now r = r\<lparr>us_status := StatusExpired,
     us_expires_at := (case us_expires_at r of None \<Rightarrow> Some now
       | Some e \<Rightarrow> if now < e then Some now else Some e),
     us_grace_until := None, us_auto_renew := False, us_cancel_at_period_end := True,
     us_access_rev := us_access_rev r + 1\<rparr>"

definition MarkSuspendedTx :: "time \<Rightarrow> int \<Rightarrow> string \<Rightarrow> sub_db \<Rightarrow> SubscriptionState tx_result" where
  "MarkSuspendedTx now tid country d =
     andthen (ensureUserAndStateTx tid country d) (\<lambda>_ d1.
       getStateForUpdateTx now tid
         (upd_token tid (\<lambda>t. t\<lparr>tk_expires_at := Some now\<rparr>) (upd_sub tid (suspend_update now) d1)))"

section \<open>The sweep's query\<close>

definition lapsed :: "time \<Rightarrow> duration \<Rightarrow> duration \<Rightarrow> sub_row \<Rightarrow> bool" where
  "lapsed now plainMargin renewMargin r \<longleftrightarrow>
     ((us_status r = StatusTrial \<or> us_status r = StatusActive)
        \<and> (case us_expires_at r of None \<Rightarrow> False
           | Some e \<Rightarrow> e \<le> now - (if us_auto_renew r then renewMargin else plainMargin)))
   \<or> (us_status r = StatusGrace
        \<and> (case us_grace_until r of None \<Rightarrow> False | Some g \<Rightarrow> g \<le> now - plainMargin))"

text \<open>ORDER BY expires_at NULLS LAST\<close>

definition order_by_expiry :: "(int, sub_row) table \<Rightarrow> (int, sub_row) table" where
  "order_by_expiry t =
     sort_key (\<lambda>(_, r). case us_expires_at r of None \<Rightarrow> 0 | Some e \<Rightarrow> e)
       (filter (\<lambda>(_, r). us_expires_at r \<noteq> None) t)
     @ filter (\<lambda>(_, r). us_expires_at r = None) t"

record ExpiredCandidate =
  ec_telegram_id :: int
  ec_status :: SubscriptionStatus

text \<open>\<open>locked\<close> are the rows SKIP LOCKED passes over.\<close>

definition FindExpiredForSweep ::
    "(int \<Rightarrow> bool) \<Rightarrow> time \<Rightarrow> duration \<Rightarrow> duration \<Rightarrow> int \<Rightarrow> sub_db \<Rightarrow> ExpiredCandidate list" where
  "FindExpiredForSweep locked now plainMargin renewMargin limit d =
     (let limit = (if limit \<le> 0 then 200 else limit)
      in map (\<lambda>(tid, r). \<lparr>ec_telegram_id = tid, ec_status = us_status r\<rparr>)
           (take (nat limit) (filter (\<lambda>(tid, r). lapsed now plainMargin renewMargin r \<and> \<not> locked tid)
              (order_by_expiry (user_subscriptions d)))))"

section \<open>Token rotation (token_rotation.go)\<close>

definition rotate_token_row :: "time \<Rightarrow> string \<Rightarrow> string \<Rightarrow> time option \<Rightarrow> token_row \<Rightarrow> token_row" where
  "rotate_token_row now newToken reason expiresAt t = t\<lparr>tk_token := newToken, tk_revoked_at := None,
     tk_rotate_reason := reason, tk_last_issued_at := now, tk_expires_at := expiresAt\<rparr>"

text \<open>The value is the new token with its expiry, or None for \<open>ok=false\<close>.\<close>

definition RotateSubscriptionTokenTx ::
    "time \<Rightarrow> string \<Rightarrow> string \<Rightarrow> int \<Rightarrow> string \<Rightarrow> sub_db \<Rightarrow> (string \<times> time option) option tx_result" where
  "RotateSubscriptionTokenTx now fresh fresh2 tid reason d =
     andthen (getStateForUpdateTx now tid d) (\<lambda>s d1.
       if (case st_expires_at s of None \<Rightarrow> True | Some e \<Rightarrow> e \<le> now) then Inr (None, d1)
       else if st_status s \<noteq> StatusTrial \<and> st_status s \<noteq> StatusActive \<and> st_status s \<noteq> StatusGrace
       then Inr (None, d1)
       else
         andthen (case token_of d1 tid of
             Some _ \<Rightarrow>
               if list_ex (\<lambda>(t, r). t \<noteq> tid \<and> tk_token r = fresh) (subscription_tokens d1)
               then Inl UniqueViolation
               else Inr (fresh, upd_token tid (rotate_token_row now fresh reason (st_expires_at s)) d1)
           | None \<Rightarrow>
               andthen (ensureTokenTx now fresh2 tid (st_expires_at s) d1) (\<lambda>_ d2.
                 case token_of d2 tid of
                   None \<Rightarrow> Inl NoRows
                 | Some t \<Rightarrow> Inr (tk_token t, d2)))
           (\<lambda>newToken d3. Inr (Some (newToken, st_expires_at s),
              upd_sub tid (\<lambda>r. r\<lparr>us_access_rev := us_access_rev r + 1\<rparr>) d3)))"

end
