(* ===== verification/Referral.thy ===== *)
theory Referral
  imports SubRepository "HOL-Library.Word"
begin

unbundle bit_operations_syntax

text \<open>
  \<open>internal/user_subscription/referral_repository.go\<close>: referral codes, the attribution of an
  invited user, its conversion, and the redemption of free months. Random draws are parameters.
\<close>

section \<open>Codes\<close>

definition referralCodeAlphabet :: string where
  "referralCodeAlphabet = ''abcdefghjkmnpqrstuvwxyz23456789''"

definition referralCodeLength :: nat where "referralCodeLength = 8"

text \<open>\<open>draws\<close> are the values of \<open>rand.Int(rand.Reader, len(alphabet))\<close>; None when it fails.\<close>

fun generate_from :: "nat \<Rightarrow> nat option list \<Rightarrow> string option" where
  "generate_from 0 draws = Some []"
| "generate_from (Suc n) [] = None"
| "generate_from (Suc n) (None # draws) = None"
| "generate_from (Suc n) (Some i # draws) =
     map_option (Cons (referralCodeAlphabet ! (i mod length referralCodeAlphabet))) (generate_from n draws)"

definition generateReferralCode :: "nat option list \<Rightarrow> string option" where
  "generateReferralCode draws = generate_from referralCodeLength draws"

definition code_taken :: "string \<Rightarrow> sub_db \<Rightarrow> bool" where
  "code_taken c d \<longleftrightarrow> list_ex (\<lambda>(_, c'). c' = c) (referral_codes d)"

text \<open>
  The loop of \<open>EnsureReferralCode\<close> over the draws of its attempts. An attempt fails on the unique
  index when another user has the code.
\<close>

fun allocate_code :: "int \<Rightarrow> nat option list list \<Rightarrow> sub_db \<Rightarrow> string tx_result" where
  "allocate_code tid [] d = Inl (Refused ''failed to allocate unique referral code'')"
| "allocate_code tid (draws # rest) d =
     (case generateReferralCode draws of
        None \<Rightarrow> Inl (Refused ''rand'')
      | Some c \<Rightarrow>
          if tget (referral_codes d) tid = None \<and> code_taken c d then allocate_code tid rest d
          else let d' = d\<lparr>referral_codes := tins tid c (referral_codes d)\<rparr>
               in case tget (referral_codes d') tid of
                    None \<Rightarrow> Inl NoRows
                  | Some stored \<Rightarrow> Inr (stored, d'))"

definition EnsureReferralCode :: "nat option list list \<Rightarrow> int \<Rightarrow> sub_db \<Rightarrow> string tx_result" where
  "EnsureReferralCode attempts tid d = (case tget (referral_codes d) tid of
     Some c \<Rightarrow> Inr (c, d)
   | None \<Rightarrow> allocate_code tid (take 5 attempts) d)"

section \<open>Attribution and conversion\<close>

definition owner_of_code :: "string \<Rightarrow> sub_db \<Rightarrow> int option" where
  "owner_of_code c d = map_option fst (find (\<lambda>(_, c'). c' = c) (referral_codes d))"

definition AttributeReferral :: "int \<Rightarrow> string \<Rightarrow> sub_db \<Rightarrow> (int \<times> bool) tx_result" where
  "AttributeReferral referee code d = (case owner_of_code code d of
     None \<Rightarrow> Inr ((0, False), d)
   | Some referrer \<Rightarrow>
       if referrer = referee then Inr ((0, False), d)
       else Inr ((referrer, tget (referrals d) referee = None),
                 d\<lparr>referrals := tins referee
                     \<lparr>rf_referrer = referrer, rf_status = RefPending, rf_converted_at = None\<rparr>
                     (referrals d)\<rparr>))"

definition MarkReferralConvertedTx :: "time \<Rightarrow> int \<Rightarrow> sub_db \<Rightarrow> (int \<times> bool) tx_result" where
  "MarkReferralConvertedTx now referee d = (case tget (referrals d) referee of
     None \<Rightarrow> Inr ((0, False), d)
   | Some r \<Rightarrow>
       if rf_status r = RefPending
       then Inr ((rf_referrer r, True), d\<lparr>referrals := tupd referee
              (\<lambda>r. r\<lparr>rf_status := RefConverted, rf_converted_at := Some now\<rparr>) (referrals d)\<rparr>)
       else Inr ((0, False), d))"

section \<open>Free months\<close>

definition CountConvertedReferrals :: "int \<Rightarrow> sub_db \<Rightarrow> int" where
  "CountConvertedReferrals tid d =
     int (length (filter (\<lambda>(_, r). rf_referrer r = tid \<and> rf_status r = RefConverted) (referrals d)))"

definition SumGrantedMonths :: "int \<Rightarrow> sub_db \<Rightarrow> int" where
  "SumGrantedMonths tid d =
     sum_list (map rw_months (filter (\<lambda>w. rw_referrer w = tid) (referral_reward_grants d)))"

definition redeem_update :: "time \<Rightarrow> int \<Rightarrow> sub_row \<Rightarrow> sub_row" where
  "redeem_update now addDays r = r\<lparr>
     us_expires_at := Some (greatest_now (us_expires_at r) now + days addDays),
     us_status := (if us_status r = StatusExpired \<or> us_status r = StatusNone then StatusActive
                   else us_status r),
     us_access_rev := us_access_rev r + 1\<rparr>"

text \<open>
  The advisory lock on \<open>referralRedeemLockKey\<close> keeps two redemptions of one user apart, so the
  counts are those of the state the transaction runs in.
\<close>

definition RedeemReferralMonthsTx ::
    "time \<Rightarrow> int \<Rightarrow> string \<Rightarrow> int \<Rightarrow> int \<Rightarrow> sub_db \<Rightarrow> (int \<times> time option) tx_result" where
  "RedeemReferralMonthsTx now tid country usersPerMonth daysPerMonth d =
     (let usersPerMonth = (if usersPerMonth \<le> 0 then 1 else usersPerMonth);
          daysPerMonth = (if daysPerMonth \<le> 0 then 30 else daysPerMonth);
          converted = CountConvertedReferrals tid d;
          granted = SumGrantedMonths tid d;
          available = converted div usersPerMonth - granted
      in if available \<le> 0 then Inr ((0, None), d)
         else andthen (ensureUserAndStateTx tid country d) (\<lambda>_ d1.
           andthen (update_returning_expiry tid (redeem_update now (available * daysPerMonth)) d1)
             (\<lambda>newExpiresAt d2.
               Inr ((available, Some newExpiresAt),
                    d2\<lparr>referral_reward_grants := referral_reward_grants d2
                          @ [\<lparr>rw_referrer = tid, rw_months = available\<rparr>]\<rparr>))))"

definition referralRedeemLockKey :: "64 word \<Rightarrow> 64 word" where
  "referralRedeemLockKey telegramID = 0x5245460000000000 OR (telegramID AND 0x00000000FFFFFFFF)"

end
