(* ===== verification/SubInvariant.thy ===== *)
theory SubInvariant
  imports Referral
begin

text \<open>
  What holds of the subscription tables in every reachable state (\<open>sub_inv\<close>), how they may change
  over time (\<open>evolves\<close>), and the lemmas that every operation of the repository keeps both: the
  ledger of grants and the used trials only grow, access revisions do not go down, and a referral
  keeps its referrer. The two are the contract \<open>history\<close> of the prelude.
\<close>

section \<open>The invariant\<close>

definition row_ok :: "sub_row \<Rightarrow> bool" where
  "row_ok r \<longleftrightarrow>
     (us_status r \<in> {StatusTrial, StatusActive, StatusGrace} \<longrightarrow> us_expires_at r \<noteq> None)
   \<and> (us_status r = StatusGrace \<longrightarrow> us_grace_until r \<noteq> None)
   \<and> (us_auto_renew r \<longrightarrow> us_status r \<in> {StatusActive, StatusGrace})
   \<and> 0 \<le> us_access_rev r"

definition trial_recorded :: "sub_db \<Rightarrow> int \<Rightarrow> bool" where
  "trial_recorded d tid \<longleftrightarrow> tget (subscription_grants d) (tid, GrantTrial, ''trial'') \<noteq> None"

definition payment_recorded :: "sub_db \<Rightarrow> int \<Rightarrow> string \<Rightarrow> bool" where
  "payment_recorded d tid p \<longleftrightarrow> tget (subscription_grants d) (tid, GrantPaid, p) \<noteq> None"

definition row_inv :: "sub_db \<Rightarrow> int \<Rightarrow> sub_row \<Rightarrow> bool" where
  "row_inv d tid r \<longleftrightarrow> row_ok r
     \<and> us_trial_used r = trial_recorded d tid
     \<and> (\<forall>p. us_last_payment_id r = Some p \<longrightarrow> p = [] \<or> payment_recorded d tid p)
     \<and> (\<forall>c. us_plan r = Some c \<longrightarrow> c \<in> set (subscription_plans d))
     \<and> tget (telegram_users d) tid \<noteq> None"

definition payments_unique :: "sub_db \<Rightarrow> bool" where
  "payments_unique d \<longleftrightarrow> (\<forall>t t' r r' p. sub_of d t = Some r \<longrightarrow> sub_of d t' = Some r' \<longrightarrow>
     us_last_payment_id r = Some p \<longrightarrow> us_last_payment_id r' = Some p \<longrightarrow> p = [] \<or> t = t')"

definition tokens_unique :: "sub_db \<Rightarrow> bool" where
  "tokens_unique d \<longleftrightarrow> (\<forall>t t' k k'. token_of d t = Some k \<longrightarrow> token_of d t' = Some k' \<longrightarrow>
     tk_token k = tk_token k' \<longrightarrow> t = t')"

definition sub_inv :: "sub_db \<Rightarrow> bool" where
  "sub_inv d \<longleftrightarrow>
     twf (user_subscriptions d) \<and> twf (subscription_tokens d) \<and> twf (subscription_grants d)
   \<and> twf (referrals d) \<and> payments_unique d \<and> tokens_unique d
   \<and> TrialPlanCode \<in> set (subscription_plans d)
   \<and> (\<forall>tid r. sub_of d tid = Some r \<longrightarrow> row_inv d tid r)
   \<and> (\<forall>tid. trial_recorded d tid \<longrightarrow> sub_of d tid \<noteq> None)
   \<and> (\<forall>tid t. token_of d tid = Some t \<longrightarrow> tget (telegram_users d) tid \<noteq> None)
   \<and> (\<forall>k g. tget (subscription_grants d) k = Some g \<longrightarrow>
        0 < gr_duration_days g \<and> gr_effective_from g < gr_effective_until g)
   \<and> (\<forall>tid r. tget (referrals d) tid = Some r \<longrightarrow> rf_referrer r \<noteq> tid)
   \<and> (\<forall>w \<in> set (referral_reward_grants d). 0 < rw_months w)"

definition evolves :: "sub_db \<Rightarrow> sub_db \<Rightarrow> bool" where
  "evolves d d' \<longleftrightarrow>
     (\<forall>k g. tget (subscription_grants d) k = Some g \<longrightarrow> tget (subscription_grants d') k = Some g)
   \<and> (\<forall>tid r. sub_of d tid = Some r \<longrightarrow> (\<exists>r'. sub_of d' tid = Some r'
        \<and> us_access_rev r \<le> us_access_rev r' \<and> (us_trial_used r \<longrightarrow> us_trial_used r')))
   \<and> (\<forall>tid r. tget (referrals d) tid = Some r \<longrightarrow> (\<exists>r'. tget (referrals d') tid = Some r'
        \<and> rf_referrer r' = rf_referrer r \<and> (rf_status r = RefConverted \<longrightarrow> r' = r)))
   \<and> (\<exists>ws. referral_reward_grants d' = referral_reward_grants d @ ws)
   \<and> (\<forall>tid c. tget (referral_codes d) tid = Some c \<longrightarrow> tget (referral_codes d') tid = Some c)
   \<and> subscription_plans d' = subscription_plans d"

lemma evolves_refl [simp]: "evolves d d"
  by (simp add: evolves_def)

lemma evolves_trans: "evolves d1 d2 \<Longrightarrow> evolves d2 d3 \<Longrightarrow> evolves d1 d3"
proof -
  assume 12: "evolves d1 d2" and 23: "evolves d2 d3"
  have ws: "\<exists>ws. referral_reward_grants d3 = referral_reward_grants d1 @ ws"
    using 12 23 unfolding evolves_def by (metis append.assoc)
  have subs: "\<exists>r'. sub_of d3 tid = Some r' \<and> us_access_rev r \<le> us_access_rev r'
      \<and> (us_trial_used r \<longrightarrow> us_trial_used r')" if "sub_of d1 tid = Some r" for tid r
    using 12 23 that unfolding evolves_def by (meson order_trans)
  have refs: "\<exists>r'. tget (referrals d3) tid = Some r' \<and> rf_referrer r' = rf_referrer r
      \<and> (rf_status r = RefConverted \<longrightarrow> r' = r)" if "tget (referrals d1) tid = Some r" for tid r
    using 12 23 that unfolding evolves_def by metis
  show ?thesis
    using 12 23 ws subs refs unfolding evolves_def by simp
qed

interpretation sub: history sub_inv evolves
  by unfold_locales (auto intro: evolves_trans)

abbreviation keeps_sub :: "sub_db \<Rightarrow> 'e + ('a \<times> sub_db) \<Rightarrow> bool" where
  "keeps_sub \<equiv> keeps_tx sub_inv evolves"

section \<open>Reading the invariant\<close>

lemma sub_invD:
  assumes "sub_inv d"
  shows "twf (user_subscriptions d)" and "twf (subscription_tokens d)"
    and "twf (subscription_grants d)" and "twf (referrals d)"
    and "TrialPlanCode \<in> set (subscription_plans d)"
    and "sub_of d tid = Some r \<Longrightarrow> row_inv d tid r"
    and "trial_recorded d tid \<Longrightarrow> sub_of d tid \<noteq> None"
    and "token_of d tid = Some t \<Longrightarrow> tget (telegram_users d) tid \<noteq> None"
    and "tget (subscription_grants d) k = Some g \<Longrightarrow>
           0 < gr_duration_days g \<and> gr_effective_from g < gr_effective_until g"
    and "w \<in> set (referral_reward_grants d) \<Longrightarrow> 0 < rw_months w"
    and "payments_unique d" and "tokens_unique d"
  using assms unfolding sub_inv_def by blast+

lemma sub_invI:
  assumes "twf (user_subscriptions d)" "twf (subscription_tokens d)" "twf (subscription_grants d)"
    "twf (referrals d)" "TrialPlanCode \<in> set (subscription_plans d)"
    and "\<And>tid r. sub_of d tid = Some r \<Longrightarrow> row_inv d tid r"
    and "\<And>tid. trial_recorded d tid \<Longrightarrow> sub_of d tid \<noteq> None"
    and "\<And>tid t. token_of d tid = Some t \<Longrightarrow> tget (telegram_users d) tid \<noteq> None"
    and "\<And>k g. tget (subscription_grants d) k = Some g \<Longrightarrow>
           0 < gr_duration_days g \<and> gr_effective_from g < gr_effective_until g"
    and "\<And>tid r. tget (referrals d) tid = Some r \<Longrightarrow> rf_referrer r \<noteq> tid"
    and "\<And>w. w \<in> set (referral_reward_grants d) \<Longrightarrow> 0 < rw_months w"
    and "payments_unique d" and "tokens_unique d"
  shows "sub_inv d"
  using assms unfolding sub_inv_def by blast

lemma sub_inv_referrer: "sub_inv d \<Longrightarrow> tget (referrals d) tid = Some r \<Longrightarrow> rf_referrer r \<noteq> tid"
  unfolding sub_inv_def by blast

lemma sub_inv_row: "sub_inv d \<Longrightarrow> sub_of d tid = Some r \<Longrightarrow> row_ok r"
  using sub_invD(6) [of d tid r] by (simp add: row_inv_def)

lemma sub_inv_trial: "sub_inv d \<Longrightarrow> sub_of d tid = Some r \<Longrightarrow> us_trial_used r = trial_recorded d tid"
  using sub_invD(6) [of d tid r] by (simp add: row_inv_def)

lemma sub_inv_user: "sub_inv d \<Longrightarrow> sub_of d tid = Some r \<Longrightarrow> tget (telegram_users d) tid \<noteq> None"
  using sub_invD(6) [of d tid r] by (simp add: row_inv_def)

section \<open>The writes\<close>

text \<open>Parts of the database the invariant and the history do not look at.\<close>

lemma sub_inv_cong:
  assumes "user_subscriptions d' = user_subscriptions d" "subscription_tokens d' = subscription_tokens d"
    "subscription_grants d' = subscription_grants d" "referrals d' = referrals d"
    "subscription_plans d' = subscription_plans d" "telegram_users d' = telegram_users d"
    "referral_reward_grants d' = referral_reward_grants d" "referral_codes d' = referral_codes d"
  shows "sub_inv d' = sub_inv d" and "evolves d d'"
  using assms
  by (simp_all add: sub_inv_def evolves_def row_inv_def trial_recorded_def payment_recorded_def
      sub_of_def token_of_def payments_unique_def tokens_unique_def)

text \<open>One row of \<open>user_subscriptions\<close>.\<close>

lemma trial_recorded_upd [simp]:
  "trial_recorded (upd_sub tid f d) = trial_recorded d" "payment_recorded (upd_sub tid f d) = payment_recorded d"
  "trial_recorded (upd_token tid h d) = trial_recorded d" "payment_recorded (upd_token tid h d) = payment_recorded d"
  by (simp_all add: fun_eq_iff trial_recorded_def payment_recorded_def)

lemma row_inv_upd [simp]:
  "row_inv (upd_sub tid f d) = row_inv d" "row_inv (upd_token tid h d) = row_inv d"
  by (simp_all add: fun_eq_iff row_inv_def)

text \<open>The last payment of a row is kept, cleared, or one no other row has.\<close>

definition last_payment_ok :: "sub_db \<Rightarrow> int \<Rightarrow> sub_row \<Rightarrow> sub_row \<Rightarrow> bool" where
  "last_payment_ok d tid r r' \<longleftrightarrow> us_last_payment_id r' = us_last_payment_id r
     \<or> us_last_payment_id r' = None
     \<or> (\<exists>p. us_last_payment_id r' = Some p \<and> \<not> payment_taken tid p d)"

lemma last_payment_same [simp]: "us_last_payment_id r' = us_last_payment_id r \<Longrightarrow> last_payment_ok d tid r r'"
  by (simp add: last_payment_ok_def)

lemma payment_taken_iff:
  "twf (user_subscriptions d) \<Longrightarrow> payment_taken tid p d \<longleftrightarrow>
     p \<noteq> [] \<and> (\<exists>t r. t \<noteq> tid \<and> sub_of d t = Some r \<and> us_last_payment_id r = Some p)"
  by (force simp: payment_taken_def list_ex_iff sub_of_def tget_in_set split_beta)

lemma payments_unique_upd:
  assumes "twf (user_subscriptions d)" and uniq: "payments_unique d"
    and "\<And>t. t \<noteq> tid \<Longrightarrow> sub_of d' t = sub_of d t"
    and "sub_of d tid = Some r" and "sub_of d' tid = Some r'" and ok: "last_payment_ok d tid r r'"
  shows "payments_unique d'"
unfolding payments_unique_def
proof (intro allI impI)
  fix t1 t2 r1 r2 p
  assume h: "sub_of d' t1 = Some r1" "sub_of d' t2 = Some r2" "us_last_payment_id r1 = Some p"
    "us_last_payment_id r2 = Some p"
  have before: "\<exists>r0. sub_of d t = Some r0 \<and> us_last_payment_id r0 = Some p"
    if "sub_of d' t = Some r0'" "us_last_payment_id r0' = Some p" "t \<noteq> tid" for t r0'
    using that assms(3) by auto
  have mine: "(\<exists>r0. sub_of d tid = Some r0 \<and> us_last_payment_id r0 = Some p) \<or> \<not> payment_taken tid p d"
    if "sub_of d' tid = Some r0'" "us_last_payment_id r0' = Some p" for r0'
    using that assms(4,5) ok by (auto simp: last_payment_ok_def)
  show "p = [] \<or> t1 = t2"
    using h before mine uniq unfolding payments_unique_def payment_taken_iff [OF assms(1)] by metis
qed

lemma tokens_unique_upd [simp]: "tokens_unique (upd_sub tid f d) = tokens_unique d"
  by (simp add: tokens_unique_def)

lemma keeps_upd_sub:
  assumes "\<And>r. sub_inv d \<Longrightarrow> sub_of d tid = Some r \<Longrightarrow> row_inv d tid r \<Longrightarrow>
      row_inv d tid (f r) \<and> us_access_rev r \<le> us_access_rev (f r)"
    and "\<And>r. sub_of d tid = Some r \<Longrightarrow> last_payment_ok d tid r (f r)"
  shows "keeps_sub d (Inr (a, upd_sub tid f d))"
proof -
  have "sub_inv (upd_sub tid f d) \<and> evolves d (upd_sub tid f d)" if inv: "sub_inv d"
  proof
    have row: "row_inv d tid (f r) \<and> us_access_rev r \<le> us_access_rev (f r)"
      if "sub_of d tid = Some r" for r
      using assms(1) [OF inv that] sub_invD(6) [OF inv that] by simp
    have "payments_unique (upd_sub tid f d)"
    proof (cases "sub_of d tid")
      case None
      then show ?thesis using sub_invD(11) [OF inv] by (auto simp: payments_unique_def)
    next
      case (Some r)
      with assms(2) [OF Some] show ?thesis
        by (intro payments_unique_upd [OF sub_invD(1,11) [OF inv], of tid]) auto
    qed
    then show "sub_inv (upd_sub tid f d)"
      using inv row unfolding sub_inv_def
      by (auto simp: upd_sub_def [THEN arg_cong [where f = user_subscriptions]])
    show "evolves d (upd_sub tid f d)"
      using row sub_inv_trial [OF inv] by (auto simp: evolves_def row_inv_def)
  qed
  then show ?thesis by simp
qed

text \<open>A token row keeps its token, or gets one that no other row has.\<close>

lemma tokens_unique_upd_token:
  assumes "tokens_unique d"
    and "\<And>k. token_of d tid = Some k \<Longrightarrow> tk_token (f k) = tk_token k
           \<or> (\<forall>t k'. t \<noteq> tid \<longrightarrow> token_of d t = Some k' \<longrightarrow> tk_token k' \<noteq> tk_token (f k))"
  shows "tokens_unique (upd_token tid f d)"
  using assms unfolding tokens_unique_def by (auto split: if_splits) metis+

lemma keeps_upd_token:
  assumes "\<And>k. token_of d tid = Some k \<Longrightarrow> tk_token (f k) = tk_token k
      \<or> (\<forall>t k'. t \<noteq> tid \<longrightarrow> token_of d t = Some k' \<longrightarrow> tk_token k' \<noteq> tk_token (f k))"
  shows "keeps_sub d (Inr (a, upd_token tid f d))"
proof -
  have "twf (subscription_tokens (upd_token tid f d)) = twf (subscription_tokens d)"
    by (simp add: upd_token_def)
  moreover have "tokens_unique d \<Longrightarrow> tokens_unique (upd_token tid f d)"
    by (rule tokens_unique_upd_token) (use assms in auto)
  ultimately show ?thesis
    by (auto simp: sub_inv_def evolves_def payments_unique_def)
qed

lemma keeps_AddTx [keeps]: "keeps_sub d (Inr (a, AddTx now e d))"
proof -
  have "sub_inv (AddTx now e d) = sub_inv d" "evolves d (AddTx now e d)"
    by (rule sub_inv_cong; simp add: AddTx_def)+
  then show ?thesis by simp
qed

lemma keeps_processed: "keeps_sub d (Inr (a, d\<lparr>processed_messages := m\<rparr>))"
proof -
  have "sub_inv (d\<lparr>processed_messages := m\<rparr>) = sub_inv d" "evolves d (d\<lparr>processed_messages := m\<rparr>)"
    by (rule sub_inv_cong; simp)+
  then show ?thesis by simp
qed

section \<open>Every operation keeps both\<close>

lemma keeps_new_row: "keeps_sub d (Inr (a, d\<lparr>telegram_users := tins tid () (telegram_users d),
    user_subscriptions := tins tid (new_sub_row c) (user_subscriptions d)\<rparr>))"
proof -
  define d2 where "d2 = d\<lparr>telegram_users := tins tid () (telegram_users d),
    user_subscriptions := tins tid (new_sub_row c) (user_subscriptions d)\<rparr>"
  have sub: "sub_of d2 t = (if t = tid \<and> sub_of d t = None then Some (new_sub_row c) else sub_of d t)" for t
    by (auto simp: d2_def sub_of_def table_simps)
  have rec: "trial_recorded d2 = trial_recorded d" "payment_recorded d2 = payment_recorded d"
    by (simp_all add: d2_def fun_eq_iff trial_recorded_def payment_recorded_def)
  have user: "tget (telegram_users d2) t \<noteq> None \<longleftrightarrow> t = tid \<or> tget (telegram_users d) t \<noteq> None" for t
    by (auto simp: d2_def table_simps)
  have plans: "subscription_plans d2 = subscription_plans d" by (simp add: d2_def)
  have "sub_inv d2 \<and> evolves d d2" if inv: "sub_inv d"
  proof
    have old: "row_inv d2 t r" if "sub_of d t = Some r" for t r
      using sub_invD(6) [OF inv that] unfolding row_inv_def rec plans user by blast
    have new: "row_inv d2 tid (new_sub_row c)" if "sub_of d tid = None"
    proof -
      have "\<not> trial_recorded d tid" using sub_invD(7) [OF inv] that by blast
      then show ?thesis
        unfolding row_inv_def rec plans user by (simp add: row_ok_def new_sub_row_def)
    qed
    have "\<forall>t r. sub_of d2 t = Some r \<longrightarrow> row_inv d2 t r"
      using old new by (auto simp: sub split: if_splits)
    moreover have "\<forall>t. trial_recorded d2 t \<longrightarrow> sub_of d2 t \<noteq> None"
      using sub_invD(7) [OF inv] by (auto simp: sub rec)
    moreover have "\<forall>t k. token_of d2 t = Some k \<longrightarrow> tget (telegram_users d2) t \<noteq> None"
      using sub_invD(8) [OF inv] unfolding user by (auto simp: d2_def token_of_def)
    moreover have "payments_unique d2"
      using sub_invD(11) [OF inv] by (auto simp: payments_unique_def sub new_sub_row_def split: if_splits)
    moreover have "tokens_unique d2"
      using sub_invD(12) [OF inv] by (simp add: tokens_unique_def d2_def token_of_def)
    ultimately show "sub_inv d2" using inv unfolding sub_inv_def by (simp add: d2_def)
    show "evolves d d2" by (auto simp: evolves_def sub) (simp_all add: d2_def)
  qed
  then show ?thesis by (simp add: d2_def)
qed

lemma keeps_ensureUserAndStateTx [keeps]: "keeps_sub d (ensureUserAndStateTx tid country d)"
  using keeps_new_row by (simp add: ensureUserAndStateTx_def Let_def)

lemma keeps_expireIfNeededTx [keeps]:
  assumes "sub_of d (st_telegram_id s) = Some r" and "us_status r = st_status s"
    and "us_expires_at r = st_expires_at s"
  shows "keeps_sub d (expireIfNeededTx now s d)"
proof (cases "shouldExpire now s")
  case True
  let ?tid = "st_telegram_id s"
  have "keeps_sub d (andthen (Inr ((), upd_sub ?tid expire_sub d))
      (\<lambda>_ d1. Inr (s', upd_token ?tid (\<lambda>t. t\<lparr>tk_expires_at := Some now\<rparr>) d1)))" for s' :: SubscriptionState
    by (intro sub.keeps_andthen keeps_upd_sub keeps_upd_token)
      (auto simp: row_inv_def row_ok_def expire_sub_def)
  with True show ?thesis by (simp add: expireIfNeededTx_def Let_def)
qed (simp add: expireIfNeededTx_def)

lemma scanState_simps [simp]:
  "st_telegram_id (scanState now tid r) = tid" "st_status (scanState now tid r) = us_status r"
  "st_trial_used (scanState now tid r) = us_trial_used r"
  "st_started_at (scanState now tid r) = us_started_at r"
  "st_expires_at (scanState now tid r) = us_expires_at r"
  "st_grace_until (scanState now tid r) = us_grace_until r"
  "st_canceled_at (scanState now tid r) = us_canceled_at r"
  "st_last_payment_id (scanState now tid r) = or_empty (us_last_payment_id r)"
  "st_auto_renew (scanState now tid r) = us_auto_renew r"
  "st_cancel_at_period_end (scanState now tid r) = us_cancel_at_period_end r"
  "st_access_rev (scanState now tid r) = us_access_rev r" "st_country (scanState now tid r) = us_country r"
  "st_plan (scanState now tid r) = or_empty (us_plan r)"
  by (simp_all add: scanState_def)

lemma keeps_getStateForUpdateTx [keeps]: "keeps_sub d (getStateForUpdateTx now tid d)"
  by (auto simp: getStateForUpdateTx_def split: option.split intro!: keeps_expireIfNeededTx)

lemma keeps_GetStatusTx [keeps]: "keeps_sub d (GetStatusTx now tid country d)"
  unfolding GetStatusTx_def by (intro sub.keeps_andthen keeps)

lemma not_token_taken: "\<not> token_taken s d \<Longrightarrow> token_of d t = Some k \<Longrightarrow> tk_token k \<noteq> s"
  by (auto simp: token_taken_def token_of_def tget_def list_ex_iff dest!: map_of_SomeD)

lemma keeps_ensureTokenTx [keeps]: "keeps_sub d (ensureTokenTx now fresh tid e d)"
proof (cases "token_of d tid")
  case None
  let ?t = "\<lparr>tk_token = fresh, tk_expires_at = e, tk_last_issued_at = now, tk_revoked_at = None, tk_rotate_reason = []\<rparr>"
  let ?d1 = "d\<lparr>subscription_tokens := tins tid ?t (subscription_tokens d)\<rparr>"
  have tok: "token_of ?d1 t = (if t = tid then Some ?t else token_of d t)" for t
    using None by (simp add: token_of_def table_simps)
  have "keeps_sub d (Inr ((), ?d1))" if "tget (telegram_users d) tid \<noteq> None" "\<not> token_taken fresh d"
  proof -
    have frames: "sub_of ?d1 = sub_of d" "row_inv ?d1 = row_inv d" "trial_recorded ?d1 = trial_recorded d"
      by (simp_all add: fun_eq_iff sub_of_def row_inv_def trial_recorded_def payment_recorded_def)
    have "sub_inv d \<Longrightarrow> \<forall>t k. token_of ?d1 t = Some k \<longrightarrow> tget (telegram_users ?d1) t \<noteq> None"
      using that sub_invD(8) [of d] by (auto simp: tok)
    moreover have "tokens_unique d \<Longrightarrow> tokens_unique ?d1"
      using not_token_taken [OF that(2)] unfolding tokens_unique_def tok by (auto split: if_splits) metis
    ultimately show ?thesis
      by (simp add: frames sub_inv_def evolves_def payments_unique_def)
  qed
  then have "keeps_sub d (andthen (Inr ((), ?d1)) (\<lambda>_ d1. Inr (a, upd_token tid f d1)))"
    if "tget (telegram_users d) tid \<noteq> None" "\<not> token_taken fresh d" "\<And>k. tk_token (f k) = tk_token k"
    for f and a :: string
    using that by (intro sub.keeps_andthen keeps_upd_token) auto
  then show ?thesis
    using None by (auto simp: ensureTokenTx_def Let_def tok)
next
  case (Some t)
  then have "tins tid k (subscription_tokens d) = subscription_tokens d" for k
    by (simp add: token_of_def tget_def tins_def)
  with Some show ?thesis
    by (simp add: ensureTokenTx_def Let_def keeps_upd_token del: keeps_tx_Inr)
qed

section \<open>The row behind a state\<close>

text \<open>\<open>settled now r\<close> is the row \<open>r\<close> after lazy expiry at the instant \<open>now\<close>.\<close>

definition row_lapses :: "time \<Rightarrow> sub_row \<Rightarrow> bool" where
  "row_lapses now r \<longleftrightarrow>
     (us_status r \<in> {StatusTrial, StatusActive} \<and> (\<exists>e. us_expires_at r = Some e \<and> e \<le> now))
   \<or> (us_status r = StatusGrace \<and> (\<exists>g. us_grace_until r = Some g \<and> g \<le> now))"

definition settled :: "time \<Rightarrow> sub_row \<Rightarrow> sub_row" where
  "settled now r = (if row_lapses now r then expire_sub r else r)"

text \<open>\<open>shows s r\<close>: the state handed to the caller is that row (the number of days left apart).\<close>

definition shows_row :: "SubscriptionState \<Rightarrow> int \<Rightarrow> sub_row \<Rightarrow> bool" where
  "shows_row s tid r \<longleftrightarrow> st_telegram_id s = tid \<and> st_status s = us_status r
     \<and> st_plan s = or_empty (us_plan r) \<and> st_trial_used s = us_trial_used r
     \<and> st_started_at s = us_started_at r \<and> st_expires_at s = us_expires_at r
     \<and> st_grace_until s = us_grace_until r \<and> st_canceled_at s = us_canceled_at r
     \<and> st_last_payment_id s = or_empty (us_last_payment_id r) \<and> st_country s = us_country r
     \<and> st_auto_renew s = us_auto_renew r \<and> st_cancel_at_period_end s = us_cancel_at_period_end r
     \<and> st_access_rev s = us_access_rev r"

lemma shouldExpire_scanState [simp]: "shouldExpire now (scanState now' tid r) = row_lapses now r"
  by (auto simp: shouldExpire_def row_lapses_def split: option.splits)

lemma settled_fields [simp]:
  "us_trial_used (settled now r) = us_trial_used r" "us_expires_at (settled now r) = us_expires_at r"
  "us_last_payment_id (settled now r) = us_last_payment_id r" "us_plan (settled now r) = us_plan r"
  "us_started_at (settled now r) = us_started_at r" "us_country (settled now r) = us_country r"
  "us_grace_until (settled now r) = us_grace_until r" "us_canceled_at (settled now r) = us_canceled_at r"
  by (simp_all add: settled_def expire_sub_def)

lemma settled_idem [simp]: "settled now (settled now r) = settled now r"
proof -
  have "\<not> row_lapses now (expire_sub r)" by (simp add: row_lapses_def expire_sub_def)
  then show ?thesis by (simp add: settled_def)
qed

lemma settled_id: "\<not> row_lapses now r \<Longrightarrow> settled now r = r"
  by (simp add: settled_def)

lemma getState_Inr:
  assumes "sub_of d tid = Some r"
  obtains s d' where "getStateForUpdateTx now tid d = Inr (s, d')"
    and "shows_row s tid (settled now r)" and "sub_of d' tid = Some (settled now r)"
    and "\<And>t. t \<noteq> tid \<Longrightarrow> sub_of d' t = sub_of d t"
    and "subscription_grants d' = subscription_grants d"
    and "processed_messages d' = processed_messages d" and "event_outbox d' = event_outbox d"
    and "telegram_users d' = telegram_users d" and "subscription_plans d' = subscription_plans d"
    and "\<And>t. t \<noteq> tid \<Longrightarrow> token_of d' t = token_of d t"
    and "map_option tk_token (token_of d' tid) = map_option tk_token (token_of d tid)"
    and "map fst (subscription_tokens d') = map fst (subscription_tokens d)"
    and "\<not> row_lapses now r \<Longrightarrow> d' = d"
proof -
  have keys: "map fst (tupd k f t) = map fst t" for k f and t :: "(int, token_row) table"
    by (induction t) (auto simp: tupd_def)
  show thesis
  proof (cases "row_lapses now r")
    case True
    let ?s = "(scanState now tid r)\<lparr>st_status := StatusExpired, st_auto_renew := False,
        st_cancel_at_period_end := True, st_days_left := 0, st_access_rev := us_access_rev r + 1\<rparr>"
    let ?d = "upd_token tid (\<lambda>t. t\<lparr>tk_expires_at := Some now\<rparr>) (upd_sub tid expire_sub d)"
    have "getStateForUpdateTx now tid d = Inr (?s, ?d)"
      using True assms by (simp add: getStateForUpdateTx_def expireIfNeededTx_def Let_def)
    then show thesis
      by (rule that [where s = ?s and d' = ?d])
        (use True assms keys in \<open>simp_all add: shows_row_def settled_def expire_sub_def option.map_comp comp_def
          upd_token_def [THEN arg_cong [where f = subscription_tokens]]\<close>)
  next
    case False
    then show thesis
      using assms
      by (intro that) (auto simp: getStateForUpdateTx_def expireIfNeededTx_def shows_row_def settled_def)
  qed
qed

end
