(* ===== verification/SubOperations.thy ===== *)
theory SubOperations
  imports SubInvariant
begin

text \<open>
  What each operation of the repository does to the row of its user, and that it keeps the
  invariant and the history of \<open>SubInvariant\<close>: the functional correctness of the trial, of
  payments, of cancellation, grace and suspension, of referral redemption and of token rotation.
\<close>

section \<open>Steps shared by the operations\<close>

definition country_or_default :: "string \<Rightarrow> string" where
  "country_or_default country = (if country = [] then ''LT'' else country)"

definition row_or_new :: "string \<Rightarrow> sub_db \<Rightarrow> int \<Rightarrow> sub_row" where
  "row_or_new country d tid = (case sub_of d tid of
     None \<Rightarrow> new_sub_row (country_or_default country) | Some r \<Rightarrow> r)"

lemma ensureUser_Inr:
  obtains d' where "ensureUserAndStateTx tid country d = Inr ((), d')"
    and "sub_of d' tid = Some (row_or_new country d tid)"
    and "\<And>t. t \<noteq> tid \<Longrightarrow> sub_of d' t = sub_of d t"
    and "tget (telegram_users d') tid \<noteq> None" and "subscription_tokens d' = subscription_tokens d"
    and "subscription_grants d' = subscription_grants d"
    and "processed_messages d' = processed_messages d" and "event_outbox d' = event_outbox d"
    and "subscription_plans d' = subscription_plans d"
    and "referral_reward_grants d' = referral_reward_grants d"
proof -
  let ?d = "d\<lparr>telegram_users := tins tid () (telegram_users d), user_subscriptions :=
      tins tid (new_sub_row (country_or_default country)) (user_subscriptions d)\<rparr>"
  have "ensureUserAndStateTx tid country d = Inr ((), ?d)"
    by (simp add: ensureUserAndStateTx_def Let_def country_or_default_def)
  then show thesis
    by (rule that [where d' = ?d])
      (simp_all add: sub_of_def row_or_new_def table_simps split: option.split)
qed

lemma ensureToken_Inr:
  assumes "ensureTokenTx now fresh tid e d = Inr (tok, d')"
  shows "sub_of d' = sub_of d" and "subscription_grants d' = subscription_grants d"
    and "processed_messages d' = processed_messages d" and "event_outbox d' = event_outbox d"
    and "tok = (case token_of d tid of None \<Rightarrow> fresh | Some t \<Rightarrow> tk_token t)"
    and "\<exists>t. token_of d' tid = Some t \<and> tk_token t = tok \<and> tk_expires_at t = e"
    and "\<And>t. t \<noteq> tid \<Longrightarrow> token_of d' t = token_of d t"
  using assms
  by (auto simp: ensureTokenTx_def Let_def token_of_def table_simps upd_token_def sub_of_def fun_eq_iff
      split: if_splits option.splits)

lemma ensureToken_plans: "ensureTokenTx now fresh tid e d = Inr (tok, d') \<Longrightarrow>
    subscription_plans d' = subscription_plans d"
  by (auto simp: ensureTokenTx_def Let_def upd_token_def split: if_splits option.splits)

lemma ensureToken_taken:
  assumes "ensureTokenTx now fresh tid e d = Inr (tok, d')" and "t \<noteq> fresh"
  shows "token_taken t d' = token_taken t d"
proof -
  have upd: "list_ex (\<lambda>(_, r). tk_token r = t) (tupd k (\<lambda>t. t\<lparr>tk_expires_at := e, tk_last_issued_at := now\<rparr>) ts)
      = list_ex (\<lambda>(_, r). tk_token r = t) ts" for k e ts
    by (induction ts) (auto simp: tupd_def)
  have ins: "list_ex (\<lambda>(_, r). tk_token r = t) (tins tid \<lparr>tk_token = fresh, tk_expires_at = e,
      tk_last_issued_at = now, tk_revoked_at = None, tk_rotate_reason = []\<rparr> ts)
      = list_ex (\<lambda>(_, r). tk_token r = t) ts" for ts
    using assms(2) by (auto simp: tins_def split: option.split)
  have "\<exists>d1. d' = upd_token tid (\<lambda>t. t\<lparr>tk_expires_at := e, tk_last_issued_at := now\<rparr>) d1
      \<and> subscription_tokens d1 = tins tid \<lparr>tk_token = fresh, tk_expires_at = e,
          tk_last_issued_at = now, tk_revoked_at = None, tk_rotate_reason = []\<rparr> (subscription_tokens d)"
    using assms(1) by (auto simp: ensureTokenTx_def Let_def split: if_splits option.splits)
  then show ?thesis by (auto simp: token_taken_def upd_token_def upd ins)
qed

lemma ensureToken_total:
  assumes "tget (telegram_users d) tid \<noteq> None" and "\<not> token_taken fresh d"
  shows "\<exists>tok d'. ensureTokenTx now fresh tid e d = Inr (tok, d')"
  using assms by (auto simp: ensureTokenTx_def Let_def token_of_def table_simps split: option.split)

lemma token_taken_tokens: "subscription_tokens d' = subscription_tokens d \<Longrightarrow> token_taken t d' = token_taken t d"
  by (simp add: token_taken_def)

lemma getState_unlapsed:
  assumes "sub_of d tid = Some r" and "\<not> row_lapses now r"
  shows "getStateForUpdateTx now tid d = Inr (scanState now tid r, d)"
  using assms by (simp add: getStateForUpdateTx_def expireIfNeededTx_def)

lemma shows_scanState [simp]: "shows_row (scanState now tid r) tid r"
  by (simp add: shows_row_def)

lemma token_taken_getState:
  assumes "getStateForUpdateTx now tid d = Inr (s, d')"
  shows "token_taken t d' = token_taken t d"
proof -
  have "list_ex (\<lambda>(_, r). tk_token r = t) (tupd k (\<lambda>t. t\<lparr>tk_expires_at := e\<rparr>) ts)
      = list_ex (\<lambda>(_, r). tk_token r = t) ts" for k e ts
    by (induction ts) (auto simp: tupd_def)
  then have "token_taken t (upd_token k (\<lambda>t. t\<lparr>tk_expires_at := e\<rparr>) (upd_sub k f d)) = token_taken t d" for k e f
    by (simp add: token_taken_def upd_token_def upd_sub_def)
  then show ?thesis
    using assms
    by (auto simp: getStateForUpdateTx_def expireIfNeededTx_def Let_def split: option.splits if_splits)
qed

text \<open>Every operation starts by making sure of the user's row and loading it.\<close>

definition loaded :: "time \<Rightarrow> string \<Rightarrow> sub_db \<Rightarrow> int \<Rightarrow> sub_row" where
  "loaded now country d tid = settled now (row_or_new country d tid)"

lemma load_user:
  obtains d1 s d2 where "ensureUserAndStateTx tid country d = Inr ((), d1)"
    and "getStateForUpdateTx now tid d1 = Inr (s, d2)"
    and "shows_row s tid (loaded now country d tid)" and "sub_of d2 tid = Some (loaded now country d tid)"
    and "\<And>t. t \<noteq> tid \<Longrightarrow> sub_of d2 t = sub_of d t"
    and "sub_inv d \<Longrightarrow> sub_inv d2" and "sub_inv d \<Longrightarrow> evolves d d2"
    and "subscription_grants d2 = subscription_grants d" and "processed_messages d2 = processed_messages d"
    and "event_outbox d2 = event_outbox d" and "telegram_users d2 = telegram_users d1"
    and "tget (telegram_users d2) tid \<noteq> None" and "subscription_plans d2 = subscription_plans d"
    and "\<And>t. token_taken t d2 = token_taken t d"
    and "map_option tk_token (token_of d2 tid) = map_option tk_token (token_of d tid)"
proof -
  obtain d1 where e: "ensureUserAndStateTx tid country d = Inr ((), d1)"
    "sub_of d1 tid = Some (row_or_new country d tid)" "\<And>t. t \<noteq> tid \<Longrightarrow> sub_of d1 t = sub_of d t"
    "tget (telegram_users d1) tid \<noteq> None" "subscription_tokens d1 = subscription_tokens d"
    "subscription_grants d1 = subscription_grants d" "processed_messages d1 = processed_messages d"
    "event_outbox d1 = event_outbox d" "subscription_plans d1 = subscription_plans d"
    by (rule ensureUser_Inr [of tid country d]) (rule that)
  obtain s d2 where g: "getStateForUpdateTx now tid d1 = Inr (s, d2)"
    "shows_row s tid (settled now (row_or_new country d tid))"
    "sub_of d2 tid = Some (settled now (row_or_new country d tid))"
    "\<And>t. t \<noteq> tid \<Longrightarrow> sub_of d2 t = sub_of d1 t"
    "subscription_grants d2 = subscription_grants d1" "processed_messages d2 = processed_messages d1"
    "event_outbox d2 = event_outbox d1" "telegram_users d2 = telegram_users d1"
    "subscription_plans d2 = subscription_plans d1"
    "map_option tk_token (token_of d2 tid) = map_option tk_token (token_of d1 tid)"
    using getState_Inr [OF e(2)] by metis
  have inv: "sub_inv d2 \<and> evolves d d2" if "sub_inv d"
    using keeps_txD [OF keeps_ensureUserAndStateTx e(1) that]
      keeps_txD [OF keeps_getStateForUpdateTx g(1)] evolves_trans by blast
  have tok: "token_taken t d2 = token_taken t d" "token_of d1 = token_of d" for t
    using token_taken_getState [OF g(1)] token_taken_tokens [OF e(5)] e(5)
    by (simp_all add: token_of_def fun_eq_iff)
  show thesis
    by (rule that [OF e(1) g(1)]) (use e g inv tok in \<open>simp_all add: loaded_def\<close>)
qed

lemma keeps_insert_grant_paid [keeps]: "keeps_sub d (insert_grant tid GrantPaid key g d)"
proof (cases "gr_duration_days g \<le> 0 \<or> gr_effective_until g \<le> gr_effective_from g")
  case False
  let ?d = "d\<lparr>subscription_grants := tins (tid, GrantPaid, key) g (subscription_grants d)\<rparr>"
  have rec: "trial_recorded ?d = trial_recorded d" "payment_recorded d t p \<Longrightarrow> payment_recorded ?d t p" for t p
    by (auto simp: fun_eq_iff trial_recorded_def payment_recorded_def table_simps)
  have rows: "row_inv d t r \<Longrightarrow> row_inv ?d t r" for t r
    using rec by (auto simp: row_inv_def)
  have sub: "sub_of ?d = sub_of d" "token_of ?d = token_of d"
    by (simp_all add: fun_eq_iff sub_of_def token_of_def)
  have "keeps_sub d (Inr (a, ?d))" for a :: bool
    using False rows by (auto simp: sub_inv_def rec(1) sub evolves_def table_simps payments_unique_def tokens_unique_def)
  with False show ?thesis by (simp add: insert_grant_def)
qed (simp add: insert_grant_def)

lemma update_returning_Inr:
  assumes "update_returning_expiry tid f d = Inr (e, d')"
  obtains r where "sub_of d tid = Some r" and "d' = upd_sub tid f d" and "us_expires_at (f r) = Some e"
    and "\<And>c. us_plan (f r) = Some c \<Longrightarrow> c \<in> set (subscription_plans d)"
    and "\<And>p. us_last_payment_id (f r) = Some p \<Longrightarrow> \<not> payment_taken tid p d"
  using assms
  by (auto simp: update_returning_expiry_def split: option.splits if_splits)

section \<open>The trial\<close>

lemma grant_trial_db:
  assumes inv: "sub_inv d" and r: "sub_of d tid = Some r" "\<not> us_trial_used r"
    and p: "p \<Longrightarrow> us_status r = StatusActive"
    and g: "0 < gr_duration_days g" "gr_effective_from g < gr_effective_until g"
    and d': "d' = (upd_sub tid (trial_update now n p) d)\<lparr>subscription_grants :=
               tins (tid, GrantTrial, ''trial'') g (subscription_grants d)\<rparr>"
  shows "sub_inv d'" and "evolves d d'"
proof -
  have fresh: "tget (subscription_grants d) (tid, GrantTrial, ''trial'') = None"
    using sub_inv_trial [OF inv r(1)] r(2) by (simp add: trial_recorded_def)
  have sub: "sub_of d' t = (if t = tid then Some (trial_update now n p r) else sub_of d t)" for t
    using sub_of_upd_sub [of tid "trial_update now n p" d t] r(1) by (simp add: d' sub_of_def)
  have rec: "trial_recorded d' t = (t = tid \<or> trial_recorded d t)" "payment_recorded d' = payment_recorded d" for t
    using fresh by (auto simp: d' fun_eq_iff trial_recorded_def payment_recorded_def table_simps)
  have same: "telegram_users d' = telegram_users d" "subscription_plans d' = subscription_plans d"
      "token_of d' = token_of d" "referrals d' = referrals d" "subscription_tokens d' = subscription_tokens d"
      "referral_reward_grants d' = referral_reward_grants d" "referral_codes d' = referral_codes d"
    by (simp_all add: d' fun_eq_iff token_of_def)
  have others: "row_inv d' t r'" if "sub_of d t = Some r'" "t \<noteq> tid" for t r'
    using sub_invD(6) [OF inv that(1)] that(2) by (auto simp: row_inv_def rec same)
  have "row_inv d tid r" by (rule sub_invD(6) [OF inv r(1)])
  then have row: "row_inv d' tid (trial_update now n p r)"
    using p sub_invD(5) [OF inv] by (auto simp: row_inv_def rec same row_ok_def trial_update_def)
  have grants: "0 < gr_duration_days g' \<and> gr_effective_from g' < gr_effective_until g'"
    if "tget (subscription_grants d') k = Some g'" for k g'
    using that g sub_invD(9) [OF inv, of k g'] by (auto simp: d' table_simps split: if_splits)
  show "sub_inv d'"
  proof (rule sub_invI)
    show "twf (user_subscriptions d')" "twf (subscription_grants d')"
      using sub_invD(1,3) [OF inv] by (simp_all add: d' upd_sub_def)
    show "row_inv d' t r'" if "sub_of d' t = Some r'" for t r'
      using that others row by (simp add: sub split: if_splits)
    show "sub_of d' t \<noteq> None" if "trial_recorded d' t" for t
      using that sub_invD(7) [OF inv, of t] by (auto simp: sub rec)
    show "payments_unique d'"
      by (rule payments_unique_upd [OF sub_invD(1,11) [OF inv] _ r(1)])
        (auto simp: sub last_payment_ok_def trial_update_def)
    show "tokens_unique d'" using sub_invD(12) [OF inv] by (simp add: tokens_unique_def same)
  qed (use inv grants sub_invD sub_inv_referrer in \<open>auto simp: same\<close>)
  show "evolves d d'"
  proof -
    have "tget (subscription_grants d') k = Some g'" if "tget (subscription_grants d) k = Some g'" for k g'
      using that fresh by (auto simp: d' table_simps)
    then show ?thesis using r by (simp add: evolves_def same sub trial_update_def)
  qed
qed


lemma trial_update_fields [simp]:
  "us_status (trial_update now n p r) = (if p then StatusActive else StatusTrial)"
  "us_expires_at (trial_update now n p r) = Some (greatest_now (us_expires_at r) now + days n)"
  "us_trial_used (trial_update now n p r)" "us_access_rev (trial_update now n p r) = us_access_rev r + 1"
  "us_plan (trial_update now n p r) = (if p then us_plan r else Some TrialPlanCode)"
  "us_last_payment_id (trial_update now n p r) = (if p then us_last_payment_id r else None)"
  by (simp_all add: trial_update_def)

lemma greatest_now_later: "0 < n \<Longrightarrow> now < greatest_now e now + days n"
  using greatest_now_ge_now [of now e] by linarith

lemma trial_not_lapsed: "0 < n \<Longrightarrow> \<not> row_lapses now (trial_update now n p r)"
  using greatest_now_later [of n now "us_expires_at r"] by (simp add: row_lapses_def)

text \<open>The statement of the trial that writes the row, then the one that writes the ledger.\<close>

lemma trial_statements:
  fixes now :: time
  assumes inv: "sub_inv d" and r: "sub_of d tid = Some r" "\<not> us_trial_used r" and n: "0 < n"
    and p: "p \<Longrightarrow> us_status r = StatusActive"
  defines "e \<equiv> greatest_now (us_expires_at r) now + days n"
  defines "g \<equiv> \<lparr>gr_duration_days = n, gr_effective_from = now, gr_effective_until = e, gr_granted_at = now\<rparr>"
  obtains d' where "update_returning_expiry tid (trial_update now n p) d = Inr (e, upd_sub tid (trial_update now n p) d)"
    and "insert_grant tid GrantTrial ''trial'' g (upd_sub tid (trial_update now n p) d) = Inr (True, d')"
    and "sub_inv d'" and "evolves d d'" and "sub_of d' tid = Some (trial_update now n p r)"
    and "subscription_tokens d' = subscription_tokens d" and "telegram_users d' = telegram_users d"
    and "event_outbox d' = event_outbox d"
    and "tget (subscription_grants d') (tid, GrantTrial, ''trial'') = Some g"
    and "\<And>t. t \<noteq> tid \<Longrightarrow> sub_of d' t = sub_of d t"
proof -
  let ?d = "(upd_sub tid (trial_update now n p) d)\<lparr>subscription_grants :=
      tins (tid, GrantTrial, ''trial'') g (subscription_grants d)\<rparr>"
  have later: "now < e" unfolding e_def by (rule greatest_now_later [OF n])
  have row: "row_inv d tid r" by (rule sub_invD(6) [OF inv r(1)])
  have fresh: "tget (subscription_grants d) (tid, GrantTrial, ''trial'') = None"
    using sub_inv_trial [OF inv r(1)] r(2) by (simp add: trial_recorded_def)
  have "\<not> payment_taken tid q d" if "us_last_payment_id r = Some q" for q
    using that r(1) sub_invD(11) [OF inv]
    unfolding payment_taken_iff [OF sub_invD(1) [OF inv]] payments_unique_def by metis
  then have upd: "update_returning_expiry tid (trial_update now n p) d = Inr (e, upd_sub tid (trial_update now n p) d)"
    using r row sub_invD(5) [OF inv]
    by (auto simp: update_returning_expiry_def row_inv_def row_ok_def e_def split: option.split)
  have ins: "insert_grant tid GrantTrial ''trial'' g (upd_sub tid (trial_update now n p) d) = Inr (True, ?d)"
    using n later fresh by (simp add: insert_grant_def g_def)
  have sub: "sub_of ?d t = (if t = tid then Some (trial_update now n p r) else sub_of d t)" for t
    using sub_of_upd_sub [of tid "trial_update now n p" d t] r(1) by (simp add: sub_of_def)
  show thesis
    by (rule that [OF upd ins grant_trial_db(1) [OF inv r p _ _ refl] grant_trial_db(2) [OF inv r p _ _ refl]])
      (use n later fresh sub in \<open>auto simp: g_def table_simps\<close>)
qed


lemma shows_rowD:
  assumes "shows_row s tid r"
  shows "st_status s = us_status r" "st_trial_used s = us_trial_used r" "st_expires_at s = us_expires_at r"
    "st_last_payment_id s = or_empty (us_last_payment_id r)" "st_telegram_id s = tid"
    "st_grace_until s = us_grace_until r" "st_access_rev s = us_access_rev r"
    "st_cancel_at_period_end s = us_cancel_at_period_end r" "st_auto_renew s = us_auto_renew r"
    "st_plan s = or_empty (us_plan r)" "st_country s = us_country r"
  using assms by (simp_all add: shows_row_def)

text \<open>The user who has used the trial gets nothing, whatever the subscription is.\<close>

lemma StartTrialTx_used:
  assumes "0 < n" and "us_trial_used (loaded now country d tid)"
  obtains s d' where "StartTrialTx now fresh tid country n d =
      Inr (trial_result s TrialAlreadyUsed n (us_status (loaded now country d tid) = StatusActive), d')"
    and "shows_row s tid (loaded now country d tid)" and "sub_of d' tid = Some (loaded now country d tid)"
    and "event_outbox d' = event_outbox d"
proof -
  obtain d1 s d2 where l: "ensureUserAndStateTx tid country d = Inr ((), d1)"
    "getStateForUpdateTx now tid d1 = Inr (s, d2)" "shows_row s tid (loaded now country d tid)"
    "sub_of d2 tid = Some (loaded now country d tid)" "event_outbox d2 = event_outbox d"
    by (rule load_user [of tid country d now])
  show thesis
    by (rule that [of s d2]) (use assms l shows_rowD [OF l(3)] in \<open>simp_all add: StartTrialTx_def\<close>)
qed

lemma StartTrialTx_grace:
  assumes "0 < n" and "\<not> us_trial_used (loaded now country d tid)"
    and "us_status (loaded now country d tid) = StatusGrace"
  obtains s d' where "StartTrialTx now fresh tid country n d = Inr (trial_result s TrialDeferredGrace n True, d')"
    and "shows_row s tid (loaded now country d tid)" and "sub_of d' tid = Some (loaded now country d tid)"
    and "event_outbox d' = event_outbox d"
proof -
  obtain d1 s d2 where l: "ensureUserAndStateTx tid country d = Inr ((), d1)"
    "getStateForUpdateTx now tid d1 = Inr (s, d2)" "shows_row s tid (loaded now country d tid)"
    "sub_of d2 tid = Some (loaded now country d tid)" "event_outbox d2 = event_outbox d"
    by (rule load_user [of tid country d now])
  show thesis
    by (rule that [of s d2]) (use assms l shows_rowD [OF l(3)] in \<open>simp_all add: StartTrialTx_def\<close>)
qed

text \<open>The paid subscription of an active row that has just been loaded has not run out.\<close>

definition paid_active :: "sub_row \<Rightarrow> bool" where
  "paid_active r \<longleftrightarrow> us_status r = StatusActive"

lemma loaded_not_lapsed: "\<not> row_lapses now (loaded now country d tid)"
proof (cases "row_lapses now (row_or_new country d tid)")
  case True
  then show ?thesis by (simp add: loaded_def settled_def row_lapses_def expire_sub_def)
qed (simp add: loaded_def settled_def)

lemma loaded_active_later:
  "us_status (loaded now country d tid) \<in> {StatusTrial, StatusActive} \<Longrightarrow>
   us_expires_at (loaded now country d tid) = Some e \<Longrightarrow> now < e"
  using loaded_not_lapsed [of now country d tid] by (auto simp: row_lapses_def)

lemma StartTrialTx_granted:
  assumes inv: "sub_inv d" and n: "0 < n" and unused: "\<not> us_trial_used (loaded now country d tid)"
    and st: "us_status (loaded now country d tid) \<noteq> StatusGrace" and tok: "\<not> token_taken fresh d"
  defines "r \<equiv> loaded now country d tid"
  obtains s d' where "StartTrialTx now fresh tid country n d =
      Inr (trial_result s (if paid_active r then TrialGrantedOnTopOfPaid else TrialGranted) n (paid_active r), d')"
    and "s = scanState now tid (trial_update now n (paid_active r) r)"
    and "sub_of d' tid = Some (trial_update now n (paid_active r) r)"
    and "\<exists>t. token_of d' tid = Some t
           \<and> tk_expires_at t = Some (greatest_now (us_expires_at r) now + days n)"
    and "event_outbox d' = event_outbox d" and "trial_recorded d' tid"
proof -
  obtain d1 s d2 where l: "ensureUserAndStateTx tid country d = Inr ((), d1)"
    "getStateForUpdateTx now tid d1 = Inr (s, d2)" "shows_row s tid r" "sub_of d2 tid = Some r"
    "event_outbox d2 = event_outbox d" "sub_inv d2" "tget (telegram_users d2) tid \<noteq> None"
    "token_taken fresh d2 = token_taken fresh d"
    using load_user [of tid country d now] inv unfolding r_def by metis
  have "row_ok r" by (rule sub_inv_row [OF l(6,4)])
  then have paid: "(us_status r = StatusActive \<and> (case us_expires_at r of None \<Rightarrow> False | Some e \<Rightarrow> now < e))
      = paid_active r"
    using loaded_active_later [of now country d tid]
    by (auto simp: paid_active_def row_ok_def r_def split: option.split)
  let ?e = "greatest_now (us_expires_at r) now + days n"
  obtain d3 where g: "update_returning_expiry tid (trial_update now n (paid_active r)) d2 =
      Inr (?e, upd_sub tid (trial_update now n (paid_active r)) d2)"
    "insert_grant tid GrantTrial ''trial'' \<lparr>gr_duration_days = n, gr_effective_from = now,
       gr_effective_until = ?e, gr_granted_at = now\<rparr> (upd_sub tid (trial_update now n (paid_active r)) d2) = Inr (True, d3)"
    "sub_of d3 tid = Some (trial_update now n (paid_active r) r)" "subscription_tokens d3 = subscription_tokens d2"
    "telegram_users d3 = telegram_users d2" "event_outbox d3 = event_outbox d2"
    "tget (subscription_grants d3) (tid, GrantTrial, ''trial'') = Some \<lparr>gr_duration_days = n,
       gr_effective_from = now, gr_effective_until = ?e, gr_granted_at = now\<rparr>"
    using trial_statements [OF l(6,4) _ n, of "paid_active r" now thesis] unused
    by (force simp: paid_active_def r_def)
  have "\<not> token_taken fresh d3" using tok l(8) token_taken_tokens [OF g(4)] by simp
  then obtain k d4 where k: "ensureTokenTx now fresh tid (Some ?e) d3 = Inr (k, d4)"
    using ensureToken_total [of d3 tid fresh now "Some ?e"] l(7) g(5) by auto
  have d4: "sub_of d4 tid = Some (trial_update now n (paid_active r) r)"
    using ensureToken_Inr(1) [OF k] g(3) by simp
  show thesis
    by (rule that [of "scanState now tid (trial_update now n (paid_active r) r)" d4])
      (use n unused st l g k d4 ensureToken_Inr [OF k] shows_rowD [OF l(3)] paid
        getState_unlapsed [OF d4 trial_not_lapsed [OF n]]
        in \<open>auto simp: StartTrialTx_def r_def [symmetric] trial_recorded_def\<close>)
qed

lemma keeps_StartTrialTx [keeps]: "keeps_sub d (StartTrialTx now fresh tid country n d)"
proof (cases "sub_inv d \<and> 0 < n")
  case True
  then have inv: "sub_inv d" and n: "0 < n" by auto
  obtain d1 s d2 where l: "ensureUserAndStateTx tid country d = Inr ((), d1)"
    "getStateForUpdateTx now tid d1 = Inr (s, d2)" "shows_row s tid (loaded now country d tid)"
    "sub_of d2 tid = Some (loaded now country d tid)" "sub_inv d2" "evolves d d2"
    using load_user [of tid country d now] inv by metis
  define r where "r = loaded now country d tid"
  define paid where "paid \<longleftrightarrow> us_status r = StatusActive
      \<and> (case us_expires_at r of None \<Rightarrow> False | Some e \<Rightarrow> now < e)"
  let ?e = "greatest_now (us_expires_at r) now + days n"
  let ?g = "\<lparr>gr_duration_days = n, gr_effective_from = now, gr_effective_until = ?e, gr_granted_at = now\<rparr>"
  let ?rest = "\<lambda>d4. andthen (ensureTokenTx now fresh tid (Some ?e) d4) (\<lambda>_ d5.
      andthen (getStateForUpdateTx now tid d5) (\<lambda>s' d6.
        Inr (trial_result s' (if paid then TrialGrantedOnTopOfPaid else TrialGranted) n paid, d6)))"
  have rest: "keeps_sub d4 (?rest d4)" for d4
    by (intro sub.keeps_andthen keeps sub.keeps_return)
  show ?thesis
  proof (cases "us_trial_used r \<or> us_status r = StatusGrace")
    case True
    with n l shows_rowD [OF l(3)] show ?thesis
      by (auto simp: StartTrialTx_def r_def)
  next
    case False
    have st: "us_status r = StatusActive" if paid
      using that by (simp add: paid_def)
    obtain d3 where g: "update_returning_expiry tid (trial_update now n paid) d2 =
        Inr (?e, upd_sub tid (trial_update now n paid) d2)"
      "insert_grant tid GrantTrial ''trial'' ?g (upd_sub tid (trial_update now n paid) d2) = Inr (True, d3)"
      "sub_inv d3" "evolves d2 d3"
      using trial_statements [OF l(5,4) _ n, of paid now thesis] False st by (auto simp: r_def)
    have "StartTrialTx now fresh tid country n d = ?rest d3"
      using n l(1,2) False shows_rowD [OF l(3)] g(1,2)
      by (simp add: StartTrialTx_def r_def [symmetric] paid_def [symmetric] Let_def)
    moreover have "keeps_sub d (andthen (Inr ((), d3)) (\<lambda>_. ?rest))"
    proof (rule sub.keeps_andthen)
      show "keeps_sub d (Inr ((), d3))" using g(3,4) l(6) evolves_trans by auto
      show "keeps_sub d' (?rest d')" if "Inr ((), d3) = Inr (a, d')" for a d' by (rule rest)
    qed
    ultimately show ?thesis by simp
  qed
qed (auto simp: StartTrialTx_def keeps_tx_def)

lemma grants_getState:
  "getStateForUpdateTx now tid d = Inr (s, d') \<Longrightarrow> subscription_grants d' = subscription_grants d"
  by (auto simp: getStateForUpdateTx_def expireIfNeededTx_def Let_def split: option.splits if_splits)

text \<open>A trial that was granted is in the ledger.\<close>

lemma granted_recorded:
  assumes "sub_inv d" and "0 < n" and g: "StartTrialTx now fresh tid country n d = Inr (res, d')" and "Granted res"
  shows "trial_recorded d' tid"
proof -
  have inv: "sub_inv d'" using keeps_txD [OF keeps_StartTrialTx g assms(1)] by simp
  define r where "r = loaded now country d tid"
  have unused: "\<not> us_trial_used r"
  proof
    assume "us_trial_used r"
    then obtain s0 d0 where "StartTrialTx now fresh tid country n d =
        Inr (trial_result s0 TrialAlreadyUsed n (us_status (loaded now country d tid) = StatusActive), d0)"
      using StartTrialTx_used [OF assms(2), of now country d tid fresh] unfolding r_def by metis
    then show False using g assms(4) by (simp add: Granted_def trial_result_def)
  qed
  have grace: "us_status r \<noteq> StatusGrace"
  proof
    assume "us_status r = StatusGrace"
    then obtain s0 d0 where "StartTrialTx now fresh tid country n d =
        Inr (trial_result s0 TrialDeferredGrace n True, d0)"
      using StartTrialTx_grace [OF assms(2), of now country d tid fresh] unused unfolding r_def by metis
    then show False using g assms(4) by (simp add: Granted_def trial_result_def)
  qed
  obtain d1 s d2 where l: "ensureUserAndStateTx tid country d = Inr ((), d1)"
    "getStateForUpdateTx now tid d1 = Inr (s, d2)" "shows_row s tid r" "sub_of d2 tid = Some r"
    using load_user [of tid country d now] unfolding r_def by metis
  define paid where "paid \<longleftrightarrow> us_status r = StatusActive
      \<and> (case us_expires_at r of None \<Rightarrow> False | Some e \<Rightarrow> now < e)"
  have "andthen (update_returning_expiry tid (trial_update now n paid) d2) (\<lambda>e d3.
      andthen (insert_grant tid GrantTrial ''trial'' \<lparr>gr_duration_days = n, gr_effective_from = now,
          gr_effective_until = e, gr_granted_at = now\<rparr> d3) (\<lambda>inserted d4.
        if \<not> inserted then Inl (Refused ''trial grant already recorded: refusing to grant twice'')
        else andthen (ensureTokenTx now fresh tid (Some e) d4) (\<lambda>_ d5.
          andthen (getStateForUpdateTx now tid d5) (\<lambda>s' d6.
            Inr (trial_result s' (if paid then TrialGrantedOnTopOfPaid else TrialGranted) n paid, d6)))))
      = Inr (res, d')"
    using g l(1,2) unused grace shows_rowD [OF l(3)] assms(2)
    by (simp add: StartTrialTx_def paid_def [symmetric] Let_def)
  then obtain e d3 b d4 k d5 s' where *: "insert_grant tid GrantTrial ''trial'' \<lparr>gr_duration_days = n,
      gr_effective_from = now, gr_effective_until = e, gr_granted_at = now\<rparr> d3 = Inr (b, d4)"
    "ensureTokenTx now fresh tid (Some e) d4 = Inr (k, d5)" "getStateForUpdateTx now tid d5 = Inr (s', d')"
    by (elim andthen_InrE) (auto split: if_splits)
  have "trial_recorded d4 tid"
    using *(1) by (auto simp: trial_recorded_def insert_grant_def table_simps split: if_splits)
  then show ?thesis
    using ensureToken_Inr(2) [OF *(2)] grants_getState [OF *(3)] by (simp add: trial_recorded_def)
qed

section \<open>Payments\<close>

lemma paid_update_fields [simp]:
  "us_status (paid_update now c n p ar r) = StatusActive"
  "us_expires_at (paid_update now c n p ar r) = Some (greatest_now (us_expires_at r) now + days n)"
  "us_trial_used (paid_update now c n p ar r) = us_trial_used r"
  "us_access_rev (paid_update now c n p ar r) = us_access_rev r + 1"
  "us_plan (paid_update now c n p ar r) = Some c"
  "us_last_payment_id (paid_update now c n p ar r) = Some p"
  "us_auto_renew (paid_update now c n p ar r) = (us_auto_renew r \<or> ar)"
  by (simp_all add: paid_update_def)

lemma paid_not_lapsed: "0 < n \<Longrightarrow> \<not> row_lapses now (paid_update now c n p ar r)"
  using greatest_now_later [of n now "us_expires_at r"] by (simp add: row_lapses_def)

text \<open>A payment the service has not seen: not in the inbox and not in the ledger.\<close>

definition payment_new :: "sub_db \<Rightarrow> int \<Rightarrow> string \<Rightarrow> bool" where
  "payment_new d tid p \<longleftrightarrow> p = []
     \<or> (tget (processed_messages d) (payment_key p) = None \<and> \<not> payment_recorded d tid p \<and> \<not> payment_taken tid p d)"

text \<open>The statements of a payment that is applied: inbox, ledger, row.\<close>

lemma paid_statements:
  fixes now :: time
  assumes inv: "sub_inv d" and r: "sub_of d tid = Some r" and s: "shows_row s tid r" and n: "0 < n"
    and c: "c \<in> set (subscription_plans d)" and new: "payment_new d tid p"
  defines "g \<equiv> \<lparr>gr_duration_days = n, gr_effective_from = now, gr_effective_until = now + days n, gr_granted_at = now\<rparr>"
  obtains d1 d2 d3 where "(if p \<noteq> [] then insert_payment_message now p d else Inr (True, d)) = Inr (True, d1)"
    and "\<not> (p \<noteq> [] \<and> st_last_payment_id s = p)"
    and "(if p \<noteq> [] then insert_grant tid GrantPaid p g d1 else Inr (True, d1)) = Inr (True, d2)"
    and "update_returning_expiry tid (paid_update now c n p ar) d2 =
           Inr (greatest_now (us_expires_at r) now + days n, d3)"
    and "sub_of d3 tid = Some (paid_update now c n p ar r)" and "telegram_users d3 = telegram_users d"
    and "\<And>t. token_taken t d3 = token_taken t d" and "event_outbox d3 = event_outbox d"
    and "p = [] \<or> payment_recorded d3 tid p" and "\<And>t. t \<noteq> tid \<Longrightarrow> sub_of d3 t = sub_of d t"
    and "\<And>k. k \<noteq> payment_key p \<Longrightarrow> tget (processed_messages d3) k = tget (processed_messages d) k"
    and "\<And>k. k \<noteq> (tid, GrantPaid, p) \<Longrightarrow> tget (subscription_grants d3) k = tget (subscription_grants d) k"
    and "subscription_plans d3 = subscription_plans d"
proof -
  define d1 where "d1 = (if p = [] then d else d\<lparr>processed_messages := tins (payment_key p)
      \<lparr>ib_source = ''billing-service'', ib_message_type = ''billing.payment_succeeded'', ib_processed_at = now\<rparr>
      (processed_messages d)\<rparr>)"
  define d2 where "d2 = (if p = [] then d1
      else d1\<lparr>subscription_grants := tins (tid, GrantPaid, p) g (subscription_grants d1)\<rparr>)"
  define d3 where "d3 = upd_sub tid (paid_update now c n p ar) d2"
  have sub2: "sub_of d2 = sub_of d" "payment_taken tid p d2 = payment_taken tid p d"
      "subscription_plans d2 = subscription_plans d"
    by (simp_all add: fun_eq_iff d2_def d1_def sub_of_def payment_taken_def)
  have last: "\<not> (p \<noteq> [] \<and> st_last_payment_id s = p)"
  proof
    assume p: "p \<noteq> [] \<and> st_last_payment_id s = p"
    then have "us_last_payment_id r = Some p"
      using shows_rowD(4) [OF s] by (auto simp: or_empty_def split: option.splits)
    then have "payment_recorded d tid p" using sub_invD(6) [OF inv r] p by (auto simp: row_inv_def)
    then show False using new p by (simp add: payment_new_def)
  qed
  have dedup: "(if p \<noteq> [] then insert_payment_message now p d else Inr (True, d)) = Inr (True, d1)"
    using new by (auto simp: insert_payment_message_def payment_new_def d1_def)
  have grant: "(if p \<noteq> [] then insert_grant tid GrantPaid p g d1 else Inr (True, d1)) = Inr (True, d2)"
    using n new by (auto simp: insert_grant_def payment_new_def payment_recorded_def d2_def d1_def g_def)
  have "\<not> payment_taken tid p d2" using new sub2(2) by (auto simp: payment_new_def payment_taken_def)
  moreover have "0 \<le> us_access_rev r" using sub_inv_row [OF inv r] by (simp add: row_ok_def)
  ultimately have upd: "update_returning_expiry tid (paid_update now c n p ar) d2 =
      Inr (greatest_now (us_expires_at r) now + days n, d3)"
    using r c sub2(1,3) by (simp add: update_returning_expiry_def d3_def)
  show thesis
    by (rule that [OF dedup last grant upd])
      (use r sub2(1) in \<open>simp_all add: d3_def d2_def d1_def token_taken_def payment_recorded_def table_simps\<close>)
qed

lemma ActivatePaidTx_applied:
  fixes now :: time and tid :: int and country fresh :: string
  assumes "sub_inv d" and "0 < n" and "\<not> token_taken fresh d" and "c \<in> set (subscription_plans d)"
    and "payment_new d tid p"
  defines "r \<equiv> loaded now country d tid"
  shows "\<exists>d'. ActivatePaidTx now fresh tid country c n p ar d =
      Inr ((scanState now tid (paid_update now c n p ar r), True), d')
    \<and> sub_of d' tid = Some (paid_update now c n p ar r)
    \<and> (p = [] \<or> payment_recorded d' tid p)
    \<and> map_option tk_expires_at (token_of d' tid) = Some (Some (greatest_now (us_expires_at r) now + days n))
    \<and> event_outbox d' = event_outbox d \<and> subscription_plans d' = subscription_plans d
    \<and> (\<forall>t. t \<noteq> tid \<longrightarrow> sub_of d' t = sub_of d t)
    \<and> (\<forall>k. k \<noteq> payment_key p \<longrightarrow> tget (processed_messages d') k = tget (processed_messages d) k)
    \<and> (\<forall>k. k \<noteq> (tid, GrantPaid, p) \<longrightarrow> tget (subscription_grants d') k = tget (subscription_grants d) k)
    \<and> (\<forall>t. t \<noteq> fresh \<longrightarrow> token_taken t d' = token_taken t d)"
proof -
  obtain d1 s d2 where l: "ensureUserAndStateTx tid country d = Inr ((), d1)"
    "getStateForUpdateTx now tid d1 = Inr (s, d2)" "shows_row s tid r" "sub_of d2 tid = Some r"
    "event_outbox d2 = event_outbox d" "sub_inv d2" "tget (telegram_users d2) tid \<noteq> None"
    "\<And>t. token_taken t d2 = token_taken t d" "subscription_plans d2 = subscription_plans d"
    "subscription_grants d2 = subscription_grants d" "processed_messages d2 = processed_messages d"
    "\<And>t. t \<noteq> tid \<Longrightarrow> sub_of d2 t = sub_of d t"
    using load_user [of tid country d now] assms(1) unfolding r_def by metis
  have new: "payment_new d2 tid p"
    using assms(5) l(10,11,12) payment_taken_iff [OF sub_invD(1) [OF l(6)]]
      payment_taken_iff [OF sub_invD(1) [OF assms(1)]]
    unfolding payment_new_def payment_recorded_def by metis
  obtain d3 d4 d5 where st: "(if p \<noteq> [] then insert_payment_message now p d2 else Inr (True, d2)) = Inr (True, d3)"
    "\<not> (p \<noteq> [] \<and> st_last_payment_id s = p)"
    "(if p \<noteq> [] then insert_grant tid GrantPaid p \<lparr>gr_duration_days = n, gr_effective_from = now,
       gr_effective_until = now + days n, gr_granted_at = now\<rparr> d3 else Inr (True, d3)) = Inr (True, d4)"
    "update_returning_expiry tid (paid_update now c n p ar) d4 =
       Inr (greatest_now (us_expires_at r) now + days n, d5)"
    "sub_of d5 tid = Some (paid_update now c n p ar r)" "telegram_users d5 = telegram_users d2"
    "\<And>t. token_taken t d5 = token_taken t d2" "event_outbox d5 = event_outbox d2"
    "p = [] \<or> payment_recorded d5 tid p" "\<And>t. t \<noteq> tid \<Longrightarrow> sub_of d5 t = sub_of d2 t"
    "\<And>k. k \<noteq> payment_key p \<Longrightarrow> tget (processed_messages d5) k = tget (processed_messages d2) k"
    "\<And>k. k \<noteq> (tid, GrantPaid, p) \<Longrightarrow> tget (subscription_grants d5) k = tget (subscription_grants d2) k"
    "subscription_plans d5 = subscription_plans d2"
    by (rule paid_statements [OF l(6,4,3) assms(2) assms(4) [folded l(9)] new]) (rule that)
  obtain k d6 where k: "ensureTokenTx now fresh tid (Some (greatest_now (us_expires_at r) now + days n)) d5 = Inr (k, d6)"
    using ensureToken_total [of d5 tid fresh now "Some (greatest_now (us_expires_at r) now + days n)"] l(7,8) st(6,7) assms(3) by auto
  have d6: "sub_of d6 tid = Some (paid_update now c n p ar r)"
    using ensureToken_Inr(1) [OF k] st(5) by simp
  have rec: "p = [] \<or> payment_recorded d6 tid p"
    using ensureToken_Inr(2) [OF k] st(9) by (simp add: payment_recorded_def)
  have "ActivatePaidTx now fresh tid country c n p ar d =
      Inr ((scanState now tid (paid_update now c n p ar r), True), d6)"
    unfolding ActivatePaidTx_def l(1) andthen_simps l(2) st(1)
    using st(2,3,4) k assms(2) getState_unlapsed [OF d6 paid_not_lapsed [OF assms(2)]]
    by (simp del: if_split)
  then show ?thesis
    using d6 rec ensureToken_Inr [OF k] st(7-13) l(5,8-12) ensureToken_plans [OF k] ensureToken_taken [OF k]
    by auto
qed

lemma keeps_insert_payment_message [keeps]: "keeps_sub d (insert_payment_message now p d)"
  using keeps_processed by (simp add: insert_payment_message_def)

lemma keeps_update_paid:
  assumes "p = [] \<or> payment_recorded d tid p"
  shows "keeps_sub d (update_returning_expiry tid (paid_update now c n p ar) d)"
proof (cases "update_returning_expiry tid (paid_update now c n p ar) d")
  case (Inr x)
  then obtain e d' where u: "update_returning_expiry tid (paid_update now c n p ar) d = Inr (e, d')"
    by (cases x) auto
  from update_returning_Inr [OF u] obtain r where r: "sub_of d tid = Some r"
    "d' = upd_sub tid (paid_update now c n p ar) d" "c \<in> set (subscription_plans d)" "\<not> payment_taken tid p d"
    by auto
  have "keeps_sub d (Inr (e, upd_sub tid (paid_update now c n p ar) d))"
    by (rule keeps_upd_sub) (use r assms in \<open>auto simp: row_inv_def row_ok_def last_payment_ok_def\<close>)
  with u r(2) show ?thesis by simp
qed simp

lemma insert_grant_recorded:
  "insert_grant tid GrantPaid p g d = Inr (b, d') \<Longrightarrow> payment_recorded d' tid p"
  by (auto simp: insert_grant_def payment_recorded_def table_simps split: if_splits)

lemma keeps_ActivatePaidTx [keeps]:
  "keeps_sub d (ActivatePaidTx now fresh tid country c n p ar d)"
  unfolding ActivatePaidTx_def
  by (intro sub.keeps_andthen sub.keeps_if keeps sub.keeps_return keeps_tx_Inl keeps_update_paid)
    (auto dest: insert_grant_recorded split: if_splits)

section \<open>The other operations keep the invariant\<close>

lemma keeps_upd_both:
  assumes "\<And>k. tk_token (h k) = tk_token k"
    and "\<And>r. sub_inv d \<Longrightarrow> sub_of d tid = Some r \<Longrightarrow> row_inv d tid r \<Longrightarrow>
      row_inv d tid (f r) \<and> us_access_rev r \<le> us_access_rev (f r)"
    and "\<And>r. sub_of d tid = Some r \<Longrightarrow> last_payment_ok d tid r (f r)"
  shows "keeps_sub d (Inr (a, upd_token tid h (upd_sub tid f d)))"
proof -
  have "keeps_sub d (andthen (Inr ((), upd_sub tid f d)) (\<lambda>_ d1. Inr (a, upd_token tid h d1)))"
    using assms by (intro sub.keeps_andthen keeps_upd_sub keeps_upd_token) auto
  then show ?thesis by simp
qed

lemmas row_defs = row_inv_def row_ok_def

lemma keeps_then_getState:
  assumes "keeps_sub d (Inr ((), d') :: unit tx_result)"
  shows "keeps_sub d (getStateForUpdateTx now tid d')"
  using sub.keeps_andthen [OF assms, of "\<lambda>_. getStateForUpdateTx now tid"] keeps_getStateForUpdateTx by auto

lemma keeps_MarkAutoRenewDisabledTx [keeps]: "keeps_sub d (MarkAutoRenewDisabledTx now tid country d)"
  unfolding MarkAutoRenewDisabledTx_def
  by (intro sub.keeps_andthen keeps keeps_then_getState keeps_upd_sub)
    (auto simp: row_defs auto_renew_off_def)

lemma keeps_MarkGraceStartedTx [keeps]: "keeps_sub d (MarkGraceStartedTx now tid country g d)"
  unfolding MarkGraceStartedTx_def
  by (intro sub.keeps_andthen keeps keeps_then_getState keeps_upd_sub)
    (auto simp: row_defs grace_update_def)

lemma keeps_MarkSuspendedTx [keeps]: "keeps_sub d (MarkSuspendedTx now tid country d)"
  unfolding MarkSuspendedTx_def
  by (intro sub.keeps_andthen keeps keeps_then_getState keeps_upd_both)
    (auto simp: row_defs suspend_update_def split: option.split)

lemma keeps_CancelTx [keeps]: "keeps_sub d (CancelTx now tid country d)"
proof -
  have trial: "keeps_sub d (Inr ((), upd_token tid (\<lambda>t. t\<lparr>tk_expires_at := Some now\<rparr>)
      (upd_sub tid (cancel_trial_update now) d)))" for d
    by (intro keeps_upd_both) (auto simp: row_defs cancel_trial_update_def)
  have paid: "keeps_sub d (Inr ((), upd_sub tid (cancel_paid_update now) d))" for d
    by (intro keeps_upd_sub) (auto simp: row_defs cancel_paid_update_def)
  show ?thesis
    unfolding CancelTx_def Let_def
    by (intro sub.keeps_andthen sub.keeps_if keeps sub.keeps_return keeps_then_getState)
      (use trial paid in \<open>auto simp del: keeps_tx_Inr\<close>)
qed

lemma keeps_rotate_row: "keeps_sub d (Inr (a, upd_sub tid (\<lambda>r. r\<lparr>us_access_rev := us_access_rev r + 1\<rparr>) d))"
  by (intro keeps_upd_sub) (auto simp: row_defs)

lemma keeps_RotateSubscriptionTokenTx [keeps]:
  "keeps_sub d (RotateSubscriptionTokenTx now fresh fresh2 tid reason d)"
proof -
  have "keeps_sub d (case token_of d tid of
      Some _ \<Rightarrow> if list_ex (\<lambda>(t, r). t \<noteq> tid \<and> tk_token r = fresh) (subscription_tokens d)
        then Inl UniqueViolation else Inr (fresh, upd_token tid (rotate_token_row now fresh reason e) d)
    | None \<Rightarrow> andthen (ensureTokenTx now fresh2 tid e d) (\<lambda>_ d2.
        case token_of d2 tid of None \<Rightarrow> Inl NoRows | Some t \<Rightarrow> Inr (tk_token t, d2)))" for d e
    by (auto simp del: keeps_tx_Inr split: option.split simp: rotate_token_row_def list_ex_iff token_of_def
        tget_def dest!: map_of_SomeD intro!: sub.keeps_andthen keeps sub.keeps_return keeps_upd_token)
  then show ?thesis
    unfolding RotateSubscriptionTokenTx_def
    by (intro sub.keeps_andthen sub.keeps_if keeps sub.keeps_return keeps_rotate_row) auto
qed

lemma keeps_MarkReferralConvertedTx [keeps]: "keeps_sub d (MarkReferralConvertedTx now referee d)"
proof (cases "\<exists>r. tget (referrals d) referee = Some r \<and> rf_status r = RefPending")
  case True
  let ?f = "\<lambda>r. r\<lparr>rf_status := RefConverted, rf_converted_at := Some now\<rparr>"
  let ?d = "d\<lparr>referrals := tupd referee ?f (referrals d)\<rparr>"
  have frames: "sub_of ?d = sub_of d" "row_inv ?d = row_inv d" "trial_recorded ?d = trial_recorded d"
      "token_of ?d = token_of d" "payments_unique ?d = payments_unique d"
      "tokens_unique ?d = tokens_unique d"
    by (simp_all add: fun_eq_iff sub_of_def row_inv_def trial_recorded_def payment_recorded_def
        token_of_def payments_unique_def tokens_unique_def)
  have "keeps_sub d (Inr (a, ?d))" for a :: "int \<times> bool"
    using True by (auto simp: sub_inv_def frames evolves_def table_simps) blast
  with True show ?thesis by (auto simp: MarkReferralConvertedTx_def simp del: keeps_tx_Inr)
qed (auto simp: MarkReferralConvertedTx_def split: option.split)

lemma keeps_AttributeReferral [keeps]: "keeps_sub d (AttributeReferral referee code d)"
proof (cases "owner_of_code code d")
  case (Some ref)
  let ?r = "\<lparr>rf_referrer = ref, rf_status = RefPending, rf_converted_at = None\<rparr>"
  let ?d = "d\<lparr>referrals := tins referee ?r (referrals d)\<rparr>"
  have frames: "sub_of ?d = sub_of d" "row_inv ?d = row_inv d" "trial_recorded ?d = trial_recorded d"
      "token_of ?d = token_of d" "payments_unique ?d = payments_unique d"
      "tokens_unique ?d = tokens_unique d"
    by (simp_all add: fun_eq_iff sub_of_def row_inv_def trial_recorded_def payment_recorded_def
        token_of_def payments_unique_def tokens_unique_def)
  have "keeps_sub d (Inr (a, ?d))" if "ref \<noteq> referee" for a :: "int \<times> bool"
    using that by (auto simp: sub_inv_def frames evolves_def table_simps)
  with Some show ?thesis by (auto simp: AttributeReferral_def simp del: keeps_tx_Inr intro: sub.keeps_return)
qed (simp add: AttributeReferral_def)

lemma keeps_codes: "keeps_sub d (Inr (a, d\<lparr>referral_codes := tins tid c (referral_codes d)\<rparr>))"
proof -
  let ?d = "d\<lparr>referral_codes := tins tid c (referral_codes d)\<rparr>"
  have frames: "sub_of ?d = sub_of d" "row_inv ?d = row_inv d" "trial_recorded ?d = trial_recorded d"
      "token_of ?d = token_of d" "payments_unique ?d = payments_unique d"
      "tokens_unique ?d = tokens_unique d"
    by (simp_all add: fun_eq_iff sub_of_def row_inv_def trial_recorded_def payment_recorded_def
        token_of_def payments_unique_def tokens_unique_def)
  show ?thesis by (auto simp: sub_inv_def frames evolves_def table_simps)
qed

lemma keeps_allocate_code: "keeps_sub d (allocate_code tid attempts d)"
  using keeps_codes
  by (induction attempts) (auto simp: Let_def simp del: keeps_tx_Inr split: option.split)

lemma keeps_EnsureReferralCode [keeps]: "keeps_sub d (EnsureReferralCode attempts tid d)"
  using keeps_allocate_code by (auto simp: EnsureReferralCode_def split: option.split)

lemma redeem_update_fields [simp]:
  "us_expires_at (redeem_update now n r) = Some (greatest_now (us_expires_at r) now + days n)"
  "us_trial_used (redeem_update now n r) = us_trial_used r" "us_plan (redeem_update now n r) = us_plan r"
  "us_last_payment_id (redeem_update now n r) = us_last_payment_id r"
  "us_grace_until (redeem_update now n r) = us_grace_until r"
  "us_auto_renew (redeem_update now n r) = us_auto_renew r"
  "us_access_rev (redeem_update now n r) = us_access_rev r + 1"
  "us_status (redeem_update now n r) = (if us_status r = StatusExpired \<or> us_status r = StatusNone
     then StatusActive else us_status r)"
  by (simp_all add: redeem_update_def)

lemma keeps_redeem_update: "keeps_sub d (update_returning_expiry tid (redeem_update now n) d)"
proof (cases "update_returning_expiry tid (redeem_update now n) d")
  case (Inr x)
  then obtain e d' where u: "update_returning_expiry tid (redeem_update now n) d = Inr (e, d')" by (cases x) auto
  from update_returning_Inr [OF u] have "d' = upd_sub tid (redeem_update now n) d" by blast
  moreover have "keeps_sub d (Inr (e, upd_sub tid (redeem_update now n) d))"
    by (rule keeps_upd_sub) (auto simp: row_defs)
  ultimately show ?thesis using u by simp
qed simp

lemma keeps_reward: "0 < rw_months w \<Longrightarrow>
  keeps_sub d (Inr (a, d\<lparr>referral_reward_grants := referral_reward_grants d @ [w]\<rparr>))"
proof -
  assume w: "0 < rw_months w"
  let ?d = "d\<lparr>referral_reward_grants := referral_reward_grants d @ [w]\<rparr>"
  have frames: "sub_of ?d = sub_of d" "row_inv ?d = row_inv d" "trial_recorded ?d = trial_recorded d"
      "token_of ?d = token_of d" "payments_unique ?d = payments_unique d"
      "tokens_unique ?d = tokens_unique d"
    by (simp_all add: fun_eq_iff sub_of_def row_inv_def trial_recorded_def payment_recorded_def
        token_of_def payments_unique_def tokens_unique_def)
  show ?thesis using w by (auto simp: sub_inv_def frames evolves_def)
qed

lemma keeps_RedeemReferralMonthsTx [keeps]: "keeps_sub d (RedeemReferralMonthsTx now tid country u n d)"
  unfolding RedeemReferralMonthsTx_def Let_def
  by (intro sub.keeps_andthen sub.keeps_if keeps sub.keeps_return keeps_redeem_update keeps_reward) auto

section \<open>Payments that have been seen\<close>

lemma grants_update_returning:
  "update_returning_expiry tid f d = Inr (e, d') \<Longrightarrow> subscription_grants d' = subscription_grants d"
  by (auto elim!: update_returning_Inr)

text \<open>An applied payment is in the ledger.\<close>

lemma applied_recorded:
  assumes "ActivatePaidTx now fresh tid country c n p ar d = Inr ((s, True), d')" and "p \<noteq> []"
  shows "payment_recorded d' tid p"
proof -
  obtain d3 d4 e d5 k d6 where
    "insert_grant tid GrantPaid p \<lparr>gr_duration_days = n, gr_effective_from = now,
       gr_effective_until = now + days n, gr_granted_at = now\<rparr> d3 = Inr (True, d4)"
    "update_returning_expiry tid (paid_update now c n p ar) d4 = Inr (e, d5)"
    "ensureTokenTx now fresh tid (Some e) d5 = Inr (k, d6)" "getStateForUpdateTx now tid d6 = Inr (s, d')"
    using assms unfolding ActivatePaidTx_def by (auto split: if_splits)
  then show ?thesis
    using insert_grant_recorded grants_update_returning ensureToken_Inr(2) grants_getState
    by (metis payment_recorded_def)
qed

text \<open>A payment in the ledger changes nothing but what loading the row changes.\<close>

lemma ActivatePaidTx_recorded:
  assumes "payment_recorded d tid p" and "p \<noteq> []" and "0 < n"
  shows "\<exists>s d'. ActivatePaidTx now fresh tid country c n p ar d = Inr ((s, False), d')
    \<and> sub_of d' tid = Some (loaded now country d tid) \<and> (\<forall>t. t \<noteq> tid \<longrightarrow> sub_of d' t = sub_of d t)
    \<and> event_outbox d' = event_outbox d"
proof -
  obtain d1 s d2 where l: "ensureUserAndStateTx tid country d = Inr ((), d1)"
    "getStateForUpdateTx now tid d1 = Inr (s, d2)" "sub_of d2 tid = Some (loaded now country d tid)"
    "\<And>t. t \<noteq> tid \<Longrightarrow> sub_of d2 t = sub_of d t" "event_outbox d2 = event_outbox d"
    "subscription_grants d2 = subscription_grants d"
    using load_user [of tid country d now] by metis
  obtain b d3 where m: "insert_payment_message now p d2 = Inr (b, d3)" "sub_of d3 = sub_of d2"
    "event_outbox d3 = event_outbox d2" "subscription_grants d3 = subscription_grants d2"
    by (simp add: insert_payment_message_def sub_of_def fun_eq_iff)
  obtain d4 where g: "insert_grant tid GrantPaid p \<lparr>gr_duration_days = n, gr_effective_from = now,
       gr_effective_until = now + days n, gr_granted_at = now\<rparr> d3 = Inr (False, d4)"
    "sub_of d4 = sub_of d3" "event_outbox d4 = event_outbox d3"
    using assms(1,3) l(6) m(4)
    by (auto simp: insert_grant_def payment_recorded_def sub_of_def fun_eq_iff)
  show ?thesis
    using l m(1) g(1) assms(2,3) g m by (cases b) (auto simp: ActivatePaidTx_def)
qed

section \<open>What the remaining operations do to the row\<close>

lemma getState_sub:
  assumes "sub_of d tid = Some r"
  shows "\<exists>s d'. getStateForUpdateTx now tid d = Inr (s, d') \<and> shows_row s tid (settled now r)
    \<and> sub_of d' tid = Some (settled now r) \<and> (\<forall>t. t \<noteq> tid \<longrightarrow> sub_of d' t = sub_of d t)
    \<and> event_outbox d' = event_outbox d"
  using getState_Inr [OF assms, of now] by metis

lemma MarkAutoRenewDisabledTx_row:
  "\<exists>s d'. MarkAutoRenewDisabledTx now tid country d = Inr (s, d')
     \<and> shows_row s tid (settled now (auto_renew_off (row_or_new country d tid)))
     \<and> sub_of d' tid = Some (settled now (auto_renew_off (row_or_new country d tid)))
     \<and> event_outbox d' = event_outbox d"
proof -
  obtain d1 where e: "ensureUserAndStateTx tid country d = Inr ((), d1)"
    "sub_of d1 tid = Some (row_or_new country d tid)" "event_outbox d1 = event_outbox d"
    using ensureUser_Inr [of tid country d] by metis
  show ?thesis
    using getState_sub [of "upd_sub tid auto_renew_off d1" tid "auto_renew_off (row_or_new country d tid)" now] e
    by (auto simp: MarkAutoRenewDisabledTx_def)
qed

lemma MarkGraceStartedTx_row:
  "\<exists>s d'. MarkGraceStartedTx now tid country g d = Inr (s, d')
     \<and> shows_row s tid (settled now (grace_update g (row_or_new country d tid)))
     \<and> sub_of d' tid = Some (settled now (grace_update g (row_or_new country d tid)))
     \<and> event_outbox d' = event_outbox d"
proof -
  obtain d1 where e: "ensureUserAndStateTx tid country d = Inr ((), d1)"
    "sub_of d1 tid = Some (row_or_new country d tid)" "event_outbox d1 = event_outbox d"
    using ensureUser_Inr [of tid country d] by metis
  show ?thesis
    using getState_sub [of "upd_sub tid (grace_update g) d1" tid "grace_update g (row_or_new country d tid)" now] e
    by (auto simp: MarkGraceStartedTx_def)
qed

lemma suspend_not_lapsed: "settled now (suspend_update now r) = suspend_update now r"
  by (simp add: settled_def row_lapses_def suspend_update_def)

lemma MarkSuspendedTx_row:
  "\<exists>s d'. MarkSuspendedTx now tid country d = Inr (s, d')
     \<and> shows_row s tid (suspend_update now (row_or_new country d tid))
     \<and> sub_of d' tid = Some (suspend_update now (row_or_new country d tid))
     \<and> (\<forall>t. t \<noteq> tid \<longrightarrow> sub_of d' t = sub_of d t)
     \<and> (token_of d tid \<noteq> None \<longrightarrow> map_option tk_expires_at (token_of d' tid) = Some (Some now))
     \<and> event_outbox d' = event_outbox d"
proof -
  let ?r = "suspend_update now (row_or_new country d tid)"
  obtain d1 where e: "ensureUserAndStateTx tid country d = Inr ((), d1)"
    "sub_of d1 tid = Some (row_or_new country d tid)" "event_outbox d1 = event_outbox d"
    "subscription_tokens d1 = subscription_tokens d" "\<And>t. t \<noteq> tid \<Longrightarrow> sub_of d1 t = sub_of d t"
    using ensureUser_Inr [of tid country d] by metis
  define d2 where "d2 = upd_token tid (\<lambda>t. t\<lparr>tk_expires_at := Some now\<rparr>) (upd_sub tid (suspend_update now) d1)"
  have d2: "sub_of d2 tid = Some ?r" "\<forall>t. t \<noteq> tid \<longrightarrow> sub_of d2 t = sub_of d t"
      "token_of d tid \<noteq> None \<longrightarrow> map_option tk_expires_at (token_of d2 tid) = Some (Some now)"
      "event_outbox d2 = event_outbox d"
    using e by (auto simp: d2_def) (simp add: token_of_def)
  have "\<not> row_lapses now ?r" by (simp add: row_lapses_def suspend_update_def)
  from getState_unlapsed [OF d2(1) this] show ?thesis
    using e d2 by (simp add: MarkSuspendedTx_def d2_def [symmetric])
qed

definition cancel_row :: "time \<Rightarrow> sub_row \<Rightarrow> sub_row" where
  "cancel_row now r = (if us_status r = StatusTrial then cancel_trial_update now r
     else if us_status r = StatusActive \<or> us_status r = StatusGrace then cancel_paid_update now r else r)"

lemma CancelTx_row:
  fixes now :: time and tid :: int and country :: string and d :: sub_db
  defines "r \<equiv> loaded now country d tid"
  shows "\<exists>s d'. CancelTx now tid country d = Inr ((s, us_status r \<in> {StatusTrial, StatusActive, StatusGrace}), d')
     \<and> shows_row s tid (cancel_row now r) \<and> sub_of d' tid = Some (cancel_row now r)
     \<and> event_outbox d' = event_outbox d"
proof -
  obtain d1 s d2 where l: "ensureUserAndStateTx tid country d = Inr ((), d1)"
    "getStateForUpdateTx now tid d1 = Inr (s, d2)" "sub_of d2 tid = Some r"
    "shows_row s tid r" "event_outbox d2 = event_outbox d"
    using load_user [of tid country d now] unfolding r_def by metis
  define d3 where "d3 = (if us_status r = StatusTrial
     then upd_token tid (\<lambda>t. t\<lparr>tk_expires_at := Some now\<rparr>) (upd_sub tid (cancel_trial_update now) d2)
     else upd_sub tid (cancel_paid_update now) d2)"
  show ?thesis
  proof (cases "us_status r \<in> {StatusTrial, StatusActive, StatusGrace}")
    case True
    have d3: "sub_of d3 tid = Some (cancel_row now r)"
      using True l(3) by (auto simp: d3_def cancel_row_def)
    have "\<not> row_lapses now (cancel_row now r)"
      using True loaded_not_lapsed [of now country d tid]
      by (auto simp: cancel_row_def r_def row_lapses_def cancel_trial_update_def cancel_paid_update_def)
    from getState_unlapsed [OF d3 this] show ?thesis
      using True l shows_rowD [OF l(4)] d3
      by (auto simp: CancelTx_def d3_def [symmetric] Let_def) (auto simp: d3_def)
  next
    case False
    then show ?thesis
      using l shows_rowD [OF l(4)] by (auto simp: CancelTx_def cancel_row_def)
  qed
qed

section \<open>Redemption and rotation\<close>

lemma update_returning_same_payment:
  assumes inv: "sub_inv d" and r: "sub_of d tid = Some r"
    and "us_last_payment_id (f r) = us_last_payment_id r" and "us_plan (f r) = us_plan r"
    and "us_access_rev r \<le> us_access_rev (f r)" and "us_expires_at (f r) = Some e"
  shows "update_returning_expiry tid f d = Inr (e, upd_sub tid f d)"
proof -
  have "row_inv d tid r" by (rule sub_invD(6) [OF inv r])
  moreover have "\<not> payment_taken tid q d" if "us_last_payment_id r = Some q" for q
    using that r sub_invD(11) [OF inv]
    unfolding payment_taken_iff [OF sub_invD(1) [OF inv]] payments_unique_def by metis
  ultimately show ?thesis
    using assms by (auto simp: update_returning_expiry_def row_inv_def row_ok_def split: option.split)
qed

lemma referrals_ensureUser:
  "ensureUserAndStateTx tid country d = Inr (u, d') \<Longrightarrow>
   referrals d' = referrals d \<and> referral_reward_grants d' = referral_reward_grants d"
  by (auto simp: ensureUserAndStateTx_def Let_def)

lemma RedeemReferralMonthsTx_result:
  fixes now :: time and tid :: int and country :: string and d :: sub_db
  assumes inv: "sub_inv d" and "0 < u" and "0 < m"
  defines "r \<equiv> row_or_new country d tid"
  defines "earned \<equiv> CountConvertedReferrals tid d div u - SumGrantedMonths tid d"
  assumes "0 < earned"
  shows "\<exists>d'. RedeemReferralMonthsTx now tid country u m d =
      Inr ((earned, Some (greatest_now (us_expires_at r) now + days (earned * m))), d')
    \<and> sub_of d' tid = Some (redeem_update now (earned * m) r)
    \<and> CountConvertedReferrals tid d' = CountConvertedReferrals tid d
    \<and> SumGrantedMonths tid d' = CountConvertedReferrals tid d div u
    \<and> event_outbox d' = event_outbox d"
proof -
  obtain d1 where e: "ensureUserAndStateTx tid country d = Inr ((), d1)" "sub_of d1 tid = Some r"
    "event_outbox d1 = event_outbox d"
    using ensureUser_Inr [of tid country d] unfolding r_def by metis
  have inv1: "sub_inv d1" using keeps_txD [OF keeps_ensureUserAndStateTx e(1) inv] by simp
  have upd: "update_returning_expiry tid (redeem_update now (earned * m)) d1 =
      Inr (greatest_now (us_expires_at r) now + days (earned * m), upd_sub tid (redeem_update now (earned * m)) d1)"
    by (rule update_returning_same_payment [OF inv1 e(2)]) simp_all
  define d2 where "d2 = (upd_sub tid (redeem_update now (earned * m)) d1)\<lparr>referral_reward_grants :=
      referral_reward_grants d1 @ [\<lparr>rw_referrer = tid, rw_months = earned\<rparr>]\<rparr>"
  have "sub_of d2 tid = Some (redeem_update now (earned * m) r)"
    using e(2) sub_of_upd_sub [of tid "redeem_update now (earned * m)" d1 tid] by (simp add: d2_def sub_of_def)
  moreover have "referrals d2 = referrals d" "event_outbox d2 = event_outbox d"
      "referral_reward_grants d2 = referral_reward_grants d @ [\<lparr>rw_referrer = tid, rw_months = earned\<rparr>]"
    using referrals_ensureUser [OF e(1)] e(3) by (simp_all add: d2_def)
  moreover have "RedeemReferralMonthsTx now tid country u m d =
      Inr ((earned, Some (greatest_now (us_expires_at r) now + days (earned * m))), d2)"
  proof -
    have "\<not> CountConvertedReferrals tid d div u - SumGrantedMonths tid d \<le> 0"
      using assms(6) by (simp add: earned_def)
    then show ?thesis
      using assms(2,3) e(1) upd by (simp add: RedeemReferralMonthsTx_def Let_def earned_def d2_def)
  qed
  ultimately show ?thesis
    by (intro exI [of _ d2]) (simp add: CountConvertedReferrals_def SumGrantedMonths_def earned_def)
qed

text \<open>A rotated token is nobody's: not the user's, whose row has the new one, and not another's.\<close>

lemma tokens_unique_other:
  "tokens_unique d \<Longrightarrow> token_of d tid = Some k \<Longrightarrow> t \<noteq> tid \<Longrightarrow> token_of d t = Some k' \<Longrightarrow> tk_token k' \<noteq> tk_token k"
  unfolding tokens_unique_def by metis

lemma token_taken_iff:
  "twf (subscription_tokens d) \<Longrightarrow> token_taken s d \<longleftrightarrow> (\<exists>t k. token_of d t = Some k \<and> tk_token k = s)"
  by (force simp: token_taken_def token_of_def list_ex_iff tget_in_set)

lemma RotateSubscriptionTokenTx_Some:
  assumes "RotateSubscriptionTokenTx now fresh fresh2 tid reason d = Inr (Some (tok, e), d')"
    and inv: "sub_inv d" and k: "token_of d tid = Some k" and "fresh \<noteq> tk_token k"
  shows "tok = fresh \<and> (\<exists>k'. token_of d' tid = Some k' \<and> tk_token k' = fresh \<and> tk_expires_at k' = e)
    \<and> \<not> token_taken (tk_token k) d'"
proof -
  obtain s d1 where g: "getStateForUpdateTx now tid d = Inr (s, d1)"
    using assms(1) unfolding RotateSubscriptionTokenTx_def by blast
  have inv1: "sub_inv d1" using keeps_txD [OF keeps_getStateForUpdateTx g inv] by simp
  obtain r where r: "sub_of d tid = Some r"
    using g by (auto simp: getStateForUpdateTx_def split: option.splits)
  have tok1: "map_option tk_token (token_of d1 tid) = Some (tk_token k)"
    using getState_Inr [OF r, of now] g k by (metis Inr_inject fst_conv option.map(2) snd_conv)
  then obtain k1 where k1: "token_of d1 tid = Some k1" "tk_token k1 = tk_token k" by auto
  have d': "d' = upd_sub tid (\<lambda>r. r\<lparr>us_access_rev := us_access_rev r + 1\<rparr>)
      (upd_token tid (rotate_token_row now fresh reason e) d1)" "tok = fresh" "st_expires_at s = e"
    using assms(1) g k1(1) by (auto simp: RotateSubscriptionTokenTx_def split: if_splits)
  have own: "token_of d' tid = Some (rotate_token_row now fresh reason e k1)" "t \<noteq> tid \<Longrightarrow> token_of d' t = token_of d1 t" for t
    using k1(1) by (simp_all add: d')
  have "twf (subscription_tokens d')"
    using sub_invD(2) [OF inv1] by (simp add: d' upd_token_def)
  moreover have "tk_token k' \<noteq> tk_token k" if "token_of d' t = Some k'" for t k'
    using that own tokens_unique_other [OF sub_invD(12) [OF inv1] k1(1), of t k'] k1(2) assms(4)
    by (cases "t = tid") (auto simp: rotate_token_row_def)
  ultimately have "\<not> token_taken (tk_token k) d'" by (auto simp: token_taken_iff)
  then show ?thesis using own(1) d'(2) by (simp add: rotate_token_row_def)
qed

end
