(* ===== verification/SubProperties.thy ===== *)
theory SubProperties
  imports SubOperations
begin

text \<open>
  The properties of the subscription repository: what the trial, a payment, a cancellation, the
  grace period, a suspension, a redemption of free months and a token rotation do to the user's
  subscription. Each is one theorem over the operations of \<open>SubRepository\<close> and \<open>Referral\<close>, with
  a witness that runs it on a small database.
\<close>

section \<open>Concrete databases for the witnesses\<close>

definition empty_sub_db :: sub_db where
  "empty_sub_db = \<lparr>event_outbox = [], outbox_seq = 1, processed_messages = [], failed_messages = [],
     consumer_attempts = [], node_sync_results = None,
     subscription_plans = [TrialPlanCode, ''monthly_30d''], telegram_users = [],
     user_subscriptions = [], subscription_tokens = [], subscription_grants = [],
     referral_codes = [], referrals = [], referral_reward_grants = []\<rparr>"

lemma empty_sub_inv [simp]: "sub_inv empty_sub_db"
  by (simp add: sub_inv_def empty_sub_db_def sub_of_def token_of_def trial_recorded_def
      payments_unique_def tokens_unique_def)

lemma empty_token_free [simp]: "\<not> token_taken t empty_sub_db"
  by (simp add: token_taken_def empty_sub_db_def)

lemma loaded_empty [simp]: "loaded now country empty_sub_db tid = new_sub_row (country_or_default country)"
  by (simp add: loaded_def row_or_new_def sub_of_def empty_sub_db_def settled_def row_lapses_def new_sub_row_def)

lemma empty_payment_new [simp]: "payment_new empty_sub_db tid p"
  by (simp add: payment_new_def empty_sub_db_def payment_recorded_def payment_taken_def)

lemma empty_plans [simp]: "subscription_plans empty_sub_db = [TrialPlanCode, ''monthly_30d'']"
  by (simp add: empty_sub_db_def)

section \<open>The trial\<close>

text \<open>
  C4. What a request for a trial of \<open>n\<close> days does. The row considered is the user's row after lazy
  expiry (a new one for a new user). If it says that the trial was used, nothing changes; in the
  grace period nothing changes either and the trial stays available. Otherwise the trial is granted:
  it is marked used and recorded in the ledger, the expiry becomes \<open>n\<close> days after the later of the
  old expiry and now, and an active paid subscription stays active with its plan, its payment and
  its auto-renewal, while any other becomes a trial. The access token expires with the subscription.
\<close>

theorem start_trial_result:
  fixes now :: time and tid :: int and country fresh :: string
  assumes "sub_inv d" and "0 < n" and "\<not> token_taken fresh d"
  defines "r \<equiv> loaded now country d tid"
  shows "\<exists>s d' r'. sub_of d' tid = Some r' \<and> shows_row s tid r' \<and> event_outbox d' = event_outbox d \<and>
    (if us_trial_used r then
       StartTrialTx now fresh tid country n d
         = Inr (trial_result s TrialAlreadyUsed n (us_status r = StatusActive), d') \<and> r' = r
     else if us_status r = StatusGrace then
       StartTrialTx now fresh tid country n d = Inr (trial_result s TrialDeferredGrace n True, d') \<and> r' = r
     else
       StartTrialTx now fresh tid country n d
         = Inr (trial_result s (if us_status r = StatusActive then TrialGrantedOnTopOfPaid else TrialGranted)
                  n (us_status r = StatusActive), d')
       \<and> us_trial_used r' \<and> trial_recorded d' tid
       \<and> us_expires_at r' = Some (greatest_now (us_expires_at r) now + days n)
       \<and> map_option tk_expires_at (token_of d' tid) = Some (us_expires_at r')
       \<and> us_access_rev r' = us_access_rev r + 1
       \<and> (if us_status r = StatusActive
          then us_status r' = StatusActive \<and> us_plan r' = us_plan r
               \<and> us_last_payment_id r' = us_last_payment_id r \<and> us_auto_renew r' = us_auto_renew r
          else us_status r' = StatusTrial \<and> us_plan r' = Some TrialPlanCode \<and> \<not> us_auto_renew r'))"
proof (cases "us_trial_used r")
  case True
  then show ?thesis
    using StartTrialTx_used [OF assms(2), of now country d tid fresh] unfolding r_def by (metis (no_types))
next
  case unused: False
  show ?thesis
  proof (cases "us_status r = StatusGrace")
    case True
    then show ?thesis
      using unused StartTrialTx_grace [OF assms(2), of now country d tid fresh] unfolding r_def
      by (metis (no_types))
  next
    case False
    obtain s d' where g: "StartTrialTx now fresh tid country n d =
        Inr (trial_result s (if paid_active r then TrialGrantedOnTopOfPaid else TrialGranted) n (paid_active r), d')"
      "s = scanState now tid (trial_update now n (paid_active r) r)"
      "sub_of d' tid = Some (trial_update now n (paid_active r) r)"
      "\<exists>t. token_of d' tid = Some t \<and> tk_expires_at t = Some (greatest_now (us_expires_at r) now + days n)"
      "event_outbox d' = event_outbox d" "trial_recorded d' tid"
      using StartTrialTx_granted [OF assms(1,2) _ _ assms(3), of now country tid thesis] unused False
      unfolding r_def by blast
    show ?thesis
      by (rule exI [of _ s], rule exI [of _ d'], rule exI [of _ "trial_update now n (paid_active r) r"])
        (use unused False g in \<open>auto simp: paid_active_def trial_update_def\<close>)
  qed
qed

lemma start_trial_result_witness:
  "\<exists>s d' r'. StartTrialTx 0 ''t1'' 7 ''LT'' 1 empty_sub_db = Inr (trial_result s TrialGranted 1 False, d')
     \<and> sub_of d' 7 = Some r' \<and> us_expires_at r' = Some (days 1)"
  using start_trial_result [where d = empty_sub_db and n = 1 and fresh = "''t1''" and now = 0
      and country = "''LT''" and tid = 7] by (force simp: new_sub_row_def)

section \<open>Payments\<close>



text \<open>
  Paid periods add up. Two different payments of one user, the second arriving while the first
  period runs, extend the subscription by the sum of their durations: neither is lost, whatever the
  plans, the dates and the order they are processed in.
\<close>

theorem paid_periods_add_up:
  fixes now1 now2 :: time and tid :: int and d :: sub_db and country :: string
  assumes "sub_inv d" and "0 < n1" and "0 < n2" and "c1 \<in> set (subscription_plans d)" and "c2 \<in> set (subscription_plans d)"
    and "payment_new d tid p1" and "payment_new d tid p2" and "p1 \<noteq> p2" and "p1 \<noteq> []" and "p2 \<noteq> []"
    and "\<not> token_taken fresh1 d" and "\<not> token_taken fresh2 d" and "fresh1 \<noteq> fresh2"
  defines "base \<equiv> greatest_now (us_expires_at (loaded now1 country d tid)) now1"
  assumes "now1 \<le> now2" and "now2 < base + days n1"
  shows "\<exists>s1 d1 s2 d2 r. ActivatePaidTx now1 fresh1 tid country c1 n1 p1 ar1 d = Inr ((s1, True), d1)
    \<and> ActivatePaidTx now2 fresh2 tid country c2 n2 p2 ar2 d1 = Inr ((s2, True), d2)
    \<and> sub_of d2 tid = Some r \<and> us_expires_at r = Some (base + days (n1 + n2))"
proof -
  define r1 where "r1 = paid_update now1 c1 n1 p1 ar1 (loaded now1 country d tid)"
  obtain s1 d1 where 1: "ActivatePaidTx now1 fresh1 tid country c1 n1 p1 ar1 d = Inr ((s1, True), d1)"
    "sub_of d1 tid = Some r1" "subscription_plans d1 = subscription_plans d"
    "\<forall>t. t \<noteq> tid \<longrightarrow> sub_of d1 t = sub_of d t"
    "\<forall>k. k \<noteq> payment_key p1 \<longrightarrow> tget (processed_messages d1) k = tget (processed_messages d) k"
    "\<forall>k. k \<noteq> (tid, GrantPaid, p1) \<longrightarrow> tget (subscription_grants d1) k = tget (subscription_grants d) k"
    "\<forall>t. t \<noteq> fresh1 \<longrightarrow> token_taken t d1 = token_taken t d"
    using ActivatePaidTx_applied [OF assms(1,2,11,4,6), of now1 country ar1] unfolding r1_def by blast
  have inv: "sub_inv d1" using keeps_txD [OF keeps_ActivatePaidTx 1(1) assms(1)] by simp
  have "payment_taken tid p2 d1 = payment_taken tid p2 d"
    using payment_taken_iff [OF sub_invD(1) [OF inv]] payment_taken_iff [OF sub_invD(1) [OF assms(1)]] 1(4)
    by metis
  then have new: "payment_new d1 tid p2"
    using assms(7,8) 1(5,6) by (simp add: payment_new_def payment_recorded_def payment_key_def)
  have r1: "us_expires_at r1 = Some (base + days n1)" by (simp add: r1_def base_def)
  have "\<not> row_lapses now2 r1" using assms(16) r1 by (simp add: row_lapses_def r1_def [THEN arg_cong [where f = us_status]])
  then have loaded1: "loaded now2 country d1 tid = r1"
    using 1(2) by (simp add: loaded_def row_or_new_def settled_def)
  have "token_taken fresh2 d1 = token_taken fresh2 d" using 1(7) assms(13) by metis
  with assms(12) have tok: "\<not> token_taken fresh2 d1" by simp
  obtain s2 d2 where 2: "ActivatePaidTx now2 fresh2 tid country c2 n2 p2 ar2 d1 = Inr ((s2, True), d2)"
    "sub_of d2 tid = Some (paid_update now2 c2 n2 p2 ar2 r1)"
    using ActivatePaidTx_applied [OF inv assms(3) tok _ new, of c2 now2 country ar2] 1(3) assms(5)
    unfolding loaded1 by auto
  show ?thesis
    by (intro exI [of _ s1] exI [of _ d1] exI [of _ s2] exI [of _ d2] exI [of _ "paid_update now2 c2 n2 p2 ar2 r1"])
      (use 1(1) 2 r1 assms(16) in \<open>simp add: algebra_simps\<close>)
qed

lemma paid_periods_add_up_witness:
  "\<exists>s1 d1 s2 d2 r. ActivatePaidTx 5 ''t1'' 7 ''LT'' ''monthly_30d'' 30 ''p1'' True empty_sub_db = Inr ((s1, True), d1)
    \<and> ActivatePaidTx 6 ''t2'' 7 ''LT'' ''monthly_30d'' 90 ''p2'' False d1 = Inr ((s2, True), d2)
    \<and> sub_of d2 7 = Some r \<and> us_expires_at r = Some (5 + days 120)"
  using paid_periods_add_up [where ?now1.0 = 5 and ?now2.0 = 6 and tid = 7 and d = empty_sub_db and ?n1.0 = 30
      and ?n2.0 = 90 and ?c1.0 = "''monthly_30d''" and ?c2.0 = "''monthly_30d''" and ?p1.0 = "''p1''"
      and ?p2.0 = "''p2''" and ?fresh1.0 = "''t1''" and ?fresh2.0 = "''t2''" and country = "''LT''"
      and ?ar1.0 = True and ?ar2.0 = False]
  by (simp add: new_sub_row_def)

section \<open>Cancellation, grace, suspension\<close>

text \<open>
  Cancelling. A running trial ends at once: the subscription is expired, its expiry is now. A paid
  subscription, in its grace period or not, keeps its status and its expiry and only loses
  auto-renewal. In any other status nothing is changed and the caller is told so.
\<close>

theorem cancel_result:
  fixes now :: time and tid :: int and country :: string and d :: sub_db
  defines "r \<equiv> loaded now country d tid"
  shows "\<exists>s d' r'. CancelTx now tid country d
        = Inr ((s, us_status r = StatusTrial \<or> us_status r = StatusActive \<or> us_status r = StatusGrace), d')
    \<and> sub_of d' tid = Some r' \<and> shows_row s tid r'
    \<and> (if us_status r = StatusTrial then us_status r' = StatusExpired \<and> us_expires_at r' = Some now
           \<and> us_access_rev r' = us_access_rev r + 1
       else if us_status r = StatusActive \<or> us_status r = StatusGrace then us_status r' = us_status r
           \<and> us_expires_at r' = us_expires_at r \<and> us_grace_until r' = us_grace_until r
           \<and> \<not> us_auto_renew r' \<and> us_cancel_at_period_end r' \<and> us_canceled_at r' = Some now
       else r' = r)"
proof -
  obtain s d' where "CancelTx now tid country d
      = Inr ((s, us_status r \<in> {StatusTrial, StatusActive, StatusGrace}), d')"
    "shows_row s tid (cancel_row now r)" "sub_of d' tid = Some (cancel_row now r)"
    using CancelTx_row [of now tid country d] unfolding r_def [symmetric] by blast
  then show ?thesis
    by (intro exI [of _ s] exI [of _ d'] exI [of _ "cancel_row now r"])
      (simp add: cancel_row_def cancel_trial_update_def cancel_paid_update_def)
qed

text \<open>
  A failed renewal opens a grace period only for a paid subscription: after the operation the user is
  in grace exactly when the row was active or in grace and the deadline is still ahead. An expired
  subscription is not brought back, and no expiry is moved.
\<close>

theorem grace_only_from_paid:
  fixes now g :: time and tid :: int and country :: string and d :: sub_db
  defines "r \<equiv> row_or_new country d tid"
  shows "\<exists>s d'. MarkGraceStartedTx now tid country g d = Inr (s, d')
    \<and> (st_status s = StatusGrace \<longleftrightarrow> (us_status r = StatusActive \<or> us_status r = StatusGrace) \<and> now < g)
    \<and> (us_status r = StatusExpired \<longrightarrow> st_status s = StatusExpired)
    \<and> st_expires_at s = us_expires_at r"
proof -
  let ?r = "settled now (grace_update g r)"
  obtain s d' where g: "MarkGraceStartedTx now tid country g d = Inr (s, d')" "shows_row s tid ?r"
    using MarkGraceStartedTx_row [of now tid country g d] unfolding r_def [symmetric] by blast
  have "us_expires_at ?r = us_expires_at r" by (simp add: grace_update_def)
  moreover have "us_status ?r = StatusGrace \<longleftrightarrow> (us_status r = StatusActive \<or> us_status r = StatusGrace) \<and> now < g"
    by (auto simp: settled_def grace_update_def row_lapses_def expire_sub_def)
  moreover have "us_status r = StatusExpired \<longrightarrow> us_status ?r = StatusExpired"
    by (auto simp: settled_def grace_update_def expire_sub_def)
  ultimately show ?thesis using g shows_rowD [OF g(2)] by (metis (no_types, lifting))
qed

lemma grace_only_from_paid_witness:
  "\<exists>s d'. MarkGraceStartedTx 0 7 ''LT'' 5 empty_sub_db = Inr (s, d') \<and> st_status s \<noteq> StatusGrace"
  using grace_only_from_paid [of 0 7 "''LT''" 5 empty_sub_db]
  by (auto simp: row_or_new_def sub_of_def empty_sub_db_def new_sub_row_def)

section \<open>Free months and rotated links\<close>

text \<open>
  Redeeming free months. With \<open>u\<close> paying referrals per month and \<open>m\<close> days in a month, the user gets
  the months earned so far, rounded down, less those already granted. If there are none nothing
  happens. Otherwise the expiry moves \<open>m\<close> days per month past the later of the old expiry and now, a
  new or expired subscription becomes active and any other status is kept, and afterwards exactly the
  earned months are granted: redeeming again, at any time, gives nothing.
\<close>

theorem redeem_result:
  fixes now :: time and tid :: int and country :: string and d :: sub_db
  assumes "sub_inv d" and "0 < u" and "0 < m"
  defines "r \<equiv> row_or_new country d tid"
  defines "earned \<equiv> CountConvertedReferrals tid d div u - SumGrantedMonths tid d"
  shows "if earned \<le> 0 then RedeemReferralMonthsTx now tid country u m d = Inr ((0, None), d)
    else \<exists>d' r'. RedeemReferralMonthsTx now tid country u m d = Inr ((earned, us_expires_at r'), d')
      \<and> sub_of d' tid = Some r'
      \<and> us_expires_at r' = Some (greatest_now (us_expires_at r) now + days (earned * m))
      \<and> us_status r' = (if us_status r = StatusExpired \<or> us_status r = StatusNone then StatusActive
                        else us_status r)
      \<and> SumGrantedMonths tid d' = CountConvertedReferrals tid d' div u
      \<and> (\<forall>now'. RedeemReferralMonthsTx now' tid country u m d' = Inr ((0, None), d'))"
proof (cases "earned \<le> 0")
  case True
  then show ?thesis using assms(2,3) by (simp add: RedeemReferralMonthsTx_def Let_def earned_def)
next
  case False
  then obtain d' where "RedeemReferralMonthsTx now tid country u m d =
      Inr ((earned, Some (greatest_now (us_expires_at r) now + days (earned * m))), d')"
    "sub_of d' tid = Some (redeem_update now (earned * m) r)"
    "CountConvertedReferrals tid d' = CountConvertedReferrals tid d"
    "SumGrantedMonths tid d' = CountConvertedReferrals tid d div u"
    using RedeemReferralMonthsTx_result [OF assms(1-3), of tid now country] unfolding r_def earned_def by force
  moreover from this(3,4) have "RedeemReferralMonthsTx now' tid country u m d' = Inr ((0, None), d')" for now'
    using assms(2,3) by (simp add: RedeemReferralMonthsTx_def Let_def)
  ultimately show ?thesis using False by auto
qed

definition referrer_db :: sub_db where
  "referrer_db = empty_sub_db\<lparr>referrals := [(8, \<lparr>rf_referrer = 7, rf_status = RefConverted, rf_converted_at = Some 0\<rparr>)]\<rparr>"

lemma referrer_db_inv [simp]: "sub_inv referrer_db"
  by (auto simp: sub_inv_def referrer_db_def empty_sub_db_def sub_of_def token_of_def trial_recorded_def
      payments_unique_def tokens_unique_def twf_def tget_def split: if_splits)

lemma redeem_result_witness:
  "\<exists>d' r'. RedeemReferralMonthsTx 5 7 ''LT'' 1 30 referrer_db = Inr ((1, Some (5 + days 30)), d')
     \<and> sub_of d' 7 = Some r' \<and> us_status r' = StatusActive"
proof -
  have earned: "CountConvertedReferrals 7 referrer_db div 1 - SumGrantedMonths 7 referrer_db = 1"
    by (simp add: CountConvertedReferrals_def SumGrantedMonths_def referrer_db_def empty_sub_db_def)
  have row: "row_or_new ''LT'' referrer_db 7 = new_sub_row ''LT''"
    by (simp add: row_or_new_def sub_of_def referrer_db_def empty_sub_db_def country_or_default_def)
  show ?thesis
    using redeem_result [where d = referrer_db and u = 1 and m = 30 and tid = 7 and now = 5
        and country = "''LT''"] unfolding earned row by (auto simp: new_sub_row_def)
qed

text \<open>
  C6. Rotating the link. When the rotation succeeds the user has the new token, with the expiry of the
  subscription, and the old one belongs to nobody any more, so the old link stops working.
\<close>

theorem rotation_invalidates_old_token:
  assumes "sub_inv d" and "token_of d tid = Some k" and "fresh \<noteq> tk_token k"
    and "RotateSubscriptionTokenTx now fresh fresh2 tid reason d = Inr (Some (tok, e), d')"
  shows "tok = fresh \<and> map_option tk_token (token_of d' tid) = Some fresh
    \<and> map_option tk_expires_at (token_of d' tid) = Some e \<and> \<not> token_taken (tk_token k) d'"
  using RotateSubscriptionTokenTx_Some [OF assms(4,1,2,3)] by auto

definition subscriber_row :: sub_row where
  "subscriber_row = (new_sub_row ''LT'')\<lparr>us_status := StatusActive, us_plan := Some ''monthly_30d'',
     us_started_at := Some 0, us_expires_at := Some (days 30), us_last_payment_id := Some []\<rparr>"

definition subscriber_db :: sub_db where
  "subscriber_db = empty_sub_db\<lparr>telegram_users := [(7, ())], user_subscriptions := [(7, subscriber_row)],
     subscription_tokens := [(7, \<lparr>tk_token = ''old'', tk_expires_at = Some (days 30), tk_last_issued_at = 0,
       tk_revoked_at = None, tk_rotate_reason = []\<rparr>)]\<rparr>"

lemma subscriber_db_inv [simp]: "sub_inv subscriber_db"
  by (auto simp: sub_inv_def subscriber_db_def empty_sub_db_def sub_of_def token_of_def trial_recorded_def
      payments_unique_def tokens_unique_def twf_def tget_def row_inv_def row_ok_def subscriber_row_def
      new_sub_row_def TrialPlanCode_def split: if_splits)

lemma subscriber_token [simp]: "token_of subscriber_db 7 = Some \<lparr>tk_token = ''old'', tk_expires_at = Some (days 30),
    tk_last_issued_at = 0, tk_revoked_at = None, tk_rotate_reason = []\<rparr>"
  by (simp add: token_of_def subscriber_db_def tget_def)

lemma subscriber_sub [simp]: "sub_of subscriber_db 7 = Some subscriber_row"
  by (simp add: sub_of_def subscriber_db_def tget_def)

lemma rotation_invalidates_old_token_witness:
  "\<exists>d'. RotateSubscriptionTokenTx 5 ''new'' ''x'' 7 ''user_request'' subscriber_db = Inr (Some (''new'', Some (days 30)), d')
     \<and> \<not> token_taken ''old'' d'"
proof -
  have st: "st_expires_at (scanState 5 7 subscriber_row) = Some (days 30)"
      "st_status (scanState 5 7 subscriber_row) = StatusActive"
    by (simp_all add: subscriber_row_def)
  have "\<not> row_lapses 5 subscriber_row" by (simp add: row_lapses_def subscriber_row_def)
  then have "getStateForUpdateTx 5 7 subscriber_db = Inr (scanState 5 7 subscriber_row, subscriber_db)"
    by (rule getState_unlapsed [OF subscriber_sub])
  moreover have "\<not> list_ex (\<lambda>(t, r). t \<noteq> 7 \<and> tk_token r = ''new'') (subscription_tokens subscriber_db)"
    by (simp add: subscriber_db_def)
  ultimately obtain d' where d': "RotateSubscriptionTokenTx 5 ''new'' ''x'' 7 ''user_request'' subscriber_db =
      Inr (Some (''new'', Some (days 30)), d')"
    using st by (simp add: RotateSubscriptionTokenTx_def)
  show ?thesis
    using d' rotation_invalidates_old_token [OF subscriber_db_inv subscriber_token _ d'] by simp
qed

end
