(* ===== verification/SubService.thy ===== *)
theory SubService
  imports SubProperties
begin

text \<open>
  The handlers of \<open>internal/user_subscription/service.go\<close> and \<open>token_rotation.go\<close>: each opens a
  transaction, runs one operation of the repository and puts into the outbox, in the same
  transaction, the event the orchestrator needs, the command the billing service needs and the
  message the user sees. A handler takes the outage its transaction meets, the instant \<open>now\<close>, the
  UUIDs \<open>uuid 0, uuid 1, \<dots>\<close> it draws, and its command (None for a nil pointer). The title of a
  link, a fixed Russian text, is written in English.
\<close>

section \<open>Settings\<close>

record service_config =
  cf_public_base_url :: string
  cf_default_country :: string
  cf_trial_days :: int
  cf_users_per_month :: int
  cf_days_per_month :: int

definition normalizeBaseURL :: "string \<Rightarrow> string" where
  "normalizeBaseURL v = (let v = trim_space v in
     if v = [] then [] else if last v \<noteq> CHR ''/'' then v @ ''/'' else v)"

text \<open>\<open>getenv\<close> is the environment of the process.\<close>

definition NewService :: "(string \<Rightarrow> string) \<Rightarrow> string \<Rightarrow> string \<Rightarrow> service_config" where
  "NewService getenv publicBaseURL defaultCountry =
     (let url = normalizeBaseURL publicBaseURL
      in \<lparr>cf_public_base_url = (if url = [] then ''http://localhost:8084/sub/'' else url),
          cf_default_country = (if defaultCountry = [] then ''LT'' else defaultCountry),
          cf_trial_days = positive_env atoi (getenv ''TRIAL_DAYS'') 1,
          cf_users_per_month = positive_env atoi (getenv ''REFERRAL_USERS_PER_MONTH'') 1,
          cf_days_per_month = positive_env atoi (getenv ''REFERRAL_DAYS_PER_MONTH'') 30\<rparr>)"

section \<open>What goes into the outbox\<close>

definition notification :: "int \<Rightarrow> tg_text \<Rightarrow> bool \<Rightarrow> tg_keyboard \<Rightarrow> tg_notification" where
  "notification tid txt md kb =
     \<lparr>ntf_telegram_id = tid, ntf_message = txt, ntf_markdown = md, ntf_keyboard = kb,
      ntf_pay_url = []\<rparr>"

definition notifyTx :: "time \<Rightarrow> tg_notification \<Rightarrow> sub_db \<Rightarrow> unit tx_result" where
  "notifyTx now n d =
     (if ntf_telegram_id n = 0 then Inr ((), d)
      else Inr ((), AddTx now
        \<lparr>oe_aggregate_type = ''telegram'', oe_aggregate_id = show_int (ntf_telegram_id n),
         oe_topic = TopicTgNotifications, oe_message_key = show_int (ntf_telegram_id n),
         oe_event_type = ''tg.notification'', oe_payload = PNotification n\<rparr> d))"

definition publishSubscriptionEventTx :: "time \<Rightarrow> subscription_event \<Rightarrow> sub_db \<Rightarrow> unit tx_result" where
  "publishSubscriptionEventTx now e d = Inr ((), AddTx now
     \<lparr>oe_aggregate_type = ''subscription'', oe_aggregate_id = show_int (se_telegram_id e),
      oe_topic = TopicSubscriptionEvents, oe_message_key = show_int (se_telegram_id e),
      oe_event_type = sub_event_type e, oe_payload = PSubscriptionEvent e\<rparr> d)"

definition publishBillingCommandTx :: "time \<Rightarrow> int \<Rightarrow> billing_command option \<Rightarrow> sub_db \<Rightarrow> unit tx_result" where
  "publishBillingCommandTx now tid cmd d = (case cmd of
     None \<Rightarrow> Inr ((), d)
   | Some c \<Rightarrow> if tid = 0 then Inr ((), d)
       else Inr ((), AddTx now
         \<lparr>oe_aggregate_type = ''billing-command'', oe_aggregate_id = show_int tid,
          oe_topic = TopicBillingCommands, oe_message_key = show_int tid,
          oe_event_type = ''billing.command'', oe_payload = PBillingCommand c\<rparr> d))"

text \<open>Reading through a pointer.\<close>

definition deref :: "'b option \<Rightarrow> ('b \<Rightarrow> 'a tx_result) \<Rightarrow> 'a tx_result" where
  "deref v k = (case v of None \<Rightarrow> Inl NilDeref | Some x \<Rightarrow> k x)"

definition pluralDays :: "int \<Rightarrow> day_count" where
  "pluralDays n = (let n = (if n < 0 then 0 else n)
     in (n, if 11 \<le> n mod 100 \<and> n mod 100 \<le> 14 then DaysMany
            else if n mod 10 = 1 then DayOne
            else if 2 \<le> n mod 10 \<and> n mod 10 \<le> 4 then DaysFew
            else DaysMany))"

section \<open>Status and links\<close>

definition sendStatusNotificationTx ::
    "service_config \<Rightarrow> time \<Rightarrow> SubscriptionState \<Rightarrow> sub_db \<Rightarrow> unit tx_result" where
  "sendStatusNotificationTx cfg now s d = (case st_status s of
     StatusNone \<Rightarrow> notifyTx now (notification (st_telegram_id s)
       (TxtStatusNone (pluralDays (cf_trial_days cfg))) False KbTrialOrBuy) d
   | StatusTrial \<Rightarrow> deref (st_expires_at s) (\<lambda>e. notifyTx now (notification (st_telegram_id s)
       (TxtStatusTrial e (pluralDays (st_days_left s))) True KbMySubscriptionConfig) d)
   | StatusActive \<Rightarrow> deref (st_expires_at s) (\<lambda>e. notifyTx now (notification (st_telegram_id s)
       (TxtStatusActive e (pluralDays (st_days_left s))
          (\<not> (\<not> st_auto_renew s \<or> st_cancel_at_period_end s))) True KbMySubscriptionConfig) d)
   | StatusGrace \<Rightarrow> notifyTx now (notification (st_telegram_id s)
       (TxtStatusGrace (st_grace_until s)) True KbBuyMenu) d
   | StatusExpired \<Rightarrow> notifyTx now (notification (st_telegram_id s)
       TxtStatusExpired False KbTrialOrBuy) d)"

definition buildSubscriptionLinkTx ::
    "service_config \<Rightarrow> time \<Rightarrow> string \<Rightarrow> SubscriptionState \<Rightarrow> sub_db \<Rightarrow> SubscriptionLink tx_result" where
  "buildSubscriptionLinkTx cfg now fresh s d =
     (let expiresAt = (if st_status s = StatusGrace \<and> st_grace_until s \<noteq> None
            then st_grace_until s else st_expires_at s)
      in andthen (ensureTokenTx now fresh (st_telegram_id s) expiresAt d) (\<lambda>token d1.
           Inr (\<lparr>sl_kind = ''subscription_feed'', sl_title = ''access link'',
                 sl_url = cf_public_base_url cfg @ token, sl_expires_at = expiresAt\<rparr>, d1)))"

definition has_access :: "SubscriptionStatus \<Rightarrow> bool" where
  "has_access st \<longleftrightarrow> st = StatusTrial \<or> st = StatusActive \<or> st = StatusGrace"

definition sendLinksNotificationForClientTx ::
    "service_config \<Rightarrow> time \<Rightarrow> string \<Rightarrow> SubscriptionState \<Rightarrow> string \<Rightarrow> sub_db \<Rightarrow> unit tx_result" where
  "sendLinksNotificationForClientTx cfg now fresh s clientGroup d =
     (if \<not> has_access (st_status s)
      then notifyTx now (notification (st_telegram_id s) TxtNoAccess False KbTrialOrBuy) d
      else andthen (buildSubscriptionLinkTx cfg now fresh s d) (\<lambda>link d1.
        andthen (case st_expires_at s of
            None \<Rightarrow> Inr ((), d1)
          | Some e \<Rightarrow> publishSubscriptionEventTx now (SubscriptionLinksIssuedEvent (st_telegram_id s) e
              [SubscriptionAccessLink (sl_kind link) (sl_title link) (sl_url link)]) d1)
          (\<lambda>_ d2.
            let isHapp = (clientGroup \<noteq> ''xray'');
                url = sl_url link @ (if isHapp then ''?c=happ'' else ''?c=xray'')
            in notifyTx now (notification (st_telegram_id s)
                 (TxtLinks isHapp url (sl_expires_at link)) True KbMySubscriptionConfig) d2)))"

definition sendLinksNotificationTx ::
    "service_config \<Rightarrow> time \<Rightarrow> string \<Rightarrow> SubscriptionState \<Rightarrow> sub_db \<Rightarrow> unit tx_result" where
  "sendLinksNotificationTx cfg now fresh s d = sendLinksNotificationForClientTx cfg now fresh s [] d"

definition HandleGetStatus ::
    "service_config \<Rightarrow> outage \<Rightarrow> time \<Rightarrow> int option \<Rightarrow> sub_db \<Rightarrow> tx_error option \<times> sub_db" where
  "HandleGetStatus cfg out now cmd d = (case cmd of
     None \<Rightarrow> (None, d)
   | Some tid \<Rightarrow> run_tx out (\<lambda>d.
       andthen (GetStatusTx now tid (cf_default_country cfg) d) (\<lambda>s d1.
         sendStatusNotificationTx cfg now s d1)) d)"

definition HandleGetLinks ::
    "service_config \<Rightarrow> outage \<Rightarrow> time \<Rightarrow> (nat \<Rightarrow> string) \<Rightarrow> (int \<times> string) option \<Rightarrow> sub_db
      \<Rightarrow> tx_error option \<times> sub_db" where
  "HandleGetLinks cfg out now uuid cmd d = (case cmd of
     None \<Rightarrow> (None, d)
   | Some (tid, clientGroup) \<Rightarrow> run_tx out (\<lambda>d.
       andthen (GetStatusTx now tid (cf_default_country cfg) d) (\<lambda>s d1.
         sendLinksNotificationForClientTx cfg now (uuid 0) s clientGroup d1)) d)"

section \<open>The trial\<close>

definition notifyTrialAlreadyUsedTx ::
    "service_config \<Rightarrow> time \<Rightarrow> SubscriptionState \<Rightarrow> sub_db \<Rightarrow> unit tx_result" where
  "notifyTrialAlreadyUsedTx cfg now s d =
     (if st_status s = StatusTrial then
        deref (st_expires_at s) (\<lambda>e. notifyTx now (notification (st_telegram_id s)
          (TxtTrialRunning e (pluralDays (st_days_left s))) True KbMySubscriptionConfig) d)
      else if st_status s = StatusActive then
        deref (st_expires_at s) (\<lambda>e. notifyTx now (notification (st_telegram_id s)
          (TxtTrialUsedPaidActive e (pluralDays (st_days_left s))) True KbMySubscriptionConfig) d)
      else if st_status s = StatusGrace then sendStatusNotificationTx cfg now s d
      else notifyTx now (notification (st_telegram_id s) TxtTrialUsedBuy False KbTrialOrBuy) d)"

definition start_trial_body ::
    "service_config \<Rightarrow> time \<Rightarrow> (nat \<Rightarrow> string) \<Rightarrow> int \<Rightarrow> sub_db \<Rightarrow> unit tx_result" where
  "start_trial_body cfg now uuid tid d =
     andthen (StartTrialTx now (uuid 0) tid (cf_default_country cfg) (cf_trial_days cfg) d) (\<lambda>res d1.
       let s = tr_state res in
       case tr_outcome res of
         TrialAlreadyUsed \<Rightarrow> notifyTrialAlreadyUsedTx cfg now s d1
       | TrialDeferredGrace \<Rightarrow> notifyTx now (notification tid TxtTrialDeferredGrace False KbBuyMenu) d1
       | outcome \<Rightarrow>
           andthen (case st_expires_at s of
               None \<Rightarrow> Inr ((), d1)
             | Some e \<Rightarrow> publishSubscriptionEventTx now (SubscriptionTrialStartedEvent tid e
                 (st_days_left s) (st_country s) (st_access_rev s)) d1) (\<lambda>_ d2.
           deref (st_expires_at s) (\<lambda>e.
           andthen (notifyTx now (notification tid
               (if outcome = TrialGrantedOnTopOfPaid
                then TxtTrialOnTopOfPaid (pluralDays (tr_trial_days res)) e (pluralDays (st_days_left s))
                else TxtTrialGranted (pluralDays (tr_trial_days res)) e) True KbMySubscriptionConfig) d2) (\<lambda>_ d3.
             sendLinksNotificationTx cfg now (uuid 1) s d3))))"

definition HandleStartTrial ::
    "service_config \<Rightarrow> outage \<Rightarrow> time \<Rightarrow> (nat \<Rightarrow> string) \<Rightarrow> int option \<Rightarrow> sub_db \<Rightarrow> tx_error option \<times> sub_db" where
  "HandleStartTrial cfg out now uuid cmd d = (case cmd of
     None \<Rightarrow> (None, d)
   | Some tid \<Rightarrow> run_tx out (start_trial_body cfg now uuid tid) d)"

section \<open>Cancellation\<close>

definition cancel_body ::
    "service_config \<Rightarrow> time \<Rightarrow> (nat \<Rightarrow> string) \<Rightarrow> int \<Rightarrow> sub_db \<Rightarrow> unit tx_result" where
  "cancel_body cfg now uuid tid d =
     andthen (CancelTx now tid (cf_default_country cfg) d) (\<lambda>(s, changed) d1.
       if \<not> changed then notifyTx now (notification tid TxtNothingToCancel False KbMainMenuWithBack) d1
       else let cancelAtPeriodEnd = (st_cancel_at_period_end s \<and> st_status s \<noteq> StatusExpired) in
         andthen (publishSubscriptionEventTx now (SubscriptionCanceledEvent tid now (st_expires_at s)
             cancelAtPeriodEnd (st_access_rev s)) d1) (\<lambda>_ d2.
         if cancelAtPeriodEnd then
           andthen (publishBillingCommandTx now tid (Some (DisableAutoRenewCommand (uuid 0) tid
               ''user_cancelled_subscription'')) d2) (\<lambda>_ d3.
             notifyTx now (notification tid (TxtAutoRenewCanceled (st_expires_at s)) True KbMainMenuWithBack) d3)
         else notifyTx now (notification tid TxtTrialStopped False KbMainMenu) d2))"

definition HandleCancel ::
    "service_config \<Rightarrow> outage \<Rightarrow> time \<Rightarrow> (nat \<Rightarrow> string) \<Rightarrow> int option \<Rightarrow> sub_db \<Rightarrow> tx_error option \<times> sub_db" where
  "HandleCancel cfg out now uuid cmd d = (case cmd of
     None \<Rightarrow> (None, d)
   | Some tid \<Rightarrow> run_tx out (cancel_body cfg now uuid tid) d)"

section \<open>Billing events\<close>

definition payment_body ::
    "service_config \<Rightarrow> time \<Rightarrow> (nat \<Rightarrow> string) \<Rightarrow> int \<Rightarrow> string \<Rightarrow> int \<Rightarrow> string \<Rightarrow> string \<Rightarrow> bool
      \<Rightarrow> sub_db \<Rightarrow> unit tx_result" where
  "payment_body cfg now uuid tid plan n paymentID source autoRenew d =
     andthen (ActivatePaidTx now (uuid 0) tid (cf_default_country cfg) plan n paymentID autoRenew d)
       (\<lambda>(s, applied) d1.
        if \<not> applied then Inr ((), d1)
        else
          andthen (MarkReferralConvertedTx now tid d1) (\<lambda>(referrer, converted) d2.
          andthen (if converted
              then notifyTx now (notification referrer TxtReferralConverted True KbNone) d2
              else Inr ((), d2)) (\<lambda>_ d3.
          andthen (case st_expires_at s of
              None \<Rightarrow> Inr ((), d3)
            | Some e \<Rightarrow> publishSubscriptionEventTx now (SubscriptionActivatedEvent tid plan now e
                (st_days_left s) (st_country s) source paymentID autoRenew (st_access_rev s)) d3) (\<lambda>_ d4.
          deref (st_expires_at s) (\<lambda>e.
          andthen (notifyTx now (notification tid
              (TxtPaid (source = BillingChargeSourceRecurring) e (pluralDays (st_days_left s)))
              True KbMySubscriptionConfig) d4) (\<lambda>_ d5.
            sendLinksNotificationTx cfg now (uuid 1) s d5))))))"

text \<open>The events are the constructors of \<open>billing_event\<close>; any other event leaves the handler alone.\<close>

fun HandleBillingPaymentSucceeded ::
    "service_config \<Rightarrow> outage \<Rightarrow> time \<Rightarrow> (nat \<Rightarrow> string) \<Rightarrow> billing_event option \<Rightarrow> sub_db
      \<Rightarrow> tx_error option \<times> sub_db" where
  "HandleBillingPaymentSucceeded cfg out now uuid (Some (BillingPaymentSucceededEvent checkout source tid
       orderID paymentID plan n amount currency methodID attemptNo autoRenew at provider)) d =
     (if checkout \<noteq> BillingCheckoutTypeSubscription then (None, d)
      else run_tx out (payment_body cfg now uuid tid plan n paymentID source autoRenew) d)"
| "HandleBillingPaymentSucceeded cfg out now uuid _ d = (None, d)"

definition notifyAutoRenewDisabledTx ::
    "time \<Rightarrow> SubscriptionState \<Rightarrow> (time option option \<Rightarrow> tg_text) \<Rightarrow> sub_db \<Rightarrow> unit tx_result" where
  "notifyAutoRenewDisabledTx now s msgPrefix d =
     (if st_status s = StatusActive \<or> st_status s = StatusGrace
      then notifyTx now (notification (st_telegram_id s) (msgPrefix (Some (st_expires_at s))) True KbMainMenuWithBack) d
      else notifyTx now (notification (st_telegram_id s) (msgPrefix None) False KbMainMenuWithBack) d)"

fun HandleBillingPaymentMethodUnbound ::
    "service_config \<Rightarrow> outage \<Rightarrow> time \<Rightarrow> billing_event option \<Rightarrow> sub_db \<Rightarrow> tx_error option \<times> sub_db" where
  "HandleBillingPaymentMethodUnbound cfg out now (Some (BillingPaymentMethodUnboundEvent tid at)) d =
     run_tx out (\<lambda>d. andthen (MarkAutoRenewDisabledTx now tid (cf_default_country cfg) d) (\<lambda>s d1.
       notifyAutoRenewDisabledTx now s TxtCardUnbound d1)) d"
| "HandleBillingPaymentMethodUnbound cfg out now _ d = (None, d)"

fun HandleBillingAutoRenewDisabled ::
    "service_config \<Rightarrow> outage \<Rightarrow> time \<Rightarrow> billing_event option \<Rightarrow> sub_db \<Rightarrow> tx_error option \<times> sub_db" where
  "HandleBillingAutoRenewDisabled cfg out now (Some (BillingAutoRenewDisabledEvent tid reason at)) d =
     run_tx out (\<lambda>d. andthen (MarkAutoRenewDisabledTx now tid (cf_default_country cfg) d) (\<lambda>s d1.
       notifyAutoRenewDisabledTx now s TxtAutoRenewDisabled d1)) d"
| "HandleBillingAutoRenewDisabled cfg out now _ d = (None, d)"

definition grace_body ::
    "service_config \<Rightarrow> time \<Rightarrow> int \<Rightarrow> time \<Rightarrow> string \<Rightarrow> sub_db \<Rightarrow> unit tx_result" where
  "grace_body cfg now tid graceUntil reason d =
     andthen (MarkGraceStartedTx now tid (cf_default_country cfg) graceUntil d) (\<lambda>s d1.
     andthen (publishSubscriptionEventTx now
         (SubscriptionGraceStartedEvent tid graceUntil reason (st_access_rev s)) d1) (\<lambda>_ d2.
       notifyTx now (notification tid (TxtGraceStarted graceUntil) True KbBuyMenu) d2))"

fun HandleBillingGraceStarted ::
    "service_config \<Rightarrow> outage \<Rightarrow> time \<Rightarrow> billing_event option \<Rightarrow> sub_db \<Rightarrow> tx_error option \<times> sub_db" where
  "HandleBillingGraceStarted cfg out now (Some (BillingGraceStartedEvent tid plan paymentID reason graceUntil at)) d =
     run_tx out (grace_body cfg now tid graceUntil reason) d"
| "HandleBillingGraceStarted cfg out now _ d = (None, d)"

definition expired_body ::
    "service_config \<Rightarrow> time \<Rightarrow> int \<Rightarrow> string \<Rightarrow> time \<Rightarrow> sub_db \<Rightarrow> unit tx_result" where
  "expired_body cfg now tid reason expiredAt d =
     andthen (MarkSuspendedTx now tid (cf_default_country cfg) d) (\<lambda>s d1.
     andthen (publishSubscriptionEventTx now
         (SubscriptionSuspendedEvent tid expiredAt reason (st_access_rev s)) d1) (\<lambda>_ d2.
       notifyTx now (notification tid TxtSuspended False KbTrialOrBuy) d2))"

fun HandleBillingAccessExpired ::
    "service_config \<Rightarrow> outage \<Rightarrow> time \<Rightarrow> billing_event option \<Rightarrow> sub_db \<Rightarrow> tx_error option \<times> sub_db" where
  "HandleBillingAccessExpired cfg out now (Some (BillingAccessExpiredEvent tid reason expiredAt)) d =
     run_tx out (expired_body cfg now tid reason expiredAt) d"
| "HandleBillingAccessExpired cfg out now _ d = (None, d)"

section \<open>Referrals and rotation\<close>

text \<open>\<open>AttributeReferral\<close> runs on the pool, outside a transaction.\<close>

definition HandleReferralAttribute ::
    "outage \<Rightarrow> (int \<times> string) option \<Rightarrow> sub_db \<Rightarrow> tx_error option \<times> sub_db" where
  "HandleReferralAttribute out cmd d = (case cmd of
     None \<Rightarrow> (None, d)
   | Some (referee, code) \<Rightarrow>
       if referee = 0 \<or> code = [] then (None, d) else run_tx out (AttributeReferral referee code) d)"

definition redeem_body :: "service_config \<Rightarrow> time \<Rightarrow> int \<Rightarrow> sub_db \<Rightarrow> unit tx_result" where
  "redeem_body cfg now tid d =
     andthen (RedeemReferralMonthsTx now tid (cf_default_country cfg) (cf_users_per_month cfg)
         (cf_days_per_month cfg) d) (\<lambda>(granted, newExpiresAt) d1.
       if granted = 0
       then notifyTx now (notification tid (TxtNoFreeMonths (cf_users_per_month cfg)) True KbNone) d1
       else deref newExpiresAt (\<lambda>e.
         andthen (notifyTx now (notification tid (TxtMonthsGranted granted e) True KbNone) d1) (\<lambda>_ d2.
           case getStateForUpdateTx now tid d2 of
             Inl _ \<Rightarrow> Inr ((), d2)
           | Inr (s, d3) \<Rightarrow>
               (case st_expires_at s of
                  None \<Rightarrow> Inr ((), d3)
                | Some until \<Rightarrow> publishSubscriptionEventTx now (SubscriptionActivatedEvent tid (st_plan s) now
                    until (st_days_left s) (st_country s) ''referral_reward'' [] False (st_access_rev s)) d3))))"

definition HandleReferralRedeem ::
    "service_config \<Rightarrow> outage \<Rightarrow> time \<Rightarrow> int option \<Rightarrow> sub_db \<Rightarrow> tx_error option \<times> sub_db" where
  "HandleReferralRedeem cfg out now cmd d = (case cmd of
     None \<Rightarrow> (None, d)
   | Some tid \<Rightarrow> if tid = 0 then (None, d) else run_tx out (redeem_body cfg now tid) d)"

definition rotate_body ::
    "service_config \<Rightarrow> time \<Rightarrow> (nat \<Rightarrow> string) \<Rightarrow> int \<Rightarrow> string \<Rightarrow> sub_db \<Rightarrow> unit tx_result" where
  "rotate_body cfg now uuid tid reason d =
     andthen (RotateSubscriptionTokenTx now (uuid 0) (uuid 1) tid reason d) (\<lambda>res d1.
       case res of
         None \<Rightarrow> notifyTx now (notification tid TxtRotateRefused True KbNone) d1
       | Some (newToken, expiresAt) \<Rightarrow> deref expiresAt (\<lambda>e. notifyTx now (notification tid
           (TxtRotated (cf_public_base_url cfg @ newToken) e) True KbNone) d1))"

definition HandleRotateToken ::
    "service_config \<Rightarrow> outage \<Rightarrow> time \<Rightarrow> (nat \<Rightarrow> string) \<Rightarrow> (int \<times> string) option \<Rightarrow> sub_db
      \<Rightarrow> tx_error option \<times> sub_db" where
  "HandleRotateToken cfg out now uuid cmd d = (case cmd of
     None \<Rightarrow> (None, d)
   | Some (tid, reason) \<Rightarrow>
       if tid = 0 then (None, d)
       else run_tx out (rotate_body cfg now uuid tid (if reason = [] then ''user_request'' else reason)) d)"

section \<open>Every handler keeps the invariant\<close>

lemma keeps_notifyTx [keeps]: "keeps_sub d (notifyTx now n d)"
  by (auto simp: notifyTx_def simp del: keeps_tx_Inr intro: keeps_AddTx sub.keeps_return)

lemma keeps_publish [keeps]: "keeps_sub d (publishSubscriptionEventTx now e d)"
  unfolding publishSubscriptionEventTx_def by (rule keeps_AddTx)

lemma keeps_publish_billing [keeps]: "keeps_sub d (publishBillingCommandTx now tid c d)"
  by (auto simp: publishBillingCommandTx_def simp del: keeps_tx_Inr split: option.split
      intro: keeps_AddTx sub.keeps_return)

lemma keeps_deref [intro]: "(\<And>x. v = Some x \<Longrightarrow> keeps_sub d (k x)) \<Longrightarrow> keeps_sub d (deref v k)"
  by (simp add: deref_def split: option.split)

lemma keeps_status [keeps]: "keeps_sub d (sendStatusNotificationTx cfg now s d)"
  by (cases "st_status s") (auto simp: sendStatusNotificationTx_def intro: keeps)

lemma keeps_link [keeps]: "keeps_sub d (buildSubscriptionLinkTx cfg now fresh s d)"
  unfolding buildSubscriptionLinkTx_def Let_def by (intro sub.keeps_andthen keeps sub.keeps_return)

lemma keeps_option:
  "keeps_sub d r \<Longrightarrow> (\<And>x. v = Some x \<Longrightarrow> keeps_sub d (f x)) \<Longrightarrow> keeps_sub d (case v of None \<Rightarrow> r | Some x \<Rightarrow> f x)"
  by (simp split: option.split)

lemma keeps_links [keeps]: "keeps_sub d (sendLinksNotificationForClientTx cfg now fresh s g d)"
  unfolding sendLinksNotificationForClientTx_def Let_def
  by (intro sub.keeps_if sub.keeps_andthen keeps keeps_option sub.keeps_return)

lemma keeps_used [keeps]: "keeps_sub d (notifyTrialAlreadyUsedTx cfg now s d)"
  unfolding notifyTrialAlreadyUsedTx_def by (intro sub.keeps_if keeps_deref keeps)

lemma keeps_start_trial_body [keeps]: "keeps_sub d (start_trial_body cfg now uuid tid d)"
  unfolding start_trial_body_def sendLinksNotificationTx_def Let_def
  by (intro sub.keeps_andthen keeps)
    (auto split: TrialGrantOutcome.split simp del: keeps_tx_Inr
      intro!: sub.keeps_andthen keeps keeps_option sub.keeps_return keeps_deref)

lemma keeps_cancel_body [keeps]: "keeps_sub d (cancel_body cfg now uuid tid d)"
  unfolding cancel_body_def
  by (auto simp: Let_def simp del: keeps_tx_Inr intro!: sub.keeps_andthen keeps)

lemma keeps_payment_body [keeps]: "keeps_sub d (payment_body cfg now uuid tid plan n p src ar d)"
  unfolding payment_body_def sendLinksNotificationTx_def
  by (auto simp del: keeps_tx_Inr intro!: sub.keeps_andthen keeps keeps_option sub.keeps_return keeps_deref)

lemma keeps_auto_renew [keeps]: "keeps_sub d (notifyAutoRenewDisabledTx now s msgPrefix d)"
  unfolding notifyAutoRenewDisabledTx_def by (intro sub.keeps_if keeps)

lemma keeps_grace_body [keeps]: "keeps_sub d (grace_body cfg now tid g reason d)"
  unfolding grace_body_def by (intro sub.keeps_andthen keeps)

lemma keeps_expired_body [keeps]: "keeps_sub d (expired_body cfg now tid reason at d)"
  unfolding expired_body_def by (intro sub.keeps_andthen keeps)

lemma keeps_redeem_body [keeps]: "keeps_sub d (redeem_body cfg now tid d)"
proof -
  have "keeps_sub d (case getStateForUpdateTx now tid d of Inl _ \<Rightarrow> Inr ((), d)
      | Inr (s, d3) \<Rightarrow> (case st_expires_at s of None \<Rightarrow> Inr ((), d3)
         | Some until \<Rightarrow> publishSubscriptionEventTx now (f s until) d3))" for f d
  proof -
    have "keeps_sub d (andthen (getStateForUpdateTx now tid d) (\<lambda>s d3. case st_expires_at s of
        None \<Rightarrow> Inr ((), d3) | Some until \<Rightarrow> publishSubscriptionEventTx now (f s until) d3))"
      by (intro sub.keeps_andthen keeps keeps_option sub.keeps_return)
    then show ?thesis by (cases "getStateForUpdateTx now tid d") (auto split: prod.split)
  qed
  then show ?thesis
    unfolding redeem_body_def
    by (auto simp del: keeps_tx_Inr intro!: sub.keeps_andthen keeps keeps_deref)
qed

lemma keeps_rotate_body [keeps]: "keeps_sub d (rotate_body cfg now uuid tid reason d)"
  unfolding rotate_body_def
  by (auto simp del: keeps_tx_Inr split: option.split intro!: sub.keeps_andthen keeps keeps_deref)

end
