(* ===== verification/SubWorkers.thy ===== *)
theory SubWorkers
  imports SubService
begin

text \<open>
  The periodic workers of the subscription service: the sweep of \<open>expiry_sweep_worker.go\<close>, which
  suspends subscriptions that ran out, and the reminders of \<open>reminder_worker.go\<close>. One pass of each
  is a function; the timers that start the passes are not modelled.
\<close>

section \<open>Settings\<close>

definition durationEnv :: "(string \<Rightarrow> duration option) \<Rightarrow> string \<Rightarrow> duration \<Rightarrow> duration" where
  "durationEnv parseDuration raw fallback = positive_env parseDuration raw fallback"

definition intEnv :: "string \<Rightarrow> int \<Rightarrow> int" where
  "intEnv raw fallback = positive_env atoi raw fallback"

definition defaultExpirySweepInterval :: duration where "defaultExpirySweepInterval = minutes 5"
definition defaultExpirySweepPlainMargin :: duration where "defaultExpirySweepPlainMargin = minutes 15"
definition defaultExpirySweepRenewMargin :: duration where "defaultExpirySweepRenewMargin = days 7"
definition defaultExpirySweepBatchSize :: int where "defaultExpirySweepBatchSize = 200"

section \<open>The sweep\<close>

definition suspend_body :: "service_config \<Rightarrow> time \<Rightarrow> ExpiredCandidate \<Rightarrow> sub_db \<Rightarrow> unit tx_result" where
  "suspend_body cfg now c d =
     (let reason = (if ec_status c = StatusGrace then ''grace_period_expired'' else ''subscription_expired'')
      in andthen (MarkSuspendedTx now (ec_telegram_id c) (cf_default_country cfg) d) (\<lambda>s d1.
           publishSubscriptionEventTx now
             (SubscriptionSuspendedEvent (ec_telegram_id c) now reason (st_access_rev s)) d1))"

definition suspendExpiredOne ::
    "service_config \<Rightarrow> outage \<Rightarrow> time \<Rightarrow> ExpiredCandidate \<Rightarrow> sub_db \<Rightarrow> tx_error option \<times> sub_db" where
  "suspendExpiredOne cfg out now c d = run_tx out (suspend_body cfg now c) d"

text \<open>The loop over the candidates: an error is counted and the loop goes on. The value is
  (suspended, failed).\<close>

fun sweep_candidates ::
    "service_config \<Rightarrow> (int \<Rightarrow> outage) \<Rightarrow> time \<Rightarrow> ExpiredCandidate list \<Rightarrow> sub_db \<Rightarrow> (nat \<times> nat) \<times> sub_db" where
  "sweep_candidates cfg outs now [] d = ((0, 0), d)"
| "sweep_candidates cfg outs now (c # cs) d =
     (case suspendExpiredOne cfg (outs (ec_telegram_id c)) now c d of
        (err, d1) \<Rightarrow> (case sweep_candidates cfg outs now cs d1 of
          ((suspended, failed), d2) \<Rightarrow>
            (if err = None then (suspended + 1, failed) else (suspended, failed + 1), d2)))"

text \<open>\<open>queryFails\<close>: the query of the candidates returned an error.\<close>

definition SweepExpiredSubscriptions ::
    "service_config \<Rightarrow> bool \<Rightarrow> (int \<Rightarrow> outage) \<Rightarrow> (int \<Rightarrow> bool) \<Rightarrow> time \<Rightarrow> duration \<Rightarrow> duration \<Rightarrow> int \<Rightarrow> sub_db
      \<Rightarrow> tx_error option \<times> sub_db" where
  "SweepExpiredSubscriptions cfg queryFails outs locked now plainMargin renewMargin limit d =
     (if queryFails then (Some ConnLost, d)
      else (None, snd (sweep_candidates cfg outs now
             (FindExpiredForSweep locked now plainMargin renewMargin limit d) d)))"

section \<open>Reminders\<close>

record reminderCandidate =
  rc_telegram_id :: int
  rc_status :: SubscriptionStatus
  rc_expires_at :: time
  rc_last_stage :: reminder_stage
  rc_anchor :: "time option"

fun stageRank :: "reminder_stage \<Rightarrow> nat" where
  "stageRank stageNone = 0"
| "stageRank stageD7 = 1"
| "stageRank stageD3 = 2"
| "stageRank stageD1 = 3"
| "stageRank stageExpired = 4"

definition stageAlreadySent :: "reminder_stage \<Rightarrow> reminder_stage \<Rightarrow> bool" where
  "stageAlreadySent lastStage target \<longleftrightarrow> stageRank target \<le> stageRank lastStage"

text \<open>Whole days to the end, rounded up (in exact arithmetic, as \<open>computeDaysLeft\<close>).\<close>

definition days_remaining :: "duration \<Rightarrow> int" where
  "days_remaining remaining =
     remaining div days 1 + (if 0 < remaining mod days 1 then 1 else 0)"

definition decideReminderStage :: "reminderCandidate \<Rightarrow> time \<Rightarrow> reminder_stage" where
  "decideReminderStage c now =
     (let lastStage = (case rc_anchor c of
              None \<Rightarrow> rc_last_stage c
            | Some a \<Rightarrow> if a \<noteq> rc_expires_at c then stageNone else rc_last_stage c);
          n = days_remaining (rc_expires_at c - now)
      in if rc_expires_at c \<le> now then (if lastStage = stageExpired then stageNone else stageExpired)
         else if rc_status c = StatusTrial then
           (if n \<le> 1 \<and> \<not> stageAlreadySent lastStage stageD1 then stageD1 else stageNone)
         else if n \<le> 1 \<and> \<not> stageAlreadySent lastStage stageD1 then stageD1
         else if n \<le> 3 \<and> 1 < n \<and> \<not> stageAlreadySent lastStage stageD3 then stageD3
         else if n \<le> 7 \<and> 3 < n \<and> \<not> stageAlreadySent lastStage stageD7 then stageD7
         else stageNone)"

definition reminderText :: "bool \<Rightarrow> reminder_stage \<Rightarrow> tg_text" where
  "reminderText isTrial stage =
     (if isTrial then TxtReminder True (if stage = stageExpired then stageExpired else stageD1)
      else TxtReminder False stage)"

definition candidate_of :: "int \<Rightarrow> sub_row \<Rightarrow> reminderCandidate option" where
  "candidate_of tid r = map_option (\<lambda>e. \<lparr>rc_telegram_id = tid, rc_status = us_status r, rc_expires_at = e,
     rc_last_stage = (case us_reminder_stage r of None \<Rightarrow> stageNone | Some s \<Rightarrow> s),
     rc_anchor = us_reminder_anchor r\<rparr>) (us_expires_at r)"

definition wants_reminder :: "time \<Rightarrow> sub_row \<Rightarrow> bool" where
  "wants_reminder now r \<longleftrightarrow> (us_status r = StatusTrial \<or> us_status r = StatusActive)
     \<and> (case us_expires_at r of None \<Rightarrow> False | Some e \<Rightarrow> e \<le> now + days 8)
     \<and> (us_reminder_stage r \<noteq> Some stageExpired \<or> us_reminder_anchor r \<noteq> us_expires_at r)"

definition FindReminderCandidates :: "time \<Rightarrow> sub_db \<Rightarrow> reminderCandidate list" where
  "FindReminderCandidates now d =
     List.map_filter (\<lambda>(tid, r). if wants_reminder now r then candidate_of tid r else None)
       (user_subscriptions d)"

definition reminder_sent :: "reminder_stage \<Rightarrow> time \<Rightarrow> sub_row \<Rightarrow> sub_row" where
  "reminder_sent stage expiresAt r =
     r\<lparr>us_reminder_stage := Some stage, us_reminder_anchor := Some expiresAt\<rparr>"

definition MarkReminderSentTx :: "int \<Rightarrow> reminder_stage \<Rightarrow> time \<Rightarrow> sub_db \<Rightarrow> unit tx_result" where
  "MarkReminderSentTx tid stage expiresAt d = Inr ((), upd_sub tid (reminder_sent stage expiresAt) d)"

definition sendReminder ::
    "outage \<Rightarrow> time \<Rightarrow> reminderCandidate \<Rightarrow> reminder_stage \<Rightarrow> sub_db \<Rightarrow> tx_error option \<times> sub_db" where
  "sendReminder out now c stage d = run_tx out (\<lambda>d.
     andthen (notifyTx now (notification (rc_telegram_id c)
         (reminderText (rc_status c = StatusTrial) stage) True KbTrialOrBuy) d) (\<lambda>_ d1.
       MarkReminderSentTx (rc_telegram_id c) stage (rc_expires_at c) d1)) d"

fun remind_candidates :: "(int \<Rightarrow> outage) \<Rightarrow> time \<Rightarrow> reminderCandidate list \<Rightarrow> sub_db \<Rightarrow> nat \<times> sub_db" where
  "remind_candidates outs now [] d = (0, d)"
| "remind_candidates outs now (c # cs) d =
     (let stage = decideReminderStage c now in
      if stage = stageNone then remind_candidates outs now cs d
      else case sendReminder (outs (rc_telegram_id c)) now c stage d of
        (err, d1) \<Rightarrow> (case remind_candidates outs now cs d1 of
          (sent, d2) \<Rightarrow> (if err = None then sent + 1 else sent, d2)))"

definition processExpirationReminders ::
    "bool \<Rightarrow> (int \<Rightarrow> outage) \<Rightarrow> time \<Rightarrow> sub_db \<Rightarrow> tx_error option \<times> sub_db" where
  "processExpirationReminders queryFails outs now d =
     (if queryFails then (Some ConnLost, d)
      else (None, snd (remind_candidates outs now (FindReminderCandidates now d) d)))"

section \<open>Invariant\<close>

lemma keeps_suspend_body [keeps]: "keeps_sub d (suspend_body cfg now c d)"
  unfolding suspend_body_def Let_def by (intro sub.keeps_andthen keeps)

lemma keeps_MarkReminderSentTx [keeps]: "keeps_sub d (MarkReminderSentTx tid stage e d)"
  unfolding MarkReminderSentTx_def
  by (intro keeps_upd_sub) (auto simp: row_defs reminder_sent_def)

text \<open>A transaction leaves a state that satisfies the invariant and continues the history.\<close>

definition tx_keeps :: "sub_db \<Rightarrow> tx_error option \<times> sub_db \<Rightarrow> bool" where
  "tx_keeps d res \<longleftrightarrow> (sub_inv d \<longrightarrow> sub_inv (snd res) \<and> evolves d (snd res))"

lemma tx_keeps_run [intro]: "keeps_sub d (f d) \<Longrightarrow> tx_keeps d (run_tx out f d)"
  by (cases rule: run_tx_cases [of out f d]) (auto simp: tx_keeps_def dest: keeps_txD)

lemma tx_keeps_same [simp]: "tx_keeps d (e, d)"
  by (simp add: tx_keeps_def)

lemma sweep_candidates_keeps:
  "sub_inv d \<Longrightarrow> sub_inv (snd (sweep_candidates cfg outs now cs d))
     \<and> evolves d (snd (sweep_candidates cfg outs now cs d))"
proof (induction cs arbitrary: d)
  case (Cons c cs)
  obtain e d1 where s: "suspendExpiredOne cfg (outs (ec_telegram_id c)) now c d = (e, d1)" by fastforce
  have "tx_keeps d (suspendExpiredOne cfg (outs (ec_telegram_id c)) now c d)"
    unfolding suspendExpiredOne_def by (intro tx_keeps_run keeps)
  then have "sub_inv d1 \<and> evolves d d1" using Cons.prems s by (simp add: tx_keeps_def)
  with Cons.IH [of d1] s show ?case by (auto split: prod.split intro: evolves_trans)
qed simp

lemma remind_candidates_keeps:
  "sub_inv d \<Longrightarrow> sub_inv (snd (remind_candidates outs now cs d))
     \<and> evolves d (snd (remind_candidates outs now cs d))"
proof (induction cs arbitrary: d)
  case (Cons c cs)
  obtain e d1 where s: "sendReminder (outs (rc_telegram_id c)) now c (decideReminderStage c now) d = (e, d1)" by fastforce
  have "tx_keeps d (sendReminder (outs (rc_telegram_id c)) now c (decideReminderStage c now) d)"
    unfolding sendReminder_def by (intro tx_keeps_run sub.keeps_andthen keeps)
  then have "sub_inv d1 \<and> evolves d d1" using Cons.prems s by (simp add: tx_keeps_def)
  with Cons.IH [of d1] Cons.IH [of d] Cons.prems s show ?case
    by (auto simp: Let_def split: prod.split intro: evolves_trans)
qed simp

section \<open>Reminders move forward\<close>

lemma notifyTx_sub: "\<exists>d1. notifyTx now n d = Inr ((), d1) \<and> sub_of d1 = sub_of d"
  by (cases "ntf_telegram_id n = 0") (auto simp: notifyTx_def AddTx_def sub_of_def)

text \<open>With the stage just sent recorded for the current expiry, only later stages are left.\<close>

lemma decide_after:
  assumes "decideReminderStage c now = stage" and "stage \<noteq> stageNone"
  shows "decideReminderStage (c\<lparr>rc_last_stage := stage, rc_anchor := Some (rc_expires_at c)\<rparr>) now' = stageNone
    \<or> stageRank stage < stageRank (decideReminderStage
        (c\<lparr>rc_last_stage := stage, rc_anchor := Some (rc_expires_at c)\<rparr>) now')"
  using assms(2)
  by (cases stage) (auto simp: decideReminderStage_def stageAlreadySent_def Let_def)

text \<open>
  Reminders move forward and are not repeated. After a reminder was sent and recorded, and as long
  as the expiry of the subscription stays the same, what the worker decides for that user at any
  other time is nothing or a later stage (7 days, 3 days, 1 day, expired, in this order).
\<close>

theorem reminders_advance:
  assumes "sub_of d tid = Some r" and "candidate_of tid r = Some c" and "decideReminderStage c now = stage"
    and "stage \<noteq> stageNone"
  shows "\<exists>d' r'. sendReminder Up now c stage d = (None, d') \<and> sub_of d' tid = Some r'
    \<and> us_expires_at r' = us_expires_at r
    \<and> (\<forall>c' now'. candidate_of tid r' = Some c' \<longrightarrow> decideReminderStage c' now' = stageNone
          \<or> stageRank stage < stageRank (decideReminderStage c' now'))"
proof -
  have c: "rc_telegram_id c = tid" "us_expires_at r = Some (rc_expires_at c)"
    using assms(2) by (auto simp: candidate_of_def)
  let ?r = "reminder_sent stage (rc_expires_at c) r"
  obtain d1 where n: "notifyTx now (notification tid (reminderText (rc_status c = StatusTrial) stage) True KbTrialOrBuy) d
      = Inr ((), d1)" "sub_of d1 = sub_of d"
    using notifyTx_sub by metis
  have "sendReminder Up now c stage d = (None, upd_sub tid (reminder_sent stage (rc_expires_at c)) d1)"
    using n(1) c(1) by (simp add: sendReminder_def MarkReminderSentTx_def)
  moreover have "sub_of (upd_sub tid (reminder_sent stage (rc_expires_at c)) d1) tid = Some ?r"
    using assms(1) n(2) by simp
  moreover have "candidate_of tid ?r = Some (c\<lparr>rc_last_stage := stage, rc_anchor := Some (rc_expires_at c)\<rparr>)"
    using assms(2) by (auto simp: candidate_of_def reminder_sent_def)
  ultimately show ?thesis
    using decide_after [OF assms(3,4)]
    by (intro exI [of _ "upd_sub tid (reminder_sent stage (rc_expires_at c)) d1"] exI [of _ ?r])
      (auto simp: reminder_sent_def)
qed

lemma reminders_advance_witness:
  "\<exists>d' r'. sendReminder Up (days 24) \<lparr>rc_telegram_id = 7, rc_status = StatusActive, rc_expires_at = days 30,
      rc_last_stage = stageNone, rc_anchor = None\<rparr> stageD7 subscriber_db = (None, d') \<and> sub_of d' 7 = Some r'
    \<and> us_expires_at r' = Some (days 30)"
proof -
  let ?c = "\<lparr>rc_telegram_id = 7, rc_status = StatusActive, rc_expires_at = days 30,
      rc_last_stage = stageNone, rc_anchor = None\<rparr>"
  have c: "candidate_of 7 subscriber_row = Some ?c"
    by (simp add: candidate_of_def subscriber_row_def new_sub_row_def)
  have "decideReminderStage ?c (days 24) = stageD7"
    by (simp add: decideReminderStage_def days_remaining_def stageAlreadySent_def)
  from reminders_advance [OF subscriber_sub c this] show ?thesis
    by (auto simp: subscriber_row_def)
qed

end
