(* ===== verification/Consumer.thy ===== *)
theory Consumer
  imports Outbox
begin

text \<open>
  The Kafka consumer loop, \<open>internal/common/kafka/consumer.go\<close>, and the counters of failed
  attempts it relies on, \<open>attempt_store.go\<close>. The Go interface \<open>AttemptStore\<close> is the locale
  \<open>attempt_store\<close>; both implementations of the source interpret it. The reader, the handler, the
  dead-letter producer and the timer are parameters, functions on one state \<open>'w\<close> of everything
  outside the loop.
\<close>

section \<open>Attempt stores\<close>

text \<open>\<open>memoryAttemptStore\<close>: a map that holds 0 for an absent key.\<close>

definition memInc :: "string \<Rightarrow> (string, int) table \<Rightarrow> int \<times> (string, int) table" where
  "memInc key m = (let m' = tupd key (\<lambda>n. n + 1) (tins key 0 m)
     in (case tget m' key of Some n \<Rightarrow> n | None \<Rightarrow> 0, m'))"

definition memReset :: "string \<Rightarrow> (string, int) table \<Rightarrow> (string, int) table" where
  "memReset key m = tdel key m"

definition memCount :: "(string, int) table \<Rightarrow> string \<Rightarrow> int" where
  "memCount m key = (case tget m key of Some n \<Rightarrow> n | None \<Rightarrow> 0)"

text \<open>
  \<open>dbAttemptStore\<close>: INSERT \<dots> ON CONFLICT DO UPDATE \<dots> RETURNING on \<open>consumer_attempts\<close>. When the
  statement fails the count returned is 1 and nothing is stored.
\<close>

definition dbInc :: "bool \<Rightarrow> time \<Rightarrow> string \<Rightarrow> 'z platform_scheme \<Rightarrow> int \<times> 'z platform_scheme" where
  "dbInc fails now key d =
     (if fails then (1, d)
      else case tget (consumer_attempts d) key of
        None \<Rightarrow> (1, d\<lparr>consumer_attempts := tins key \<lparr>at_attempts = 1, at_updated_at = now\<rparr> (consumer_attempts d)\<rparr>)
      | Some r \<Rightarrow> (at_attempts r + 1,
          d\<lparr>consumer_attempts := tupd key (\<lambda>r. r\<lparr>at_attempts := at_attempts r + 1, at_updated_at := now\<rparr>)
             (consumer_attempts d)\<rparr>))"

definition dbReset :: "bool \<Rightarrow> string \<Rightarrow> 'z platform_scheme \<Rightarrow> 'z platform_scheme" where
  "dbReset fails key d = (if fails then d else d\<lparr>consumer_attempts := tdel key (consumer_attempts d)\<rparr>)"

definition dbCount :: "'z platform_scheme \<Rightarrow> string \<Rightarrow> int" where
  "dbCount d key = (case tget (consumer_attempts d) key of Some r \<Rightarrow> at_attempts r | None \<Rightarrow> 0)"

locale attempt_store =
  fixes inc :: "string \<Rightarrow> 's \<Rightarrow> int \<times> 's"
    and reset :: "string \<Rightarrow> 's \<Rightarrow> 's"
    and attempts :: "'s \<Rightarrow> string \<Rightarrow> int"
  assumes inc_result: "fst (inc k s) = attempts s k + 1"
    and inc_attempts: "attempts (snd (inc k s)) k' = (if k' = k then attempts s k + 1 else attempts s k')"
    and reset_attempts: "attempts (reset k s) k' = (if k' = k then 0 else attempts s k')"
begin

text \<open>After \<open>n\<close> failures and no reset the store says \<open>n\<close> more.\<close>

lemma attempts_after_failures:
  "attempts (((\<lambda>s. snd (inc k s)) ^^ n) s) k' = (if k' = k then attempts s k + int n else attempts s k')"
  by (induction n) (auto simp: inc_attempts)

end

interpretation mem: attempt_store memInc memReset memCount
  by unfold_locales
    (auto simp: memInc_def memReset_def memCount_def Let_def table_simps split: option.splits)

interpretation db: attempt_store "dbInc False now" "dbReset False" "dbCount :: 'z platform_scheme \<Rightarrow> string \<Rightarrow> int"
  for now
  by unfold_locales
    (auto simp: dbInc_def dbReset_def dbCount_def table_simps split: option.splits)

section \<open>The loop\<close>

record 'v kmsg =
  km_topic :: string
  km_key :: string
  km_partition :: int
  km_offset :: int
  km_time :: time
  km_value :: 'v

datatype handler_result = HOk | HSkip | HErr string

text \<open>
  \<open>env_handle\<close> is the service's handler, \<open>env_publish\<close> the write of the dead letter (True when it
  succeeded), \<open>env_commit\<close> is \<open>CommitMessages\<close>, \<open>env_wait\<close> is
  \<open>select { case <-ctx.Done(): \<dots> case <-time.After(d): }\<close> (True when the context ended it).
  \<open>env_dlt\<close> says that there is a producer and a dead-letter topic. \<open>env_stamp\<close> formats the
  message's time for the attempt key.
\<close>

record ('w, 'v) consumer_env =
  env_handle :: "'v kmsg \<Rightarrow> 'w \<Rightarrow> handler_result \<times> 'w"
  env_dlt :: bool
  env_publish :: "'v kmsg \<Rightarrow> 'w \<Rightarrow> bool \<times> 'w"
  env_commit :: "'v kmsg \<Rightarrow> 'w \<Rightarrow> bool \<times> 'w"
  env_wait :: "duration \<Rightarrow> 'w \<Rightarrow> bool \<times> 'w"
  env_inc :: "string \<Rightarrow> 'w \<Rightarrow> int \<times> 'w"
  env_reset :: "string \<Rightarrow> 'w \<Rightarrow> 'w"
  env_stamp :: "time \<Rightarrow> string"

definition attempt_key :: "(time \<Rightarrow> string) \<Rightarrow> 'v kmsg \<Rightarrow> string" where
  "attempt_key stamp m = km_topic m @ '':'' @ km_key m @ '':'' @ stamp (km_time m)"

text \<open>What happened to a message, in order: a ghost of the loop.\<close>

datatype action = Handled handler_result | DeadLetter bool | Committed bool

text \<open>
  How an iteration of the loop ends: the offset was committed; the loop went on without a commit;
  \<open>return nil\<close> because the context ended; \<open>return commitErr\<close>; or the retry loop ran out of fuel.
\<close>

datatype iteration = Committed_on | Left_behind | Stopped | CommitFailed | OutOfFuel

datatype retry_end = RDone handler_result | RStopped | ROutOfFuel

definition publishDLT :: "('w, 'v) consumer_env \<Rightarrow> 'v kmsg \<Rightarrow> 'w \<Rightarrow> bool \<times> action list \<times> 'w" where
  "publishDLT env m w = (if env_dlt env
     then (case env_publish env m w of (ok, w') \<Rightarrow> (ok, [DeadLetter ok], w'))
     else (True, [], w))"

definition reset_and_commit :: "('w, 'v) consumer_env \<Rightarrow> 'v kmsg \<Rightarrow> action list \<Rightarrow> 'w
    \<Rightarrow> iteration \<times> action list \<times> 'w" where
  "reset_and_commit env m acts w =
     (case env_commit env m (env_reset env (attempt_key (env_stamp env) m) w) of
        (ok, w') \<Rightarrow> (if ok then Committed_on else CommitFailed, acts @ [Committed ok], w'))"

definition leave_behind :: "('w, 'v) consumer_env \<Rightarrow> action list \<Rightarrow> 'w \<Rightarrow> iteration \<times> action list \<times> 'w" where
  "leave_behind env acts w = (case env_wait env (secs 5) w of
     (done, w') \<Rightarrow> (if done then Stopped else Left_behind, acts, w'))"

text \<open>\<open>for err != nil && attemptCount < 20\<close>; \<open>r\<close> is the current \<open>err\<close>.\<close>

fun retry_loop :: "nat \<Rightarrow> ('w, 'v) consumer_env \<Rightarrow> 'v kmsg \<Rightarrow> handler_result \<Rightarrow> int \<Rightarrow> action list \<Rightarrow> 'w
    \<Rightarrow> retry_end \<times> action list \<times> 'w" where
  "retry_loop 0 env m r n acts w = (if n < 20 then (ROutOfFuel, acts, w) else (RDone r, acts, w))"
| "retry_loop (Suc fuel) env m r n acts w =
     (if n < 20 then
        case env_wait env (msecs 500 * min n 10) w of
          (True, w1) \<Rightarrow> (RStopped, acts, w1)
        | (False, w1) \<Rightarrow>
            (case env_handle env m w1 of
               (HErr e, w2) \<Rightarrow>
                 (case env_inc env (attempt_key (env_stamp env) m) w2 of
                    (n', w3) \<Rightarrow> retry_loop fuel env m (HErr e) n' (acts @ [Handled (HErr e)]) w3)
             | (r', w2) \<Rightarrow> (RDone r', acts @ [Handled r'], w2))
      else (RDone r, acts, w))"

text \<open>The body of the loop for a message that has been fetched.\<close>

definition process_message :: "nat \<Rightarrow> ('w, 'v) consumer_env \<Rightarrow> 'v kmsg \<Rightarrow> 'w
    \<Rightarrow> iteration \<times> action list \<times> 'w" where
  "process_message fuel env m w =
     (case env_handle env m w of
        (HOk, w1) \<Rightarrow> reset_and_commit env m [Handled HOk] w1
      | (HSkip, w1) \<Rightarrow>
          (case publishDLT env m w1 of (_, a, w2) \<Rightarrow> reset_and_commit env m (Handled HSkip # a) w2)
      | (HErr e, w1) \<Rightarrow>
          (case env_inc env (attempt_key (env_stamp env) m) w1 of (n, w2) \<Rightarrow>
             if 20 \<le> n \<and> env_dlt env then
               (case publishDLT env m w2 of (ok, a, w3) \<Rightarrow>
                  if ok then reset_and_commit env m ([Handled (HErr e)] @ a) w3
                  else leave_behind env ([Handled (HErr e)] @ a) w3)
             else
               (case retry_loop fuel env m (HErr e) n [Handled (HErr e)] w2 of
                  (ROutOfFuel, acts, w3) \<Rightarrow> (OutOfFuel, acts, w3)
                | (RStopped, acts, w3) \<Rightarrow> (Stopped, acts, w3)
                | (RDone HOk, acts, w3) \<Rightarrow> reset_and_commit env m acts w3
                | (RDone r, acts, w3) \<Rightarrow>
                    (case publishDLT env m w3 of (ok, a, w4) \<Rightarrow>
                       if ok then reset_and_commit env m (acts @ a) w4
                       else leave_behind env (acts @ a) w4))))"

text \<open>
  The loop over a partition: \<open>FetchMessage\<close> hands out the messages one after the other, whatever
  became of the earlier ones. It ends when the context does, when a commit fails, or (here) when the
  log is exhausted.
\<close>

fun run_consumer :: "nat \<Rightarrow> ('w, 'v) consumer_env \<Rightarrow> 'v kmsg list \<Rightarrow> 'w
    \<Rightarrow> (iteration \<times> action list) list \<times> 'w" where
  "run_consumer fuel env [] w = ([], w)"
| "run_consumer fuel env (m # ms) w =
     (case process_message fuel env m w of
        (it, acts, w') \<Rightarrow>
          (if it = Committed_on \<or> it = Left_behind
           then (case run_consumer fuel env ms w' of (rest, w'') \<Rightarrow> ((it, acts) # rest, w''))
           else ([(it, acts)], w')))"

section \<open>A loop over a lawful attempt store\<close>

text \<open>The other parameters leave the counters alone.\<close>

locale lawful_consumer = attempt_store "env_inc env" "env_reset env" attempts
  for env :: "('w, 'v) consumer_env" and attempts :: "'w \<Rightarrow> string \<Rightarrow> int" +
  assumes handle_frame: "attempts (snd (env_handle env m w)) = attempts w"
    and publish_frame: "attempts (snd (env_publish env m w)) = attempts w"
    and commit_frame: "attempts (snd (env_commit env m w)) = attempts w"
    and wait_frame: "attempts (snd (env_wait env d w)) = attempts w"
begin

lemma frames:
  "env_handle env m w = (r, w') \<Longrightarrow> attempts w' = attempts w"
  "env_publish env m w = (b, w') \<Longrightarrow> attempts w' = attempts w"
  "env_commit env m w = (b, w') \<Longrightarrow> attempts w' = attempts w"
  "env_wait env d w = (b, w') \<Longrightarrow> attempts w' = attempts w"
  using handle_frame [of m w] publish_frame [of m w] commit_frame [of m w] wait_frame [of d w]
  by simp_all

lemma inc_step:
  "env_inc env k w = (n, w') \<Longrightarrow> n = attempts w k + 1 \<and> attempts w' k = n"
  using inc_result [of k w] inc_attempts [of k w k] by simp

text \<open>Twenty rounds are enough fuel: every failure brings the counter one closer to the threshold.\<close>

lemma retry_loop_ends:
  assumes "n = attempts w (attempt_key (env_stamp env) m)" and "20 - n \<le> int fuel"
  shows "fst (retry_loop fuel env m r n acts w) \<noteq> ROutOfFuel"
  using assms
proof (induction fuel arbitrary: r n acts w)
  case (Suc fuel)
  obtain b w1 where w1: "env_wait env (msecs 500 * min n 10) w = (b, w1)" by fastforce
  obtain r' w2 where w2: "env_handle env m w1 = (r', w2)" by fastforce
  obtain n' w3 where w3: "env_inc env (attempt_key (env_stamp env) m) w2 = (n', w3)" by fastforce
  have n': "n' = n + 1" "attempts w3 (attempt_key (env_stamp env) m) = n'"
    using inc_step [OF w3] frames(4) [OF w1] frames(1) [OF w2] Suc.prems(1) by auto
  then have "fst (retry_loop fuel env m r'' n' acts' w3) \<noteq> ROutOfFuel" for r'' acts'
    using Suc.prems(2) by (intro Suc.IH) auto
  then show ?case using w1 w2 w3 by (cases b; cases r') simp_all
qed simp

lemma process_message_returns:
  assumes "0 \<le> attempts w (attempt_key (env_stamp env) m)" and "19 \<le> fuel"
  shows "fst (process_message fuel env m w) \<noteq> OutOfFuel"
proof -
  obtain r w1 where w1: "env_handle env m w = (r, w1)" by fastforce
  obtain n w2 where w2: "env_inc env (attempt_key (env_stamp env) m) w1 = (n, w2)" by fastforce
  have n: "n = attempts w2 (attempt_key (env_stamp env) m)" "20 - n \<le> int fuel"
    using inc_step [OF w2] frames(1) [OF w1] assms by auto
  obtain rend acts w3 where loop: "retry_loop fuel env m r n [Handled r] w2 = (rend, acts, w3)"
    by (metis prod_cases3)
  have "rend \<noteq> ROutOfFuel"
    using retry_loop_ends [OF n, of r "[Handled r]"] loop by simp
  then show ?thesis
    using w1 w2 loop
    by (cases r) (auto simp: process_message_def reset_and_commit_def leave_behind_def publishDLT_def
        split: prod.split retry_end.split handler_result.split)
qed

text \<open>A message the handler never accepts, when nothing else goes wrong.\<close>

lemma retry_loop_poison:
  assumes "n = attempts w (attempt_key (env_stamp env) m)" and "0 \<le> n" and "20 - n \<le> int fuel" and "n \<le> 20"
    and "\<And>w. \<exists>e. fst (env_handle env m w) = HErr e" and "\<And>d w. \<not> fst (env_wait env d w)"
  shows "\<exists>r' acts' w'. retry_loop fuel env m (HErr e0) n acts w = (RDone (HErr r'), acts @ acts', w')
    \<and> length acts' = nat (20 - n) \<and> (\<forall>a \<in> set acts'. \<exists>e. a = Handled (HErr e))"
  using assms(1-4)
proof (induction fuel arbitrary: e0 n acts w)
  case (Suc fuel)
  obtain b w1 where w1: "env_wait env (msecs 500 * min n 10) w = (b, w1)" by fastforce
  obtain r' w2 where w2: "env_handle env m w1 = (r', w2)" by fastforce
  obtain n' w3 where w3: "env_inc env (attempt_key (env_stamp env) m) w2 = (n', w3)" by fastforce
  have b: "\<not> b" using assms(6) w1 by (metis fst_conv)
  obtain e where r': "r' = HErr e" using assms(5) [of w1] w2 by auto
  have n': "n' = n + 1" "n' = attempts w3 (attempt_key (env_stamp env) m)"
    using inc_step [OF w3] frames(4) [OF w1] frames(1) [OF w2] Suc.prems(1) by auto
  show ?case
  proof (cases "n < 20")
    case True
    obtain r'' acts' w' where IH: "retry_loop fuel env m (HErr e) n' (acts @ [Handled (HErr e)]) w3 =
        (RDone (HErr r''), (acts @ [Handled (HErr e)]) @ acts', w')"
        "length acts' = nat (20 - n')" "\<forall>a \<in> set acts'. \<exists>e. a = Handled (HErr e)"
      using Suc.IH [OF n'(2), where ?e0.0 = e and acts = "acts @ [Handled (HErr e)]"] n'(1) True Suc.prems(2,3)
      by auto
    have "retry_loop (Suc fuel) env m (HErr e0) n acts w =
        (RDone (HErr r''), acts @ (Handled (HErr e) # acts'), w')"
      using True b w1 w2 w3 r' IH(1) by simp
    moreover have "length (Handled (HErr e) # acts') = nat (20 - n)"
      using IH(2) n'(1) True by simp
    ultimately show ?thesis using IH(3) by (metis set_ConsD)
  next
    case False
    with Suc.prems(4) show ?thesis by (intro exI [of _ e0] exI [of _ "[]"] exI [of _ w]) simp
  qed
qed simp

lemma process_message_poison:
  assumes "0 \<le> attempts w (attempt_key (env_stamp env) m)" and "19 \<le> fuel" and "env_dlt env"
    and "\<And>w. \<exists>e. fst (env_handle env m w) = HErr e" and "\<And>d w. \<not> fst (env_wait env d w)"
    and "\<And>w. fst (env_publish env m w)" and "\<And>w. fst (env_commit env m w)"
  shows "\<exists>acts w'. process_message fuel env m w = (Committed_on, acts @ [DeadLetter True, Committed True], w')
    \<and> length acts = max 1 (nat (20 - attempts w (attempt_key (env_stamp env) m)))
    \<and> (\<forall>a \<in> set acts. \<exists>e. a = Handled (HErr e)) \<and> attempts w' (attempt_key (env_stamp env) m) = 0"
proof -
  let ?k = "attempt_key (env_stamp env) m"
  have settle: "\<exists>w'. (case publishDLT env m w0 of (ok, a, w1) \<Rightarrow>
        if ok then reset_and_commit env m (acts @ a) w1 else leave_behind env (acts @ a) w1)
      = (Committed_on, acts @ [DeadLetter True, Committed True], w') \<and> attempts w' ?k = 0" for acts w0
  proof -
    obtain w1 where w1: "env_publish env m w0 = (True, w1)"
      using assms(6) [of w0] by (cases "env_publish env m w0") auto
    obtain w2 where w2: "env_commit env m (env_reset env ?k w1) = (True, w2)"
      using assms(7) [of "env_reset env ?k w1"] by (cases "env_commit env m (env_reset env ?k w1)") auto
    show ?thesis
      using w1 w2 frames(3) [OF w2] reset_attempts [of ?k w1 ?k] assms(3)
      by (auto simp: publishDLT_def reset_and_commit_def)
  qed
  obtain e w1 where w1: "env_handle env m w = (HErr e, w1)"
    using assms(4) [of w] by (metis fst_conv surj_pair)
  obtain n w2 where w2: "env_inc env ?k w1 = (n, w2)" by fastforce
  have n: "n = attempts w ?k + 1" "n = attempts w2 ?k"
    using inc_step [OF w2] frames(1) [OF w1] by auto
  show ?thesis
  proof (cases "20 \<le> n")
    case True
    obtain w' where w': "(case publishDLT env m w2 of (ok, a, w3) \<Rightarrow>
        if ok then reset_and_commit env m ([Handled (HErr e)] @ a) w3
        else leave_behind env ([Handled (HErr e)] @ a) w3)
      = (Committed_on, [Handled (HErr e)] @ [DeadLetter True, Committed True], w')" "attempts w' ?k = 0"
      using settle by blast
    then show ?thesis
      using True n(1) w1 w2 assms(3)
      by (intro exI [of _ "[Handled (HErr e)]"] exI [of _ w']) (simp add: process_message_def)
  next
    case False
    have "0 \<le> n" "20 - n \<le> int fuel" "n \<le> 20" using n(1) False assms(1,2) by auto
    from retry_loop_poison [OF n(2) this assms(4,5), of e "[Handled (HErr e)]"]
    obtain e' acts acts1 w3 where loop: "retry_loop fuel env m (HErr e) n [Handled (HErr e)] w2 =
        (RDone (HErr e'), acts1, w3)" "length acts = nat (20 - n)"
        "\<forall>a \<in> set acts. \<exists>e. a = Handled (HErr e)" and acts1: "acts1 = [Handled (HErr e)] @ acts"
      by blast
    obtain w' where w': "(case publishDLT env m w3 of (ok, a, w4) \<Rightarrow>
        if ok then reset_and_commit env m (acts1 @ a) w4 else leave_behind env (acts1 @ a) w4)
      = (Committed_on, acts1 @ [DeadLetter True, Committed True], w')" "attempts w' ?k = 0"
      using settle by blast
    have "process_message fuel env m w = (Committed_on, acts1 @ [DeadLetter True, Committed True], w')"
      using False w1 w2 loop(1) w'(1) by (simp add: process_message_def)
    moreover have "length acts1 = max 1 (nat (20 - attempts w ?k))"
      using loop(2) n(1) False acts1 by simp
    moreover have "\<forall>a \<in> set acts1. \<exists>e. a = Handled (HErr e)"
      using loop(3) acts1 by simp
    ultimately show ?thesis using w'(2) by blast
  qed
qed

lemma process_message_left_behind:
  assumes "0 \<le> attempts w (attempt_key (env_stamp env) m)" and "19 \<le> fuel" and "env_dlt env"
    and "\<And>w. \<exists>e. fst (env_handle env m w) = HErr e" and "\<And>d w. \<not> fst (env_wait env d w)"
    and "\<And>w. \<not> fst (env_publish env m w)"
  shows "\<exists>acts w'. process_message fuel env m w = (Left_behind, acts, w')
    \<and> Handled HOk \<notin> set acts \<and> DeadLetter True \<notin> set acts"
proof -
  let ?k = "attempt_key (env_stamp env) m"
  have fails: "\<exists>w'. (case publishDLT env m w0 of (ok, a, w1) \<Rightarrow>
        if ok then reset_and_commit env m (acts @ a) w1 else leave_behind env (acts @ a) w1)
      = (Left_behind, acts @ [DeadLetter False], w')" for acts w0
  proof -
    obtain w1 where w1: "env_publish env m w0 = (False, w1)"
      using assms(6) [of w0] by (cases "env_publish env m w0") auto
    obtain w2 where w2: "env_wait env (secs 5) w1 = (False, w2)"
      using assms(5) [of "secs 5" w1] by (cases "env_wait env (secs 5) w1") auto
    show ?thesis using w1 w2 assms(3) by (auto simp: publishDLT_def leave_behind_def)
  qed
  obtain e w1 where w1: "env_handle env m w = (HErr e, w1)"
    using assms(4) [of w] by (metis fst_conv surj_pair)
  obtain n w2 where w2: "env_inc env ?k w1 = (n, w2)" by fastforce
  have n: "n = attempts w ?k + 1" "n = attempts w2 ?k"
    using inc_step [OF w2] frames(1) [OF w1] by auto
  show ?thesis
  proof (cases "20 \<le> n")
    case True
    obtain w' where "(case publishDLT env m w2 of (ok, a, w3) \<Rightarrow>
        if ok then reset_and_commit env m ([Handled (HErr e)] @ a) w3
        else leave_behind env ([Handled (HErr e)] @ a) w3) = (Left_behind, [Handled (HErr e)] @ [DeadLetter False], w')"
      using fails by blast
    then show ?thesis using True w1 w2 assms(3) by (auto simp: process_message_def)
  next
    case False
    have "0 \<le> n" "20 - n \<le> int fuel" "n \<le> 20" using n(1) False assms(1,2) by auto
    from retry_loop_poison [OF n(2) this assms(4,5), of e "[Handled (HErr e)]"]
    obtain e' acts acts1 w3 where loop: "retry_loop fuel env m (HErr e) n [Handled (HErr e)] w2 =
        (RDone (HErr e'), acts1, w3)"
        "\<forall>a \<in> set acts. \<exists>e. a = Handled (HErr e)" and acts1: "acts1 = [Handled (HErr e)] @ acts"
      by blast
    obtain w' where w': "(case publishDLT env m w3 of (ok, a, w4) \<Rightarrow>
        if ok then reset_and_commit env m (acts1 @ a) w4 else leave_behind env (acts1 @ a) w4)
      = (Left_behind, acts1 @ [DeadLetter False], w')"
      using fails by blast
    have "process_message fuel env m w = (Left_behind, acts1 @ [DeadLetter False], w')"
      using False w1 w2 loop(1) w' by (simp add: process_message_def)
    then show ?thesis using loop(2) acts1 by auto
  qed
qed

end

section \<open>The consumer of a service with either store\<close>

definition on_fst :: "('u \<Rightarrow> 'r \<times> 'u) \<Rightarrow> 'u \<times> 's \<Rightarrow> 'r \<times> ('u \<times> 's)" where
  "on_fst f w = (case f (fst w) of (r, u) \<Rightarrow> (r, (u, snd w)))"

definition on_snd :: "('s \<Rightarrow> 'r \<times> 's) \<Rightarrow> 'u \<times> 's \<Rightarrow> 'r \<times> ('u \<times> 's)" where
  "on_snd f w = (case f (snd w) of (r, s) \<Rightarrow> (r, (fst w, s)))"

lemma on_fst_snd [simp]:
  "snd (snd (on_fst f w)) = snd w" "fst (on_fst f w) = fst (f (fst w))"
  "fst (snd (on_fst f w)) = snd (f (fst w))"
  "fst (on_snd g w) = fst (g (snd w))" "snd (snd (on_snd g w)) = snd (g (snd w))"
  by (simp_all add: on_fst_def on_snd_def split: prod.split)

text \<open>
  \<open>store_consumer inc reset service\<close> completes a service's parameters, functions on its own state
  \<open>'u\<close>, with an attempt store of state \<open>'s\<close>.
\<close>

record ('u, 'v) service_env =
  se_handle :: "'v kmsg \<Rightarrow> 'u \<Rightarrow> handler_result \<times> 'u"
  se_dlt :: bool
  se_publish :: "'v kmsg \<Rightarrow> 'u \<Rightarrow> bool \<times> 'u"
  se_commit :: "'v kmsg \<Rightarrow> 'u \<Rightarrow> bool \<times> 'u"
  se_wait :: "duration \<Rightarrow> 'u \<Rightarrow> bool \<times> 'u"
  se_stamp :: "time \<Rightarrow> string"

definition store_consumer ::
    "(string \<Rightarrow> 's \<Rightarrow> int \<times> 's) \<Rightarrow> (string \<Rightarrow> 's \<Rightarrow> 's) \<Rightarrow> ('u, 'v) service_env
      \<Rightarrow> ('u \<times> 's, 'v) consumer_env" where
  "store_consumer inc reset svc =
     \<lparr>env_handle = (\<lambda>m. on_fst (se_handle svc m)), env_dlt = se_dlt svc,
      env_publish = (\<lambda>m. on_fst (se_publish svc m)), env_commit = (\<lambda>m. on_fst (se_commit svc m)),
      env_wait = (\<lambda>d. on_fst (se_wait svc d)), env_inc = (\<lambda>k. on_snd (inc k)),
      env_reset = (\<lambda>k w. (fst w, reset k (snd w))), env_stamp = se_stamp svc\<rparr>"

lemma store_consumer_simps [simp]:
  "env_handle (store_consumer inc reset svc) m = on_fst (se_handle svc m)"
  "env_dlt (store_consumer inc reset svc) = se_dlt svc"
  "env_publish (store_consumer inc reset svc) m = on_fst (se_publish svc m)"
  "env_commit (store_consumer inc reset svc) m = on_fst (se_commit svc m)"
  "env_wait (store_consumer inc reset svc) t = on_fst (se_wait svc t)"
  "env_inc (store_consumer inc reset svc) k = on_snd (inc k)"
  "env_reset (store_consumer inc reset svc) k = (\<lambda>w. (fst w, reset k (snd w)))"
  "env_stamp (store_consumer inc reset svc) = se_stamp svc"
  by (simp_all add: store_consumer_def)

abbreviation mem_consumer :: "('u, 'v) service_env \<Rightarrow> ('u \<times> (string, int) table, 'v) consumer_env" where
  "mem_consumer svc \<equiv> store_consumer memInc memReset svc"

abbreviation db_consumer :: "time \<Rightarrow> ('u, 'v) service_env \<Rightarrow> ('u \<times> 'z platform_scheme, 'v) consumer_env" where
  "db_consumer now svc \<equiv> store_consumer (dbInc False now) (dbReset False) svc"

interpretation memc: lawful_consumer "mem_consumer svc" "\<lambda>w. memCount (snd w)" for svc
  by unfold_locales
    (auto simp: mem.inc_result mem.inc_attempts mem.reset_attempts)

interpretation dbc: lawful_consumer "db_consumer now svc" "\<lambda>w. dbCount (snd w)" for now svc
  by unfold_locales
    (auto simp: db.inc_result db.inc_attempts db.reset_attempts)

lemma retry_loop_acts:
  "retry_loop fuel env m r n acts w = (e, acts', w') \<Longrightarrow> Committed b \<notin> set acts \<Longrightarrow>
     Committed b \<notin> set acts' \<and> (e = RDone HOk \<longrightarrow> r \<noteq> HOk \<longrightarrow> Handled HOk \<in> set acts')"
proof (induction fuel arbitrary: r n acts w)
  case (Suc fuel)
  obtain c w1 where w1: "env_wait env (msecs 500 * min n 10) w = (c, w1)" by fastforce
  obtain r' w2 where w2: "env_handle env m w1 = (r', w2)" by fastforce
  obtain n' w3 where w3: "env_inc env (attempt_key (env_stamp env) m) w2 = (n', w3)" by fastforce
  note IH = Suc.IH [of r' n' "acts @ [Handled r']" w3]
  show ?case
  proof (cases "n < 20 \<and> \<not> c")
    case True
    then have step: "retry_loop (Suc fuel) env m r n acts w = (case r' of
        HErr x \<Rightarrow> retry_loop fuel env m r' n' (acts @ [Handled r']) w3
      | _ \<Rightarrow> (RDone r', acts @ [Handled r'], w2))"
      using w1 w2 w3 by (cases r') simp_all
    show ?thesis
    proof (cases r')
      case (HErr x)
      with step Suc.prems IH show ?thesis by simp
    qed (use step Suc.prems in auto)
  next
    case False
    then show ?thesis using Suc.prems w1 by (cases "n < 20") auto
  qed
next
  case 0
  then show ?case by (cases "n < 20") auto
qed

lemma retry_end_cases:
  obtains "r = RDone HOk" | "r = RDone HSkip" | e where "r = RDone (HErr e)" | "r = RStopped" | "r = ROutOfFuel"
  by (metis handler_result.exhaust retry_end.exhaust)

lemma settle_acts:
  "(case publishDLT env m w of (ok, a, w1) \<Rightarrow>
      if ok then reset_and_commit env m (acts @ a) w1 else leave_behind env (acts @ a) w1) = (it, acts', w')
   \<Longrightarrow> Committed b \<notin> set acts \<Longrightarrow> Committed b \<in> set acts' \<Longrightarrow> DeadLetter True \<in> set acts' \<or> \<not> env_dlt env"
  by (auto simp: publishDLT_def reset_and_commit_def leave_behind_def split: prod.splits if_splits)

section \<open>Properties\<close>

text \<open>A service for the witnesses: its state counts the calls of the handler.\<close>

definition sample_service :: "(nat \<Rightarrow> handler_result) \<Rightarrow> bool \<Rightarrow> (nat, unit) service_env" where
  "sample_service outcome dlt_up = \<lparr>se_handle = (\<lambda>m u. (outcome u, Suc u)), se_dlt = True,
     se_publish = (\<lambda>m u. (dlt_up, u)), se_commit = (\<lambda>m u. (True, u)), se_wait = (\<lambda>d u. (False, u)),
     se_stamp = show_int\<rparr>"

definition sample_msg :: "int \<Rightarrow> unit kmsg" where
  "sample_msg off = \<lparr>km_topic = ''billing.events'', km_key = ''7'', km_partition = 0,
     km_offset = off, km_time = off, km_value = ()\<rparr>"



text \<open>
  C12. Poison messages reach the dead-letter topic. A message whose handling always fails is tried
  until twenty failures have been counted for it, earlier runs of the process included (the counter
  is in the database), and at least once; then it is published to the dead-letter topic, its
  counter is cleared and its offset committed.
\<close>

theorem poison_message_reaches_dlt:
  assumes "0 \<le> dbCount d (attempt_key (se_stamp svc) m)" and "19 \<le> fuel" and "se_dlt svc"
    and "\<And>u. \<exists>e. fst (se_handle svc m u) = HErr e" and "\<And>t u. \<not> fst (se_wait svc t u)"
    and "\<And>u. fst (se_publish svc m u)" and "\<And>u. fst (se_commit svc m u)"
  shows "\<exists>acts u' d'. process_message fuel (db_consumer now svc) m (u, d) =
      (Committed_on, acts @ [DeadLetter True, Committed True], (u', d'))
    \<and> length acts = max 1 (nat (20 - dbCount d (attempt_key (se_stamp svc) m)))
    \<and> (\<forall>a \<in> set acts. \<exists>e. a = Handled (HErr e))
    \<and> dbCount d' (attempt_key (se_stamp svc) m) = 0"
proof -
  have "\<exists>acts w'. process_message fuel (db_consumer now svc) m (u, d) =
      (Committed_on, acts @ [DeadLetter True, Committed True], w')
    \<and> length acts = max 1 (nat (20 - dbCount (snd (u, d)) (attempt_key (se_stamp svc) m)))
    \<and> (\<forall>a \<in> set acts. \<exists>e. a = Handled (HErr e)) \<and> dbCount (snd w') (attempt_key (se_stamp svc) m) = 0"
    by (rule dbc.process_message_poison [of "(u, d)" now svc m fuel, simplified store_consumer_simps])
      (use assms in simp_all)
  then show ?thesis by (metis prod.collapse snd_conv)
qed

lemma poison_message_reaches_dlt_witness:
  "\<exists>acts u' d'. process_message 19 (db_consumer 0 (sample_service (\<lambda>_. HErr ''x'') True)) (sample_msg 3)
     (0, empty_platform) = (Committed_on, acts @ [DeadLetter True, Committed True], (u', d')) \<and> length acts = 20"
proof -
  have "dbCount empty_platform k = 0" for k by (simp add: dbCount_def empty_platform_def)
  then show ?thesis
    using poison_message_reaches_dlt [where d = empty_platform and now = 0 and m = "sample_msg 3" and fuel = 19
        and u = 0 and svc = "sample_service (\<lambda>_. HErr ''x'') True"]
    by (auto simp: sample_service_def)
qed



text \<open>
  A failing message is lost when the dead-letter topic is down. After the retries the loop
  leaves it "uncommitted" and fetches the next message; once that one is handled its commit moves
  the group's offset (\<open>committed\<close>, which a commit sets past the message) beyond the failed message,
  which has been neither handled nor dead-lettered and is not fetched again.
\<close>

theorem message_lost_while_dlt_down:
  assumes "0 \<le> memCount s (attempt_key (se_stamp svc) m)" and "19 \<le> fuel" and "se_dlt svc"
    and "\<And>u. \<exists>e. fst (se_handle svc m u) = HErr e" and "\<And>u. \<not> fst (se_publish svc m u)"
    and "\<And>t u. \<not> fst (se_wait svc t u)"
    and "\<And>u. fst (se_handle svc m' u) = HOk" and "\<And>u. fst (se_commit svc m' u)"
    and "\<And>u u'. se_commit svc m' u = (True, u') \<Longrightarrow> committed u' = km_offset m' + 1"
    and "km_offset m' = km_offset m + 1"
  shows "\<exists>acts w'. run_consumer fuel (mem_consumer svc) [m, m'] (u, s) =
      ([(Left_behind, acts), (Committed_on, [Handled HOk, Committed True])], w')
    \<and> Handled HOk \<notin> set acts \<and> DeadLetter True \<notin> set acts \<and> km_offset m < committed (fst w')"
proof -
  let ?env = "mem_consumer svc"
  obtain acts w1 where first: "process_message fuel ?env m (u, s) = (Left_behind, acts, w1)"
    and lost: "Handled HOk \<notin> set acts" "DeadLetter True \<notin> set acts"
    using memc.process_message_left_behind [of "(u, s)" svc m fuel] assms(1-6) by auto
  obtain u1 where u1: "se_handle svc m' (fst w1) = (HOk, u1)"
    using assms(7) [of "fst w1"] by (metis prod.collapse)
  obtain u2 where u2: "se_commit svc m' u1 = (True, u2)"
    using assms(8) [of u1] by (metis (full_types) prod.collapse)
  have second: "process_message fuel ?env m' w1 = (Committed_on, [Handled HOk, Committed True],
      (u2, memReset (attempt_key (se_stamp svc) m') (snd w1)))"
    using u1 u2 by (simp add: process_message_def reset_and_commit_def on_fst_def)
  show ?thesis
    using first second lost assms(9) [OF u2] assms(10) by simp
qed

lemma message_lost_while_dlt_down_witness:
  "\<exists>svc :: (int, unit) service_env. \<exists>acts w'. run_consumer 19 (mem_consumer svc) [sample_msg 3, sample_msg 4] (0, []) =
     ([(Left_behind, acts), (Committed_on, [Handled HOk, Committed True])], w') \<and> 3 < fst w'"
proof -
  let ?svc = "\<lparr>se_handle = (\<lambda>m u. (if km_offset m = 3 then HErr ''x'' else HOk, u)), se_dlt = True,
     se_publish = (\<lambda>m u. (False, u)), se_commit = (\<lambda>m u. (True, km_offset m + 1)),
     se_wait = (\<lambda>d u. (False, u)), se_stamp = show_int\<rparr> :: (int, unit) service_env"
  have "\<exists>acts w'. run_consumer 19 (mem_consumer ?svc) [sample_msg 3, sample_msg 4] (0, []) =
      ([(Left_behind, acts), (Committed_on, [Handled HOk, Committed True])], w')
    \<and> Handled HOk \<notin> set acts \<and> DeadLetter True \<notin> set acts \<and> km_offset (sample_msg 3) < id (fst w')"
    by (rule message_lost_while_dlt_down) (simp_all add: sample_msg_def memCount_def)
  then show ?thesis by (auto simp: sample_msg_def)
qed

end
