(* ===== verification/Inbox.thy ===== *)
theory Inbox
  imports SubModel Consumer
begin

text \<open>
  What the consumers of the services share: the envelope of a message, the id under which the inbox
  knows it, and the wrapper \<open>process\<dots>MessageOnce\<close> of \<open>user_subscription/kafka_handlers.go\<close> and
  \<open>billing/kafka_handlers.go\<close>, the same function up to the name of the service. It reserves the
  message's id in a transaction of its own, runs the handler, which commits transactions of its own,
  and only then commits the reservation.
\<close>

section \<open>The envelope and the message id\<close>

record envelope =
  en_type :: string
  en_command_id :: string
  en_payment_id :: string
  en_order_id :: string

definition decode_envelope :: "json_obj \<Rightarrow> envelope option" where
  "decode_envelope ob = (case (fld_str ob ''type'', fld_str ob ''command_id'',
       fld_str ob ''payment_id'', fld_str ob ''order_id'') of
     (Some t, Some c, Some p, Some r) \<Rightarrow>
       Some \<lparr>en_type = t, en_command_id = c, en_payment_id = p, en_order_id = r\<rparr>
   | _ \<Rightarrow> None)"

definition message_id :: "envelope \<Rightarrow> 'v kmsg \<Rightarrow> string" where
  "message_id en m =
     (let m1 = en_command_id en;
          m2 = (if m1 = [] \<and> en_payment_id en \<noteq> [] then en_payment_id en @ '':'' @ en_type en else m1);
          m3 = (if m2 = [] \<and> en_order_id en \<noteq> [] then en_order_id en @ '':'' @ en_type en else m2)
      in if m3 = []
         then km_topic m @ '':'' @ km_key m @ '':'' @ show_int (km_partition m) @ '':'' @ show_int (km_offset m)
         else m3)"

section \<open>The wrapper\<close>

text \<open>
  \<open>out\<close> is the outage of the deduplicating transaction: \<open>Lost\<close> and \<open>LostAck\<close> strike at its commit,
  after the handler has run. The insert is not visible to the handler's own transactions.
\<close>

definition message_once ::
    "string \<Rightarrow> outage \<Rightarrow> time \<Rightarrow> envelope \<Rightarrow> 'v kmsg
      \<Rightarrow> ('z platform_scheme \<Rightarrow> handler_result \<times> 'z platform_scheme) \<Rightarrow> 'z platform_scheme
      \<Rightarrow> handler_result \<times> 'z platform_scheme" where
  "message_once svc out now en m handle d =
     (case MarkProcessed now svc (message_id en m) (en_type en) d of
        Inl e \<Rightarrow> (HErr e, d)
      | Inr (inserted, _) \<Rightarrow>
          if \<not> inserted then (if out = Up then HOk else HErr ''commit'', d)
          else (case handle d of
            (HOk, d1) \<Rightarrow>
              (case MarkProcessed now svc (message_id en m) (en_type en) d1 of
                 Inl e \<Rightarrow> (HErr e, d1)
               | Inr (_, d2) \<Rightarrow>
                   (case out of Up \<Rightarrow> (HOk, d2) | Lost \<Rightarrow> (HErr ''commit'', d1) | LostAck \<Rightarrow> (HErr ''commit'', d2)))
          | (r, d1) \<Rightarrow> (r, d1)))"

lemma message_id_nonempty [simp]: "message_id en m \<noteq> []"
  by (auto simp: message_id_def Let_def)

lemma once_seen:
  assumes "tget (processed_messages d) (inbox_key svc (message_id en m)) \<noteq> None" and "svc \<noteq> []"
  shows "message_once svc out now en m handle d = (if out = Up then HOk else HErr ''commit'', d)"
  using assms by (auto simp: message_once_def MarkProcessed_def Let_def)

lemma once_ok:
  assumes "message_once svc out now en m handle d = (HOk, d')" and "svc \<noteq> []"
  shows "tget (processed_messages d') (inbox_key svc (message_id en m)) \<noteq> None"
  using assms by (auto simp: message_once_def MarkProcessed_def Let_def table_simps
      split: if_splits prod.splits handler_result.splits outage.splits)

end
