(* ===== verification/SubMessages.thy ===== *)
theory SubMessages
  imports SubWorkers Inbox
begin

text \<open>
  \<open>internal/user_subscription/kafka_handlers.go\<close>: how a Kafka message becomes a call of a handler.
  A message's value is the JSON object it parses to, or None when it is not one. The wrapper
  \<open>processSubscriptionMessageOnce\<close> reserves the message's id in the inbox in a transaction of its
  own, runs the handler, which commits a transaction of its own, and only then commits the
  reservation.
\<close>

section \<open>Decoding the commands\<close>

text \<open>\<open>json.Unmarshal\<close> into the struct the type names; an unknown type is skipped.\<close>

definition decode_subscription_command :: "json_obj \<Rightarrow> subscription_command option" where
  "decode_subscription_command ob = Option.bind (decode_envelope ob) (\<lambda>en.
     let t = en_type en; i = en_command_id en in
     if t = ''subscription.start_trial'' then map_option (StartTrialCommand i) (fld_int ob ''telegram_id'')
     else if t = ''subscription.get_status'' then map_option (GetStatusCommand i) (fld_int ob ''telegram_id'')
     else if t = ''subscription.get_links'' then
       (case (fld_int ob ''telegram_id'', fld_str ob ''client_group'') of
          (Some tid, Some g) \<Rightarrow> Some (GetLinksCommand i tid g) | _ \<Rightarrow> None)
     else if t = ''subscription.cancel'' then map_option (CancelSubscriptionCommand i) (fld_int ob ''telegram_id'')
     else if t = ''subscription.referral_attribute'' then
       (case (fld_int ob ''referee_telegram_id'', fld_str ob ''referrer_code'') of
          (Some tid, Some c) \<Rightarrow> Some (ReferralAttributeCommand i tid c) | _ \<Rightarrow> None)
     else if t = ''subscription.referral_redeem'' then map_option (ReferralRedeemCommand i) (fld_int ob ''telegram_id'')
     else if t = ''subscription.rotate_token'' then
       (case (fld_int ob ''telegram_id'', fld_str ob ''reason'') of
          (Some tid, Some r) \<Rightarrow> Some (RotateTokenCommand i tid r) | _ \<Rightarrow> None)
     else None)"

abbreviation need :: "'a option \<Rightarrow> ('a \<Rightarrow> 'b option) \<Rightarrow> 'b option" where
  "need v k \<equiv> Option.bind v k"

text \<open>Of the billing events, those the service handles; \<open>Inl ()\<close> is an event it passes over.\<close>

definition decode_billing_event :: "json_obj \<Rightarrow> (unit + billing_event) option" where
  "decode_billing_event ob = need (decode_envelope ob) (\<lambda>en. let t = en_type en in
     if t = ''billing.payment_succeeded'' then
       need (fld_str ob ''checkout_type'') (\<lambda>ct. need (fld_str ob ''charge_source'') (\<lambda>src.
       need (fld_int ob ''telegram_id'') (\<lambda>tid. need (fld_str ob ''plan_code'') (\<lambda>pc.
       need (fld_int ob ''duration_days'') (\<lambda>n. need (fld_str ob ''amount_value'') (\<lambda>am.
       need (fld_str ob ''currency'') (\<lambda>cu. need (fld_str ob ''payment_method_id'') (\<lambda>mi.
       need (fld_int ob ''attempt_no'') (\<lambda>an. need (fld_bool ob ''auto_renew_enabled'') (\<lambda>ar.
       need (fld_time ob ''paid_at'') (\<lambda>at. need (fld_str ob ''payment_provider'') (\<lambda>pr.
         Some (Inr (BillingPaymentSucceededEvent ct src tid (en_order_id en) (en_payment_id en) pc n am cu
           mi an ar at pr))))))))))))))
     else if t = ''billing.payment_method_unbound'' then
       need (fld_int ob ''telegram_id'') (\<lambda>tid. need (fld_time ob ''unbound_at'') (\<lambda>at.
         Some (Inr (BillingPaymentMethodUnboundEvent tid at))))
     else if t = ''billing.auto_renew_disabled'' then
       need (fld_int ob ''telegram_id'') (\<lambda>tid. need (fld_str ob ''reason'') (\<lambda>r.
       need (fld_time ob ''disabled_at'') (\<lambda>at. Some (Inr (BillingAutoRenewDisabledEvent tid r at)))))
     else if t = ''billing.grace_started'' then
       need (fld_int ob ''telegram_id'') (\<lambda>tid. need (fld_str ob ''plan_code'') (\<lambda>pc.
       need (fld_str ob ''reason'') (\<lambda>r. need (fld_time ob ''grace_until'') (\<lambda>g.
       need (fld_time ob ''started_at'') (\<lambda>at.
         Some (Inr (BillingGraceStartedEvent tid pc (en_payment_id en) r g at)))))))
     else if t = ''billing.access_expired'' then
       need (fld_int ob ''telegram_id'') (\<lambda>tid. need (fld_str ob ''reason'') (\<lambda>r.
       need (fld_time ob ''expired_at'') (\<lambda>at. Some (Inr (BillingAccessExpiredEvent tid r at)))))
     else Some (Inl ()))"

text \<open>The outages and UUIDs of the handler's own transaction.\<close>

record handler_env =
  he_out :: outage
  he_now :: time
  he_uuid :: "nat \<Rightarrow> string"

fun handle_subscription_command ::
    "service_config \<Rightarrow> handler_env \<Rightarrow> subscription_command \<Rightarrow> sub_db \<Rightarrow> tx_error option \<times> sub_db" where
  "handle_subscription_command cfg he (StartTrialCommand i tid) d =
     HandleStartTrial cfg (he_out he) (he_now he) (he_uuid he) (Some tid) d"
| "handle_subscription_command cfg he (GetStatusCommand i tid) d =
     HandleGetStatus cfg (he_out he) (he_now he) (Some tid) d"
| "handle_subscription_command cfg he (GetLinksCommand i tid g) d =
     HandleGetLinks cfg (he_out he) (he_now he) (he_uuid he) (Some (tid, g)) d"
| "handle_subscription_command cfg he (CancelSubscriptionCommand i tid) d =
     HandleCancel cfg (he_out he) (he_now he) (he_uuid he) (Some tid) d"
| "handle_subscription_command cfg he (ReferralAttributeCommand i tid c) d =
     HandleReferralAttribute (he_out he) (Some (tid, c)) d"
| "handle_subscription_command cfg he (ReferralRedeemCommand i tid) d =
     HandleReferralRedeem cfg (he_out he) (he_now he) (Some tid) d"
| "handle_subscription_command cfg he (RotateTokenCommand i tid r) d =
     HandleRotateToken cfg (he_out he) (he_now he) (he_uuid he) (Some (tid, r)) d"

fun handle_billing_event ::
    "service_config \<Rightarrow> handler_env \<Rightarrow> billing_event \<Rightarrow> sub_db \<Rightarrow> tx_error option \<times> sub_db" where
  "handle_billing_event cfg he (BillingPaymentSucceededEvent ct src tid oi pid c n am cu mi an ar at pr) d =
     HandleBillingPaymentSucceeded cfg (he_out he) (he_now he) (he_uuid he)
       (Some (BillingPaymentSucceededEvent ct src tid oi pid c n am cu mi an ar at pr)) d"
| "handle_billing_event cfg he (BillingPaymentMethodUnboundEvent tid at) d =
     HandleBillingPaymentMethodUnbound cfg (he_out he) (he_now he) (Some (BillingPaymentMethodUnboundEvent tid at)) d"
| "handle_billing_event cfg he (BillingAutoRenewDisabledEvent tid r at) d =
     HandleBillingAutoRenewDisabled cfg (he_out he) (he_now he) (Some (BillingAutoRenewDisabledEvent tid r at)) d"
| "handle_billing_event cfg he (BillingGraceStartedEvent tid c pid r g at) d =
     HandleBillingGraceStarted cfg (he_out he) (he_now he) (Some (BillingGraceStartedEvent tid c pid r g at)) d"
| "handle_billing_event cfg he (BillingAccessExpiredEvent tid r at) d =
     HandleBillingAccessExpired cfg (he_out he) (he_now he) (Some (BillingAccessExpiredEvent tid r at)) d"
| "handle_billing_event cfg he _ d = (None, d)"

definition result_of :: "tx_error option \<times> sub_db \<Rightarrow> handler_result \<times> sub_db" where
  "result_of r = (case r of (None, d) \<Rightarrow> (HOk, d) | (Some e, d) \<Rightarrow> (HErr ''handler'', d))"

section \<open>Once per message\<close>

definition processSubscriptionMessageOnce ::
    "outage \<Rightarrow> time \<Rightarrow> envelope \<Rightarrow> 'v kmsg \<Rightarrow> (sub_db \<Rightarrow> handler_result \<times> sub_db) \<Rightarrow> sub_db
      \<Rightarrow> handler_result \<times> sub_db" where
  "processSubscriptionMessageOnce = message_once ''user-subscription-service''"

definition subscription_command_handler ::
    "service_config \<Rightarrow> outage \<Rightarrow> handler_env \<Rightarrow> json_obj option kmsg \<Rightarrow> sub_db \<Rightarrow> handler_result \<times> sub_db" where
  "subscription_command_handler cfg out he m d = (case km_value m of
     None \<Rightarrow> (HSkip, d)
   | Some ob \<Rightarrow> (case decode_envelope ob of
       None \<Rightarrow> (HSkip, d)
     | Some en \<Rightarrow> processSubscriptionMessageOnce out (he_now he) en m (\<lambda>d.
         case decode_subscription_command ob of
           None \<Rightarrow> (HSkip, d)
         | Some c \<Rightarrow> result_of (handle_subscription_command cfg he c d)) d))"

definition billing_event_handler ::
    "service_config \<Rightarrow> outage \<Rightarrow> handler_env \<Rightarrow> json_obj option kmsg \<Rightarrow> sub_db \<Rightarrow> handler_result \<times> sub_db" where
  "billing_event_handler cfg out he m d = (case km_value m of
     None \<Rightarrow> (HSkip, d)
   | Some ob \<Rightarrow> (case decode_envelope ob of
       None \<Rightarrow> (HSkip, d)
     | Some en \<Rightarrow> processSubscriptionMessageOnce out (he_now he) en m (\<lambda>d.
         case decode_billing_event ob of
           None \<Rightarrow> (HSkip, d)
         | Some (Inl _) \<Rightarrow> (HOk, d)
         | Some (Inr e) \<Rightarrow> result_of (handle_billing_event cfg he e d)) d))"

section \<open>Properties of the wire and of the wrapper\<close>

text \<open>
  C9. Commands survive the wire: a command with a 64-bit user id, encoded as \<open>json.Marshal\<close> does
  (optional fields left out when empty), is decoded to the same command, and its envelope carries its
  type and its command id.
\<close>

theorem subscription_command_roundtrip:
  assumes "int64_ok (sc_telegram_id c)"
  shows "decode_subscription_command (encode_subscription_command c) = Some c
    \<and> map_option en_type (decode_envelope (encode_subscription_command c)) = Some (subscription_command_type c)
    \<and> map_option en_command_id (decode_envelope (encode_subscription_command c)) = Some (sc_command_id c)"
  using assms
  by (cases c) (simp_all add: decode_subscription_command_def decode_envelope_def fld_defs)

lemma subscription_command_roundtrip_witness:
  "decode_subscription_command (encode_subscription_command (RotateTokenCommand ''c1'' 7 []))
     = Some (RotateTokenCommand ''c1'' 7 [])"
  using subscription_command_roundtrip [of "RotateTokenCommand ''c1'' 7 []"] by (simp add: int64_ok_def)


lemma inbox_key_user_subscription: "inbox_key ''user-subscription-service'' i \<noteq> payment_key p"
  by (simp add: inbox_key_def payment_key_def)


definition sample_command :: "json_obj option kmsg" where
  "sample_command = \<lparr>km_topic = TopicSubscriptionCommands, km_key = ''7'', km_partition = 0, km_offset = 4,
     km_time = 0, km_value = Some (encode_subscription_command (RotateTokenCommand ''c1'' 7 []))\<rparr>"

definition sample_envelope :: envelope where
  "sample_envelope = \<lparr>en_type = ''subscription.rotate_token'', en_command_id = ''c1'', en_payment_id = [], en_order_id = []\<rparr>"


text \<open>The handler of a rotation command whose transaction meets no outage and draws the token \<open>u\<close>.\<close>

definition rotate_handler ::
    "service_config \<Rightarrow> time \<Rightarrow> int \<Rightarrow> string \<Rightarrow> string \<Rightarrow> sub_db \<Rightarrow> handler_result \<times> sub_db" where
  "rotate_handler cfg now tid reason u d =
     result_of (HandleRotateToken cfg Up now (\<lambda>_. u) (Some (tid, reason)) d)"

lemma map_fst_tupd: "map fst (tupd k f t) = map fst t"
  by (induction t) (auto simp: tupd_def)

lemma rotate_handler_step:
  assumes "sub_inv d" and "sub_of d tid = Some r" and "us_status r = StatusActive" and "us_expires_at r = Some e"
    and "now < e" and "token_of d tid = Some k" and "tid \<noteq> 0" and "\<not> token_taken u d"
  obtains d1 k1 where "rotate_handler cfg now tid reason u d = (HOk, d1)" and "sub_inv d1"
    and "sub_of d1 tid = Some (r\<lparr>us_access_rev := us_access_rev r + 1\<rparr>)"
    and "token_of d1 tid = Some k1" and "tk_token k1 = u"
    and "processed_messages d1 = processed_messages d"
    and "\<And>t. t \<noteq> u \<Longrightarrow> token_taken t d1 \<Longrightarrow> token_taken t d \<and> t \<noteq> tk_token k"
    and "length (event_outbox d1) = length (event_outbox d) + 1"
proof -
  define d0 where "d0 = upd_sub tid (\<lambda>r. r\<lparr>us_access_rev := us_access_rev r + 1\<rparr>)
      (upd_token tid (rotate_token_row now u (if reason = [] then ''user_request'' else reason) (Some e)) d)"
  have "\<not> row_lapses now r" using assms(3-5) by (simp add: row_lapses_def)
  then have g: "getStateForUpdateTx now tid d = Inr (scanState now tid r, d)"
    by (rule getState_unlapsed [OF assms(2)])
  have free: "\<not> list_ex (\<lambda>(t, r). t \<noteq> tid \<and> tk_token r = u) (subscription_tokens d)"
    using assms(8) by (auto simp: token_taken_def list_ex_iff)
  have r: "RotateSubscriptionTokenTx now u u tid (if reason = [] then ''user_request'' else reason) d = Inr (Some (u, Some e), d0)"
    using g free assms(3-6) unfolding RotateSubscriptionTokenTx_def d0_def by (simp del: if_split)
  have inv0: "sub_inv d0" using keeps_txD [OF keeps_RotateSubscriptionTokenTx r assms(1)] by simp
  define d1 where "d1 = snd (rotate_handler cfg now tid reason u d)"
  have h: "rotate_handler cfg now tid reason u d = (HOk, d1)" "event_outbox d1 = event_outbox d0 @ [last (event_outbox d1)]"
      "user_subscriptions d1 = user_subscriptions d0" "subscription_tokens d1 = subscription_tokens d0"
      "processed_messages d1 = processed_messages d0"
    using r assms(7) by (auto simp: d1_def rotate_handler_def HandleRotateToken_def rotate_body_def deref_def
        notifyTx_def notification_def result_of_def AddTx_def simp del: if_split)
  have "keeps_sub d (rotate_body cfg now (\<lambda>_. u) tid (if reason = [] then ''user_request'' else reason) d)"
    by (rule keeps_rotate_body)
  then have inv1: "sub_inv d1"
    using assms(1,7) h(1) by (cases "rotate_body cfg now (\<lambda>_. u) tid (if reason = [] then ''user_request'' else reason) d")
      (auto simp: rotate_handler_def HandleRotateToken_def result_of_def simp del: if_split split: prod.splits)
  have taken: "token_taken t d \<and> t \<noteq> tk_token k" if tu: "t \<noteq> u" "token_taken t d1" for t
  proof -
    obtain i k' where k': "token_of d1 i = Some k'" "tk_token k' = t"
      using tu(2) token_taken_iff [OF sub_invD(2) [OF inv1]] by blast
    with tu(1) assms(6) have i: "i \<noteq> tid" "token_of d i = Some k'"
      by (auto simp: token_of_def h(4) d0_def upd_token_def table_simps rotate_token_row_def split: if_splits)
    show ?thesis
      using i k'(2) token_taken_iff [OF sub_invD(2) [OF assms(1)]]
        tokens_unique_other [OF sub_invD(12) [OF assms(1)] assms(6) i] by blast
  qed
  have "event_outbox d0 = event_outbox d" by (simp add: d0_def)
  then have len: "length (event_outbox d1) = length (event_outbox d) + 1" using h(2) by (metis length_append_singleton Suc_eq_plus1)
  show thesis
    by (rule that [OF h(1) inv1 _ _ _ _ taken len, of "rotate_token_row now u (if reason = [] then ''user_request'' else reason) (Some e) k"])
      (use assms(2,6) in \<open>simp_all add: sub_of_def token_of_def h(3,4,5) d0_def upd_sub_def upd_token_def table_simps
        rotate_token_row_def\<close>)
qed

text \<open>
  The reservation and the work are two transactions, not one. When the connection is lost at the
  commit of the reservation, the handler's own transaction has committed already; the message is
  reported as failed, and its redelivery runs the handler a second time. A command to rotate the
  link thus rotates it twice: the link of the first message the user gets is dead on arrival.
\<close>

theorem rotation_repeated_on_lost_commit:
  fixes d :: sub_db and tid :: int
  assumes "sub_inv d" and "sub_of d tid = Some r" and "us_status r = StatusActive"
    and "us_expires_at r = Some e" and "now < e" and "token_of d tid = Some k" and "tid \<noteq> 0"
    and "\<not> token_taken u1 d" and "\<not> token_taken u2 d" and "u1 \<noteq> u2"
    and "tget (processed_messages d) (inbox_key ''user-subscription-service'' (message_id en m)) = None"
  shows "\<exists>d1 d2 k1 k2.
      processSubscriptionMessageOnce Lost now en m (rotate_handler cfg now tid reason u1) d = (HErr ''commit'', d1)
    \<and> processSubscriptionMessageOnce Up now en m (rotate_handler cfg now tid reason u2) d1 = (HOk, d2)
    \<and> token_of d1 tid = Some k1 \<and> tk_token k1 = u1 \<and> token_of d2 tid = Some k2 \<and> tk_token k2 = u2
    \<and> \<not> token_taken u1 d2 \<and> length (event_outbox d2) = length (event_outbox d) + 2"
proof -
  let ?key = "inbox_key ''user-subscription-service'' (message_id en m)"
  obtain d1 k1 where 1: "rotate_handler cfg now tid reason u1 d = (HOk, d1)" "sub_inv d1"
    "sub_of d1 tid = Some (r\<lparr>us_access_rev := us_access_rev r + 1\<rparr>)" "token_of d1 tid = Some k1" "tk_token k1 = u1"
    "processed_messages d1 = processed_messages d"
    "\<And>t. t \<noteq> u1 \<Longrightarrow> token_taken t d1 \<Longrightarrow> token_taken t d \<and> t \<noteq> tk_token k"
    "length (event_outbox d1) = length (event_outbox d) + 1"
    by (rule rotate_handler_step [OF assms(1-8), of cfg reason]) (rule that)
  have r1: "us_status (r\<lparr>us_access_rev := us_access_rev r + 1\<rparr>) = StatusActive"
      "us_expires_at (r\<lparr>us_access_rev := us_access_rev r + 1\<rparr>) = Some e" using assms(3,4) by simp_all
  have "\<not> token_taken u2 d1" using 1(7) assms(9,10) by metis
  from rotate_handler_step [OF 1(2,3) r1 assms(5) 1(4) assms(7) this, of cfg reason]
  obtain d2 k2 where 2: "rotate_handler cfg now tid reason u2 d1 = (HOk, d2)" "token_of d2 tid = Some k2"
    "tk_token k2 = u2" "processed_messages d2 = processed_messages d1"
    "\<And>t. t \<noteq> u2 \<Longrightarrow> token_taken t d2 \<Longrightarrow> token_taken t d1 \<and> t \<noteq> tk_token k1"
    "length (event_outbox d2) = length (event_outbox d1) + 1"
    by metis
  have id: "message_id en m \<noteq> []" by (auto simp: message_id_def Let_def)
  define d3 where "d3 = d2\<lparr>processed_messages := tins ?key \<lparr>ib_source = ''user-subscription-service'',
      ib_message_type = en_type en, ib_processed_at = now\<rparr> (processed_messages d2)\<rparr>"
  have "processSubscriptionMessageOnce Lost now en m (rotate_handler cfg now tid reason u1) d = (HErr ''commit'', d1)"
    using id assms(11) 1(1) by (simp add: processSubscriptionMessageOnce_def message_once_def MarkProcessed_def Let_def)
  moreover have "processSubscriptionMessageOnce Up now en m (rotate_handler cfg now tid reason u2) d1 = (HOk, d3)"
    using id assms(11) 1(6) 2(1) by (simp add: processSubscriptionMessageOnce_def message_once_def MarkProcessed_def Let_def d3_def)
  moreover have "token_of d3 tid = Some k2" "event_outbox d3 = event_outbox d2" "token_taken t d3 = token_taken t d2" for t
    using 2(2) by (simp_all add: token_of_def d3_def token_taken_def)
  moreover have "\<not> token_taken u1 d2" using 2(5) 1(5) assms(10) by metis
  ultimately show ?thesis using 1(4,5,8) 2(3,6) by (intro exI [of _ d1] exI [of _ d3]) simp
qed

lemma rotation_repeated_on_lost_commit_witness:
  "\<exists>d1 d2 k1 k2. processSubscriptionMessageOnce Lost 5 sample_envelope sample_command
        (rotate_handler (NewService (\<lambda>_. []) [] []) 5 7 [] ''n1'') subscriber_db = (HErr ''commit'', d1)
    \<and> processSubscriptionMessageOnce Up 5 sample_envelope sample_command
        (rotate_handler (NewService (\<lambda>_. []) [] []) 5 7 [] ''n2'') d1 = (HOk, d2)
    \<and> token_of d1 7 = Some k1 \<and> tk_token k1 = ''n1'' \<and> token_of d2 7 = Some k2 \<and> tk_token k2 = ''n2''"
proof -
  have row: "us_status subscriber_row = StatusActive" "us_expires_at subscriber_row = Some (days 30)"
    by (simp_all add: subscriber_row_def)
  have "\<not> token_taken ''n1'' subscriber_db" "\<not> token_taken ''n2'' subscriber_db"
    "tget (processed_messages subscriber_db) x = None" for x
    by (simp_all add: token_taken_def subscriber_db_def empty_sub_db_def)
  then show ?thesis
    using rotation_repeated_on_lost_commit [OF subscriber_db_inv subscriber_sub row _ subscriber_token,
        where now = 5 and ?u1.0 = "''n1''" and ?u2.0 = "''n2''" and en = sample_envelope and m = sample_command
          and cfg = "NewService (\<lambda>_. []) [] []" and reason = "[]"]
    by (simp del: ex_simps) blast
qed

end
