(* ===== verification/BillMessages.thy ===== *)
theory BillMessages
  imports BillService SubMessages "HOL-Library.Word"
begin

text \<open>
  \<open>internal/billing/kafka_handlers.go\<close>, the consumers of the billing commands and of the events of
  the subscription service, and \<open>http_handlers.go\<close>, the webhook's way in.
\<close>

section \<open>Decoding\<close>

definition decode_billing_command :: "json_obj \<Rightarrow> billing_command option" where
  "decode_billing_command ob = need (decode_envelope ob) (\<lambda>en. let t = en_type en; i = en_command_id en in
     if t = ''billing.create_subscription_checkout'' then
       need (fld_str ob ''trace_id'') (\<lambda>tr. need (fld_int ob ''telegram_id'') (\<lambda>tid.
       need (fld_str ob ''plan_code'') (\<lambda>pc. need (fld_bool ob ''save_payment_method'') (\<lambda>save.
       need (fld_str ob ''return_url'') (\<lambda>url.
         Some (CreateSubscriptionCheckoutCommand i tr tid pc save url))))))
     else if t = ''billing.bind_card'' then
       need (fld_int ob ''telegram_id'') (\<lambda>tid. need (fld_str ob ''return_url'') (\<lambda>url.
         Some (BindCardCommand i tid url)))
     else if t = ''billing.unbind_card'' then
       need (fld_int ob ''telegram_id'') (\<lambda>tid. Some (UnbindCardCommand i tid))
     else if t = ''billing.disable_auto_renew'' then
       need (fld_int ob ''telegram_id'') (\<lambda>tid. need (fld_str ob ''reason'') (\<lambda>r.
         Some (DisableAutoRenewCommand i tid r)))
     else None)"

definition decode_activated :: "json_obj \<Rightarrow> subscription_event option" where
  "decode_activated ob =
     need (fld_int ob ''telegram_id'') (\<lambda>tid. need (fld_str ob ''plan_code'') (\<lambda>pc.
     need (fld_time ob ''activated_at'') (\<lambda>at. need (fld_time ob ''active_until'') (\<lambda>until.
     need (fld_int ob ''days_left'') (\<lambda>left. need (fld_str ob ''country'') (\<lambda>country.
     need (fld_str ob ''source'') (\<lambda>source. need (fld_str ob ''payment_id'') (\<lambda>pid.
     need (fld_bool ob ''auto_renew_enabled'') (\<lambda>ar. need (fld_int ob ''access_rev'') (\<lambda>accRev.
       Some (SubscriptionActivatedEvent tid pc at until left country source pid ar accRev)))))))))))"

section \<open>Dispatch\<close>

fun handle_billing_command ::
    "bill_config \<Rightarrow> 'w bill_env \<Rightarrow> billing_command \<Rightarrow> 'w bill_db \<Rightarrow> (bill_error + unit) \<times> 'w bill_db" where
  "handle_billing_command cfg env (CreateSubscriptionCheckoutCommand i tr tid pc save url) d =
     HandleCreateSubscriptionCheckout cfg env (Some (i, tid, pc, save, url)) d"
| "handle_billing_command cfg env (BindCardCommand i tid url) d = HandleBindCard cfg env (Some (i, tid, url)) d"
| "handle_billing_command cfg env (UnbindCardCommand i tid) d = HandleUnbindCard env (Some tid) d"
| "handle_billing_command cfg env (DisableAutoRenewCommand i tid r) d = HandleDisableAutoRenew env (Some (tid, r)) d"

definition bill_result :: "(bill_error + unit) \<times> 's \<Rightarrow> handler_result \<times> 's" where
  "bill_result r = (case r of
     (Inr _, d) \<Rightarrow> (HOk, d)
   | (Inl (BillSkip _), d) \<Rightarrow> (HSkip, d)
   | (Inl e, d) \<Rightarrow> (HErr (error_text e), d))"

definition processBillingMessageOnce ::
    "outage \<Rightarrow> time \<Rightarrow> envelope \<Rightarrow> 'v kmsg \<Rightarrow> ('w bill_db \<Rightarrow> handler_result \<times> 'w bill_db) \<Rightarrow> 'w bill_db
      \<Rightarrow> handler_result \<times> 'w bill_db" where
  "processBillingMessageOnce = message_once ''billing-service''"

definition billing_command_handler ::
    "bill_config \<Rightarrow> outage \<Rightarrow> 'w bill_env \<Rightarrow> json_obj option kmsg \<Rightarrow> 'w bill_db \<Rightarrow> handler_result \<times> 'w bill_db" where
  "billing_command_handler cfg out env m d = (case km_value m of
     None \<Rightarrow> (HSkip, d)
   | Some ob \<Rightarrow> (case decode_envelope ob of
       None \<Rightarrow> (HSkip, d)
     | Some en \<Rightarrow> processBillingMessageOnce out (bv_now env) en m (\<lambda>d.
         case decode_billing_command ob of
           None \<Rightarrow> (HSkip, d)
         | Some c \<Rightarrow> bill_result (handle_billing_command cfg env c d)) d))"

definition subscription_event_handler ::
    "outage \<Rightarrow> 'w bill_env \<Rightarrow> json_obj option kmsg \<Rightarrow> 'w bill_db \<Rightarrow> handler_result \<times> 'w bill_db" where
  "subscription_event_handler out env m d = (case km_value m of
     None \<Rightarrow> (HSkip, d)
   | Some ob \<Rightarrow> (case decode_envelope ob of
       None \<Rightarrow> (HSkip, d)
     | Some en \<Rightarrow>
         if en_type en \<noteq> ''subscription.activated'' then (HOk, d)
         else processBillingMessageOnce out (bv_now env) en m (\<lambda>d.
           case decode_activated ob of
             None \<Rightarrow> (HSkip, d)
           | Some e \<Rightarrow> if se_telegram_id e = 0
               then (HErr ''subscription activated event has empty telegram_id'', d)
               else bill_result (HandleSubscriptionActivated env (Some e) d)) d))"

section \<open>The webhook's HTTP handler\<close>

text \<open>
  A request as the handler sees it: \<open>hr_body\<close> is None when reading it fails (more than a megabyte,
  a broken connection). \<open>json\<close>, \<open>sha256hex\<close>, \<open>SplitHostPort\<close>, \<open>ParseIP\<close> and \<open>ParseCIDR\<close> are the
  standard library's; an address is a word with its family, a network an address and the length of
  its prefix.
\<close>

record http_request =
  hr_method :: string
  hr_path :: string
  hr_token_header :: string
  hr_remote_addr :: string
  hr_body :: "string option"

datatype ip_addr = IPv4 "32 word" | IPv6 "128 word"

record net_lib =
  nl_split_host :: "string \<Rightarrow> string option"
  nl_parse_ip :: "string \<Rightarrow> ip_addr option"
  nl_parse_cidr :: "string \<Rightarrow> (ip_addr \<times> nat) option"

fun net_contains :: "ip_addr \<times> nat \<Rightarrow> ip_addr \<Rightarrow> bool" where
  "net_contains (IPv4 n, l) (IPv4 a) = (drop_bit (32 - l) n = drop_bit (32 - l) a)"
| "net_contains (IPv6 n, l) (IPv6 a) = (drop_bit (128 - l) n = drop_bit (128 - l) a)"
| "net_contains _ _ = False"

definition defaultYooKassaTrustedNets :: "string list" where
  "defaultYooKassaTrustedNets = [''185.71.76.0/27'', ''185.71.77.0/27'', ''77.75.153.0/25'', ''77.75.156.11/32'',
     ''77.75.156.35/32'', ''77.75.154.128/25'', ''2a02:5180::/32'']"

definition isTrustedYooKassaIP :: "net_lib \<Rightarrow> (string \<Rightarrow> string) \<Rightarrow> string \<Rightarrow> bool" where
  "isTrustedYooKassaIP nl getenv remoteAddr =
     (let host = (case nl_split_host nl remoteAddr of None \<Rightarrow> remoteAddr | Some h \<Rightarrow> h) in
      case nl_parse_ip nl (trim_space host) of
        None \<Rightarrow> False
      | Some ip \<Rightarrow>
          let raw = trim_space (getenv ''YOOKASSA_TRUSTED_IPS'');
              cidrs = (if raw \<noteq> [] then filter (\<lambda>p. p \<noteq> []) (map trim_space (split_comma [] raw))
                       else defaultYooKassaTrustedNets)
          in list_ex (\<lambda>c. case nl_parse_cidr nl c of None \<Rightarrow> False | Some n \<Rightarrow> net_contains n ip) cidrs)"

definition strip_prefix :: "string \<Rightarrow> string \<Rightarrow> string" where
  "strip_prefix p s = (if take (length p) s = p then drop (length p) s else s)"

text \<open>\<open>strings.Trim\<close> of slashes.\<close>

definition trim_slash :: "string \<Rightarrow> string" where
  "trim_slash s = rev (dropWhile (\<lambda>c. c = CHR ''/'') (rev (dropWhile (\<lambda>c. c = CHR ''/'') s)))"

definition handleYooKassaWebhook ::
    "bill_config \<Rightarrow> net_lib \<Rightarrow> (string \<Rightarrow> yooKassaWebhookNotification option) \<Rightarrow> (string \<Rightarrow> string)
      \<Rightarrow> (string \<Rightarrow> string) \<Rightarrow> 'w bill_env \<Rightarrow> http_request \<Rightarrow> 'w bill_db \<Rightarrow> int \<times> 'w bill_db" where
  "handleYooKassaWebhook cfg nl unmarshal sha256hex getenv env q d =
     (if hr_method q \<noteq> ''POST'' then (405, d)
      else if map to_lower (trim_space (getenv ''YOOKASSA_ENFORCE_IP_CHECK'')) = ''true''
              \<and> \<not> isTrustedYooKassaIP nl getenv (hr_remote_addr q) then (404, d)
      else
        let expected = trim_space (getenv ''YOOKASSA_WEBHOOK_TOKEN'');
            fromPath = trim_slash (strip_prefix ''/webhooks/yookassa/'' (hr_path q));
            actual = (if fromPath = [] then trim_space (hr_token_header q) else fromPath)
        in if expected = [] then (503, d)
           else if actual \<noteq> expected then (404, d)
           else (case hr_body q of
             None \<Rightarrow> (400, d)
           | Some raw \<Rightarrow> (case unmarshal raw of
               None \<Rightarrow> (400, d)
             | Some n \<Rightarrow> (case ProcessWebhook cfg env (Some n) (sha256hex raw) d of
                 (Inr _, d1) \<Rightarrow> (200, d1)
               | (Inl DuplicateWebhook, d1) \<Rightarrow> (200, d1)
               | (Inl _, d1) \<Rightarrow> (400, d1)))))"

end
