(* ===== verification/BillInvariant.thy ===== *)
theory BillInvariant
  imports BillMessages
begin

text \<open>
  What holds of the billing tables in every reachable state and how they may change: \<open>bill_inv\<close> and
  \<open>bill_later\<close>, a second instance of the contract \<open>history\<close>. Both are stated for a predicate
  \<open>confirmed\<close> on the provider's side ("this payment has been paid"), of which only \<open>honest\<close> is asked:
  once confirmed a payment stays confirmed, and an answer of status 200 to a GET that shows the
  payment as paid is true.
\<close>

section \<open>The invariant\<close>

definition honest :: "('w \<Rightarrow> string \<Rightarrow> bool) \<Rightarrow> 'w bill_env \<Rightarrow> bool" where
  "honest confirmed env \<longleftrightarrow> (\<forall>q w a w'. bv_http env q w = (a, w') \<longrightarrow>
     (\<forall>p. confirmed w p \<longrightarrow> confirmed w' p) \<and>
     (\<forall>p body. q = GetPayment p \<longrightarrow> a = Inr (200, Some body) \<longrightarrow> is_paid body \<longrightarrow> confirmed w' p))"

definition schedule_fits :: "bill_config \<Rightarrow> bool" where
  "schedule_fits cfg \<longleftrightarrow> int (length (bl_retry_schedule cfg)) < 2 ^ 31"

definition profile_ok :: "bill_config \<Rightarrow> RecurringProfile \<Rightarrow> bool" where
  "profile_ok cfg p \<longleftrightarrow>
     (rp_auto_renew p \<longrightarrow> rp_method_id p \<noteq> [])
   \<and> (rp_auto_renew p \<longrightarrow> rp_status p = PfActive \<or> rp_status p = PfRetry \<longrightarrow> rp_next_charge_at p \<noteq> None)
   \<and> (rp_status p = PfGrace \<longrightarrow> rp_grace_until p \<noteq> None)
   \<and> (rp_status p = PfProcessing \<or> rp_status p = PfExpiring \<longrightarrow> rp_locked_at p \<noteq> None)
   \<and> (rp_status p = PfDisabled \<or> rp_status p = PfExpired \<longrightarrow> \<not> rp_auto_renew p)
   \<and> 0 \<le> rp_retry_count p \<and> rp_retry_count p \<le> int (length (bl_retry_schedule cfg))"

text \<open>The attempt number that a cancellation webhook will index the schedule with.\<close>

definition payment_ok :: "bill_config \<Rightarrow> PaymentRecord \<Rightarrow> bool" where
  "payment_ok cfg p \<longleftrightarrow>
     (billingChargeSourceFromMetadata (pr_metadata p) = BillingChargeSourceRecurring \<longrightarrow>
        1 \<le> intFromMetadata (pr_metadata p) ''attempt_no'')"

definition announced :: "('w \<Rightarrow> string \<Rightarrow> bool) \<Rightarrow> 'w \<Rightarrow> payload \<Rightarrow> bool" where
  "announced confirmed w pl = (case pl of
     PBillingEvent (BillingPaymentSucceededEvent ct src tid oi pid pc n am cu mi an ar at pr) \<Rightarrow>
       pr = ''yookassa'' \<longrightarrow> confirmed w pid
   | _ \<Rightarrow> True)"

definition bill_inv :: "bill_config \<Rightarrow> ('w \<Rightarrow> string \<Rightarrow> bool) \<Rightarrow> 'w bill_db \<Rightarrow> bool" where
  "bill_inv cfg confirmed d \<longleftrightarrow> schedule_fits cfg
   \<and> twf (payments d) \<and> twf (recurring_profiles d) \<and> twf (pending_refunds d)
   \<and> (\<forall>i p. tget (payments d) i = Some p \<longrightarrow> pr_order_id p = i \<and> payment_ok cfg p)
   \<and> (\<forall>i j p q. tget (payments d) i = Some p \<longrightarrow> tget (payments d) j = Some q \<longrightarrow>
        pr_payment_id p = pr_payment_id q \<longrightarrow> pr_payment_id p = [] \<or> i = j)
   \<and> (\<forall>t p. profile_of d t = Some p \<longrightarrow> profile_ok cfg p)
   \<and> (\<forall>i r. tget (pending_refunds d) i = Some r \<longrightarrow> 0 \<le> pf_attempts r \<and> pf_attempts r \<le> 10)
   \<and> (\<forall>r \<in> set (event_outbox d). announced confirmed (yookassa d) (ob_payload r))"

text \<open>An order keeps what was ordered, and what is confirmed stays confirmed.\<close>

definition same_order :: "PaymentRecord \<Rightarrow> PaymentRecord \<Rightarrow> bool" where
  "same_order p p' \<longleftrightarrow> pr_telegram_id p' = pr_telegram_id p \<and> pr_checkout_type p' = pr_checkout_type p
     \<and> pr_plan_code p' = pr_plan_code p \<and> pr_duration_days p' = pr_duration_days p
     \<and> pr_amount p' = pr_amount p \<and> pr_metadata p' = pr_metadata p"

definition bill_later :: "('w \<Rightarrow> string \<Rightarrow> bool) \<Rightarrow> 'w bill_db \<Rightarrow> 'w bill_db \<Rightarrow> bool" where
  "bill_later confirmed d d' \<longleftrightarrow>
     (\<forall>i p. tget (payments d) i = Some p \<longrightarrow> (\<exists>p'. tget (payments d') i = Some p' \<and> same_order p p'))
   \<and> (\<forall>p. confirmed (yookassa d) p \<longrightarrow> confirmed (yookassa d') p)"

lemma same_order_refl [simp]: "same_order p p"
  by (simp add: same_order_def)

lemma same_order_trans: "same_order p q \<Longrightarrow> same_order q r \<Longrightarrow> same_order p r"
  by (simp add: same_order_def)

lemma bill_later_refl [simp]: "bill_later confirmed d d"
  by (simp add: bill_later_def)

lemma bill_later_trans: "bill_later confirmed d1 d2 \<Longrightarrow> bill_later confirmed d2 d3 \<Longrightarrow> bill_later confirmed d1 d3"
  unfolding bill_later_def by (meson same_order_trans)

interpretation bill: history "bill_inv cfg confirmed" "bill_later confirmed" for cfg confirmed
  by unfold_locales (auto intro: bill_later_trans)

abbreviation stays_bill :: "bill_config \<Rightarrow> ('w \<Rightarrow> string \<Rightarrow> bool) \<Rightarrow> 'w bill_db \<Rightarrow> 'w bill_db \<Rightarrow> bool" where
  "stays_bill cfg confirmed \<equiv> stays (bill_inv cfg confirmed) (bill_later confirmed)"

abbreviation keeps_bill ::
    "bill_config \<Rightarrow> ('w \<Rightarrow> string \<Rightarrow> bool) \<Rightarrow> 'w bill_db \<Rightarrow> tx_error + ('a \<times> 'w bill_db) \<Rightarrow> bool" where
  "keeps_bill cfg confirmed \<equiv> keeps_tx (bill_inv cfg confirmed) (bill_later confirmed)"

lemma bill_invD:
  assumes "bill_inv cfg confirmed d"
  shows "schedule_fits cfg" and "twf (payments d)" and "twf (recurring_profiles d)" and "twf (pending_refunds d)"
    and "tget (payments d) i = Some p \<Longrightarrow> pr_order_id p = i"
    and "tget (payments d) i = Some p \<Longrightarrow> payment_ok cfg p"
    and "profile_of d t = Some r \<Longrightarrow> profile_ok cfg r"
    and "row \<in> set (event_outbox d) \<Longrightarrow> announced confirmed (yookassa d) (ob_payload row)"
  using assms unfolding bill_inv_def by blast+

text \<open>A change of the rest of the database.\<close>

lemma stays_frame:
  assumes "payments d' = payments d" and "recurring_profiles d' = recurring_profiles d"
    and "pending_refunds d' = pending_refunds d"
    and "\<And>p. confirmed (yookassa d) p \<Longrightarrow> confirmed (yookassa d') p"
    and "\<And>row. row \<in> set (event_outbox d') \<Longrightarrow>
      announced confirmed (yookassa d') (ob_payload row) \<or> (\<exists>r \<in> set (event_outbox d). ob_payload r = ob_payload row)"
  shows "stays_bill cfg confirmed d d'"
proof (rule staysI)
  assume inv: "bill_inv cfg confirmed d"
  have "announced confirmed (yookassa d') pl" if "announced confirmed (yookassa d) pl" for pl
    using that assms(4) by (auto simp: announced_def split: payload.splits billing_event.splits)
  then have "\<forall>row \<in> set (event_outbox d'). announced confirmed (yookassa d') (ob_payload row)"
    using assms(5) bill_invD(8) [OF inv] by metis
  then show "bill_inv cfg confirmed d'"
    using inv assms(1,2,3) unfolding bill_inv_def profile_of_def by presburger
  show "bill_later confirmed d d'" using assms(1,4) by (simp add: bill_later_def)
qed

lemma stays_AddTx:
  assumes "announced confirmed (yookassa d) (oe_payload e)"
  shows "stays_bill cfg confirmed d (AddTx now e d)"
  by (rule stays_frame) (use assms in \<open>auto simp: AddTx_def new_row_def\<close>)

lemma stays_notification [keeps]: "stays_bill cfg confirmed d (publishNotificationTx now n d)"
  unfolding publishNotificationTx_def by (rule stays_AddTx) (simp add: announced_def)

lemma stays_event:
  assumes "announced confirmed (yookassa d) (PBillingEvent e)"
  shows "stays_bill cfg confirmed d (publishBillingEventTx now e d)"
  unfolding publishBillingEventTx_def by (rule stays_AddTx) (simp add: assms)

lemma announced_other [simp]:
  "announced confirmed w (PBillingEvent (BillingPaymentCanceledEvent ct src tid oi pid r an nr gu at pr))"
  "announced confirmed w (PBillingEvent (BillingPaymentMethodBoundEvent tid oi pid mi l4 at))"
  "announced confirmed w (PBillingEvent (BillingPaymentMethodUnboundEvent tid at))"
  "announced confirmed w (PBillingEvent (BillingRenewalRetryScheduledEvent tid pc pid r an t1 at))"
  "announced confirmed w (PBillingEvent (BillingGraceStartedEvent tid pc pid r t2 at))"
  "announced confirmed w (PBillingEvent (BillingAccessExpiredEvent tid r at))"
  "announced confirmed w (PBillingEvent (BillingAutoRenewDisabledEvent tid r at))"
  by (simp_all add: announced_def)

section \<open>The profiles\<close>

lemma stays_profile:
  assumes "twf t = twf (recurring_profiles d)"
    and "\<And>i p. twf (recurring_profiles d) \<Longrightarrow> (\<And>i p. profile_of d i = Some p \<Longrightarrow> profile_ok cfg p) \<Longrightarrow>
      tget t i = Some p \<Longrightarrow> profile_ok cfg p"
  shows "stays_bill cfg confirmed d (d\<lparr>recurring_profiles := t\<rparr>)"
proof (rule staysI)
  assume inv: "bill_inv cfg confirmed d"
  have ok: "\<And>i p. profile_of d i = Some p \<Longrightarrow> profile_ok cfg p" using bill_invD(7) [OF inv] .
  show "bill_inv cfg confirmed (d\<lparr>recurring_profiles := t\<rparr>)"
    using inv assms(1) assms(2) [OF bill_invD(3) [OF inv] ok]
    unfolding bill_inv_def by (simp add: profile_of_def)
qed (simp add: bill_later_def)

lemma stays_upd_profile:
  assumes "\<And>p. profile_ok cfg p \<Longrightarrow> profile_ok cfg (f p)"
  shows "stays_bill cfg confirmed d (upd_profile tid f d)"
  unfolding upd_profile_def
  by (rule stays_profile) (use assms in \<open>auto simp: table_simps profile_of_def split: if_splits\<close>)

lemma stays_DisableAutoRenew [keeps]: "stays_bill cfg confirmed d (DisableAutoRenewTx tid reason d)"
  unfolding DisableAutoRenewTx_def by (rule stays_upd_profile) (simp add: profile_ok_def)

lemma stays_UpdateNextChargeAt [keeps]: "stays_bill cfg confirmed d (UpdateNextChargeAt tid until d)"
  unfolding UpdateNextChargeAt_def by (rule stays_upd_profile) (simp add: profile_ok_def)

lemma stays_ScheduleRenewalRetry:
  "1 \<le> n \<Longrightarrow> n \<le> int (length (bl_retry_schedule cfg)) \<Longrightarrow>
     stays_bill cfg confirmed d (ScheduleRenewalRetryTx tid t n reason pid d)"
  unfolding ScheduleRenewalRetryTx_def by (rule stays_upd_profile) (simp add: profile_ok_def)

lemma stays_StartGrace [keeps]: "stays_bill cfg confirmed d (StartGracePeriodTx tid t reason pid d)"
  unfolding StartGracePeriodTx_def by (rule stays_upd_profile) (simp add: profile_ok_def)

lemma stays_MarkRecurringSuccess [keeps]: "stays_bill cfg confirmed d (MarkRecurringSuccessTx tid pid t d)"
  unfolding MarkRecurringSuccessTx_def by (rule stays_upd_profile) (auto simp: profile_ok_def)

lemma stays_SuspendExpiredGrace [keeps]: "stays_bill cfg confirmed d (SuspendExpiredGraceTx tid reason d)"
  unfolding SuspendExpiredGraceTx_def by (rule stays_upd_profile) (simp add: profile_ok_def)

end
