(* ===== verification/BillKeeps.thy ===== *)
theory BillKeeps
  imports BillInvariant
begin

text \<open>
  Every operation of the billing service keeps \<open>bill_inv\<close> along \<open>bill_later\<close>, whatever faults it meets
  and wherever it stops, when the provider is honest. The paid operation is the only one that
  announces a payment, and only after the provider has confirmed it.
\<close>

section \<open>Statements\<close>

lemma stays_payments:
  assumes "twf (payments d) \<Longrightarrow> twf t"
    and "bill_inv cfg confirmed d \<Longrightarrow> (\<And>i p. tget t i = Some p \<Longrightarrow> pr_order_id p = i \<and> payment_ok cfg p)"
    and "bill_inv cfg confirmed d \<Longrightarrow> (\<And>i j p q. tget t i = Some p \<Longrightarrow> tget t j = Some q \<Longrightarrow>
          pr_payment_id p = pr_payment_id q \<Longrightarrow> pr_payment_id p = [] \<or> i = j)"
    and "\<And>i p. tget (payments d) i = Some p \<Longrightarrow> \<exists>p'. tget t i = Some p' \<and> same_order p p'"
  shows "stays_bill cfg confirmed d (d\<lparr>payments := t\<rparr>)"
proof (rule staysI)
  assume inv: "bill_inv cfg confirmed d"
  show "bill_inv cfg confirmed (d\<lparr>payments := t\<rparr>)"
    using inv assms(1) assms(2,3) [OF inv] unfolding bill_inv_def by (simp add: profile_of_def)
qed (simp add: bill_later_def assms(4))

lemma payment_id_takenD:
  assumes "twf (payments d)" and "\<not> payment_id_taken i p d" and "p \<noteq> []"
    and "tget (payments d) j = Some q" and "pr_payment_id q = p"
  shows "j = i"
  using assms by (auto simp: payment_id_taken_def list_ex_iff tget_in_set)

lemma pids_unique:
  assumes "bill_inv cfg confirmed d" and "tget (payments d) i = Some p" and "tget (payments d) j = Some q"
    and "pr_payment_id p = pr_payment_id q" and "pr_payment_id p \<noteq> []"
  shows "i = j"
  using assms unfolding bill_inv_def by blast

text \<open>A write of one order whose payment id is free.\<close>

lemma stays_write_payment:
  assumes new: "\<And>j. tget t j = (if j = i then Some p else tget (payments d) j)"
    and "twf (payments d) \<Longrightarrow> twf t" and "pr_order_id p = i"
    and "bill_inv cfg confirmed d \<Longrightarrow> payment_ok cfg p" and free: "\<not> payment_id_taken i (pr_payment_id p) d"
    and "\<And>q. tget (payments d) i = Some q \<Longrightarrow> same_order q p"
  shows "stays_bill cfg confirmed d (d\<lparr>payments := t\<rparr>)"
proof (rule stays_payments [OF assms(2)])
  show "pr_order_id q = k \<and> payment_ok cfg q" if "bill_inv cfg confirmed d" "tget t k = Some q" for k q
    using that assms(3,4) bill_invD(5,6) [OF that(1)] unfolding new by (auto split: if_splits)
  show "pr_payment_id q = [] \<or> k = j"
    if inv: "bill_inv cfg confirmed d" and q: "tget t k = Some q" and r: "tget t j = Some r"
      and eq: "pr_payment_id q = pr_payment_id r" for k j q r
  proof (rule ccontr)
    assume "\<not> (pr_payment_id q = [] \<or> k = j)"
    then have ne: "pr_payment_id q \<noteq> []" "k \<noteq> j" by simp_all
    show False
    proof (cases "k = i")
      case True
      with q have "q = p" by (simp add: new)
      moreover from True r ne have "tget (payments d) j = Some r" by (simp add: new)
      ultimately have "j = i" using payment_id_takenD [OF bill_invD(2) [OF inv] free] eq ne by metis
      with True ne show False by simp
    next
      case False
      with q have qd: "tget (payments d) k = Some q" by (simp add: new)
      show False
      proof (cases "j = i")
        case True
        with r have "r = p" by (simp add: new)
        then have "k = i" using payment_id_takenD [OF bill_invD(2) [OF inv] free _ qd] eq ne by metis
        with False show False by simp
      next
        case False
        with r have "tget (payments d) j = Some r" by (simp add: new)
        then show False using pids_unique [OF inv qd _ eq] ne by blast
      qed
    qed
  qed
  show "\<exists>p'. tget t k = Some p' \<and> same_order q p'" if "tget (payments d) k = Some q" for k q
    using that assms(6) unfolding new by auto
qed

lemma keeps_InsertPayment [keeps]:
  assumes "payment_ok cfg p"
  shows "keeps_bill cfg confirmed d (InsertPayment numeric p d)"
proof (cases "numeric (pr_amount p)")
  case (Some a)
  have "stays_bill cfg confirmed d (d\<lparr>payments := tins (pr_order_id p) (p\<lparr>pr_amount := a\<rparr>) (payments d)\<rparr>)"
    if "tget (payments d) (pr_order_id p) = None" and "\<not> payment_id_taken (pr_order_id p) (pr_payment_id p) d"
    by (rule stays_write_payment [where i = "pr_order_id p" and p = "p\<lparr>pr_amount := a\<rparr>"])
      (use that assms in \<open>auto simp: table_simps payment_ok_def\<close>)
  then show ?thesis
    using Some by (auto simp: InsertPayment_def stays_def)
qed (simp add: InsertPayment_def)

lemma keeps_UpdatePaymentCreated [keeps]:
  "keeps_bill cfg confirmed d (UpdatePaymentCreated orderID pid status url mid d)"
proof -
  define f where "f = (\<lambda>p :: PaymentRecord. p\<lparr>pr_payment_id := pid, pr_status := status, pr_confirmation_url := url,
      pr_method_id := keep_if_empty mid (pr_method_id p)\<rparr>)"
  have eq: "UpdatePaymentCreated orderID pid status url mid d =
      (if tget (payments d) orderID \<noteq> None \<and> payment_id_taken orderID pid d then Inl UniqueViolation
       else Inr ((), d\<lparr>payments := tupd orderID f (payments d)\<rparr>))"
    by (simp add: UpdatePaymentCreated_def f_def)
  show ?thesis
  proof (cases "tget (payments d) orderID")
    case None
    then have "tupd orderID f (payments d) = payments d"
      by (force simp: tupd_def tget_def map_of_eq_None_iff intro!: map_idI)
    then show ?thesis using None by (simp add: eq)
  next
    case (Some p)
    have "stays_bill cfg confirmed d (d\<lparr>payments := tupd orderID f (payments d)\<rparr>)"
      if inv: "bill_inv cfg confirmed d" and "\<not> payment_id_taken orderID pid d"
      by (rule stays_write_payment [where i = orderID and p = "f p"])
        (use that Some bill_invD(5,6) [OF inv Some] in
          \<open>auto simp: table_simps f_def payment_ok_def same_order_def\<close>)
    then show ?thesis using Some by (auto simp: eq stays_def)
  qed
qed

lemma tget_map_val: "tget (map (\<lambda>(k, v). (k, f k v)) t) i = map_option (f i) (tget t i)"
  by (induction t) (auto simp: tget_def)

lemma twf_map_val [simp]: "twf (map (\<lambda>(k, v). (k, f k v)) t) = twf t"
  by (simp add: twf_def comp_def case_prod_beta)

lemma stays_UpdatePaymentWebhookState [keeps]:
  "stays_bill cfg confirmed d (UpdatePaymentWebhookState pid status mid reason d)"
  unfolding UpdatePaymentWebhookState_def
proof (rule stays_payments)
  let ?f = "\<lambda>i p. if pr_payment_id p = pid then p\<lparr>pr_status := status, pr_method_id := keep_if_empty mid (pr_method_id p),
      pr_cancel_reason := keep_if_empty reason (pr_cancel_reason p)\<rparr> else p"
  let ?t = "map (\<lambda>(i, p). (i, ?f i p)) (payments d)"
  show "pr_order_id q = i \<and> payment_ok cfg q"
    if "bill_inv cfg confirmed d" "tget ?t i = Some q" for i q
    using that bill_invD(5,6) [OF that(1)] by (auto simp: tget_map_val payment_ok_def split: if_splits)
  show "pr_payment_id q = [] \<or> i = j"
    if inv: "bill_inv cfg confirmed d" and q: "tget ?t i = Some q" and r: "tget ?t j = Some r"
      and eq: "pr_payment_id q = pr_payment_id r" for i j q r
  proof -
    obtain q0 r0 where 0: "tget (payments d) i = Some q0" "q = ?f i q0" "tget (payments d) j = Some r0" "r = ?f j r0"
      using q r by (auto simp: tget_map_val)
    then have "pr_payment_id q = pr_payment_id q0" "pr_payment_id r = pr_payment_id r0" by simp_all
    then show ?thesis using pids_unique [OF inv 0(1,3)] eq by auto
  qed
  show "\<exists>p'. tget ?t i = Some p' \<and> same_order p p'" if "tget (payments d) i = Some p" for i p
    using that by (simp add: tget_map_val same_order_def)
qed simp

lemma stays_other_tables [keeps]:
  "stays_bill cfg confirmed d (d\<lparr>webhook_events := x\<rparr>)"
  "stays_bill cfg confirmed d (d\<lparr>billing_customers := y\<rparr>)"
  by (rule stays_frame; auto)+

lemma stays_customers [keeps]:
  "stays_bill cfg confirmed d (SaveCustomerBindingTx tid mid m d)"
  "stays_bill cfg confirmed d (ClearCustomerBindingTx tid d)"
  by (simp_all add: SaveCustomerBindingTx_def ClearCustomerBindingTx_def Let_def keeps)

lemma stays_refunds:
  assumes "twf (pending_refunds d) \<Longrightarrow> twf t"
    and "(\<And>i r. tget (pending_refunds d) i = Some r \<Longrightarrow> 0 \<le> pf_attempts r \<and> pf_attempts r \<le> 10) \<Longrightarrow>
      (\<And>i r. tget t i = Some r \<Longrightarrow> 0 \<le> pf_attempts r \<and> pf_attempts r \<le> 10)"
  shows "stays_bill cfg confirmed d (d\<lparr>pending_refunds := t\<rparr>)"
proof (rule staysI)
  assume inv: "bill_inv cfg confirmed d"
  then have "\<And>i r. tget (pending_refunds d) i = Some r \<Longrightarrow> 0 \<le> pf_attempts r \<and> pf_attempts r \<le> 10"
    unfolding bill_inv_def by blast
  then have "\<forall>i r. tget t i = Some r \<longrightarrow> 0 \<le> pf_attempts r \<and> pf_attempts r \<le> 10" using assms(2) by blast
  then show "bill_inv cfg confirmed (d\<lparr>pending_refunds := t\<rparr>)"
    using inv assms(1) unfolding bill_inv_def by (simp add: profile_of_def)
qed (simp add: bill_later_def)

lemma tget_tupsert [table_simps]:
  "tget (tupsert k v f t) i = (if i = k then Some (case tget t k of None \<Rightarrow> v | Some w \<Rightarrow> f w) else tget t i)"
  by (simp add: tupsert_def table_simps split: option.split)

lemma twf_tupsert [simp, intro]: "twf t \<Longrightarrow> twf (tupsert k v f t)"
  by (simp add: tupsert_def twf_tins split: option.split)

lemma stays_AddPendingRefund [keeps]: "stays_bill cfg confirmed d (AddPendingRefundTx now pid am cu err d)"
  unfolding AddPendingRefundTx_def
  by (rule stays_refunds) (auto simp: table_simps split: if_splits option.splits)

lemma stays_MarkRefundRetry [keeps]: "stays_bill cfg confirmed d (MarkRefundRetry now pid err n d)"
  unfolding MarkRefundRetry_def by (rule stays_refunds) (auto simp: table_simps split: if_splits)

lemma stays_MarkRefundSucceeded [keeps]: "stays_bill cfg confirmed d (MarkRefundSucceeded pid d)"
  unfolding MarkRefundSucceeded_def by (rule stays_refunds) (auto simp: table_simps split: if_splits)

lemma sort_key_in: "x \<in> set (sort_key f xs) \<longleftrightarrow> x \<in> set xs"
  by simp

lemma stays_LockDueRefunds [keeps]: "stays_bill cfg confirmed d (snd (LockDueRefunds ret locked now limit d))"
proof -
  let ?sel = "filter (\<lambda>(p, r). refund_due now r \<and> \<not> locked p) (sort_key (\<lambda>(_, r). pf_next_attempt_at r) (pending_refunds d))"
  let ?ids = "map fst (take limit ?sel)"
  let ?f = "\<lambda>p r. if p \<in> set ?ids then r\<lparr>pf_attempts := pf_attempts r + 1\<rparr> else r"
  have wfd: "pf_attempts r < 10" if "twf (pending_refunds d)" "tget (pending_refunds d) i = Some r" "i \<in> set ?ids" for i r
  proof -
    have "i \<in> fst ` set (take limit ?sel)" using that(3) by (simp only: set_map)
    then have "i \<in> fst ` set ?sel" using set_take_subset [of limit ?sel] by blast
    then obtain r' where "(i, r') \<in> set (pending_refunds d)" "refund_due now r'" by auto
    then have "tget (pending_refunds d) i = Some r'" "pf_attempts r' < 10"
      using tget_in_set [OF that(1)] by (auto simp: refund_due_def)
    then show ?thesis using that(2) by simp
  qed
  have "snd (LockDueRefunds ret locked now limit d) = d\<lparr>pending_refunds := map (\<lambda>(p, r). (p, ?f p r)) (pending_refunds d)\<rparr>"
    by (simp add: LockDueRefunds_def Let_def)
  moreover have "stays_bill cfg confirmed d (d\<lparr>pending_refunds := map (\<lambda>(p, r). (p, ?f p r)) (pending_refunds d)\<rparr>)"
  proof (rule staysI)
    assume inv: "bill_inv cfg confirmed d"
    have "0 \<le> pf_attempts r \<and> pf_attempts r \<le> 10"
      if r: "tget (map (\<lambda>(p, r). (p, ?f p r)) (pending_refunds d)) i = Some r" for i r
    proof -
      obtain r0 where r0: "tget (pending_refunds d) i = Some r0" "r = ?f i r0" using r by (auto simp: tget_map_val)
      have "0 \<le> pf_attempts r0 \<and> pf_attempts r0 \<le> 10" using inv r0(1) unfolding bill_inv_def by blast
      then show ?thesis using r0(2) wfd [OF bill_invD(4) [OF inv] r0(1)] by (auto simp del: set_map split: if_splits)
    qed
    then show "bill_inv cfg confirmed (d\<lparr>pending_refunds := map (\<lambda>(p, r). (p, ?f p r)) (pending_refunds d)\<rparr>)"
      using inv unfolding bill_inv_def by (simp add: profile_of_def)
  qed (simp add: bill_later_def)
  ultimately show ?thesis by metis
qed

lemma keeps_UpsertRecurringProfile [keeps]:
  assumes "profile_ok cfg p" and "rp_status p = PfActive"
  shows "keeps_bill cfg confirmed d (UpsertRecurringProfileTx numeric tid p d)"
proof (cases "numeric (rp_amount p)")
  case (Some a)
  let ?new = "p\<lparr>rp_amount := a, rp_retry_count := 0, rp_grace_until := None, rp_last_failure := [], rp_locked_at := None\<rparr>"
  have ok: "profile_ok cfg (?new\<lparr>rp_locked_at := l\<rparr>)" "profile_ok cfg ?new" for l
    using assms by (simp_all add: profile_ok_def)
  let ?t = "tupsert tid ?new (\<lambda>old. ?new\<lparr>rp_locked_at := rp_locked_at old\<rparr>) (recurring_profiles d)"
  have "stays_bill cfg confirmed d (d\<lparr>recurring_profiles := ?t\<rparr>)"
  proof (rule staysI)
    assume inv: "bill_inv cfg confirmed d"
    have "profile_ok cfg q" if "tget ?t i = Some q" for i q
      using that ok bill_invD(7) [OF inv] by (auto simp: table_simps profile_of_def split: if_splits option.splits)
    then show "bill_inv cfg confirmed (d\<lparr>recurring_profiles := ?t\<rparr>)"
      using inv unfolding bill_inv_def by (simp add: profile_of_def)
  qed (simp add: bill_later_def)
  then show ?thesis using Some by (simp add: UpsertRecurringProfileTx_def Let_def stays_def)
qed (simp add: UpsertRecurringProfileTx_def)

lemma claim_profiles_stays:
  assumes "st = PfProcessing \<or> st = PfExpiring"
    and "st = PfProcessing \<or> st = PfExpiring"
  shows "stays_bill cfg confirmed d (snd (claim_profiles wanted key st ret locked now limit d))"
proof -
  let ?ids = "map fst (take limit (filter (\<lambda>(t, r). wanted r \<and> \<not> locked t) (nulls_first key (recurring_profiles d))))"
  let ?f = "\<lambda>t r. if t \<in> set ?ids then r\<lparr>rp_status := st, rp_locked_at := Some now\<rparr> else r"
  have eq: "snd (claim_profiles wanted key st ret locked now limit d)
      = d\<lparr>recurring_profiles := map (\<lambda>(t, r). (t, ?f t r)) (recurring_profiles d)\<rparr>"
    by (simp add: claim_profiles_def Let_def)
  have ok: "profile_ok cfg r \<Longrightarrow> profile_ok cfg (?f i r)" for i r
    using assms by (auto simp: profile_ok_def)
  have "stays_bill cfg confirmed d (d\<lparr>recurring_profiles := map (\<lambda>(t, r). (t, ?f t r)) (recurring_profiles d)\<rparr>)"
    by (rule stays_profile) (auto simp: tget_map_val profile_of_def simp del: set_map intro!: ok)
  then show ?thesis using eq by metis
qed

lemma claimed_profiles_ok:
  assumes "bill_inv cfg confirmed d" and "st = PfProcessing \<or> st = PfExpiring"
    and "claim_profiles wanted key st ret locked now limit d = (ps, d')" and "(t, p) \<in> set ps"
  shows "profile_ok cfg p"
proof -
  have d': "d' = snd (claim_profiles wanted key st ret locked now limit d)" using assms(3) by simp
  have inv: "bill_inv cfg confirmed d'"
    using staysD [OF claim_profiles_stays [OF assms(2,2)] assms(1)] unfolding d' by blast
  have "profile_of d' t = Some p"
    using assms(3,4) by (auto simp: claim_profiles_def Let_def map_filter_def)
  then show ?thesis by (rule bill_invD(7) [OF inv])
qed

section \<open>Calls of the provider\<close>

lemma call_confirmed:
  assumes "honest confirmed env" and "call_yookassa env q d = (a, d')" and "confirmed (yookassa d) p"
  shows "confirmed (yookassa d') p"
  using assms by (auto simp: call_yookassa_def honest_def split: prod.splits)

lemma stays_call [keeps]:
  assumes "honest confirmed env"
  shows "stays_bill cfg confirmed d (snd (call_yookassa env q d))"
proof (rule stays_frame)
  show "confirmed (yookassa (snd (call_yookassa env q d))) p" if "confirmed (yookassa d) p" for p
    using call_confirmed [OF assms _ that] by (metis prod.collapse)
qed (auto simp: call_yookassa_def split: prod.split)

lemma calls_end_there:
  "snd (createYooKassaPayment env q key d) = snd (call_yookassa env (PostPayment q key) d)"
  "snd (createRefund env p a c d) = snd (call_yookassa env (PostRefund p a c (''refund:'' @ p)) d)"
  "snd (assertYooKassaPaymentPaid env p d)
     = (if trim_space p = [] then d else snd (call_yookassa env (GetPayment p) d))"
  by (auto simp: createYooKassaPayment_def createRefund_def assertYooKassaPaymentPaid_def
      split: prod.split sum.split option.split)

lemma stays_calls [keeps]:
  assumes "honest confirmed env"
  shows "stays_bill cfg confirmed d (snd (createYooKassaPayment env q key d))"
    and "stays_bill cfg confirmed d (snd (createRefund env p a c d))"
    and "stays_bill cfg confirmed d (snd (assertYooKassaPaymentPaid env p d))"
  using stays_call [OF assms] by (simp_all add: calls_end_there bill.stays_refl)

text \<open>The check of the payment is what makes its announcement true.\<close>

lemma asserted_is_confirmed:
  assumes "honest confirmed env" and "assertYooKassaPaymentPaid env p d = (Inr (), d')"
  shows "confirmed (yookassa d') p"
  using assms by (auto simp: assertYooKassaPaymentPaid_def call_yookassa_def honest_def
      split: if_splits prod.splits sum.splits option.splits)

section \<open>Handlers\<close>

lemma stays_publishNotification [keeps]: "stays_bill cfg confirmed d (snd (publishNotification out now n d))"
  unfolding publishNotification_def by (rule bill.stays_commit_value [OF stays_notification])

lemma stays_publishEvent:
  "announced confirmed (yookassa d) (PBillingEvent e) \<Longrightarrow> stays_bill cfg confirmed d (snd (publishBillingEvent out now e d))"
  unfolding publishBillingEvent_def by (rule bill.stays_commit_value [OF stays_event])

lemma yookassa_frames [simp]:
  "yookassa (DisableAutoRenewTx tid reason d) = yookassa d"
  "yookassa (MarkRecurringSuccessTx tid pid t d) = yookassa d"
  "yookassa (SaveCustomerBindingTx tid mid m d) = yookassa d"
  "yookassa (upd_profile tid f d) = yookassa d"
  by (simp_all add: DisableAutoRenewTx_def MarkRecurringSuccessTx_def SaveCustomerBindingTx_def
      upd_profile_def Let_def)

lemma yookassa_Upsert: "UpsertRecurringProfileTx numeric tid p d = Inr (a, d') \<Longrightarrow> yookassa d' = yookassa d"
  by (auto simp: UpsertRecurringProfileTx_def Let_def split: option.splits)

lemma paid_profile_ok: "schedule_fits cfg \<Longrightarrow> mid \<noteq> [] \<Longrightarrow> profile_ok cfg (paid_profile record mid t)"
  by (simp add: profile_ok_def paid_profile_def)

lemma keeps_paid_body:
  assumes "confirmed (yookassa d) (pr_payment_id record)"
  shows "keeps_bill cfg confirmed d (paid_body numeric paidAt record n d)"
proof -
  let ?tid = "pr_telegram_id record" and ?mid = "firstNotEmpty [pm_id (wn_method n), pr_method_id record]"
  have ev: "announced confirmed (yookassa d) (PBillingEvent (paid_event record m ar t))" for m ar t
    using assms by (simp add: announced_def paid_event_def)
  have publish: "keeps_bill cfg confirmed d' (Inr ((), publishBillingEventTx t (paid_event record m ar t) d'))"
    if "yookassa d' = yookassa d" for d' m ar t
    by (rule bill.keeps_value [OF stays_event]) (use ev that in simp)
  show ?thesis
  proof (cases "?mid \<noteq> [] \<and> pm_saved (wn_method n)")
    case True
    let ?d1 = "SaveCustomerBindingTx ?tid ?mid (wn_method n) d"
    let ?t = "paidAt + days (pr_duration_days record)"
    have up: "keeps_bill cfg confirmed ?d1 (UpsertRecurringProfileTx numeric ?tid (paid_profile record ?mid ?t) ?d1)"
      if "schedule_fits cfg"
      by (rule keeps_UpsertRecurringProfile [OF paid_profile_ok [OF that]]) (use True in \<open>simp_all add: paid_profile_def\<close>)
    have after: "keeps_bill cfg confirmed d2 (Inr ((), if b then MarkRecurringSuccessTx ?tid (pr_payment_id record) ?t d2 else d2))"
      for d2 :: "'a bill_db" and b
      by (rule bill.keeps_value) (simp add: stays_MarkRecurringSuccess bill.stays_refl)
    let ?r1 = "UpsertRecurringProfileTx numeric ?tid (paid_profile record ?mid ?t) ?d1"
    let ?mark = "\<lambda>d2 :: 'a bill_db. if billingChargeSourceFromMetadata (pr_metadata record) = BillingChargeSourceRecurring
        then MarkRecurringSuccessTx ?tid (pr_payment_id record) ?t d2 else d2"
    have eq: "paid_body numeric paidAt record n d = andthen (andthen ?r1 (\<lambda>_ d2. Inr ((), ?mark d2)))
        (\<lambda>_ d3. Inr ((), publishBillingEventTx paidAt (paid_event record ?mid True paidAt) d3))"
      using True by (simp add: paid_body_def Let_def)
    have "keeps_bill cfg confirmed d (paid_body numeric paidAt record n d)" if "schedule_fits cfg"
      unfolding eq
    proof (rule bill.keeps_after [OF stays_customers(1)], rule bill.keeps_andthen)
      show "keeps_bill cfg confirmed ?d1 (andthen ?r1 (\<lambda>_ d2. Inr ((), ?mark d2)))"
        by (rule bill.keeps_andthen [OF up [OF that]]) (rule after)
      show "keeps_bill cfg confirmed d3 (Inr ((), publishBillingEventTx paidAt (paid_event record ?mid True paidAt) d3))"
        if "andthen ?r1 (\<lambda>_ d2. Inr ((), ?mark d2)) = Inr (a, d3)" for a d3
        by (rule publish) (use that in \<open>auto dest: yookassa_Upsert\<close>)
    qed
    then show ?thesis by (auto simp: keeps_tx_def dest: bill_invD(1))
  next
    case False
    have eq: "paid_body numeric paidAt record n d = Inr ((), publishBillingEventTx paidAt
        (paid_event record ?mid False paidAt) (DisableAutoRenewTx ?tid ''payment_method_id_missing'' d))"
      using False by (auto simp: paid_body_def Let_def)
    show ?thesis
      unfolding eq by (rule bill.keeps_after [OF stays_DisableAutoRenew publish]) simp
  qed
qed

lemma stays_subscription_paid [keeps]:
  assumes "honest confirmed env"
  shows "stays_bill cfg confirmed d (snd (handleSubscriptionPaymentSucceeded env k record n d))"
  unfolding handleSubscriptionPaymentSucceeded_def
  by (rule bill.stays_proceed [OF stays_calls(3) [OF assms]])
    (auto intro!: bill.stays_commit keeps_paid_body asserted_is_confirmed [OF assms])

lemma stays_bind_paid [keeps]:
  assumes "honest confirmed env"
  shows "stays_bill cfg confirmed d (snd (handleBindCardPaymentSucceeded env k record n d))"
proof -
  let ?m = "wn_method n" and ?tid = "pr_telegram_id record"
  define body where "body = (\<lambda>refund (d :: 'a bill_db).
      let d2 = (if pm_id ?m \<noteq> [] then SaveCustomerBindingTx ?tid (pm_id ?m) ?m d else d);
          d3 = (case refund of
                  Inl e \<Rightarrow> AddPendingRefundTx (bv_now env) (pr_payment_id record) (pr_amount record)
                             (pr_currency record) (error_text e) d2
                | Inr (_ :: unit) \<Rightarrow> d2);
          d4 = publishBillingEventTx (bv_now env) (bound_event (bv_now env) record ?m) d3
      in publishNotificationTx (bv_now env) (billing_notification ?tid TxtCardBound KbBuyMenu []) d4)"
  define r where "r = (if pr_amount record \<noteq> [] \<and> pr_amount record \<noteq> ''0'' \<and> pr_amount record \<noteq> ''0.00''
      then createRefund env (pr_payment_id record) (pr_amount record) (pr_currency record) d else (Inr (), d))"
  have bound: "announced confirmed w (PBillingEvent (bound_event t record ?m))" for w t
    by (simp add: bound_event_def)
  have step: "stays_bill cfg confirmed d1 (body refund d1)" for refund d1
  proof -
    define d2 where "d2 = (if pm_id ?m \<noteq> [] then SaveCustomerBindingTx ?tid (pm_id ?m) ?m d1 else d1)"
    define d3 where "d3 = (case refund of
        Inl e \<Rightarrow> AddPendingRefundTx (bv_now env) (pr_payment_id record) (pr_amount record) (pr_currency record) (error_text e) d2
      | Inr _ \<Rightarrow> d2)"
    have 2: "stays_bill cfg confirmed d1 d2" by (simp add: d2_def stays_customers bill.stays_refl)
    have 3: "stays_bill cfg confirmed d2 d3"
      by (simp add: d3_def stays_AddPendingRefund bill.stays_refl split: sum.split)
    show ?thesis
      unfolding body_def Let_def d2_def [symmetric] d3_def [symmetric]
      by (rule bill.stays_trans [OF bill.stays_trans [OF 2 3] bill.stays_trans [OF stays_event [OF bound] stays_notification]])
  qed
  have r: "stays_bill cfg confirmed d (snd r)"
    by (simp add: r_def stays_calls [OF assms] bill.stays_refl)
  have "handleBindCardPaymentSucceeded env k record n d =
      commit (bv_out env k) (\<lambda>d. Inr ((), body (fst r) d)) (snd r)"
    by (simp add: handleBindCardPaymentSucceeded_def r_def body_def Let_def split: prod.split)
  moreover have "stays_bill cfg confirmed d1 (snd (commit out (\<lambda>d. Inr ((), body refund d)) d1))" for out refund d1
    by (rule bill.stays_commit_value [where g = "body refund", OF step])
  ultimately show ?thesis using bill.stays_trans [OF r] by simp
qed

lemma stays_payment_succeeded [keeps]:
  "honest confirmed env \<Longrightarrow> stays_bill cfg confirmed d (snd (handlePaymentSucceeded env k record n d))"
  by (simp add: handlePaymentSucceeded_def stays_subscription_paid stays_bind_paid bill.stays_refl)

lemma keeps_recurring_failed:
  "stays_bill cfg confirmed d (snd (handleRecurringPaymentFailed cfg out now tid pc pid n reason d))"
  unfolding handleRecurringPaymentFailed_def
  by (rule bill.stays_commit)
    (auto simp: Let_def simp del: keeps_tx_Inr intro!: bill.keeps_value
      bill.stays_trans [OF stays_ScheduleRenewalRetry stays_event] bill.stays_trans [OF stays_StartGrace stays_event])

lemma stays_payment_canceled [keeps]:
  "stays_bill cfg confirmed d (snd (handlePaymentCanceled cfg env k record n d))"
  unfolding handlePaymentCanceled_def Let_def
  by (rule bill.stays_proceed, use keeps_recurring_failed bill.stays_refl in force)
    (rule bill.stays_proceed, auto simp: canceled_event_def intro!: stays_publishEvent stays_publishNotification bill.stays_refl)

text \<open>What follows a call that may fail.\<close>

lemma stays_after_call:
  assumes "stays_bill cfg confirmed d (snd r)"
    and "\<And>e d'. r = (Inl e, d') \<Longrightarrow> stays_bill cfg confirmed d' (snd (f e d'))"
    and "\<And>a d'. r = (Inr a, d') \<Longrightarrow> stays_bill cfg confirmed d' (snd (g a d'))"
  shows "stays_bill cfg confirmed d (snd (case r of (Inl e, d') \<Rightarrow> f e d' | (Inr a, d') \<Rightarrow> g a d'))"
  using assms by (cases r; cases "fst r") (auto intro: bill.stays_trans)

lemma checkout_record_ok: "payment_ok cfg (checkout_record plan c tid pc save)"
  by (simp add: payment_ok_def checkout_record_def billingChargeSourceFromMetadata_def
      BillingChargeSourceInitial_def BillingChargeSourceRecurring_def)

lemma bind_record_ok: "payment_ok cfg (bind_record cfg' c tid)"
  by (simp add: payment_ok_def bind_record_def billingChargeSourceFromMetadata_def
      BillingChargeSourceInitial_def BillingChargeSourceRecurring_def)

lemma renewal_attempt_no:
  assumes "schedule_fits cfg" and "profile_ok cfg p"
  shows "intFromMetadata (pr_metadata (renewal_record tid p)) ''attempt_no'' = rp_retry_count p + 1"
  using assms atoi_show_int [of "rp_retry_count p + 1"]
  by (simp add: renewal_record_def Let_def intFromMetadata_def schedule_fits_def profile_ok_def)

lemma renewal_record_ok:
  "schedule_fits cfg \<Longrightarrow> profile_ok cfg p \<Longrightarrow> payment_ok cfg (renewal_record tid p)"
  using renewal_attempt_no [of cfg p tid] by (simp add: payment_ok_def profile_ok_def)

lemma stays_checkout [keeps]:
  assumes "honest confirmed env"
  shows "stays_bill cfg confirmed d (snd (HandleCreateSubscriptionCheckout cfg' env cmd d))"
  unfolding HandleCreateSubscriptionCheckout_def
  by (auto simp: Let_def bill.stays_refl split: option.split prod.split
      intro!: bill.stays_proceed stays_after_call bill.stays_commit keeps_InsertPayment checkout_record_ok
        keeps_UpdatePaymentCreated stays_calls [OF assms] stays_payment_succeeded [OF assms] stays_publishNotification)

lemma stays_bind_card [keeps]:
  assumes "honest confirmed env"
  shows "stays_bill cfg confirmed d (snd (HandleBindCard cfg' env cmd d))"
  unfolding HandleBindCard_def
  by (auto simp: Let_def bill.stays_refl split: option.split prod.split
      intro!: bill.stays_proceed stays_after_call bill.stays_commit keeps_InsertPayment bind_record_ok
        keeps_UpdatePaymentCreated stays_calls [OF assms] stays_publishNotification)

lemma stays_unbind_card [keeps]: "stays_bill cfg confirmed d (snd (HandleUnbindCard env cmd d))"
proof (cases cmd)
  case (Some tid)
  show ?thesis
    unfolding HandleUnbindCard_def Some Let_def option.case
    by (rule bill.stays_commit_value)
      (intro bill.stays_trans [OF _ stays_notification] bill.stays_trans [OF _ stays_event] announced_other
        bill.stays_trans [OF _ stays_DisableAutoRenew] stays_customers)
qed (simp add: HandleUnbindCard_def bill.stays_refl)

lemma stays_disable_auto_renew [keeps]: "stays_bill cfg confirmed d (snd (HandleDisableAutoRenew env cmd d))"
proof (cases cmd)
  case (Some c)
  show ?thesis
    unfolding HandleDisableAutoRenew_def Some Let_def option.case
    by (cases c) (auto intro!: bill.stays_commit_value bill.stays_trans [OF stays_DisableAutoRenew stays_event])
qed (simp add: HandleDisableAutoRenew_def bill.stays_refl)

lemma stays_activated [keeps]: "stays_bill cfg confirmed d (snd (HandleSubscriptionActivated env e d))"
  unfolding HandleSubscriptionActivated_def
  by (auto simp: bill.stays_refl split: option.split subscription_event.split
      intro!: bill.stays_commit_value stays_UpdateNextChargeAt)

lemma keeps_read [keeps]:
  "keeps_bill cfg confirmed d (GetPaymentByPaymentID pid d)"
  "keeps_bill cfg confirmed d (RecordWebhookFingerprint pid ev fp d)"
  "keeps_bill cfg confirmed d (DeleteWebhookFingerprint pid ev fp d)"
  by (auto simp: GetPaymentByPaymentID_def RecordWebhookFingerprint_def DeleteWebhookFingerprint_def
      simp del: keeps_tx_Inr split: option.split intro!: bill.keeps_value stays_other_tables bill.stays_refl)

lemma stays_webhook_payload [keeps]:
  assumes "honest confirmed env"
  shows "stays_bill cfg confirmed d (snd (processWebhookPayload cfg env n d))"
  unfolding processWebhookPayload_def
  by (auto simp: bill.stays_refl intro!: bill.stays_proceed bill.stays_commit keeps_read bill.stays_commit_value
      stays_UpdatePaymentWebhookState stays_payment_succeeded [OF assms] stays_payment_canceled)

lemma stays_webhook [keeps]:
  assumes "honest confirmed env"
  shows "stays_bill cfg confirmed d (snd (ProcessWebhook cfg env n fp d))"
proof -
  have "stays_bill cfg confirmed d1 (snd (case processWebhookPayload cfg env m d1 of
            (Inr u, d2) \<Rightarrow> (Inr (), d2)
          | (Inl e, d2) \<Rightarrow> (Inl e, snd (commit out (DeleteWebhookFingerprint pid ev fp) d2))))" for d1 m out pid ev
  proof -
    have del: "stays_bill cfg confirmed d2 (snd (commit out (DeleteWebhookFingerprint pid ev fp) d2))" for d2
      by (rule bill.stays_commit) (rule keeps_read)
    show ?thesis
      using stays_webhook_payload [OF assms, of cfg d1 m] del
      by (cases "processWebhookPayload cfg env m d1"; cases "fst (processWebhookPayload cfg env m d1)")
        (auto intro: bill.stays_trans)
  qed
  then show ?thesis
    unfolding ProcessWebhook_def
    by (auto simp: bill.stays_refl split: option.split intro!: bill.stays_proceed bill.stays_commit keeps_read)
qed

section \<open>Workers\<close>

lemma stays_charge [keeps]:
  assumes "honest confirmed env" and "profile_ok cfg p"
  shows "stays_bill cfg confirmed d (snd (chargeRecurringProfile cfg env tid p d))"
proof -
  have "stays_bill cfg confirmed d (snd (chargeRecurringProfile cfg env tid p d))" if "schedule_fits cfg"
    unfolding chargeRecurringProfile_def
    by (auto simp: Let_def bill.stays_refl split: prod.split
      intro!: bill.stays_proceed stays_after_call bill.stays_commit keeps_InsertPayment renewal_record_ok [OF that assms(2)]
        keeps_UpdatePaymentCreated stays_calls [OF assms(1)] stays_payment_succeeded [OF assms(1)] keeps_recurring_failed)
  then show ?thesis by (auto simp: stays_def dest: bill_invD(1))
qed

lemma stays_charge_profiles:
  assumes "\<And>t. honest confirmed (envs t)" and "\<And>t p. (t, p) \<in> set ps \<Longrightarrow> profile_ok cfg p"
  shows "stays_bill cfg confirmed d (charge_profiles cfg envs ps d)"
  using assms(2)
proof (induction ps arbitrary: d)
  case (Cons x ps)
  obtain t p where x: "x = (t, p)" by (cases x)
  have "stays_bill cfg confirmed d (snd (chargeRecurringProfile cfg (envs t) t p d))"
    by (rule stays_charge [OF assms(1)]) (use Cons.prems x in auto)
  moreover have "stays_bill cfg confirmed d1 (charge_profiles cfg envs ps d1)" for d1
    by (rule Cons.IH) (use Cons.prems in auto)
  ultimately show ?case unfolding x by (auto intro: bill.stays_trans)
qed (simp add: bill.stays_refl)

lemma stays_due_renewals [keeps]:
  assumes "\<And>t. honest confirmed (envs t)"
  shows "stays_bill cfg confirmed d (snd (ProcessDueRenewals cfg out ret locked envs now limit d))"
proof (rule staysI)
  let ?claim = "\<lambda>d. Inr (LockDueRenewals ret locked now (nat (if limit \<le> 0 then 50 else limit)) d)"
  assume inv: "bill_inv cfg confirmed d"
  have claim: "stays_bill cfg confirmed d (snd (LockDueRenewals ret locked now l d))" for l
    unfolding LockDueRenewals_def by (rule claim_profiles_stays) simp_all
  have keeps: "keeps_bill cfg confirmed d (?claim d)"
    using bill.keeps_value [OF claim] by (metis prod.collapse)
  have "stays_bill cfg confirmed d (snd (ProcessDueRenewals cfg out ret locked envs now limit d))"
    unfolding ProcessDueRenewals_def
  proof (rule bill.stays_proceed)
    show "stays_bill cfg confirmed d (snd (commit out ?claim d))" by (rule bill.stays_commit) (rule keeps)
  next
    fix ps d1
    assume "commit out ?claim d = (Inr ps, d1)"
    then have "LockDueRenewals ret locked now (nat (if limit \<le> 0 then 50 else limit)) d = (ps, d1)"
      by (auto elim!: commit_InrE)
    then have "\<And>t p. (t, p) \<in> set ps \<Longrightarrow> profile_ok cfg p"
      using claimed_profiles_ok [OF inv] unfolding LockDueRenewals_def by blast
    then show "stays_bill cfg confirmed d1 (snd (Inr (), charge_profiles cfg envs ps d1))"
      using stays_charge_profiles [OF assms] by simp
  qed
  with inv show "bill_inv cfg confirmed (snd (ProcessDueRenewals cfg out ret locked envs now limit d))"
    and "bill_later confirmed d (snd (ProcessDueRenewals cfg out ret locked envs now limit d))"
    by (simp_all add: stays_def)
qed

lemma stays_expire_profile: "stays_bill cfg confirmed d (expire_profile now tid p d)"
  unfolding expire_profile_def Let_def
  by (rule bill.stays_trans [OF stays_SuspendExpiredGrace stays_event]) simp

lemma stays_expire_profiles: "stays_bill cfg confirmed d (expire_profiles outs now ps d)"
proof (induction ps arbitrary: d)
  case (Cons x ps)
  have "stays_bill cfg confirmed d (snd (commit out (\<lambda>d. Inr ((), expire_profile now t p d)) d))" for out t p
    by (rule bill.stays_commit_value [where g = "expire_profile now t p", OF stays_expire_profile])
  then show ?case using bill.stays_trans [OF _ Cons.IH] by (cases x) simp
qed (simp add: bill.stays_refl)

lemma stays_expired_grace [keeps]:
  "stays_bill cfg confirmed d (snd (ProcessExpiredGrace out ret locked outs now limit d))"
proof -
  have "keeps_bill cfg confirmed d (Inr (LockExpiredGraceProfiles ret locked now l d))" for l
    unfolding LockExpiredGraceProfiles_def
    using bill.keeps_value [OF claim_profiles_stays [of PfExpiring]] by (metis prod.collapse)
  then show ?thesis
    unfolding ProcessExpiredGrace_def
    by (auto intro!: bill.stays_proceed bill.stays_commit stays_expire_profiles)
qed

lemma stays_repeat_refunds:
  assumes "\<And>p. honest confirmed (envs p)"
  shows "stays_bill cfg confirmed d (repeat_refunds envs rs d)"
proof (induction rs arbitrary: d)
  case (Cons x rs)
  obtain p r where x: "x = (p, r)" by (cases x)
  let ?c = "createRefund (envs p) p (pf_amount r) (pf_currency r) d"
  let ?d2 = "case ?c of
      (Inl e, d1) \<Rightarrow> snd (commit (bv_out (envs p) 0) (\<lambda>d. Inr ((), MarkRefundRetry (bv_now (envs p)) p (error_text e) (pf_attempts r) d)) d1)
    | (Inr u, d1) \<Rightarrow> snd (commit (bv_out (envs p) 0) (\<lambda>d. Inr ((), MarkRefundSucceeded p d)) d1)"
  have "stays_bill cfg confirmed d (snd ?c)" by (rule stays_calls(2) [OF assms])
  then have "stays_bill cfg confirmed d ?d2"
    by (cases ?c; cases "fst ?c")
      (auto intro: bill.stays_trans bill.stays_commit_value stays_MarkRefundRetry stays_MarkRefundSucceeded)
  then show ?case
    using bill.stays_trans [OF _ Cons.IH] unfolding x by (simp add: Let_def)
qed (simp add: bill.stays_refl)

lemma stays_pending_refunds [keeps]:
  assumes "\<And>p. honest confirmed (envs p)"
  shows "stays_bill cfg confirmed d (snd (ProcessPendingRefunds out ret locked envs now limit d))"
proof -
  have "keeps_bill cfg confirmed d (Inr (LockDueRefunds ret locked now limit d))"
    using bill.keeps_value [OF stays_LockDueRefunds] by (metis prod.collapse)
  then show ?thesis
    unfolding ProcessPendingRefunds_def
    by (auto intro!: bill.stays_proceed bill.stays_commit stays_repeat_refunds assms)
qed

end
