(* ===== verification/BillSystem.thy ===== *)
theory BillSystem
  imports BillKeeps
begin

text \<open>
  The billing service as a whole: a step is one message, webhook or worker pass with whatever faults
  it meets, a crash in the middle of a webhook, or something that happens elsewhere (the other
  services write to the shared tables, the provider's own state moves on). Then the properties of all
  runs, of the webhooks and of the renewals.
\<close>

section \<open>Steps\<close>

definition elsewhere :: "('w \<Rightarrow> string \<Rightarrow> bool) \<Rightarrow> 'w bill_db \<Rightarrow> 'w bill_db \<Rightarrow> bool" where
  "elsewhere confirmed d d' \<longleftrightarrow>
     payments d' = payments d \<and> billing_customers d' = billing_customers d
   \<and> recurring_profiles d' = recurring_profiles d \<and> webhook_events d' = webhook_events d
   \<and> pending_refunds d' = pending_refunds d
   \<and> (\<forall>p. confirmed (yookassa d) p \<longrightarrow> confirmed (yookassa d') p)
   \<and> (\<forall>row \<in> set (event_outbox d'). announced (\<lambda>_ _. False) () (ob_payload row)
        \<or> (\<exists>r \<in> set (event_outbox d). ob_payload r = ob_payload row))"

inductive bill_step :: "bill_config \<Rightarrow> ('w \<Rightarrow> string \<Rightarrow> bool) \<Rightarrow> 'w bill_db \<Rightarrow> 'w bill_db \<Rightarrow> bool"
  for cfg confirmed where
  BillCommand: "honest confirmed env \<Longrightarrow> bill_step cfg confirmed d (snd (billing_command_handler cfg out env m d))"
| BillSubscription: "bill_step cfg confirmed d (snd (subscription_event_handler out env m d))"
| BillWebhook: "honest confirmed env \<Longrightarrow>
    bill_step cfg confirmed d (snd (handleYooKassaWebhook cfg nl um sha getenv env q d))"
| BillWebhookCrash: "RecordWebhookFingerprint pid ev fp d = Inr (b, d') \<Longrightarrow> bill_step cfg confirmed d d'"
| BillRenewals: "(\<And>t. honest confirmed (envs t)) \<Longrightarrow>
    bill_step cfg confirmed d (snd (ProcessDueRenewals cfg out ret locked envs now limit d))"
| BillGrace: "bill_step cfg confirmed d (snd (ProcessExpiredGrace out ret locked outs now limit d))"
| BillRefunds: "(\<And>p. honest confirmed (envs p)) \<Longrightarrow>
    bill_step cfg confirmed d (snd (ProcessPendingRefunds out ret' locked' envs now n d))"
| BillElsewhere: "elsewhere confirmed d d' \<Longrightarrow> bill_step cfg confirmed d d'"

inductive_cases bill_stepE: "bill_step cfg confirmed d d'"

abbreviation bill_steps :: "bill_config \<Rightarrow> ('w \<Rightarrow> string \<Rightarrow> bool) \<Rightarrow> 'w bill_db \<Rightarrow> 'w bill_db \<Rightarrow> bool" where
  "bill_steps cfg confirmed \<equiv> (bill_step cfg confirmed)\<^sup>*\<^sup>*"

lemma stays_MarkProcessed:
  "MarkProcessed now svc mid ty (d :: 'w bill_db) = Inr (b, d') \<Longrightarrow> stays_bill cfg confirmed d d'"
  by (rule stays_frame) (auto simp: MarkProcessed_def Let_def split: if_splits)

lemma stays_message_once:
  assumes "\<And>d. stays_bill cfg confirmed d (snd (handle d))"
  shows "stays_bill cfg confirmed d (snd (message_once svc out now en m handle d))"
proof -
  have mp: "stays_bill cfg confirmed d1 d2" if "MarkProcessed now svc (message_id en m) (en_type en) d1 = Inr (b, d2)" for d1 d2 :: "'a bill_db" and b
    using that by (rule stays_MarkProcessed)
  have h: "stays_bill cfg confirmed d d1" if "handle d = (r, d1)" for r d1
    using assms [of d] that by simp
  show ?thesis
    unfolding message_once_def
    by (auto simp: bill.stays_refl split: sum.split prod.split handler_result.split outage.split
        dest!: mp h intro: bill.stays_trans)
qed

lemma snd_bill_result [simp]: "snd (bill_result r) = snd r"
  by (auto simp: bill_result_def split: prod.split sum.split bill_error.split)

lemma stays_command:
  "honest confirmed env \<Longrightarrow> stays_bill cfg confirmed d (snd (handle_billing_command cfg' env c d))"
  by (cases c) (simp_all add: keeps)

lemma bill_step_stays: "bill_step cfg confirmed d d' \<Longrightarrow> stays_bill cfg confirmed d d'"
proof (induction rule: bill_step.induct)
  case (BillCommand env d out m)
  then show ?case
    unfolding billing_command_handler_def processBillingMessageOnce_def
    by (auto simp: bill.stays_refl stays_command split: option.split intro!: stays_message_once)
next
  case (BillSubscription d out env m)
  then show ?case
    unfolding subscription_event_handler_def processBillingMessageOnce_def
    by (auto simp: bill.stays_refl stays_activated split: option.split intro!: stays_message_once)
next
  case (BillWebhook env d nl um sha getenv q)
  have r: "stays_bill cfg confirmed d (snd (case ProcessWebhook cfg env n fp d of
       (Inr _, d1) \<Rightarrow> (200, d1) | (Inl DuplicateWebhook, d1) \<Rightarrow> (200 :: int, d1) | (Inl _, d1) \<Rightarrow> (400, d1)))" for n fp
    using stays_webhook [OF BillWebhook, of cfg d n fp]
    by (auto split: prod.split sum.split bill_error.split)
  show ?case
    unfolding handleYooKassaWebhook_def Let_def
    by (auto simp: bill.stays_refl r split: option.split)
next
  case (BillWebhookCrash pid ev fp d b d')
  then show ?case using keeps_read(2) [of cfg confirmed d pid ev fp] by (auto simp: stays_def keeps_tx_def)
next
  case (BillElsewhere d d')
  have "announced confirmed w pl" if "announced (\<lambda>_ _. False) () pl" for w pl
    using that by (auto simp: announced_def split: payload.splits billing_event.splits)
  with BillElsewhere show ?case
    unfolding elsewhere_def by (intro stays_frame) auto
qed (simp_all add: keeps)

lemma bill_steps_stay: "bill_steps cfg confirmed d d' \<Longrightarrow> stays_bill cfg confirmed d d'"
  by (induction rule: rtranclp_induct) (auto intro: bill.stays_refl bill.stays_trans bill_step_stays)

section \<open>All runs\<close>

definition empty_bill_db :: "'w \<Rightarrow> 'w bill_db" where
  "empty_bill_db w = \<lparr>event_outbox = [], outbox_seq = 1, processed_messages = [], failed_messages = [],
     consumer_attempts = [], node_sync_results = None, payments = [], billing_customers = [],
     recurring_profiles = [], webhook_events = [], pending_refunds = [], yookassa = w\<rparr>"

lemma empty_bill_inv: "schedule_fits cfg \<Longrightarrow> bill_inv cfg confirmed (empty_bill_db w)"
  by (simp add: bill_inv_def empty_bill_db_def profile_of_def)

definition default_bill_config :: bill_config where
  "default_bill_config = NewBillingService (\<lambda>_. None) (\<lambda>_. [])"

lemma default_schedule: "bl_retry_schedule default_bill_config = [minutes 15, hours 6, hours 24]"
  "bl_grace_period default_bill_config = hours 72"
  by (simp_all add: default_bill_config_def NewBillingService_def parseRetryScheduleEnv_def
      parseDurationEnv_def trim_space_def Let_def)

lemma default_schedule_fits [simp]: "schedule_fits default_bill_config"
  by (simp add: schedule_fits_def default_schedule)

text \<open>A provider that refuses every connection; any predicate can be what it confirms.\<close>

definition deaf_env :: "time \<Rightarrow> 'w bill_env" where
  "deaf_env now = \<lparr>bv_http = \<lambda>q w. (Inl ''connection refused'', w), bv_out = \<lambda>_. Up, bv_now = now,
     bv_uuid = ''u'', bv_numeric = Some\<rparr>"

lemma deaf_honest [simp]: "honest confirmed (deaf_env now)"
  by (simp add: honest_def deaf_env_def)

text \<open>A provider that takes every payment, saves the card, and tells the truth.\<close>

definition paying_response :: "string \<Rightarrow> yooKassaPaymentResponse" where
  "paying_response p = \<lparr>yp_id = p, yp_status = ''succeeded'', yp_paid = True, yp_confirmation_url = [],
     yp_method = no_method\<lparr>pm_id := ''card1'', pm_saved := True\<rparr>\<rparr>"

definition paying_env :: "time \<Rightarrow> string list bill_env" where
  "paying_env now = \<lparr>bv_http = \<lambda>q w. case q of
       PostPayment r key \<Rightarrow> (Inr (200, Some (paying_response key)), key # w)
     | GetPayment p \<Rightarrow> (if List.member w p then (Inr (200, Some (paying_response p)), w) else (Inr (404, None), w))
     | PostRefund p a c key \<Rightarrow> (Inr (200, None), w),
     bv_out = \<lambda>_. Up, bv_now = now, bv_uuid = ''u'', bv_numeric = Some\<rparr>"

definition taken :: "string list \<Rightarrow> string \<Rightarrow> bool" where
  "taken w p \<longleftrightarrow> p \<in> set w"

lemma paying_honest: "honest taken (paying_env now)"
  by (auto simp: honest_def paying_env_def taken_def split: yk_request.splits if_splits)

definition sample_checkout :: "json_obj option kmsg" where
  "sample_checkout = \<lparr>km_topic = TopicBillingCommands, km_key = ''7'', km_partition = 0, km_offset = 4, km_time = 0,
     km_value = Some (encode_billing_command (CreateSubscriptionCheckoutCommand ''c1'' [] 7 ''monthly_30d'' True []))\<rparr>"

definition paid_run :: "string list bill_db" where
  "paid_run = snd (billing_command_handler default_bill_config Up (paying_env 5) sample_checkout (empty_bill_db []))"

lemma paid_run_facts:
  "map ob_payload (event_outbox paid_run) = [PBillingEvent (BillingPaymentSucceededEvent ''subscription_purchase''
     ''initial'' 7 ''c1'' ''checkout:c1'' ''monthly_30d'' 30 ''89.00'' ''RUB'' ''card1'' 0 True 5 ''yookassa'')]"
  "map_option rp_status (profile_of paid_run 7) = Some PfActive"
  "map_option rp_auto_renew (profile_of paid_run 7) = Some True"
  by code_simp+

lemma paid_run_reachable: "bill_steps default_bill_config taken (empty_bill_db []) paid_run"
  unfolding paid_run_def by (rule r_into_rtranclp, rule BillCommand, rule paying_honest)

text \<open>
  C15. Every reachable state of billing is sound, whatever commands, events and webhooks (true, forged or
  repeated) arrive, whatever fails and wherever a worker stops: a profile that renews has a payment
  method, and while it is waiting a date for the next charge; a grace period has an end; a claimed
  profile says since when; the retry count stays within the schedule; an order keeps its id, no two
  orders share a payment, and a refund is tried at most ten times.
\<close>

theorem reachable_billing_states_are_sound:
  assumes "bill_steps cfg confirmed (empty_bill_db w) d" and "schedule_fits cfg"
  shows "(\<forall>t p. profile_of d t = Some p \<longrightarrow>
        (rp_auto_renew p \<longrightarrow> rp_method_id p \<noteq> [] \<and> rp_status p \<notin> {PfDisabled, PfExpired})
      \<and> (rp_auto_renew p \<longrightarrow> rp_status p \<in> {PfActive, PfRetry} \<longrightarrow> rp_next_charge_at p \<noteq> None)
      \<and> (rp_status p = PfGrace \<longrightarrow> rp_grace_until p \<noteq> None)
      \<and> (rp_status p \<in> {PfProcessing, PfExpiring} \<longrightarrow> rp_locked_at p \<noteq> None)
      \<and> 0 \<le> rp_retry_count p \<and> rp_retry_count p \<le> int (length (bl_retry_schedule cfg)))
    \<and> (\<forall>i p. tget (payments d) i = Some p \<longrightarrow> pr_order_id p = i)
    \<and> (\<forall>i j p q. tget (payments d) i = Some p \<longrightarrow> tget (payments d) j = Some q \<longrightarrow>
        pr_payment_id p = pr_payment_id q \<longrightarrow> pr_payment_id p = [] \<or> i = j)
    \<and> (\<forall>i r. tget (pending_refunds d) i = Some r \<longrightarrow> 0 \<le> pf_attempts r \<and> pf_attempts r \<le> 10)"
proof -
  have inv: "bill_inv cfg confirmed d"
    using staysD [OF bill_steps_stay [OF assms(1)] empty_bill_inv [OF assms(2)]] by simp
  have "profile_ok cfg p" if "profile_of d t = Some p" for t p by (rule bill_invD(7) [OF inv that])
  then show ?thesis
    using inv unfolding bill_inv_def profile_ok_def by (intro conjI) blast+
qed

lemma reachable_billing_states_are_sound_witness:
  "\<exists>p. profile_of paid_run 7 = Some p \<and> rp_method_id p \<noteq> [] \<and> rp_next_charge_at p \<noteq> None"
proof -
  obtain p where "profile_of paid_run 7 = Some p" "rp_status p = PfActive" "rp_auto_renew p"
    using paid_run_facts(2,3) by auto
  then show ?thesis
    using reachable_billing_states_are_sound [OF paid_run_reachable default_schedule_fits] by blast
qed

text \<open>
  C16. Only payments the provider confirms are announced. Call a payment confirmed when the provider has
  it as paid; suppose only that the provider answers truly (a status 200 that shows a payment as paid,
  shows a paid one) and never takes a confirmation back. Then in every reachable state each
  \<open>payment_succeeded\<close> event of YooKassa in the outbox is about a confirmed payment. A forged webhook,
  with the right token or not, cannot make the subscription service grant anything.
\<close>

theorem only_confirmed_payments_are_announced:
  assumes "bill_steps cfg confirmed (empty_bill_db w) d" and "schedule_fits cfg"
    and "row \<in> set (event_outbox d)"
    and "ob_payload row = PBillingEvent (BillingPaymentSucceededEvent ct src tid oi pid pc n am cu mi an ar at ''yookassa'')"
  shows "confirmed (yookassa d) pid"
proof -
  have "bill_inv cfg confirmed d"
    using staysD [OF bill_steps_stay [OF assms(1)] empty_bill_inv [OF assms(2)]] by simp
  from bill_invD(8) [OF this assms(3)] show ?thesis by (simp add: announced_def assms(4))
qed

lemma only_confirmed_payments_are_announced_witness: "taken (yookassa paid_run) ''checkout:c1''"
proof -
  obtain row where "row \<in> set (event_outbox paid_run)" "ob_payload row = PBillingEvent (BillingPaymentSucceededEvent
      ''subscription_purchase'' ''initial'' 7 ''c1'' ''checkout:c1'' ''monthly_30d'' 30 ''89.00'' ''RUB'' ''card1'' 0 True 5 ''yookassa'')"
    using paid_run_facts(1) by (cases "event_outbox paid_run") auto
  then show ?thesis
    by (rule only_confirmed_payments_are_announced [OF paid_run_reachable default_schedule_fits])
qed

end
