(* ===== verification/SubSystem.thy ===== *)
theory SubSystem
  imports SubMessages
begin

text \<open>
  The subscription service as a whole: the steps its database takes (messages of both topics with the
  outages they meet, the two workers, the creation of referral codes, and whatever the outbox
  publisher, the cleanup and the other services do to the tables they own), the invariant of every
  reachable state, what can happen at most once over any run, and the behaviour of the sweep.
\<close>

section \<open>Steps\<close>

text \<open>Nothing the subscription service owns is changed.\<close>

definition same_service_tables :: "sub_db \<Rightarrow> sub_db \<Rightarrow> bool" where
  "same_service_tables d d' \<longleftrightarrow> user_subscriptions d' = user_subscriptions d
     \<and> subscription_tokens d' = subscription_tokens d \<and> subscription_grants d' = subscription_grants d
     \<and> referrals d' = referrals d \<and> subscription_plans d' = subscription_plans d
     \<and> telegram_users d' = telegram_users d \<and> referral_reward_grants d' = referral_reward_grants d
     \<and> referral_codes d' = referral_codes d"

inductive sub_step :: "service_config \<Rightarrow> sub_db \<Rightarrow> sub_db \<Rightarrow> bool" for cfg where
  command: "sub_step cfg d (snd (subscription_command_handler cfg out he m d))"
| event: "sub_step cfg d (snd (billing_event_handler cfg out he m d))"
| sweep: "sub_step cfg d (snd (SweepExpiredSubscriptions cfg queryFails outs locked now plain renew limit d))"
| remind: "sub_step cfg d (snd (processExpirationReminders queryFails outs now d))"
| refcode: "sub_step cfg d (snd (run_tx out (EnsureReferralCode attempts tid) d))"
| platform: "same_service_tables d d' \<Longrightarrow> sub_step cfg d d'"

inductive_cases sub_stepE: "sub_step cfg d d'"

abbreviation sub_steps :: "service_config \<Rightarrow> sub_db \<Rightarrow> sub_db \<Rightarrow> bool" where
  "sub_steps cfg \<equiv> (sub_step cfg)\<^sup>*\<^sup>*"

section \<open>Steps keep the invariant\<close>

definition step_keeps :: "sub_db \<Rightarrow> sub_db \<Rightarrow> bool" where
  "step_keeps d d' \<longleftrightarrow> (sub_inv d \<longrightarrow> sub_inv d' \<and> evolves d d')"

lemma step_keeps_refl [simp]: "step_keeps d d"
  by (simp add: step_keeps_def)

lemma step_keeps_trans: "step_keeps d1 d2 \<Longrightarrow> step_keeps d2 d3 \<Longrightarrow> step_keeps d1 d3"
  by (auto simp: step_keeps_def intro: evolves_trans)

lemma same_tables_keeps: "same_service_tables d d' \<Longrightarrow> step_keeps d d'"
  using sub_inv_cong [of d' d] by (simp add: step_keeps_def same_service_tables_def)

lemma run_tx_keeps: "(\<And>d. keeps_sub d (f d)) \<Longrightarrow> step_keeps d (snd (run_tx out f d))"
  using tx_keeps_run [of d f out] by (simp add: tx_keeps_def step_keeps_def)

lemmas handler_defs = HandleStartTrial_def HandleGetStatus_def HandleGetLinks_def HandleCancel_def
  HandleReferralAttribute_def HandleReferralRedeem_def HandleRotateToken_def

lemma command_keeps: "step_keeps d (snd (handle_subscription_command cfg he c d))"
  by (cases c) (auto simp: handler_defs intro!: run_tx_keeps sub.keeps_andthen keeps)

lemma event_keeps: "step_keeps d (snd (handle_billing_event cfg he e d))"
  by (cases e) (auto intro!: run_tx_keeps sub.keeps_andthen keeps)

lemma result_of_keeps: "step_keeps d (snd r) \<Longrightarrow> step_keeps d (snd (result_of r))"
  by (auto simp: result_of_def split: prod.splits option.splits)

lemma MarkProcessed_same: "MarkProcessed now src i ty d = Inr (b, d') \<Longrightarrow> same_service_tables d d'"
  by (auto simp: MarkProcessed_def Let_def same_service_tables_def split: if_splits)

lemma once_keeps:
  assumes "\<And>d. step_keeps d (snd (handle d))"
  shows "step_keeps d (snd (processSubscriptionMessageOnce out now en m handle d))"
proof -
  obtain r d1 where h: "handle d = (r, d1)" by fastforce
  have 1: "step_keeps d d1" using assms [of d] h by simp
  have 2: "step_keeps d d2"
    if "MarkProcessed now ''user-subscription-service'' (message_id en m) (en_type en) d1 = Inr (b, d2)" for b d2
    using step_keeps_trans [OF 1 same_tables_keeps [OF MarkProcessed_same [OF that]]] .
  show ?thesis
    using h 1 2
    by (auto simp: processSubscriptionMessageOnce_def message_once_def
        split: sum.split prod.split handler_result.split outage.split)
qed

lemma sub_step_keeps: "sub_step cfg d d' \<Longrightarrow> step_keeps d d'"
proof (induction rule: sub_step.induct)
  case (command d out he m)
  have "step_keeps d (snd (case decode_subscription_command ob of None \<Rightarrow> (HSkip, d)
      | Some c \<Rightarrow> result_of (handle_subscription_command cfg he c d)))" for ob d
    by (auto split: option.split intro: result_of_keeps command_keeps)
  then show ?case
    by (auto simp: subscription_command_handler_def split: option.split intro: once_keeps)
next
  case (event d out he m)
  have "step_keeps d (snd (case decode_billing_event ob of None \<Rightarrow> (HSkip, d) | Some (Inl _) \<Rightarrow> (HOk, d)
      | Some (Inr e) \<Rightarrow> result_of (handle_billing_event cfg he e d)))" for ob d
    by (auto split: option.split sum.split intro: result_of_keeps event_keeps)
  then show ?case
    by (auto simp: billing_event_handler_def split: option.split intro: once_keeps)
next
  case (sweep d queryFails outs locked now plain renew limit)
  show ?case
    using sweep_candidates_keeps by (auto simp: SweepExpiredSubscriptions_def step_keeps_def)
next
  case (remind d queryFails outs now)
  show ?case
    using remind_candidates_keeps by (auto simp: processExpirationReminders_def step_keeps_def)
next
  case (refcode d out attempts tid)
  show ?case by (rule run_tx_keeps) (rule keeps)
qed (rule same_tables_keeps)

lemma sub_steps_keep: "sub_steps cfg d d' \<Longrightarrow> step_keeps d d'"
  by (induction rule: rtranclp_induct) (auto intro: step_keeps_trans sub_step_keeps)

section \<open>Over any run\<close>

text \<open>
  C1. Every reachable state is sound. From a fresh database that knows the trial plan, whatever messages,
  sweeps, reminders and outages happen: a trial, active or grace subscription has an expiry and a grace
  subscription a deadline, auto-renewal is only on for active and grace ones, the trial is marked used
  exactly for the users whose trial is in the ledger, the last payment of each user is in the ledger
  and no two users share one, no two users share a token, and nobody is their own referrer.
\<close>

theorem reachable_states_are_sound:
  assumes "sub_steps cfg d0 d" and "sub_inv d0"
  shows "sub_inv d \<and> (\<forall>tid r. sub_of d tid = Some r \<longrightarrow>
      (us_status r \<in> {StatusTrial, StatusActive, StatusGrace} \<longrightarrow> us_expires_at r \<noteq> None)
    \<and> (us_status r = StatusGrace \<longrightarrow> us_grace_until r \<noteq> None)
    \<and> (us_auto_renew r \<longrightarrow> us_status r \<in> {StatusActive, StatusGrace})
    \<and> us_trial_used r = trial_recorded d tid
    \<and> (\<forall>p. us_last_payment_id r = Some p \<longrightarrow> p = [] \<or> payment_recorded d tid p))"
proof -
  have inv: "sub_inv d" using sub_steps_keep [OF assms(1)] assms(2) by (simp add: step_keeps_def)
  then show ?thesis using sub_invD(6) [OF inv] unfolding row_inv_def row_ok_def by blast
qed

lemma reachable_states_are_sound_witness:
  "sub_inv (snd (run_tx Up (EnsureReferralCode [] 7) empty_sub_db))"
proof -
  have "sub_steps (NewService (\<lambda>_. []) [] []) empty_sub_db (snd (run_tx Up (EnsureReferralCode [] 7) empty_sub_db))"
    by (intro r_into_rtranclp sub_step.refcode)
  from reachable_states_are_sound [OF this empty_sub_inv] show ?thesis by simp
qed

text \<open>
  C2. One trial per user, ever. Once a trial has been granted, then after any run of the service a new
  request changes nothing but what loading the row changes, and is answered "already used".
\<close>

theorem trial_granted_at_most_once:
  assumes "sub_inv d" and "StartTrialTx now fresh tid country n d = Inr (res, d1)" and "Granted res"
    and "sub_steps cfg d1 d2" and "0 < n'"
  shows "\<exists>s d3. StartTrialTx now' fresh' tid country' n' d2
      = Inr (trial_result s TrialAlreadyUsed n' (us_status (loaded now' country' d2 tid) = StatusActive), d3)
    \<and> sub_of d3 tid = Some (loaded now' country' d2 tid)"
proof -
  have inv1: "sub_inv d1" using keeps_txD [OF keeps_StartTrialTx assms(2,1)] by simp
  have n: "0 < n" using assms(2) by (auto simp: StartTrialTx_def split: if_splits)
  have "trial_recorded d1 tid"
    by (rule granted_recorded [OF assms(1) n assms(2,3)])
  moreover have step: "sub_inv d2" "evolves d1 d2"
    using sub_steps_keep [OF assms(4)] inv1 by (simp_all add: step_keeps_def)
  ultimately have rec: "trial_recorded d2 tid" by (force simp: trial_recorded_def evolves_def)
  obtain r where r: "sub_of d2 tid = Some r" using sub_invD(7) [OF step(1) rec] by auto
  have "us_trial_used (loaded now' country' d2 tid)"
    using sub_inv_trial [OF step(1) r] rec r by (simp add: loaded_def row_or_new_def)
  then show ?thesis
    by (rule StartTrialTx_used [OF assms(5), of now' country' d2 tid fresh']) blast
qed

lemma trial_granted_at_most_once_witness:
  "\<exists>res d1 s d3. StartTrialTx 0 ''t1'' 7 ''LT'' 1 empty_sub_db = Inr (res, d1) \<and> Granted res
     \<and> StartTrialTx (days 9) ''t2'' 7 ''LT'' 1 d1 = Inr (trial_result s TrialAlreadyUsed 1 False, d3)"
proof -
  obtain s d1 where g: "StartTrialTx 0 ''t1'' 7 ''LT'' 1 empty_sub_db = Inr (trial_result s TrialGranted 1 False, d1)"
    "sub_of d1 7 = Some (trial_update 0 1 False (new_sub_row ''LT''))"
    using StartTrialTx_granted [of empty_sub_db 1 0 "''LT''" 7 "''t1''" thesis]
    by (auto simp: new_sub_row_def paid_active_def country_or_default_def)
  have "us_status (loaded (days 9) ''LT'' d1 7) \<noteq> StatusActive"
    using g(2) by (simp add: loaded_def row_or_new_def settled_def expire_sub_def)
  then show ?thesis
    using g(1) trial_granted_at_most_once [OF empty_sub_inv g(1) _ rtranclp.rtrancl_refl, where n' = 1
        and now' = "days 9" and fresh' = "''t2''" and country' = "''LT''"]
    by (auto simp: Granted_def trial_result_def)
qed

text \<open>
  C3. One payment, one extension, even after the inbox is gone. Once a payment has been applied, then
  after any run of the service, cleanups of the inbox included, the same payment of the same user is
  refused and changes nothing but what loading the row changes.
\<close>

theorem payment_applied_at_most_once:
  assumes "sub_inv d" and "ActivatePaidTx now fresh tid country c n p ar d = Inr ((s, True), d1)" and "p \<noteq> []"
    and "sub_steps cfg d1 d2" and "0 < n'"
  shows "\<exists>s' d3. ActivatePaidTx now' fresh' tid country' c' n' p ar' d2 = Inr ((s', False), d3)
    \<and> sub_of d3 tid = Some (loaded now' country' d2 tid) \<and> event_outbox d3 = event_outbox d2"
proof -
  have inv1: "sub_inv d1" using keeps_txD [OF keeps_ActivatePaidTx assms(2,1)] by simp
  have "evolves d1 d2" using sub_steps_keep [OF assms(4)] inv1 by (simp add: step_keeps_def)
  with applied_recorded [OF assms(2,3)] have "payment_recorded d2 tid p"
    by (force simp: payment_recorded_def evolves_def)
  from ActivatePaidTx_recorded [OF this assms(3,5)] show ?thesis by blast
qed

lemma payment_applied_at_most_once_witness:
  "\<exists>s d1 s' d3. ActivatePaidTx 0 ''t1'' 7 ''LT'' ''monthly_30d'' 30 ''p1'' True empty_sub_db = Inr ((s, True), d1)
     \<and> ActivatePaidTx 9 ''t2'' 7 ''LT'' ''monthly_30d'' 30 ''p1'' True (d1\<lparr>processed_messages := []\<rparr>) = Inr ((s', False), d3)"
proof -
  obtain s d1 where a: "ActivatePaidTx 0 ''t1'' 7 ''LT'' ''monthly_30d'' 30 ''p1'' True empty_sub_db = Inr ((s, True), d1)"
    using ActivatePaidTx_applied [where d = empty_sub_db and n = 30 and fresh = "''t1''" and c = "''monthly_30d''"
        and tid = 7 and p = "''p1''" and now = 0 and country = "''LT''" and ar = True] by auto
  have steps: "sub_steps (NewService (\<lambda>_. []) [] []) d1 (d1\<lparr>processed_messages := []\<rparr>)"
    by (intro r_into_rtranclp sub_step.platform) (simp add: same_service_tables_def)
  show ?thesis
    using a payment_applied_at_most_once [OF empty_sub_inv a _ steps, where n' = 30
        and now' = 9 and fresh' = "''t2''" and country' = "''LT''" and c' = "''monthly_30d''" and ar' = True]
    by auto
qed

section \<open>The sweep\<close>

lemma suspend_body_row:
  "\<exists>d'. suspend_body cfg now c d = Inr ((), d')
     \<and> sub_of d' (ec_telegram_id c) = Some (suspend_update now (row_or_new (cf_default_country cfg) d (ec_telegram_id c)))
     \<and> (\<forall>t. t \<noteq> ec_telegram_id c \<longrightarrow> sub_of d' t = sub_of d t)
     \<and> (\<exists>row reason. event_outbox d' = event_outbox d @ [row] \<and> ob_status row = OPending
          \<and> ob_topic row = TopicSubscriptionEvents
          \<and> ob_payload row = PSubscriptionEvent (SubscriptionSuspendedEvent (ec_telegram_id c) now reason
              (us_access_rev (suspend_update now (row_or_new (cf_default_country cfg) d (ec_telegram_id c))))))"
proof -
  let ?t = "ec_telegram_id c"
  obtain s d1 where m: "MarkSuspendedTx now ?t (cf_default_country cfg) d = Inr (s, d1)"
    "shows_row s ?t (suspend_update now (row_or_new (cf_default_country cfg) d ?t))"
    "sub_of d1 ?t = Some (suspend_update now (row_or_new (cf_default_country cfg) d ?t))"
    "\<forall>t. t \<noteq> ?t \<longrightarrow> sub_of d1 t = sub_of d t" "event_outbox d1 = event_outbox d"
    using MarkSuspendedTx_row [of now ?t "cf_default_country cfg" d] by blast
  show ?thesis
    using m shows_rowD(7) [OF m(2)]
    by (auto simp: suspend_body_def Let_def publishSubscriptionEventTx_def AddTx_def new_row_def sub_of_def)
qed

text \<open>What a pass over a list of candidates leaves: every candidate suspended, everyone else untouched.\<close>

lemma sweep_candidates_result:
  assumes "distinct (map ec_telegram_id cs)" and "\<And>t. outs t = Up"
  shows "(\<forall>t. t \<notin> ec_telegram_id ` set cs \<longrightarrow> sub_of (snd (sweep_candidates cfg outs now cs d)) t = sub_of d t)
    \<and> (\<forall>t \<in> ec_telegram_id ` set cs. sub_of (snd (sweep_candidates cfg outs now cs d)) t
          = Some (suspend_update now (row_or_new (cf_default_country cfg) d t)))
    \<and> (\<exists>rows. event_outbox (snd (sweep_candidates cfg outs now cs d)) = event_outbox d @ rows
        \<and> (\<forall>t \<in> ec_telegram_id ` set cs. \<exists>row \<in> set rows. \<exists>reason. ob_status row = OPending \<and> ob_topic row = TopicSubscriptionEvents
          \<and> ob_payload row = PSubscriptionEvent (SubscriptionSuspendedEvent t now reason
              (us_access_rev (suspend_update now (row_or_new (cf_default_country cfg) d t))))))"
  using assms(1)
proof (induction cs arbitrary: d)
  case (Cons c cs)
  let ?t = "ec_telegram_id c"
  obtain d1 row reason where s: "suspend_body cfg now c d = Inr ((), d1)"
    "sub_of d1 ?t = Some (suspend_update now (row_or_new (cf_default_country cfg) d ?t))"
    "\<forall>t. t \<noteq> ?t \<longrightarrow> sub_of d1 t = sub_of d t" "event_outbox d1 = event_outbox d @ [row]"
    "ob_status row = OPending" "ob_topic row = TopicSubscriptionEvents"
    "ob_payload row = PSubscriptionEvent (SubscriptionSuspendedEvent ?t now reason
        (us_access_rev (suspend_update now (row_or_new (cf_default_country cfg) d ?t))))"
    using suspend_body_row [of cfg now c d] by metis
  have same: "row_or_new (cf_default_country cfg) d1 t = row_or_new (cf_default_country cfg) d t" if "t \<noteq> ?t" for t
    using s(3) that by (simp add: row_or_new_def)
  have step: "snd (sweep_candidates cfg outs now (c # cs) d) = snd (sweep_candidates cfg outs now cs d1)"
    using s(1) assms(2) by (auto simp: suspendExpiredOne_def split: prod.split)
  have notin: "?t \<notin> ec_telegram_id ` set cs" using Cons.prems by simp
  then have same_cs: "row_or_new (cf_default_country cfg) d1 t = row_or_new (cf_default_country cfg) d t"
    if "t \<in> ec_telegram_id ` set cs" for t
    using same that notin by metis
  note IH = Cons.IH [of d1]
  obtain rows where rows: "event_outbox (snd (sweep_candidates cfg outs now cs d1)) = event_outbox d1 @ rows"
    "\<forall>t \<in> ec_telegram_id ` set cs. \<exists>row \<in> set rows. \<exists>reason. ob_status row = OPending \<and> ob_topic row = TopicSubscriptionEvents
      \<and> ob_payload row = PSubscriptionEvent (SubscriptionSuspendedEvent t now reason
          (us_access_rev (suspend_update now (row_or_new (cf_default_country cfg) d1 t))))"
    using IH Cons.prems by auto
  have "event_outbox (snd (sweep_candidates cfg outs now (c # cs) d)) = event_outbox d @ (row # rows)"
    using step rows(1) s(4) by simp
  moreover have "\<forall>t \<in> ec_telegram_id ` set (c # cs). \<exists>row \<in> set (row # rows). \<exists>reason. ob_status row = OPending
      \<and> ob_topic row = TopicSubscriptionEvents
      \<and> ob_payload row = PSubscriptionEvent (SubscriptionSuspendedEvent t now reason
          (us_access_rev (suspend_update now (row_or_new (cf_default_country cfg) d t))))"
    using rows(2) s(5-7) same_cs by auto
  moreover have "\<forall>t. t \<notin> ec_telegram_id ` set (c # cs) \<longrightarrow> sub_of (snd (sweep_candidates cfg outs now (c # cs) d)) t = sub_of d t"
    unfolding step using IH Cons.prems s(3) by simp
  moreover have "\<forall>t \<in> ec_telegram_id ` set (c # cs). sub_of (snd (sweep_candidates cfg outs now (c # cs) d)) t
      = Some (suspend_update now (row_or_new (cf_default_country cfg) d t))"
    unfolding step using IH Cons.prems notin s(2) same_cs by auto
  ultimately show ?case by blast
qed simp

lemma mset_order_by_expiry: "mset (order_by_expiry t) = mset t"
proof -
  have "mset (filter (\<lambda>(_, r). us_expires_at r \<noteq> None) t) + mset (filter (\<lambda>(_, r). us_expires_at r = None) t) = mset t"
    by (induction t) auto
  then show ?thesis by (simp add: order_by_expiry_def)
qed

lemma find_expired:
  assumes "sub_inv d" and "0 < limit" and "int (length (user_subscriptions d)) \<le> limit"
  shows "distinct (map ec_telegram_id (FindExpiredForSweep locked now plain renew limit d))"
    and "t \<in> ec_telegram_id ` set (FindExpiredForSweep locked now plain renew limit d)
      \<longleftrightarrow> (\<exists>r. sub_of d t = Some r \<and> lapsed now plain renew r \<and> \<not> locked t)"
proof -
  let ?rows = "filter (\<lambda>(tid, r). lapsed now plain renew r \<and> \<not> locked tid) (order_by_expiry (user_subscriptions d))"
  have len: "length (order_by_expiry (user_subscriptions d)) = length (user_subscriptions d)"
    by (metis mset_order_by_expiry size_mset)
  have "length ?rows \<le> length (user_subscriptions d)" unfolding len [symmetric] by (rule length_filter_le)
  with assms(3) have take: "take (nat limit) ?rows = ?rows" by simp
  have "distinct (map fst (order_by_expiry (user_subscriptions d)))"
    using sub_invD(1) [OF assms(1)] mset_order_by_expiry [of "user_subscriptions d"]
    by (metis mset_eq_imp_distinct_iff mset_map twf_def)
  then have "distinct (map fst ?rows)" by (rule distinct_map_filter)
  moreover have "ec_telegram_id \<circ> (\<lambda>(tid, r :: sub_row). \<lparr>ec_telegram_id = tid, ec_status = us_status r\<rparr>) = fst"
    by (simp add: fun_eq_iff split_beta)
  ultimately show "distinct (map ec_telegram_id (FindExpiredForSweep locked now plain renew limit d))"
    using assms(2) take by (simp add: FindExpiredForSweep_def Let_def)
  have "set (order_by_expiry (user_subscriptions d)) = set (user_subscriptions d)"
    by (metis mset_order_by_expiry set_mset_mset)
  then show "t \<in> ec_telegram_id ` set (FindExpiredForSweep locked now plain renew limit d)
      \<longleftrightarrow> (\<exists>r. sub_of d t = Some r \<and> lapsed now plain renew r \<and> \<not> locked t)"
    using assms(2) take
    by (force simp: FindExpiredForSweep_def Let_def sub_of_def tget_in_set [OF sub_invD(1) [OF assms(1)]])
qed



section \<open>Where access is not revoked, or revoked wrongly\<close>

text \<open>
  A subscription that expires on a read is never revoked. When a status request finds the
  subscription past its expiry it marks the row expired, but the only thing it puts into the outbox is
  the message to the user; and from then on no sweep, at any time and with any margins, selects the
  row, because it looks for trial, active and grace rows only.
\<close>

theorem lazily_expired_is_never_swept:
  assumes "sub_inv d" and "sub_of d tid = Some r" and "row_lapses now r" and "tid \<noteq> 0"
  shows "\<exists>d' row. HandleGetStatus cfg Up now (Some tid) d = (None, d')
    \<and> map_option us_status (sub_of d' tid) = Some StatusExpired
    \<and> event_outbox d' = event_outbox d @ [row] \<and> ob_topic row = TopicTgNotifications
    \<and> (\<forall>locked now' plain renew limit.
          tid \<notin> ec_telegram_id ` set (FindExpiredForSweep locked now' plain renew limit d'))"
proof -
  obtain d1 s d2 where l: "ensureUserAndStateTx tid (cf_default_country cfg) d = Inr ((), d1)"
    "getStateForUpdateTx now tid d1 = Inr (s, d2)" "shows_row s tid (loaded now (cf_default_country cfg) d tid)"
    "sub_of d2 tid = Some (loaded now (cf_default_country cfg) d tid)" "event_outbox d2 = event_outbox d" "sub_inv d2"
    using load_user [of tid "cf_default_country cfg" d now] assms(1) by metis
  have expired: "us_status (loaded now (cf_default_country cfg) d tid) = StatusExpired"
    using assms(2,3) by (simp add: loaded_def row_or_new_def settled_def expire_sub_def)
  define row where "row = new_row now (outbox_seq d2) \<lparr>oe_aggregate_type = ''telegram'', oe_aggregate_id = show_int tid,
      oe_topic = TopicTgNotifications, oe_message_key = show_int tid, oe_event_type = ''tg.notification'',
      oe_payload = PNotification (notification tid TxtStatusExpired False KbTrialOrBuy)\<rparr>"
  define d' where "d' = d2\<lparr>event_outbox := event_outbox d2 @ [row], outbox_seq := outbox_seq d2 + 1\<rparr>"
  have h: "HandleGetStatus cfg Up now (Some tid) d = (None, d')"
    using l(1,2) expired shows_rowD [OF l(3)] assms(4)
    by (simp add: HandleGetStatus_def GetStatusTx_def sendStatusNotificationTx_def notifyTx_def notification_def
        AddTx_def d'_def row_def)
  have not: "tid \<notin> ec_telegram_id ` set (FindExpiredForSweep locked now' plain renew limit d')"
    for locked now' plain renew limit
  proof
    assume "tid \<in> ec_telegram_id ` set (FindExpiredForSweep locked now' plain renew limit d')"
    then obtain r' where "(tid, r') \<in> set (order_by_expiry (user_subscriptions d'))" "lapsed now' plain renew r'"
      by (auto simp: FindExpiredForSweep_def Let_def dest!: in_set_takeD split: if_splits)
    then have "sub_of d' tid = Some r'" "us_status r' \<noteq> StatusExpired"
      using sub_invD(1) [OF l(6)] mset_order_by_expiry [of "user_subscriptions d'"]
      by (auto simp: sub_of_def tget_in_set d'_def lapsed_def dest: mset_eq_setD)
    then show False using l(4) expired by (simp add: sub_of_def d'_def)
  qed
  show ?thesis
    by (rule exI [of _ d'], rule exI [of _ row])
      (use h l(4,5) expired not in \<open>simp add: d'_def row_def new_row_def sub_of_def\<close>)
qed

lemma lazily_expired_is_never_swept_witness:
  "\<exists>d'. HandleGetStatus (NewService (\<lambda>_. []) [] []) Up (days 31) (Some 7) subscriber_db = (None, d')
    \<and> 7 \<notin> ec_telegram_id ` set (FindExpiredForSweep (\<lambda>_. False) (days 400) 0 0 200 d')"
proof -
  have "row_lapses (days 31) subscriber_row" by (simp add: row_lapses_def subscriber_row_def)
  from lazily_expired_is_never_swept [OF subscriber_db_inv subscriber_sub this, of "NewService (\<lambda>_. []) [] []"]
  show ?thesis by auto
qed

text \<open>
  A payment between the two halves of the sweep is lost. The sweep decides whom to suspend in one
  query and suspends each user later, in another transaction, without looking at the row again. If a
  payment is applied in between, the suspension cuts the period just paid for: the subscription is
  expired and its expiry is set back to now.
\<close>

theorem sweep_cuts_fresh_payment:
  fixes country :: string and d :: sub_db
  assumes "sub_inv d" and "0 < n" and "\<not> token_taken fresh d" and "c \<in> set (subscription_plans d)"
    and "payment_new d tid p"
    and "cand \<in> set (FindExpiredForSweep locked now plain renew limit d)" and "ec_telegram_id cand = tid"
    and "now \<le> now'"
  defines "paidUntil \<equiv> greatest_now (us_expires_at (loaded now country d tid)) now + days n"
  assumes "now' < paidUntil"
  shows "\<exists>s d1 d2 r. ActivatePaidTx now fresh tid country c n p ar d = Inr ((s, True), d1)
    \<and> st_status s = StatusActive \<and> st_expires_at s = Some paidUntil
    \<and> suspendExpiredOne cfg Up now' cand d1 = (None, d2)
    \<and> sub_of d2 tid = Some r \<and> us_status r = StatusExpired \<and> us_expires_at r = Some now'"
proof -
  define r1 where "r1 = paid_update now c n p ar (loaded now country d tid)"
  obtain d1 where 1: "ActivatePaidTx now fresh tid country c n p ar d = Inr ((scanState now tid r1, True), d1)"
    "sub_of d1 tid = Some r1"
    using ActivatePaidTx_applied [OF assms(1-5), of now country ar] unfolding r1_def by blast
  obtain d2 where 2: "suspend_body cfg now' cand d1 = Inr ((), d2)"
    "sub_of d2 tid = Some (suspend_update now' r1)"
    using suspend_body_row [of cfg now' cand d1] 1(2) assms(7) by (auto simp: row_or_new_def)
  have "us_expires_at r1 = Some paidUntil" by (simp add: r1_def paidUntil_def)
  then show ?thesis
    using 1 2 assms(10) by (auto simp: suspendExpiredOne_def suspend_update_def r1_def)
qed

lemma sweep_cuts_fresh_payment_witness:
  "\<exists>s d1 d2 r. ActivatePaidTx (days 31) ''t9'' 7 ''LT'' ''monthly_30d'' 30 ''p1'' False subscriber_db = Inr ((s, True), d1)
    \<and> suspendExpiredOne (NewService (\<lambda>_. []) [] []) Up (days 31 + secs 1)
        \<lparr>ec_telegram_id = 7, ec_status = StatusActive\<rparr> d1 = (None, d2)
    \<and> sub_of d2 7 = Some r \<and> us_status r = StatusExpired \<and> us_expires_at r = Some (days 31 + secs 1)"
proof -
  have row: "lapsed (days 31) (minutes 15) (days 7) subscriber_row"
    by (simp add: lapsed_def subscriber_row_def new_sub_row_def)
  have cand: "\<lparr>ec_telegram_id = 7, ec_status = StatusActive\<rparr> \<in>
      set (FindExpiredForSweep (\<lambda>_. False) (days 31) (minutes 15) (days 7) 200 subscriber_db)"
    using row by (simp add: FindExpiredForSweep_def order_by_expiry_def subscriber_db_def)
      (simp add: subscriber_row_def new_sub_row_def)
  have base: "days 31 + secs 1 < greatest_now (us_expires_at (loaded (days 31) ''LT'' subscriber_db 7)) (days 31) + days 30"
    using greatest_now_ge_now [of "days 31" "us_expires_at (loaded (days 31) ''LT'' subscriber_db 7)"] by linarith
  have new: "\<not> token_taken ''t9'' subscriber_db" "''monthly_30d'' \<in> set (subscription_plans subscriber_db)"
    "payment_new subscriber_db 7 ''p1''"
    by (simp_all add: token_taken_def subscriber_db_def payment_new_def payment_recorded_def payment_taken_def
        empty_sub_db_def)
  show ?thesis
    using sweep_cuts_fresh_payment [OF subscriber_db_inv _ new cand _ _ base, where ar = False
        and cfg = "NewService (\<lambda>_. []) [] []"] by auto
qed

text \<open>
  A grace period that is not granted is announced. For a subscription that is expired the billing
  event of a grace period changes no status, yet the handler publishes the event that makes the
  orchestrator keep the access until the deadline, and tells the user that access was kept.
\<close>

theorem grace_announced_for_expired:
  assumes "sub_of d tid = Some r" and "us_status r = StatusExpired" and "tid \<noteq> 0"
  shows "\<exists>d' ev msg. HandleBillingGraceStarted cfg Up now
      (Some (BillingGraceStartedEvent tid plan pid reason graceUntil at)) d = (None, d')
    \<and> sub_of d' tid = Some r \<and> event_outbox d' = event_outbox d @ [ev, msg]
    \<and> ob_topic ev = TopicSubscriptionEvents
    \<and> ob_payload ev = PSubscriptionEvent (SubscriptionGraceStartedEvent tid graceUntil reason (us_access_rev r))
    \<and> ob_payload msg = PNotification (notification tid (TxtGraceStarted graceUntil) True KbBuyMenu)"
proof -
  have same: "settled now (grace_update graceUntil (row_or_new (cf_default_country cfg) d tid)) = r"
    using assms(1,2) by (simp add: row_or_new_def grace_update_def settled_def row_lapses_def)
  obtain s d1 where g: "MarkGraceStartedTx now tid (cf_default_country cfg) graceUntil d = Inr (s, d1)"
    "shows_row s tid r" "sub_of d1 tid = Some r" "event_outbox d1 = event_outbox d"
    using MarkGraceStartedTx_row [of now tid "cf_default_country cfg" graceUntil d] unfolding same by blast
  show ?thesis
    using g shows_rowD(7) [OF g(2)] assms(3)
    by (auto simp: grace_body_def publishSubscriptionEventTx_def notifyTx_def AddTx_def new_row_def sub_of_def
        notification_def)
qed

lemma grace_announced_for_expired_witness:
  "\<exists>d' ev msg. HandleBillingGraceStarted (NewService (\<lambda>_. []) [] []) Up 5
      (Some (BillingGraceStartedEvent 7 ''monthly_30d'' ''p1'' ''x'' 99 5))
      (upd_sub 7 expire_sub subscriber_db) = (None, d')
    \<and> event_outbox d' = [ev, msg]
    \<and> ob_payload ev = PSubscriptionEvent (SubscriptionGraceStartedEvent 7 99 ''x'' 1)"
proof -
  have sub: "sub_of (upd_sub 7 expire_sub subscriber_db) 7 = Some (expire_sub subscriber_row)" by simp
  have "us_status (expire_sub subscriber_row) = StatusExpired" "us_access_rev (expire_sub subscriber_row) = 1"
    "event_outbox (upd_sub 7 expire_sub subscriber_db) = []"
    by (simp_all add: expire_sub_def subscriber_row_def new_sub_row_def subscriber_db_def empty_sub_db_def)
  then show ?thesis
    using grace_announced_for_expired [OF sub, where cfg = "NewService (\<lambda>_. []) [] []" and now = 5
        and plan = "''monthly_30d''" and pid = "''p1''" and reason = "''x''" and graceUntil = 99 and at = 5]
    by auto
qed

end
