(* ===== verification/BillProperties.thy ===== *)
theory BillProperties
  imports BillSystem SubSystem
begin

text \<open>
  What billing promises of its renewals and webhooks, operation by operation, and what becomes of its
  events in the subscription service.
\<close>

section \<open>Refused renewals\<close>

definition published :: "'z platform_scheme \<Rightarrow> payload list" where
  "published d = map ob_payload (event_outbox d)"

lemma published_bill [simp]:
  "published (publishBillingEventTx now e d) = published d @ [PBillingEvent e]"
  "published (publishNotificationTx now n d) = published d @ [PNotification n]"
  "published (d\<lparr>payments := ps\<rparr>) = published d"
  "published (d\<lparr>yookassa := w\<rparr>) = published d"
  "published (upd_profile tid f d) = published d"
  by (simp_all add: published_def publishBillingEventTx_def publishNotificationTx_def AddTx_def new_row_def
      upd_profile_def)

lemma profile_frames [simp]:
  "profile_of (publishBillingEventTx now e d) t = profile_of d t"
  "profile_of (publishNotificationTx now n d) t = profile_of d t"
  "profile_of (d\<lparr>payments := ps\<rparr>) t = profile_of d t"
  "profile_of (d\<lparr>yookassa := w\<rparr>) t = profile_of d t"
  "profile_of (SaveCustomerBindingTx tid mid m d) t = profile_of d t"
  by (simp_all add: publishBillingEventTx_def publishNotificationTx_def AddTx_def profile_of_def
      SaveCustomerBindingTx_def Let_def)

text \<open>A provider that refuses to charge; everything on our side works.\<close>

definition refusing :: "string \<Rightarrow> 'w bill_env \<Rightarrow> bool" where
  "refusing e env \<longleftrightarrow> (\<forall>r k w. \<exists>w'. bv_http env (PostPayment r k) w = (Inl e, w'))
     \<and> (\<forall>n. bv_out env n = Up) \<and> (\<forall>a. bv_numeric env a \<noteq> None)"

lemma deaf_refusing: "refusing ''connection refused'' (deaf_env now)"
  by (simp add: refusing_def deaf_env_def)

lemma refused_payment:
  assumes "refusing e env"
  shows "\<exists>w'. createYooKassaPayment env q k d = (Inl (BillFailed e), d\<lparr>yookassa := w'\<rparr>)"
proof -
  obtain w' where "bv_http env (PostPayment q k) (yookassa d) = (Inl e, w')"
    using assms unfolding refusing_def by blast
  then show ?thesis by (auto simp: createYooKassaPayment_def call_yookassa_def)
qed

lemma renewal_inserted:
  assumes "refusing e env"
  shows "\<exists>ps. commit (bv_out env 0) (InsertPayment (bv_numeric env) (renewal_record tid p)) d
    = (Inr (), d\<lparr>payments := ps\<rparr>)"
proof -
  obtain a where "bv_numeric env (rp_amount p) = Some a"
    using assms unfolding refusing_def by (meson not_None_eq)
  moreover have "d = d\<lparr>payments := payments d\<rparr>" by simp
  ultimately show ?thesis
    using assms by (auto simp: refusing_def InsertPayment_def renewal_record_def Let_def
        command_id_taken_def payment_id_taken_def intro: exI [of _ "payments d"])
qed

definition after_refusal :: "bill_config \<Rightarrow> time \<Rightarrow> string \<Rightarrow> RecurringProfile \<Rightarrow> RecurringProfile" where
  "after_refusal cfg now reason p =
     (let n = nat (rp_retry_count p) in
      if n < length (bl_retry_schedule cfg)
      then p\<lparr>rp_status := PfRetry, rp_locked_at := None, rp_last_failure := reason,
             rp_next_charge_at := Some (now + bl_retry_schedule cfg ! n), rp_retry_count := int n + 1\<rparr>
      else p\<lparr>rp_status := PfGrace, rp_locked_at := None, rp_last_failure := reason,
             rp_next_charge_at := None, rp_grace_until := Some (now + bl_grace_period cfg)\<rparr>)"

definition refusal_event :: "bill_config \<Rightarrow> time \<Rightarrow> int \<Rightarrow> string \<Rightarrow> RecurringProfile \<Rightarrow> billing_event" where
  "refusal_event cfg now tid reason p =
     (let n = nat (rp_retry_count p) in
      if n < length (bl_retry_schedule cfg)
      then BillingRenewalRetryScheduledEvent tid (rp_plan_code p) [] reason (int n + 1)
             (now + bl_retry_schedule cfg ! n) now
      else BillingGraceStartedEvent tid (rp_plan_code p) [] reason (now + bl_grace_period cfg) now)"

lemma failed_charge:
  assumes "0 \<le> rp_retry_count p"
  shows "\<exists>v d'. handleRecurringPaymentFailed cfg Up now tid (rp_plan_code p) [] (rp_retry_count p + 1) reason d
      = (Inr v, d')
    \<and> profile_of d' tid = map_option (\<lambda>q. after_refusal cfg now reason
        (q\<lparr>rp_retry_count := rp_retry_count p\<rparr>)\<lparr>rp_retry_count :=
           (if nat (rp_retry_count p) < length (bl_retry_schedule cfg) then rp_retry_count p + 1 else rp_retry_count q)\<rparr>)
        (profile_of d tid)
    \<and> (\<forall>t. t \<noteq> tid \<longrightarrow> profile_of d' t = profile_of d t)
    \<and> published d' = published d @ [PBillingEvent (refusal_event cfg now tid reason p)]"
proof -
  have n: "nat (rp_retry_count p + 1 - 1) = nat (rp_retry_count p)" by simp
  show ?thesis
    using assms
    by (auto simp: handleRecurringPaymentFailed_def after_refusal_def refusal_event_def Let_def n
        ScheduleRenewalRetryTx_def StartGracePeriodTx_def keep_if_empty_def option.map_comp
        intro!: option.map_cong)
qed

lemma renewal_refused_step:
  assumes "refusing e env" and "profile_of d tid = Some p" and "0 \<le> rp_retry_count p"
    and "rp_auto_renew p" and "rp_method_id p \<noteq> []"
  shows "\<exists>d'. chargeRecurringProfile cfg env tid p d = (Inl (BillFailed e), d')
    \<and> profile_of d' tid = Some (after_refusal cfg (bv_now env) e p)
    \<and> (\<forall>t. t \<noteq> tid \<longrightarrow> profile_of d' t = profile_of d t)
    \<and> published d' = published d @ [PBillingEvent (refusal_event cfg (bv_now env) tid e p)]"
proof -
  obtain ps where ins: "commit (bv_out env 0) (InsertPayment (bv_numeric env) (renewal_record tid p)) d
      = (Inr (), d\<lparr>payments := ps\<rparr>)"
    using renewal_inserted [OF assms(1)] by blast
  obtain w where pay: "createYooKassaPayment env (renewal_request (renewal_record tid p))
      (pr_idempotence_key (renewal_record tid p)) (d\<lparr>payments := ps\<rparr>)
      = (Inl (BillFailed e), d\<lparr>payments := ps\<rparr>\<lparr>yookassa := w\<rparr>)"
    using refused_payment [OF assms(1)] by metis
  define d2 where "d2 = d\<lparr>payments := ps\<rparr>\<lparr>yookassa := w\<rparr>"
  obtain v d' where f: "handleRecurringPaymentFailed cfg Up (bv_now env) tid (rp_plan_code p) []
      (rp_retry_count p + 1) e d2 = (Inr v, d')"
    and prof: "profile_of d' tid = map_option (\<lambda>q. after_refusal cfg (bv_now env) e
        (q\<lparr>rp_retry_count := rp_retry_count p\<rparr>)\<lparr>rp_retry_count :=
           (if nat (rp_retry_count p) < length (bl_retry_schedule cfg) then rp_retry_count p + 1 else rp_retry_count q)\<rparr>)
        (profile_of d2 tid)"
    and others: "\<forall>t. t \<noteq> tid \<longrightarrow> profile_of d' t = profile_of d2 t"
    and pub: "published d' = published d2 @ [PBillingEvent (refusal_event cfg (bv_now env) tid e p)]"
    using failed_charge [OF assms(3)] by blast
  have "profile_of d' tid = Some (after_refusal cfg (bv_now env) e p)"
    using assms(2,3) prof by (simp add: d2_def after_refusal_def Let_def)
  moreover have "chargeRecurringProfile cfg env tid p d = (Inl (BillFailed e), d')"
    using assms(1,4,5) ins pay f by (simp add: chargeRecurringProfile_def Let_def refusing_def d2_def)
  ultimately show ?thesis using pub others by (simp add: d2_def)
qed

text \<open>
  What a refused renewal does. When the provider refuses the charge of a profile that has failed
  \<open>n\<close> times already, and the schedule has an entry for the next attempt, the profile waits for the
  \<open>n\<close>-th delay of the schedule and the event \<open>renewal_retry_scheduled\<close> is published; when the
  schedule is used up, the grace period starts, nothing will be charged any more, and
  \<open>grace_started\<close> is published. Nobody else's profile changes.
\<close>

theorem renewal_refused:
  assumes "refusing e env" and "profile_of d tid = Some p" and "0 \<le> rp_retry_count p"
    and "rp_auto_renew p" and "rp_method_id p \<noteq> []"
  shows "\<exists>d'. chargeRecurringProfile cfg env tid p d = (Inl (BillFailed e), d')
    \<and> profile_of d' tid = Some (after_refusal cfg (bv_now env) e p)
    \<and> (\<forall>t. t \<noteq> tid \<longrightarrow> profile_of d' t = profile_of d t)
    \<and> published d' = published d @ [PBillingEvent (refusal_event cfg (bv_now env) tid e p)]"
  using assms by (rule renewal_refused_step)

definition broke_db :: "unit bill_db" where
  "broke_db = (empty_bill_db ())\<lparr>recurring_profiles := [(7, \<lparr>rp_plan_code = ''monthly_30d'',
     rp_duration_days = 30, rp_amount = ''89.00'', rp_currency = ''RUB'', rp_method_id = ''card1'',
     rp_auto_renew = True, rp_status = PfProcessing, rp_next_charge_at = Some 100, rp_retry_count = 0,
     rp_grace_until = None, rp_last_payment_id = ''p1'', rp_last_failure = [], rp_locked_at = Some 100\<rparr>)]\<rparr>"

lemma renewal_refused_witness:
  "\<exists>d'. published (d' :: unit bill_db) = [PBillingEvent (BillingRenewalRetryScheduledEvent 7 ''monthly_30d'' []
     ''connection refused'' 1 (100 + minutes 15) 100)]"
proof -
  have "profile_of broke_db 7 = Some (the (profile_of broke_db 7))"
    and "rp_retry_count (the (profile_of broke_db 7)) = 0" and "rp_auto_renew (the (profile_of broke_db 7))"
    and "rp_method_id (the (profile_of broke_db 7)) \<noteq> []" and "rp_plan_code (the (profile_of broke_db 7)) = ''monthly_30d''"
    and "published broke_db = []"
    by (simp_all add: published_def broke_db_def profile_of_def tget_def empty_bill_db_def)
  then show ?thesis
    using renewal_refused [OF deaf_refusing, of broke_db 7 "the (profile_of broke_db 7)" default_bill_config 100]
    by (force simp: refusal_event_def default_schedule deaf_env_def)
qed

text \<open>The charges of one profile, one after the other, the \<open>n\<close>-th under \<open>envs n\<close>.\<close>

primrec charges ::
    "bill_config \<Rightarrow> (nat \<Rightarrow> 'w bill_env) \<Rightarrow> int \<Rightarrow> nat \<Rightarrow> 'w bill_db \<Rightarrow> 'w bill_db" where
  "charges cfg envs tid 0 d = d"
| "charges cfg envs tid (Suc n) d = (let d1 = charges cfg envs tid n d in
     case profile_of d1 tid of None \<Rightarrow> d1 | Some p \<Rightarrow> snd (chargeRecurringProfile cfg (envs n) tid p d1))"

lemma charges_step:
  assumes "\<And>n. refusing e (envs n)" and "profile_of d tid = Some p" and "rp_retry_count p = 0"
    and "rp_auto_renew p" and "rp_method_id p \<noteq> []" and "n \<le> length (bl_retry_schedule cfg)"
  shows "\<exists>q. profile_of (charges cfg envs tid n d) tid = Some q \<and> rp_retry_count q = int n
    \<and> rp_auto_renew q \<and> rp_method_id q = rp_method_id p
    \<and> (0 < n \<longrightarrow> rp_status q = PfRetry
        \<and> rp_next_charge_at q = Some (bv_now (envs (n - 1)) + bl_retry_schedule cfg ! (n - 1)))
    \<and> length (published (charges cfg envs tid n d)) = length (published d) + n"
  using assms(6)
proof (induction n)
  case 0
  then show ?case using assms(2-5) by simp
next
  case (Suc n)
  then obtain q where q: "profile_of (charges cfg envs tid n d) tid = Some q" "rp_retry_count q = int n"
    "rp_auto_renew q" "rp_method_id q = rp_method_id p"
    "length (published (charges cfg envs tid n d)) = length (published d) + n"
    by auto
  then have "rp_method_id q \<noteq> []" and "0 \<le> rp_retry_count q" using assms(5) by simp_all
  from renewal_refused_step [OF assms(1) q(1) this(2) q(3) this(1), of cfg n]
  show ?case using q Suc.prems by (auto simp: after_refusal_def Let_def)
qed



section \<open>Retries and the provider's idempotence\<close>

lemma renewal_order_id_attempt: "renewal_order_id tid pc n = renewal_order_id tid pc m \<longleftrightarrow> n = m"
  by (simp add: renewal_order_id_def)

text \<open>
  A renewal whose answer gets lost is charged again. Suppose the provider is idempotent in the key (it
  charges once per key: \<open>charged w k\<close>), charges every request, and a first answer is lost on its way
  back. The service takes that for a refusal, and its next attempt carries another attempt number, hence
  another order id and another idempotence key: the provider charges the same period twice.
\<close>

theorem lost_answer_is_charged_again:
  assumes "\<And>r k w x w' env. env \<in> {env1, env2} \<Longrightarrow> bv_http env (PostPayment r k) w = (x, w') \<Longrightarrow>
      charged w' k \<and> (\<forall>j. charged w j \<longrightarrow> charged w' j)"
    and "refusing ''connection reset'' env1" and "refusing ''anything'' env2"
    and "profile_of d tid = Some p" and "rp_auto_renew p" and "rp_method_id p \<noteq> []"
    and "0 \<le> rp_retry_count p" and "rp_retry_count p < int (length (bl_retry_schedule cfg))"
    and "chargeRecurringProfile cfg env1 tid p d = (x1, d1)" and "profile_of d1 tid = Some p1"
    and "chargeRecurringProfile cfg env2 tid p1 d1 = (x2, d2)"
  defines "key \<equiv> \<lambda>n. renewal_order_id tid (rp_plan_code p) (rp_retry_count p + n)"
  shows "key 1 \<noteq> key 2 \<and> charged (yookassa d2) (key 1) \<and> charged (yookassa d2) (key 2)"
proof -
  have charge: "(\<forall>j. charged (yookassa e) j \<longrightarrow> charged (yookassa e') j)
      \<and> charged (yookassa e') (renewal_order_id tid (rp_plan_code q) (rp_retry_count q + 1))"
    if "env \<in> {env1, env2}" "refusing t env" "rp_auto_renew q" "rp_method_id q \<noteq> []" "0 \<le> rp_retry_count q"
      "chargeRecurringProfile cfg env tid q e = (x, e')" for env t q e e' x
  proof -
    note prem = that
    obtain ps where ins: "commit (bv_out env 0) (InsertPayment (bv_numeric env) (renewal_record tid q)) e
        = (Inr (), e\<lparr>payments := ps\<rparr>)"
      using renewal_inserted [OF prem(2)] by blast
    obtain w where w: "bv_http env (PostPayment (renewal_request (renewal_record tid q))
        (pr_idempotence_key (renewal_record tid q))) (yookassa e) = (Inl t, w)"
      using prem(2) unfolding refusing_def by blast
    have pay: "createYooKassaPayment env (renewal_request (renewal_record tid q))
        (pr_idempotence_key (renewal_record tid q)) (e\<lparr>payments := ps\<rparr>)
        = (Inl (BillFailed t), e\<lparr>payments := ps\<rparr>\<lparr>yookassa := w\<rparr>)"
      by (simp add: createYooKassaPayment_def call_yookassa_def w)
    have "yookassa e' = w"
      using prem pay ins
      by (auto simp: chargeRecurringProfile_def Let_def refusing_def handleRecurringPaymentFailed_def
          publishBillingEventTx_def AddTx_def ScheduleRenewalRetryTx_def StartGracePeriodTx_def upd_profile_def
          split: if_splits)
    then show ?thesis
      using assms(1) [OF prem(1) w] by (simp add: renewal_record_def Let_def)
  qed
  have p1: "p1 = after_refusal cfg (bv_now env1) ''connection reset'' p"
    using renewal_refused_step [OF assms(2,4,7,5,6), of cfg] assms(9,10) by auto
  then have c1: "rp_retry_count p1 = rp_retry_count p + 1" "rp_plan_code p1 = rp_plan_code p" "rp_auto_renew p1"
    "rp_method_id p1 \<noteq> []"
    using assms(5-8) by (simp_all add: after_refusal_def Let_def)
  have 1: "charged (yookassa d1) (key 1)"
    using charge [OF _ assms(2,5,6,7,9)] by (simp add: key_def)
  have "(\<forall>j. charged (yookassa d1) j \<longrightarrow> charged (yookassa d2) j) \<and> charged (yookassa d2) (key 2)"
    using charge [OF _ assms(3) c1(3,4) _ assms(11)] assms(7) c1 by (simp add: key_def add.commute)
  with 1 show ?thesis by (simp add: key_def renewal_order_id_attempt)
qed

text \<open>A provider that charges and whose answers never arrive.\<close>

definition deaf_charging_env :: "string \<Rightarrow> time \<Rightarrow> string list bill_env" where
  "deaf_charging_env e now = \<lparr>bv_http = \<lambda>q w. case q of
       PostPayment r key \<Rightarrow> (Inl e, if List.member w key then w else key # w)
     | _ \<Rightarrow> (Inl e, w),
     bv_out = \<lambda>_. Up, bv_now = now, bv_uuid = ''u'', bv_numeric = Some\<rparr>"

definition due_db :: "string list bill_db" where
  "due_db = (empty_bill_db [])\<lparr>recurring_profiles := recurring_profiles broke_db\<rparr>"

lemma lost_answer_is_charged_again_witness:
  "\<exists>d2 :: string list bill_db. taken (yookassa d2) ''renewal:7:monthly_30d:1'' \<and> taken (yookassa d2) ''renewal:7:monthly_30d:2''"
proof -
  let ?p = "the (profile_of broke_db 7)" and ?e1 = "deaf_charging_env ''connection reset'' 100"
    and ?e2 = "deaf_charging_env ''anything'' 200"
  have r: "refusing e (deaf_charging_env e t)" for e t by (simp add: refusing_def deaf_charging_env_def)
  have p: "profile_of due_db 7 = Some ?p" "rp_auto_renew ?p" "rp_method_id ?p \<noteq> []" "rp_retry_count ?p = 0"
    "rp_plan_code ?p = ''monthly_30d''"
    by (simp_all add: due_db_def broke_db_def profile_of_def tget_def empty_bill_db_def)
  obtain x1 d1 where 1: "chargeRecurringProfile default_bill_config ?e1 7 ?p due_db = (x1, d1)"
    by (cases "chargeRecurringProfile default_bill_config ?e1 7 ?p due_db")
  have p1: "profile_of d1 7 = Some (after_refusal default_bill_config 100 ''connection reset'' ?p)"
  proof -
    have "0 \<le> rp_retry_count ?p" by (simp only: p(4))
    from renewal_refused_step [OF r [of "''connection reset''" 100] p(1) this p(2,3), of default_bill_config] obtain d'
      where "chargeRecurringProfile default_bill_config ?e1 7 ?p due_db = (Inl (BillFailed ''connection reset''), d')"
      and "profile_of d' 7 = Some (after_refusal default_bill_config (bv_now ?e1) ''connection reset'' ?p)"
      by (elim exE conjE)
    then show ?thesis using 1 by (simp add: deaf_charging_env_def)
  qed
  obtain x2 d2 where 2: "chargeRecurringProfile default_bill_config ?e2 7
      (after_refusal default_bill_config 100 ''connection reset'' ?p) d1 = (x2, d2)"
    by (cases "chargeRecurringProfile default_bill_config ?e2 7
      (after_refusal default_bill_config 100 ''connection reset'' ?p) d1")
  have "taken w' k \<and> (\<forall>j. taken w j \<longrightarrow> taken w' j)"
    if "env \<in> {?e1, ?e2}" "bv_http env (PostPayment q k) w = (x, w')" for env q k w x w'
    using that by (auto simp: deaf_charging_env_def taken_def split: if_splits)
  from lost_answer_is_charged_again [of ?e1 ?e2 taken, OF this r [of _ 100] r [of _ 200] p(1-3) _ _ 1 p1 2]
  have "taken (yookassa d2) (renewal_order_id 7 ''monthly_30d'' 1) \<and> taken (yookassa d2) (renewal_order_id 7 ''monthly_30d'' 2)"
    by (simp add: p(4,5) default_schedule)
  moreover have "renewal_order_id 7 ''monthly_30d'' 1 = ''renewal:7:monthly_30d:1''"
    "renewal_order_id 7 ''monthly_30d'' 2 = ''renewal:7:monthly_30d:2''"
    by code_simp+
  ultimately show ?thesis by auto
qed

section \<open>Between billing and the subscription service\<close>

lemma unsaved_paid_body:
  assumes "\<not> pm_saved (wn_method n)"
  shows "paid_body numeric paidAt record n d = Inr ((), publishBillingEventTx paidAt
     (paid_event record (firstNotEmpty [pm_id (wn_method n), pr_method_id record]) False paidAt)
     (DisableAutoRenewTx (pr_telegram_id record) ''payment_method_id_missing'' d))"
  using assms by (simp add: paid_body_def Let_def)

text \<open>
  A paid renewal whose answer names no payment method ends the renewals. The charge succeeded with the
  method of the profile, and \<open>firstPaymentMethod\<close> falls back to it, but the fallback is not marked as
  saved: the payment is handled as one whose card cannot be charged again, and the auto-renewal of the
  paying user is switched off. (The event about the payment is the only one published.)
\<close>

theorem paid_renewal_without_method_ends_renewals:
  assumes "\<And>m. bv_out env m = Up" and "bv_numeric env (rp_amount p) \<noteq> None"
    and "profile_of d tid = Some p" and "rp_auto_renew p" and "rp_method_id p \<noteq> []"
    and "\<And>r k w. \<exists>w'. bv_http env (PostPayment r k) w = (Inr (200, Some resp), w')"
    and "\<And>w. \<exists>w' body. bv_http env (GetPayment (yp_id resp)) w = (Inr (200, Some body), w') \<and> is_paid body"
    and "is_paid resp" and "pm_id (yp_method resp) = []" and "trim_space (yp_id resp) \<noteq> []"
    and "list_all (\<lambda>(i, r). pr_payment_id r \<noteq> yp_id resp) (payments d)"
  shows "\<exists>d' q e. chargeRecurringProfile cfg env tid p d = (Inr (), d')
    \<and> profile_of d' tid = Some q \<and> \<not> rp_auto_renew q \<and> rp_status q = PfDisabled
    \<and> published d' = published d @ [PBillingEvent e] \<and> billing_event_type e = ''billing.payment_succeeded''"
proof -
  let ?rec = "renewal_record tid p"
  obtain a where "bv_numeric env (rp_amount p) = Some a" using assms(2) by auto
  then obtain ps where ins: "commit (bv_out env 0) (InsertPayment (bv_numeric env) ?rec) d = (Inr (), d\<lparr>payments := ps\<rparr>)"
    and ps: "list_all (\<lambda>(i, r). pr_payment_id r \<noteq> yp_id resp) ps"
  proof (cases "tget (payments d) (pr_order_id ?rec)")
    case None
    let ?ps = "tins (pr_order_id ?rec) (?rec\<lparr>pr_amount := a\<rparr>) (payments d)"
    have "list_all (\<lambda>(i, r). pr_payment_id r \<noteq> yp_id resp) ?ps"
      using assms(10,11) None
      by (auto simp: tins_def tget_def renewal_record_def Let_def list_all_iff trim_space_def)
    moreover have "commit (bv_out env 0) (InsertPayment (bv_numeric env) ?rec) d = (Inr (), d\<lparr>payments := ?ps\<rparr>)"
      using None \<open>bv_numeric env (rp_amount p) = Some a\<close>
      by (simp add: assms(1) InsertPayment_def command_id_taken_def payment_id_taken_def renewal_record_def Let_def)
    ultimately show thesis by (rule that [rotated])
  next
    case (Some r)
    have "commit (bv_out env 0) (InsertPayment (bv_numeric env) ?rec) d = (Inr (), d\<lparr>payments := payments d\<rparr>)"
      using Some \<open>bv_numeric env (rp_amount p) = Some a\<close>
      by (simp add: assms(1) InsertPayment_def renewal_record_def Let_def)
    then show thesis using assms(11) by (rule that)
  qed
  obtain w where w: "bv_http env (PostPayment (renewal_request ?rec) (pr_idempotence_key ?rec)) (yookassa d)
      = (Inr (200, Some resp), w)"
    using assms(6) by blast
  define d1 where "d1 = d\<lparr>payments := ps\<rparr>\<lparr>yookassa := w\<rparr>"
  have pay: "createYooKassaPayment env (renewal_request ?rec) (pr_idempotence_key ?rec) (d\<lparr>payments := ps\<rparr>)
      = (Inr resp, d1)"
    by (simp add: createYooKassaPayment_def call_yookassa_def w d1_def)
  have free: "\<not> payment_id_taken i (yp_id resp) d1" for i
    using ps by (auto simp: payment_id_taken_def d1_def list_all_iff list_ex_iff)
  obtain qs where upd: "commit (bv_out env 1) (UpdatePaymentCreated (pr_order_id ?rec) (yp_id resp) (yp_status resp)
      (yp_confirmation_url resp) (pm_id (yp_method resp))) d1 = (Inr (), d1\<lparr>payments := qs\<rparr>)"
    by (simp add: assms(1) UpdatePaymentCreated_def free)
  obtain w2 body where "bv_http env (GetPayment (yp_id resp)) w = (Inr (200, Some body), w2)" "is_paid body"
    using assms(7) by blast
  then have asserted: "assertYooKassaPaymentPaid env (yp_id resp) (d1\<lparr>payments := qs\<rparr>)
      = (Inr (), d1\<lparr>payments := qs\<rparr>\<lparr>yookassa := w2\<rparr>)"
    using assms(10) by (simp add: assertYooKassaPaymentPaid_def call_yookassa_def d1_def)
  define rec2 where "rec2 = ?rec\<lparr>pr_payment_id := yp_id resp, pr_status := yp_status resp\<rparr>"
  define m where "m = firstPaymentMethod (yp_method resp) (no_method\<lparr>pm_id := rp_method_id p\<rparr>)"
  have m: "\<not> pm_saved (wn_method (immediate_notification resp m))"
    using assms(9) by (simp add: m_def firstPaymentMethod_def immediate_notification_def no_method_def)
  have rec2: "pr_checkout_type rec2 = BillingCheckoutTypeSubscription" "pr_telegram_id rec2 = tid"
    "pr_payment_id rec2 = yp_id resp"
    by (simp_all add: rec2_def renewal_record_def Let_def)
  have "chargeRecurringProfile cfg env tid p d
      = handlePaymentSucceeded env 2 rec2 (immediate_notification resp m) (d1\<lparr>payments := qs\<rparr>)"
    using assms(4,5,8) by (simp add: chargeRecurringProfile_def Let_def ins pay upd [unfolded One_nat_def] rec2_def m_def)
  also have "\<dots> = (Inr (), publishBillingEventTx (bv_now env) (paid_event rec2
      (firstNotEmpty [pm_id (wn_method (immediate_notification resp m)), pr_method_id rec2]) False (bv_now env))
      (DisableAutoRenewTx tid ''payment_method_id_missing'' (d1\<lparr>payments := qs\<rparr>\<lparr>yookassa := w2\<rparr>)))"
    by (simp add: handlePaymentSucceeded_def handleSubscriptionPaymentSucceeded_def rec2 asserted
        unsaved_paid_body [OF m] assms(1))
  finally show ?thesis
    using assms(3) by (auto simp: DisableAutoRenewTx_def d1_def paid_event_def)
qed

text \<open>A provider that takes every payment and never names the method.\<close>

definition nameless_env :: "unit bill_env" where
  "nameless_env = \<lparr>bv_http = \<lambda>q w. (Inr (200, Some ((paying_response ''p9'')\<lparr>yp_method := no_method\<rparr>)), w),
     bv_out = \<lambda>_. Up, bv_now = 100, bv_uuid = ''u'', bv_numeric = Some\<rparr>"

lemma paid_renewal_without_method_ends_renewals_witness:
  "\<exists>q. profile_of (snd (chargeRecurringProfile default_bill_config nameless_env 7 (the (profile_of broke_db 7)) broke_db)) 7
     = Some q \<and> \<not> rp_auto_renew q"
proof -
  let ?p = "the (profile_of broke_db 7)" and ?resp = "(paying_response ''p9'')\<lparr>yp_method := no_method\<rparr>"
  have "profile_of broke_db 7 = Some ?p" "rp_auto_renew ?p" "rp_method_id ?p \<noteq> []"
    by (simp_all add: broke_db_def profile_of_def tget_def empty_bill_db_def)
  moreover have "bv_out nameless_env m = Up" "bv_numeric nameless_env x \<noteq> None"
    "bv_http nameless_env y w = (Inr (200, Some ?resp), w)" for m x y w
    by (simp_all add: nameless_env_def)
  moreover have "is_paid ?resp" "pm_id (yp_method ?resp) = []" "trim_space (yp_id ?resp) \<noteq> []"
    by code_simp+
  moreover have "payments broke_db = []" by (simp add: broke_db_def empty_bill_db_def)
  ultimately obtain d' q where "chargeRecurringProfile default_bill_config nameless_env 7 ?p broke_db = (Inr (), d')"
    "profile_of d' 7 = Some q" "\<not> rp_auto_renew q"
    using paid_renewal_without_method_ends_renewals [of nameless_env ?p broke_db 7 ?resp default_bill_config]
    by auto
  then show ?thesis by simp
qed

text \<open>
  C20. Access that was paid is lost to a failed renewal. A payment that carries no card to renew with (one in
  crypto currency, say) extends the subscription, but billing learns nothing of it: the grace period of
  an earlier failed renewal runs on, and when it is over billing publishes \<open>access_expired\<close>, on which
  the subscription service suspends the user and cuts \<open>expires_at\<close> to now, although the period just
  paid has not begun to run out.
\<close>

theorem paid_access_lost_to_failed_renewal:
  fixes now t :: time and s :: sub_db
  assumes "sub_inv s" and "0 < n" and "\<not> token_taken fresh s" and "c \<in> set (subscription_plans s)"
    and "payment_new s tid pid" and "now \<le> t" and "t < now + days n"
    and "profile_of d tid = Some p" and "grace_over t p" and "rp_last_failure p = reason" and "trim_space reason \<noteq> []"
  shows "\<exists>st s1 r1 s2 r2. ActivatePaidTx now fresh tid (cf_default_country cfg) c n pid False s = Inr ((st, True), s1)
    \<and> sub_of s1 tid = Some r1 \<and> us_status r1 = StatusActive \<and> (\<exists>u. us_expires_at r1 = Some u \<and> t < u)
    \<and> (\<exists>e. published (expire_profile t tid p d) = published d @ [PBillingEvent e]
        \<and> HandleBillingAccessExpired cfg Up t (Some e) s1 = (None, s2))
    \<and> sub_of s2 tid = Some r2 \<and> us_status r2 = StatusExpired \<and> us_expires_at r2 = Some t"
proof -
  define r1 where "r1 = paid_update now c n pid False (loaded now (cf_default_country cfg) s tid)"
  obtain s1 where act: "ActivatePaidTx now fresh tid (cf_default_country cfg) c n pid False s
      = Inr ((scanState now tid r1, True), s1)" and s1: "sub_of s1 tid = Some r1"
    using ActivatePaidTx_applied [OF assms(1-5), of now "cf_default_country cfg" False] unfolding r1_def by blast
  define u where "u = greatest_now (us_expires_at (loaded now (cf_default_country cfg) s tid)) now + days n"
  have "now \<le> greatest_now (us_expires_at (loaded now (cf_default_country cfg) s tid)) now" by simp
  with assms(7) have "t < u" unfolding u_def by linarith
  then have u: "us_expires_at r1 = Some u" "t < u" "us_status r1 = StatusActive"
    by (simp_all add: r1_def paid_update_def u_def)
  obtain st2 s2' where sus: "MarkSuspendedTx t tid (cf_default_country cfg) s1 = Inr (st2, s2')"
    and r2: "sub_of s2' tid = Some (suspend_update t r1)"
    using MarkSuspendedTx_row [of t tid "cf_default_country cfg" s1] s1 by (auto simp: row_or_new_def)
  define e where "e = BillingAccessExpiredEvent tid reason t"
  have "published (expire_profile t tid p d) = published d @ [PBillingEvent e]"
    using assms(10,11) by (simp add: expire_profile_def Let_def SuspendExpiredGraceTx_def firstNotEmpty_def e_def)
  moreover obtain s2 where "HandleBillingAccessExpired cfg Up t (Some e) s1 = (None, s2)" "sub_of s2 tid = sub_of s2' tid"
    using sus by (cases "tid = 0") (auto simp: e_def expired_body_def publishSubscriptionEventTx_def notifyTx_def
        notification_def AddTx_def sub_of_def)
  ultimately show ?thesis
    using act s1 u r2 by (fastforce simp: suspend_update_def)
qed

definition grace_profile :: RecurringProfile where
  "grace_profile = \<lparr>rp_plan_code = ''monthly_30d'', rp_duration_days = 30, rp_amount = ''89.00'',
     rp_currency = ''RUB'', rp_method_id = ''card1'', rp_auto_renew = True, rp_status = PfGrace,
     rp_next_charge_at = None, rp_retry_count = 3, rp_grace_until = Some 10, rp_last_payment_id = ''p1'',
     rp_last_failure = ''insufficient_funds'', rp_locked_at = None\<rparr>"

definition grace_db :: "unit bill_db" where
  "grace_db = broke_db\<lparr>recurring_profiles := [(7, grace_profile)]\<rparr>"

lemma grace_db_facts:
  "profile_of grace_db 7 = Some grace_profile" "grace_over 10 grace_profile" "published grace_db = []"
  "rp_last_failure grace_profile = ''insufficient_funds''" "trim_space ''insufficient_funds'' \<noteq> []"
  by (simp_all add: grace_db_def profile_of_def tget_def grace_profile_def grace_over_def trim_space_def
      is_space_def published_def broke_db_def empty_bill_db_def)

lemma paid_access_lost_to_failed_renewal_witness:
  "\<exists>e s2 r2. published (expire_profile 10 7 grace_profile grace_db) = [PBillingEvent e]
     \<and> sub_of s2 7 = Some r2 \<and> us_status r2 = StatusExpired \<and> us_expires_at r2 = Some 10"
proof -
  have "''monthly_30d'' \<in> set (subscription_plans empty_sub_db)" by (simp add: empty_sub_db_def)
  from paid_access_lost_to_failed_renewal [OF empty_sub_inv _ empty_token_free this empty_payment_new _ _
      grace_db_facts(1,2,4,5), of 30 0 "''t1''" "NewService (\<lambda>_. []) [] []" "''pay1''"]
  show ?thesis unfolding grace_db_facts(3) by auto
qed

text \<open>
  A payment that lands while the grace period is being closed is lost to the user. The rows of ended
  grace periods are claimed in one statement and closed one by one afterwards, without looking at them
  again: a renewal paid in between makes the profile active, and the worker then expires it and
  publishes \<open>access_expired\<close>.
\<close>

theorem late_payment_is_expired_anyway:
  assumes "(tid, p) \<in> set (fst (LockExpiredGraceProfiles ret locked now limit d))"
    and "d1 = snd (LockExpiredGraceProfiles ret locked now limit d)"
    and "handleSubscriptionPaymentSucceeded env k record n d1 = (Inr (), d2)" and "pr_telegram_id record = tid"
    and "pm_saved (wn_method n)" and "trim_space (pm_id (wn_method n)) \<noteq> []"
  shows "\<exists>q q'. profile_of d2 tid = Some q \<and> rp_status q = PfActive \<and> rp_auto_renew q \<and> rp_grace_until q = None
    \<and> profile_of (expire_profile now tid p d2) tid = Some q' \<and> rp_status q' = PfExpired \<and> \<not> rp_auto_renew q'
    \<and> published (expire_profile now tid p d2) = published d2
        @ [PBillingEvent (BillingAccessExpiredEvent tid (firstNotEmpty [rp_last_failure p, ''grace_period_expired'']) now)]"
proof -
  obtain d1' where "commit (bv_out env k) (paid_body (bv_numeric env) (bv_now env) record n) d1' = (Inr (), d2)"
    using assms(3) unfolding handleSubscriptionPaymentSucceeded_def by (elim proceed_InrE) blast
  then have "paid_body (bv_numeric env) (bv_now env) record n d1' = Inr ((), d2)" by (rule commit_InrE) simp
  moreover have "firstNotEmpty [pm_id (wn_method n), pr_method_id record] = pm_id (wn_method n)"
    using assms(6) by (simp add: firstNotEmpty_def)
  moreover have "pm_id (wn_method n) \<noteq> []" using assms(6) by (auto simp: trim_space_def)
  ultimately obtain q where "profile_of d2 tid = Some q" "rp_status q = PfActive" "rp_auto_renew q" "rp_grace_until q = None"
    using assms(4,5)
    by (auto simp: paid_body_def Let_def UpsertRecurringProfileTx_def paid_profile_def MarkRecurringSuccessTx_def
        profile_of_def upd_profile_def publishBillingEventTx_def AddTx_def SaveCustomerBindingTx_def table_simps
        split: option.splits if_splits)
  then show ?thesis by (simp add: expire_profile_def Let_def SuspendExpiredGraceTx_def)
qed

lemma late_payment_is_expired_anyway_witness:
  "\<exists>q'. profile_of (expire_profile 10 7 (grace_profile\<lparr>rp_status := PfExpiring, rp_locked_at := Some 10\<rparr>)
      (snd (handleSubscriptionPaymentSucceeded (paying_env 10) 0 (renewal_record 7 grace_profile\<lparr>pr_payment_id := ''k''\<rparr>)
        (immediate_notification (paying_response ''k'') (no_method\<lparr>pm_id := ''card1'', pm_saved := True\<rparr>))
        (snd (LockExpiredGraceProfiles id (\<lambda>_. False) 10 1
          ((empty_bill_db [''k''])\<lparr>recurring_profiles := [(7, grace_profile)]\<rparr>)))))) 7 = Some q'
     \<and> rp_status q' = PfExpired"
proof -
  let ?d = "(empty_bill_db [''k''])\<lparr>recurring_profiles := [(7, grace_profile)]\<rparr>"
  let ?rec = "renewal_record 7 grace_profile\<lparr>pr_payment_id := ''k''\<rparr>"
  let ?n = "immediate_notification (paying_response ''k'') (no_method\<lparr>pm_id := ''card1'', pm_saved := True\<rparr>)"
  let ?p = "grace_profile\<lparr>rp_status := PfExpiring, rp_locked_at := Some 10\<rparr>"
  let ?d1 = "snd (LockExpiredGraceProfiles id (\<lambda>_. False) 10 1 ?d)"
  have claimed: "(7, ?p) \<in> set (fst (LockExpiredGraceProfiles id (\<lambda>_. False) 10 1 ?d))"
    by code_simp
  obtain x d2 where h: "handleSubscriptionPaymentSucceeded (paying_env 10) 0 ?rec ?n ?d1 = (x, d2)"
    by (cases "handleSubscriptionPaymentSucceeded (paying_env 10) 0 ?rec ?n ?d1")
  moreover have "fst (handleSubscriptionPaymentSucceeded (paying_env 10) 0 ?rec ?n ?d1) = Inr ()"
    by code_simp
  ultimately have "x = Inr ()" by simp
  moreover have "pr_telegram_id ?rec = 7" "pm_saved (wn_method ?n)" "trim_space (pm_id (wn_method ?n)) \<noteq> []"
    by code_simp+
  ultimately show ?thesis
    using late_payment_is_expired_anyway [OF claimed refl, of "paying_env 10" 0 ?rec ?n d2] h by auto
qed

section \<open>The wire\<close>

named_theorems wire \<open>what a field of an encoded object decodes to\<close>

lemma fld_Cons [wire]:
  "k \<noteq> k' \<Longrightarrow> fld_str ((k', j) # ob) k = fld_str ob k"
  "k \<noteq> k' \<Longrightarrow> fld_int ((k', j) # ob) k = fld_int ob k"
  "k \<noteq> k' \<Longrightarrow> fld_bool ((k', j) # ob) k = fld_bool ob k"
  "k \<noteq> k' \<Longrightarrow> fld_time ((k', j) # ob) k = fld_time ob k"
  "fld_str ((k, JStr s) # ob) k = Some s" "fld_bool ((k, JBool b) # ob) k = Some b"
  "fld_time ((k, JTime t) # ob) k = Some t" "int64_ok i \<Longrightarrow> fld_int ((k, JNum i) # ob) k = Some i"
  by (simp_all add: fld_defs)

lemma fld_Nil [wire]: "fld_str [] k = Some []" "fld_int [] k = Some 0" "fld_bool [] k = Some False"
  by (simp_all add: fld_defs)

lemma fld_skip [wire]:
  "k \<noteq> k' \<Longrightarrow> fld_str (omit_str k' v @ ob) k = fld_str ob k"
  "k \<noteq> k' \<Longrightarrow> fld_str (omit_int k' i @ ob) k = fld_str ob k"
  "k \<noteq> k' \<Longrightarrow> fld_int (omit_str k' v @ ob) k = fld_int ob k"
  "k \<noteq> k' \<Longrightarrow> fld_int (omit_int k' i @ ob) k = fld_int ob k"
  "k \<noteq> k' \<Longrightarrow> fld_bool (omit_str k' v @ ob) k = fld_bool ob k"
  "k \<noteq> k' \<Longrightarrow> fld_bool (omit_int k' i @ ob) k = fld_bool ob k"
  "k \<noteq> k' \<Longrightarrow> fld_time (omit_str k' v @ ob) k = fld_time ob k"
  "k \<noteq> k' \<Longrightarrow> fld_time (omit_int k' i @ ob) k = fld_time ob k"
  "k \<noteq> k' \<Longrightarrow> fld_str (omit_time k' t @ ob) k = fld_str ob k"
  by (simp_all add: fld_defs omit_time_def split: option.split)

lemma fld_omit [wire]:
  "fld_str (omit_str k v @ ob) k = (if v = [] then fld_str ob k else Some v)"
  "int64_ok i \<Longrightarrow> fld_int (omit_int k i @ ob) k = (if i = 0 then fld_int ob k else Some i)"
  "fld_str (omit_str k' v) k = (if k = k' then Some v else Some [])"
  "k \<noteq> k' \<Longrightarrow> fld_int (omit_str k' v) k = Some 0"
  "k \<noteq> k' \<Longrightarrow> fld_bool (omit_str k' v) k = Some False"
  by (simp_all add: fld_defs)

lemma if_default [wire]:
  "(if v = [] then Some [] else Some v) = Some v" "(if i = (0 :: int) then Some 0 else Some i) = Some i"
  by simp_all

text \<open>
  What billing publishes arrives: each event the subscription service handles, encoded as
  \<open>json.Marshal\<close> does (fields marked omitempty left out when empty), is decoded by its consumer to the
  same event, as long as the integers fit into 64 bits; the other events are recognised as not meant
  for it. And the commands the bot and the subscription service send to billing are decoded to the same
  commands.
\<close>

theorem billing_messages_roundtrip:
  assumes "int64_ok (be_telegram_id e)" and "int64_ok (bc_telegram_id c)"
    and "\<And>ct src tid oi pid pc n am cu mi an ar at pr.
      e = BillingPaymentSucceededEvent ct src tid oi pid pc n am cu mi an ar at pr \<Longrightarrow> int64_ok n \<and> int64_ok an"
  shows "decode_billing_event (encode_billing_event e) = Some
      (case e of BillingPaymentCanceledEvent _ _ _ _ _ _ _ _ _ _ _ \<Rightarrow> Inl ()
       | BillingPaymentMethodBoundEvent _ _ _ _ _ _ \<Rightarrow> Inl ()
       | BillingRenewalRetryScheduledEvent _ _ _ _ _ _ _ \<Rightarrow> Inl ()
       | _ \<Rightarrow> Inr e)
    \<and> decode_billing_command (encode_billing_command c) = Some c"
proof
  show "decode_billing_command (encode_billing_command c) = Some c"
    using assms(2) by (cases c) (simp_all add: decode_billing_command_def decode_envelope_def wire Let_def)
  show "decode_billing_event (encode_billing_event e) = Some
      (case e of BillingPaymentCanceledEvent _ _ _ _ _ _ _ _ _ _ _ \<Rightarrow> Inl ()
       | BillingPaymentMethodBoundEvent _ _ _ _ _ _ \<Rightarrow> Inl ()
       | BillingRenewalRetryScheduledEvent _ _ _ _ _ _ _ \<Rightarrow> Inl ()
       | _ \<Rightarrow> Inr e)"
    using assms(1,3)
    by (cases e) (simp_all add: decode_billing_event_def decode_envelope_def wire Let_def)
qed

lemma billing_messages_roundtrip_witness:
  "decode_billing_event (encode_billing_event (BillingAccessExpiredEvent 7 [] 5))
     = Some (Inr (BillingAccessExpiredEvent 7 [] 5))"
  using billing_messages_roundtrip [of "BillingAccessExpiredEvent 7 [] 5" "UnbindCardCommand ''c'' 7"]
  by (simp add: int64_ok_def)

end
