(* ===== verification/BillWebhooks.thy ===== *)
theory BillWebhooks
  imports BillSystem
begin

text \<open>
  The fingerprints of the webhooks: which operations touch them, and what that means for a webhook that
  is delivered again.
\<close>

section \<open>Nothing else touches the fingerprints\<close>

lemma proceed_frame:
  assumes "g (snd r) = g d" and "\<And>a d1. r = (Inr a, d1) \<Longrightarrow> g (snd (k a d1)) = g d1"
  shows "g (snd (proceed r k)) = g d"
  using assms by (cases r; cases "fst r") auto

lemma commit_frame:
  assumes "\<And>a d'. f d = Inr (a, d') \<Longrightarrow> g d' = g d"
  shows "g (snd (commit out f d)) = g d"
  by (rule commit_cases [of out f d]) (simp_all add: assms)

lemma hooks_simps [frame]:
  "webhook_events (publishBillingEventTx now e d) = webhook_events d"
  "webhook_events (publishNotificationTx now nt d) = webhook_events d"
  "webhook_events (upd_profile tid f d) = webhook_events d"
  "webhook_events (SaveCustomerBindingTx tid mid m d) = webhook_events d"
  "webhook_events (ClearCustomerBindingTx tid d) = webhook_events d"
  "webhook_events (AddPendingRefundTx now pid am cu err d) = webhook_events d"
  "webhook_events (UpdatePaymentWebhookState pid st mid reason d) = webhook_events d"
  "webhook_events (MarkRefundRetry now pid err k d) = webhook_events d"
  "webhook_events (MarkRefundSucceeded pid d) = webhook_events d"
  "webhook_events (snd (claim_profiles wanted key s ret locked now limit d)) = webhook_events d"
  "webhook_events (snd (LockDueRefunds ret' locked' now limit d)) = webhook_events d"
  by (simp_all add: publishBillingEventTx_def publishNotificationTx_def AddTx_def upd_profile_def
      SaveCustomerBindingTx_def ClearCustomerBindingTx_def AddPendingRefundTx_def MarkRefundRetry_def
      MarkRefundSucceeded_def UpdatePaymentWebhookState_def claim_profiles_def LockDueRefunds_def Let_def)

lemma hooks_profile [frame]:
  "webhook_events (DisableAutoRenewTx tid r d) = webhook_events d"
  "webhook_events (UpdateNextChargeAt tid t d) = webhook_events d"
  "webhook_events (ScheduleRenewalRetryTx tid t k r p d) = webhook_events d"
  "webhook_events (StartGracePeriodTx tid t r p d) = webhook_events d"
  "webhook_events (MarkRecurringSuccessTx tid p t d) = webhook_events d"
  "webhook_events (SuspendExpiredGraceTx tid r d) = webhook_events d"
  by (simp_all add: DisableAutoRenewTx_def UpdateNextChargeAt_def ScheduleRenewalRetryTx_def
      StartGracePeriodTx_def MarkRecurringSuccessTx_def SuspendExpiredGraceTx_def hooks_simps)

lemma hooks_tx [frame]:
  "InsertPayment numeric p d = Inr (a, d') \<Longrightarrow> webhook_events d' = webhook_events d"
  "UpdatePaymentCreated i pid st url mid d = Inr (a, d') \<Longrightarrow> webhook_events d' = webhook_events d"
  "GetPaymentByPaymentID pid d = Inr (p', d') \<Longrightarrow> webhook_events d' = webhook_events d"
  "UpsertRecurringProfileTx numeric tid r d = Inr (a, d') \<Longrightarrow> webhook_events d' = webhook_events d"
  by (auto simp: InsertPayment_def UpdatePaymentCreated_def GetPaymentByPaymentID_def UpsertRecurringProfileTx_def
      Let_def split: option.splits if_splits)

lemma hooks_call [frame]: "call_yookassa env q d = (a, d') \<Longrightarrow> webhook_events d' = webhook_events d"
  by (auto simp: call_yookassa_def split: prod.splits)

lemma hooks_calls [frame]:
  "webhook_events (snd (createYooKassaPayment env q k d)) = webhook_events d"
  "webhook_events (snd (assertYooKassaPaymentPaid env pid d)) = webhook_events d"
  "webhook_events (snd (createRefund env pid am cu d)) = webhook_events d"
  by (auto simp: createYooKassaPayment_def assertYooKassaPaymentPaid_def createRefund_def
      split: prod.split sum.split option.split dest!: hooks_call)

lemma hooks_publish [frame]:
  "webhook_events (snd (publishNotification out now nt d)) = webhook_events d"
  "webhook_events (snd (publishBillingEvent out now e d)) = webhook_events d"
  unfolding publishNotification_def publishBillingEvent_def
  by (rule commit_frame, auto simp: frame)+

lemma hooks_paid_body [frame]: "paid_body numeric t record n d = Inr (a, d') \<Longrightarrow> webhook_events d' = webhook_events d"
  by (auto simp: paid_body_def Let_def frame dest!: hooks_tx(4) split: if_splits)

lemma hooks_paid [frame]:
  "webhook_events (snd (handleSubscriptionPaymentSucceeded env k record n d)) = webhook_events d"
  "webhook_events (snd (handleBindCardPaymentSucceeded env k record n d)) = webhook_events d"
proof -
  show "webhook_events (snd (handleSubscriptionPaymentSucceeded env k record n d)) = webhook_events d"
    unfolding handleSubscriptionPaymentSucceeded_def
    by (rule proceed_frame, simp add: frame) (rule commit_frame, auto dest: hooks_paid_body)
  let ?r = "if pr_amount record \<noteq> [] \<and> pr_amount record \<noteq> ''0'' \<and> pr_amount record \<noteq> ''0.00''
      then createRefund env (pr_payment_id record) (pr_amount record) (pr_currency record) d else (Inr (), d)"
  obtain x d1 where r: "?r = (x, d1)" by (cases ?r)
  then have "webhook_events d1 = webhook_events d"
    using hooks_calls(3) [of env "pr_payment_id record" "pr_amount record" "pr_currency record" d]
    by (auto split: if_splits)
  moreover have "webhook_events (snd (commit (bv_out env k) (\<lambda>d. Inr ((), h d)) d1)) = webhook_events d1"
    if "webhook_events (h d1) = webhook_events d1" for h :: "'a bill_db \<Rightarrow> 'a bill_db"
    by (rule commit_frame) (use that in auto)
  ultimately show "webhook_events (snd (handleBindCardPaymentSucceeded env k record n d)) = webhook_events d"
    unfolding handleBindCardPaymentSucceeded_def Let_def r
    by (simp add: frame split: sum.split)
qed

lemma hooks_succeeded [frame]: "webhook_events (snd (handlePaymentSucceeded env k record n d)) = webhook_events d"
  by (simp add: handlePaymentSucceeded_def frame)

lemma hooks_failed [frame]:
  "webhook_events (snd (handleRecurringPaymentFailed cfg out now tid pc pid k reason d)) = webhook_events d"
  unfolding handleRecurringPaymentFailed_def
  by (rule commit_frame) (auto simp: Let_def frame split: if_splits)

lemma hooks_canceled [frame]: "webhook_events (snd (handlePaymentCanceled cfg env k record n d)) = webhook_events d"
  unfolding handlePaymentCanceled_def Let_def
  by (rule proceed_frame, simp add: frame) (rule proceed_frame, simp_all add: frame)

lemma hooks_payload: "webhook_events (snd (processWebhookPayload cfg env n d)) = webhook_events d"
  unfolding processWebhookPayload_def
  by (rule proceed_frame, rule commit_frame, erule hooks_tx(3))
    (rule proceed_frame, rule commit_frame, auto simp: frame)

lemma hooks_command: "webhook_events (snd (handle_billing_command cfg env c d)) = webhook_events d"
proof -
  have after: "webhook_events (snd (case createYooKassaPayment env q key d1 of
      (Inl e, d2) \<Rightarrow> (Inl (notifyCardPaymentUnavailable e), d2) | (Inr resp, d2) \<Rightarrow>
        proceed (commit (bv_out env 1) (UpdatePaymentCreated i (yp_id resp) (yp_status resp)
           (yp_confirmation_url resp) (pm_id (yp_method resp))) d2) (\<lambda>_ d3. k resp d3))) = webhook_events d1"
    if "\<And>resp d3. webhook_events (snd (k resp d3)) = webhook_events d3"
    for q key i and d1 :: "'a bill_db" and k :: "_ \<Rightarrow> 'a bill_db \<Rightarrow> (bill_error + unit) \<times> 'a bill_db"
  proof -
    have c: "webhook_events d2 = webhook_events d1" if "createYooKassaPayment env q key d1 = (x, d2)" for x d2
      using hooks_calls(1) [of env q key d1] that by simp
    have "webhook_events (snd (proceed (commit (bv_out env 1) (UpdatePaymentCreated i p1 p2 p3 p4) d2) (\<lambda>_ d3. k resp d3)))
        = webhook_events d2" for p1 p2 p3 p4 d2 resp
      by (rule proceed_frame, rule commit_frame, erule hooks_tx(2)) (rule that)
    then show ?thesis using c by (auto split: prod.split sum.split)
  qed
  have ins: "webhook_events (snd (proceed (commit out (InsertPayment num p) d) k)) = webhook_events d"
    if "\<And>d1. webhook_events (snd (k () d1)) = webhook_events d1" for out num p k and d :: "'a bill_db"
    by (rule proceed_frame, rule commit_frame, erule hooks_tx(1)) (simp add: that)
  show ?thesis
  proof (cases c)
    case (CreateSubscriptionCheckoutCommand i tr tid pc save url)
    then show ?thesis
      by (auto simp: HandleCreateSubscriptionCheckout_def Let_def frame split: option.split intro!: ins after)
  next
    case (BindCardCommand i tid url)
    then show ?thesis by (auto simp: HandleBindCard_def Let_def frame intro!: ins after)
  next
    case (UnbindCardCommand i tid)
    then show ?thesis by (auto simp: HandleUnbindCard_def Let_def frame intro!: commit_frame)
  next
    case (DisableAutoRenewCommand i tid r)
    then show ?thesis by (auto simp: HandleDisableAutoRenew_def Let_def frame intro!: commit_frame)
  qed
qed

lemma hooks_charge [frame]: "webhook_events (snd (chargeRecurringProfile cfg env tid p d)) = webhook_events d"
proof -
  let ?rec = "renewal_record tid p"
  let ?k = "\<lambda>(_ :: unit) d1. case createYooKassaPayment env (renewal_request ?rec) (pr_idempotence_key ?rec) d1 of
      (Inl e, d2) \<Rightarrow> proceed (handleRecurringPaymentFailed cfg (bv_out env 2) (bv_now env) tid (rp_plan_code p) []
          (rp_retry_count p + 1) (error_text e) d2) (\<lambda>_ d3. (Inl e, d3))
    | (Inr resp, d2) \<Rightarrow> proceed (commit (bv_out env 1) (UpdatePaymentCreated (pr_order_id ?rec) (yp_id resp)
          (yp_status resp) (yp_confirmation_url resp) (pm_id (yp_method resp))) d2) (\<lambda>_ d3.
        if is_paid resp then handlePaymentSucceeded env 2
             (?rec\<lparr>pr_payment_id := yp_id resp, pr_status := yp_status resp\<rparr>)
             (immediate_notification resp (firstPaymentMethod (yp_method resp) (no_method\<lparr>pm_id := rp_method_id p\<rparr>))) d3
        else if yp_status resp = ''canceled''
        then proceed (handleRecurringPaymentFailed cfg (bv_out env 2) (bv_now env) tid (rp_plan_code p) (yp_id resp)
          (rp_retry_count p + 1) ''payment_canceled'' d3) (\<lambda>_ d4. (Inr (), d4))
        else (Inr (), d3))"
  have paid: "webhook_events (snd (proceed (commit out (UpdatePaymentCreated i p1 p2 p3 p4) d2) k))
      = webhook_events d2"
    if "\<And>d3. webhook_events (snd (k () d3)) = webhook_events d3"
    for out i p1 p2 p3 p4 and d2 :: "'a bill_db" and k :: "unit \<Rightarrow> 'a bill_db \<Rightarrow> (bill_error + unit) \<times> 'a bill_db"
    by (rule proceed_frame, rule commit_frame, erule hooks_tx(2)) (simp add: that)
  have fails: "webhook_events (snd (proceed (handleRecurringPaymentFailed cfg out now tid pc pid k r d2) (\<lambda>_ d3. (x, d3))))
      = webhook_events d2" for out now pc pid k r x and d2 :: "'a bill_db"
    by (rule proceed_frame) (simp_all add: frame)
  have k: "webhook_events (snd (?k () d1)) = webhook_events d1" for d1 :: "'a bill_db"
  proof -
    obtain x d2 where c: "createYooKassaPayment env (renewal_request ?rec) (pr_idempotence_key ?rec) d1 = (x, d2)"
      by (cases "createYooKassaPayment env (renewal_request ?rec) (pr_idempotence_key ?rec) d1")
    then have "webhook_events d2 = webhook_events d1"
      using hooks_calls(1) [of env "renewal_request ?rec" "pr_idempotence_key ?rec" d1] by simp
    then show ?thesis
      unfolding c by (cases x) (simp_all add: fails, subst paid, simp_all add: fails frame)
  qed
  have "webhook_events (snd (proceed (commit (bv_out env 0) (InsertPayment (bv_numeric env) ?rec) d) ?k)) = webhook_events d"
    by (rule proceed_frame, rule commit_frame, erule hooks_tx(1)) (simp add: k)
  then show ?thesis by (simp add: chargeRecurringProfile_def Let_def)
qed

lemma hooks_loops [frame]:
  "webhook_events (charge_profiles cfg envs ps d) = webhook_events d"
  "webhook_events (expire_profiles outs now ps d) = webhook_events d"
  "webhook_events (repeat_refunds envs' rs d) = webhook_events d"
proof -
  show "webhook_events (charge_profiles cfg envs ps d) = webhook_events d"
    by (induction ps arbitrary: d) (auto simp: frame)
  show "webhook_events (expire_profiles outs now ps d) = webhook_events d"
  proof (induction ps arbitrary: d)
    case (Cons x ps)
    obtain t p where x: "x = (t, p)" by (cases x)
    have "webhook_events (snd (commit (outs t) (\<lambda>d. Inr ((), expire_profile now t p d)) d)) = webhook_events d"
      by (rule commit_frame) (auto simp: expire_profile_def Let_def frame)
    then show ?case by (simp add: x Cons)
  qed simp
  show "webhook_events (repeat_refunds envs' rs d) = webhook_events d"
  proof (induction rs arbitrary: d)
    case (Cons x rs)
    obtain i r where x: "x = (i, r)" by (cases x)
    obtain y d1 where y: "createRefund (envs' i) i (pf_amount r) (pf_currency r) d = (y, d1)"
      by (cases "createRefund (envs' i) i (pf_amount r) (pf_currency r) d")
    have "webhook_events (snd (commit (bv_out (envs' i) 0) (\<lambda>d. Inr ((), MarkRefundRetry t i e k d)) d1)) = webhook_events d1"
      "webhook_events (snd (commit (bv_out (envs' i) 0) (\<lambda>d. Inr ((), MarkRefundSucceeded i d)) d1)) = webhook_events d1"
      for t e k by (rule commit_frame, auto simp: frame)+
    moreover have "webhook_events d1 = webhook_events d"
      using hooks_calls(3) [of "envs' i" i "pf_amount r" "pf_currency r" d] y by simp
    ultimately show ?case by (cases y) (simp_all add: x y Cons Let_def)
  qed simp
qed

lemma hooks_passes [frame]:
  "webhook_events (snd (ProcessDueRenewals cfg out ret locked envs now limit d)) = webhook_events d"
  "webhook_events (snd (ProcessExpiredGrace out ret locked outs now limit d)) = webhook_events d"
  "webhook_events (snd (ProcessPendingRefunds out ret' locked' envs' now n d)) = webhook_events d"
proof -
  have claim: "webhook_events (snd (proceed (commit out (\<lambda>d. Inr (f d)) d) k)) = webhook_events d"
    if "\<And>d. webhook_events (snd (f d)) = webhook_events d" and "\<And>x d. webhook_events (snd (k x d)) = webhook_events d"
    for f :: "'b bill_db \<Rightarrow> 'c \<times> 'b bill_db" and k :: "'c \<Rightarrow> 'b bill_db \<Rightarrow> (bill_error + unit) \<times> 'b bill_db" and d
    by (rule proceed_frame, rule commit_frame) (use that in \<open>auto, metis snd_conv\<close>)
  show "webhook_events (snd (ProcessDueRenewals cfg out ret locked envs now limit d)) = webhook_events d"
    unfolding ProcessDueRenewals_def LockDueRenewals_def by (rule claim) (simp_all add: frame)
  show "webhook_events (snd (ProcessExpiredGrace out ret locked outs now limit d)) = webhook_events d"
    unfolding ProcessExpiredGrace_def LockExpiredGraceProfiles_def by (rule claim) (simp_all add: frame)
  show "webhook_events (snd (ProcessPendingRefunds out ret' locked' envs' now n d)) = webhook_events d"
    unfolding ProcessPendingRefunds_def by (rule claim) (simp_all add: frame)
qed

lemma hooks_message_once:
  fixes handle :: "'w bill_db \<Rightarrow> handler_result \<times> 'w bill_db"
  assumes "\<And>d. webhook_events (snd (handle d)) = webhook_events d"
  shows "webhook_events (snd (message_once svc out now en m handle d)) = webhook_events d"
proof -
  have mp: "webhook_events d2 = webhook_events d1"
    if "MarkProcessed now svc mid ty d1 = Inr (b, d2)" for mid ty b and d1 d2 :: "'w bill_db"
    using that by (auto simp: MarkProcessed_def Let_def split: if_splits)
  have h: "webhook_events d1 = webhook_events d" if "handle d = (r, d1)" for r d1
    using assms [of d] that by simp
  show ?thesis
    unfolding message_once_def
    by (auto split: sum.split prod.split handler_result.split outage.split dest!: mp h)
qed

section \<open>What becomes of a fingerprint\<close>

lemma RecordWebhook_out:
  "commit out (RecordWebhookFingerprint pid ev fp) d = (x, d1) \<Longrightarrow>
     webhook_events d1 = webhook_events d \<or> webhook_events d1 = tins fp (pid, ev) (webhook_events d)"
  by (cases out) (auto simp: RecordWebhookFingerprint_def)

lemma tget_filter_other:
  "f \<noteq> fp \<Longrightarrow> tget (filter (\<lambda>(g, p, e). e = ev \<longrightarrow> p = pid \<longrightarrow> g \<noteq> fp) t) f = tget t f"
  by (induction t) (auto simp: tget_def)

lemma hook_kept:
  assumes "tget (webhook_events d) f = Some v"
  shows "tget (webhook_events (snd (ProcessWebhook cfg env n fp d))) f = Some v"
proof (cases n)
  case None
  then show ?thesis using assms by (simp add: ProcessWebhook_def)
next
  case (Some m)
  show ?thesis
  proof (cases "commit (bv_out env 0) (RecordWebhookFingerprint (wn_id m) (wn_event m) fp) d")
    case rec: (Pair x d1)
    have d1: "tget (webhook_events d1) f = Some v"
      using RecordWebhook_out [OF rec] assms by (auto simp: table_simps)
    have fresh: "f \<noteq> fp" if "x = Inr True"
      using rec that assms by (cases "bv_out env 0") (auto simp: RecordWebhookFingerprint_def)
    obtain y d2 where y: "processWebhookPayload cfg env m d1 = (y, d2)"
      by (cases "processWebhookPayload cfg env m d1")
    then have d2: "webhook_events d2 = webhook_events d1"
      using hooks_payload [of cfg env m d1] by simp
    have "tget (webhook_events (snd (commit (bv_out env 6) (DeleteWebhookFingerprint (wn_id m) (wn_event m) fp) d2))) f
        = tget (webhook_events d2) f" if "f \<noteq> fp"
      by (rule commit_frame [where g = "\<lambda>d. tget (webhook_events d) f"])
        (auto simp: DeleteWebhookFingerprint_def tget_filter_other [OF that])
    then show ?thesis
      using assms d1 d2 fresh rec
      by (cases x; cases y) (auto simp: ProcessWebhook_def Some y)
  qed
qed

lemma hook_kept_by_step:
  assumes "bill_step cfg confirmed d d'" and "tget (webhook_events d) f = Some v"
  shows "tget (webhook_events d') f = Some v"
  using assms
proof (induction rule: bill_step.induct)
  case (BillCommand env d out m)
  then show ?case
    by (auto simp: billing_command_handler_def processBillingMessageOnce_def hooks_message_once hooks_command
        split: option.split)
next
  case (BillSubscription d out env m)
  have "webhook_events (snd (HandleSubscriptionActivated env e d)) = webhook_events d" for e and d :: "'a bill_db"
    by (auto simp: HandleSubscriptionActivated_def frame split: option.split subscription_event.split intro!: commit_frame)
  with BillSubscription show ?case
    by (auto simp: subscription_event_handler_def processBillingMessageOnce_def hooks_message_once
        split: option.split)
next
  case (BillWebhook env d nl um sha getenv q)
  have "tget (webhook_events (snd (case ProcessWebhook cfg env n fp d of
       (Inr _, d1) \<Rightarrow> (200, d1) | (Inl DuplicateWebhook, d1) \<Rightarrow> (200 :: int, d1) | (Inl _, d1) \<Rightarrow> (400, d1)))) f = Some v" for n fp
    using hook_kept [OF BillWebhook(2), of cfg env n fp]
    by (auto split: prod.split sum.split bill_error.split)
  then show ?case
    using BillWebhook(2) by (auto simp: handleYooKassaWebhook_def Let_def split: option.split)
next
  case (BillWebhookCrash pid ev fp d b d')
  then show ?case by (auto simp: RecordWebhookFingerprint_def table_simps)
next
  case (BillElsewhere d d')
  then show ?case by (simp add: elsewhere_def)
qed (simp_all add: frame)

lemma hook_kept_by_steps:
  "bill_steps cfg confirmed d d' \<Longrightarrow> tget (webhook_events d) f = Some v \<Longrightarrow> tget (webhook_events d') f = Some v"
  by (induction rule: rtranclp_induct) (auto intro: hook_kept_by_step)

lemma duplicate_webhook:
  assumes "tget (webhook_events d) fp = Some v" and "bv_out env 0 = Up"
    and "wn_type n = ''notification''" and "wn_id n \<noteq> []"
  shows "ProcessWebhook cfg env (Some n) fp d = (Inl DuplicateWebhook, d)"
proof -
  have "tins fp x (webhook_events d) = webhook_events d" for x
    using assms(1) by (simp add: tins_def tget_def)
  then show ?thesis using assms by (simp add: ProcessWebhook_def RecordWebhookFingerprint_def)
qed

section \<open>What a repeated webhook meets\<close>


definition sample_webhook :: yooKassaWebhookNotification where
  "sample_webhook = immediate_notification (paying_response ''checkout:c1'')
     (no_method\<lparr>pm_id := ''card1'', pm_saved := True\<rparr>)"


text \<open>
  C19. A crash loses a webhook for good. The fingerprint is committed on its own before the payload is
  processed; if the service dies in between, nothing ever removes it: whatever happens afterwards,
  every delivery of the same webhook is answered as a duplicate and never processed.
\<close>

theorem webhook_lost_by_crash:
  assumes "RecordWebhookFingerprint (wn_id n) (wn_event n) fp d = Inr (True, d1)"
    and "bill_steps cfg confirmed d1 d2"
    and "wn_type n = ''notification''" and "wn_id n \<noteq> []" and "bv_out env 0 = Up"
  shows "ProcessWebhook cfg env (Some n) fp d2 = (Inl DuplicateWebhook, d2)"
proof -
  have "tget (webhook_events d1) fp = Some (wn_id n, wn_event n)"
    using assms(1) by (auto simp: RecordWebhookFingerprint_def table_simps)
  from hook_kept_by_steps [OF assms(2) this] show ?thesis
    by (rule duplicate_webhook) (fact assms)+
qed

lemma webhook_lost_by_crash_witness:
  "\<exists>d2. profile_of d2 7 = None \<and> ProcessWebhook default_bill_config (paying_env 9) (Some sample_webhook) ''f'' d2
     = (Inl DuplicateWebhook, d2)"
proof -
  let ?d = "empty_bill_db ([] :: string list)"
  obtain d1 where d1: "RecordWebhookFingerprint (wn_id sample_webhook) (wn_event sample_webhook) ''f'' ?d = Inr (True, d1)"
    by (simp add: RecordWebhookFingerprint_def empty_bill_db_def)
  then have "profile_of d1 7 = None"
    by (auto simp: RecordWebhookFingerprint_def profile_of_def empty_bill_db_def)
  then show ?thesis
    using webhook_lost_by_crash [OF d1, of default_bill_config taken d1 "paying_env 9"]
    by (auto simp: sample_webhook_def immediate_notification_def paying_response_def paying_env_def)
qed

section \<open>No webhook panics\<close>

definition no_panic :: "(bill_error + 'a) \<times> 's \<Rightarrow> bool" where
  "no_panic r \<longleftrightarrow> fst r \<noteq> Inl (BillDb NilDeref)"

lemma no_panic_pair [simp]:
  "no_panic (Inr a, d)" "no_panic (Inl (BillFailed t), d)" "no_panic (Inl (BillSkip t), d)"
  "no_panic (Inl DuplicateWebhook, d)" "no_panic (Inl (BillDb e), d) \<longleftrightarrow> e \<noteq> NilDeref"
  by (simp_all add: no_panic_def)

lemma no_panic_proceed:
  "no_panic r \<Longrightarrow> (\<And>a d1. r = (Inr a, d1) \<Longrightarrow> no_panic (k a d1)) \<Longrightarrow> no_panic (proceed r k)"
  by (cases r; cases "fst r") (auto simp: no_panic_def)

lemma no_panic_commit: "f d \<noteq> Inl NilDeref \<Longrightarrow> no_panic (commit out f d)"
  by (cases out; cases "f d") auto

lemma no_panic_calls:
  "no_panic (createYooKassaPayment env q k d)" "no_panic (assertYooKassaPaymentPaid env pid d)"
  "no_panic (publishNotification out now nt d)" "no_panic (publishBillingEvent out now e d)"
  by (auto simp: createYooKassaPayment_def assertYooKassaPaymentPaid_def publishNotification_def
      publishBillingEvent_def split: prod.split sum.split option.split intro!: no_panic_commit)

lemma no_panic_succeeded: "no_panic (handlePaymentSucceeded env k record n d)"
proof -
  have "paid_body num t record n d' \<noteq> Inl NilDeref" for num t and d' :: "'a bill_db"
    by (auto simp: paid_body_def Let_def UpsertRecurringProfileTx_def split: option.split)
  then show ?thesis
    unfolding handlePaymentSucceeded_def handleSubscriptionPaymentSucceeded_def handleBindCardPaymentSucceeded_def Let_def
    by (auto split: prod.split intro!: no_panic_proceed no_panic_commit no_panic_calls)
qed

lemma no_panic_failed: "1 \<le> k \<Longrightarrow> no_panic (handleRecurringPaymentFailed cfg out now tid pc pid k r d)"
  unfolding handleRecurringPaymentFailed_def by (rule no_panic_commit) (simp add: Let_def)

lemma no_panic_canceled: "payment_ok cfg' record \<Longrightarrow> no_panic (handlePaymentCanceled cfg env k record n d)"
  unfolding handlePaymentCanceled_def Let_def
  by (auto simp: payment_ok_def intro!: no_panic_proceed no_panic_failed no_panic_calls)

lemma got_payment_ok:
  assumes "bill_inv cfg confirmed d" and "GetPaymentByPaymentID pid d = Inr (p, d')"
  shows "payment_ok cfg p"
proof -
  obtain i q where "List.find (\<lambda>(_, p). pr_payment_id p = pid) (payments d) = Some (i, q)"
    and p: "p = q\<lparr>pr_command_id := []\<rparr>"
    using assms(2) by (auto simp: GetPaymentByPaymentID_def split: option.splits)
  then have "(i, q) \<in> set (payments d)" by (auto simp: find_Some_iff in_set_conv_nth)
  then have "tget (payments d) i = Some q" using bill_invD(2) [OF assms(1)] by (simp add: tget_in_set)
  then show ?thesis using bill_invD(6) [OF assms(1)] by (simp add: p payment_ok_def)
qed

text \<open>
  No webhook makes billing panic. The number of the failed attempt comes from the metadata of the order
  and indexes the retry schedule (\<open>s.retrySchedule[attemptNo-1]\<close>); in a reachable state the order of a
  recurring charge always carries an attempt number of at least one, so whatever a webhook says, true
  or forged, the index is in range and no pointer is nil.
\<close>

theorem webhook_never_panics:
  assumes "bill_steps cfg confirmed (empty_bill_db w) d" and "schedule_fits cfg"
  shows "fst (ProcessWebhook cfg env n fp d) \<noteq> Inl (BillDb NilDeref)"
proof -
  have inv: "bill_inv cfg confirmed d"
    using staysD [OF bill_steps_stay [OF assms(1)] empty_bill_inv [OF assms(2)]] by simp
  have payload: "no_panic (processWebhookPayload cfg env m d1)"
    if "payments d1 = payments d" for m and d1 :: "'a bill_db"
  proof -
    have get: "GetPaymentByPaymentID (wn_id m) d1 \<noteq> Inl NilDeref"
      by (auto simp: GetPaymentByPaymentID_def split: option.split)
    have "payment_ok cfg p" if "commit out (GetPaymentByPaymentID (wn_id m)) d1 = (Inr p, d2)" for out p d2
    proof -
      have "GetPaymentByPaymentID (wn_id m) d1 = Inr (p, d2)" using that by (rule commit_InrE) simp
      then have "\<exists>d2. GetPaymentByPaymentID (wn_id m) d = Inr (p, d2)"
        using \<open>payments d1 = payments d\<close> by (auto simp: GetPaymentByPaymentID_def split: option.splits)
      then show ?thesis using got_payment_ok [OF inv] by blast
    qed
    then show ?thesis
      unfolding processWebhookPayload_def
      by (auto intro!: no_panic_proceed no_panic_commit get no_panic_succeeded no_panic_canceled)
  qed
  have rec: "payments d1 = payments d" if "commit out (RecordWebhookFingerprint i e fp) d = (x, d1)" for out i e x d1
    using that by (cases out) (auto simp: RecordWebhookFingerprint_def)
  have "no_panic (ProcessWebhook cfg env n fp d)"
  proof (cases n)
    case (Some m)
    have "no_panic (case processWebhookPayload cfg env m d1 of
          (Inr _, d2) \<Rightarrow> (Inr (), d2)
        | (Inl e, d2) \<Rightarrow> (Inl e, snd (commit (bv_out env 6) (DeleteWebhookFingerprint (wn_id m) (wn_event m) fp) d2)))"
      if "payments d1 = payments d" for d1 :: "'a bill_db"
      using payload [OF that, of m] by (auto simp: no_panic_def split: prod.split sum.split)
    then show ?thesis
      using rec
      by (auto simp: ProcessWebhook_def Some RecordWebhookFingerprint_def intro!: no_panic_proceed no_panic_commit)
  qed (simp add: ProcessWebhook_def)
  then show ?thesis by (simp add: no_panic_def)
qed

lemma webhook_never_panics_witness:
  "fst (ProcessWebhook default_bill_config (paying_env 8) (Some (sample_webhook\<lparr>wn_event := ''payment.canceled''\<rparr>))
     ''f'' paid_run) \<noteq> Inl (BillDb NilDeref)"
  by (rule webhook_never_panics [OF paid_run_reachable default_schedule_fits])

end
