(* ===== verification/CryptoPricing.thy ===== *)
theory CryptoPricing
  imports BillMessages "HOL-Library.AList"
begin

text \<open>
  Settings and prices of \<open>internal/crypto_billing\<close> (config.go, rates.go, pricing.go). Amounts are Go's
  \<open>float64\<close>, the type \<open>'f\<close> of a \<open>float_lib\<close>. A map that is only looked up and replaced is an association list.
\<close>

section \<open>Settings\<close>

datatype pricing_mode = PricingModeCrypto | PricingModeFiat

record 'f crypto_plan =
  cp_code :: string
  cp_title :: string
  cp_duration_days :: int
  cp_price_rub :: 'f
  cp_static_prices :: "(string \<times> string) list"

record 'f crypto_config =
  cc_api_token :: string
  cc_webhook_token :: string
  cc_default_asset :: string
  cc_invoice_expires :: duration
  cc_pricing_mode :: pricing_mode
  cc_fiat_currency :: string
  cc_accepted_assets :: "string list"
  cc_rates_interval :: duration
  cc_rates_max_age :: duration
  cc_markup_percent :: 'f
  cc_plans :: "(string, 'f crypto_plan) table"

definition to_upper :: "char \<Rightarrow> char" where
  "to_upper c = (if (97::nat) \<le> of_char c \<and> (of_char c :: nat) \<le> 122 then char_of (of_char c - 32 :: nat) else c)"

definition parseFloatOr :: "'f float_lib \<Rightarrow> string \<Rightarrow> 'f \<Rightarrow> 'f" where
  "parseFloatOr fl raw fallback =
     (let v = trim_space raw in
      if v = [] then fallback
      else case fl_parse fl (map (\<lambda>c. if c = CHR '','' then CHR ''.'' else c) v) of
        None \<Rightarrow> fallback
      | Some f \<Rightarrow> if fl_le fl f (fl_dec fl 0 0) then fallback else f)"

fun dedup_assets :: "string list \<Rightarrow> string list \<Rightarrow> string list" where
  "dedup_assets seen [] = []"
| "dedup_assets seen (p # ps) =
     (let a = map to_upper (trim_space p) in
      if a = [] \<or> a \<in> set seen then dedup_assets seen ps else a # dedup_assets (a # seen) ps)"

definition parseAssets :: "string \<Rightarrow> string list" where
  "parseAssets s = dedup_assets [] (split_comma [] s)"

fun join_comma :: "string list \<Rightarrow> string" where
  "join_comma [] = []"
| "join_comma [p] = p"
| "join_comma (p # q # ps) = p @ '','' @ join_comma (q # ps)"

definition AcceptedAssetsCSV :: "'f crypto_config \<Rightarrow> string" where
  "AcceptedAssetsCSV c = join_comma (cc_accepted_assets c)"

definition parseDurationOr :: "(string \<Rightarrow> duration option) \<Rightarrow> string \<Rightarrow> duration \<Rightarrow> duration" where
  "parseDurationOr parseDuration raw fallback =
     (let v = trim_space raw in
      if v = [] then fallback
      else case parseDuration v of
        Some d \<Rightarrow> if 0 < d then d else (case parseDuration (v @ ''s'') of
            Some d' \<Rightarrow> if 0 < d' then d' else fallback | None \<Rightarrow> fallback)
      | None \<Rightarrow> (case parseDuration (v @ ''s'') of
            Some d' \<Rightarrow> if 0 < d' then d' else fallback | None \<Rightarrow> fallback))"

definition crypto_plan_of ::
    "'f float_lib \<Rightarrow> (string \<Rightarrow> string) \<Rightarrow> string \<Rightarrow> string \<Rightarrow> int \<Rightarrow> int \<Rightarrow> (string \<times> string \<times> string) list
      \<Rightarrow> 'f crypto_plan" where
  "crypto_plan_of fl getenv code rub price n prices =
     \<lparr>cp_code = code, cp_title = ''subscription'' @ show_int n, cp_duration_days = n,
      cp_price_rub = parseFloatOr fl (getenv rub) (fl_dec fl price 0),
      cp_static_prices = map (\<lambda>(asset, key, def). (asset, env_or getenv key def)) prices\<rparr>"

text \<open>
  Inl is the error. The titles of the plans are Russian texts with the number of days; the texts and
  links of the button, the addresses of the API and of the server are only passed on.
\<close>

definition LoadConfigFromEnv ::
    "'f float_lib \<Rightarrow> (string \<Rightarrow> duration option) \<Rightarrow> (string \<Rightarrow> string) \<Rightarrow> string + 'f crypto_config" where
  "LoadConfigFromEnv fl parseDuration getenv =
     (let token = trim_space (getenv ''CRYPTOBOT_API_TOKEN'');
          hook = trim_space (getenv ''CRYPTOBOT_WEBHOOK_TOKEN'');
          mode = map to_lower (env_or getenv ''CRYPTO_PRICING_MODE'' ''crypto'');
          accepted = parseAssets (env_or getenv ''CRYPTO_ACCEPTED_ASSETS'' ''USDT,TON'')
      in if token = [] then Inl ''CRYPTOBOT_API_TOKEN is required''
         else if hook = [] then Inl ''CRYPTOBOT_WEBHOOK_TOKEN is required (URL secret)''
         else if mode \<noteq> ''crypto'' \<and> mode \<noteq> ''fiat'' then Inl ''CRYPTO_PRICING_MODE must be crypto or fiat''
         else Inr \<lparr>cc_api_token = token, cc_webhook_token = hook,
           cc_default_asset = env_or getenv ''CRYPTOBOT_DEFAULT_ASSET'' ''USDT'',
           cc_invoice_expires = parseDurationOr parseDuration (getenv ''CRYPTOBOT_INVOICE_EXPIRES_IN'') (minutes 30),
           cc_pricing_mode = (if mode = ''fiat'' then PricingModeFiat else PricingModeCrypto),
           cc_fiat_currency = map to_upper (env_or getenv ''CRYPTO_FIAT_CURRENCY'' ''RUB''),
           cc_accepted_assets = (if accepted = [] then [''USDT'', ''TON''] else accepted),
           cc_rates_interval = parseDurationOr parseDuration (getenv ''CRYPTO_RATES_REFRESH_INTERVAL'') (minutes 5),
           cc_rates_max_age = parseDurationOr parseDuration (getenv ''CRYPTO_RATES_MAX_AGE'') (minutes 30),
           cc_markup_percent = parseFloatOr fl (getenv ''CRYPTO_PRICE_MARKUP_PERCENT'') (fl_dec fl 0 0),
           cc_plans =
             [(''monthly_30d'', crypto_plan_of fl getenv ''monthly_30d'' ''CRYPTO_PLAN_MONTHLY_RUB'' 89 30
                [(''USDT'', ''CRYPTO_PLAN_MONTHLY_USDT'', ''2.00''), (''TON'', ''CRYPTO_PLAN_MONTHLY_TON'', ''1.3''),
                 (''BTC'', ''CRYPTO_PLAN_MONTHLY_BTC'', ''0.00008''), (''ETH'', ''CRYPTO_PLAN_MONTHLY_ETH'', ''0.0015'')]),
              (''quarterly_90d'', crypto_plan_of fl getenv ''quarterly_90d'' ''CRYPTO_PLAN_QUARTERLY_RUB'' 249 90
                [(''USDT'', ''CRYPTO_PLAN_QUARTERLY_USDT'', ''5.00''), (''TON'', ''CRYPTO_PLAN_QUARTERLY_TON'', ''3.1''),
                 (''BTC'', ''CRYPTO_PLAN_QUARTERLY_BTC'', ''0.00021''), (''ETH'', ''CRYPTO_PLAN_QUARTERLY_ETH'', ''0.004'')]),
              (''semiannual_180d'', crypto_plan_of fl getenv ''semiannual_180d'' ''CRYPTO_PLAN_SEMIANNUAL_RUB'' 439 180
                [(''USDT'', ''CRYPTO_PLAN_SEMIANNUAL_USDT'', ''9.00''), (''TON'', ''CRYPTO_PLAN_SEMIANNUAL_TON'', ''5.5'')]),
              (''annual_360d'', crypto_plan_of fl getenv ''annual_360d'' ''CRYPTO_PLAN_ANNUAL_RUB'' 799 360
                [(''USDT'', ''CRYPTO_PLAN_ANNUAL_USDT'', ''16.00''), (''TON'', ''CRYPTO_PLAN_ANNUAL_TON'', ''10.0'')])]\<rparr>)"

section \<open>Exchange rates\<close>

record 'f rates_cache =
  rc_rub_per_one :: "(string \<times> 'f) list"
  rc_updated_at :: "time option"

definition NewRatesCache :: "'f rates_cache" where
  "NewRatesCache = \<lparr>rc_rub_per_one = [], rc_updated_at = None\<rparr>"

definition SetRates :: "(string \<times> 'f) list \<Rightarrow> time \<Rightarrow> 'f rates_cache \<Rightarrow> 'f rates_cache" where
  "SetRates rates now c = c\<lparr>rc_rub_per_one := rates, rc_updated_at := Some now\<rparr>"

text \<open>None stands for the flag \<open>false\<close>, with which the value is not used.\<close>

definition RubPerOne :: "'f float_lib \<Rightarrow> 'f rates_cache \<Rightarrow> string \<Rightarrow> 'f option" where
  "RubPerOne fl c asset = (case map_of (rc_rub_per_one c) asset of
     None \<Rightarrow> None | Some v \<Rightarrow> if fl_less fl (fl_dec fl 0 0) v then Some v else None)"

definition Age :: "'f rates_cache \<Rightarrow> time \<Rightarrow> duration" where
  "Age c now = (case rc_updated_at c of None \<Rightarrow> 2 ^ 62 - 1 | Some t \<Rightarrow> now - t)"

definition IsFresh :: "'f rates_cache \<Rightarrow> time \<Rightarrow> duration \<Rightarrow> bool" where
  "IsFresh c now maxAge \<longleftrightarrow> Age c now \<le> maxAge"

text \<open>\<open>strings.TrimRight\<close> with a cutset of one character.\<close>

definition trim_right :: "char \<Rightarrow> string \<Rightarrow> string" where
  "trim_right c s = rev (dropWhile (\<lambda>x. x = c) (rev s))"

definition asset_decimals :: "string \<Rightarrow> nat" where
  "asset_decimals asset = (if asset = ''USDT'' then 2 else if asset = ''BTC'' then 8 else if asset = ''ETH'' then 6 else 4)"

definition formatAssetAmount :: "'f float_lib \<Rightarrow> 'f \<Rightarrow> string \<Rightarrow> string" where
  "formatAssetAmount fl amount asset =
     (let decimals = asset_decimals asset;
          s = fl_format fl amount decimals;
          s' = (if CHR ''.'' \<in> set s then trim_right CHR ''.'' (trim_right CHR ''0'' s) else s)
      in if s' = [] \<or> s' = ''0'' then fl_format fl amount decimals else s')"

text \<open>None is the error.\<close>

definition ConvertRubToAsset :: "'f float_lib \<Rightarrow> 'f rates_cache \<Rightarrow> 'f \<Rightarrow> string \<Rightarrow> 'f \<Rightarrow> string option" where
  "ConvertRubToAsset fl c rub asset markupPercent = (case RubPerOne fl c asset of
     None \<Rightarrow> None
   | Some rubPerOne \<Rightarrow>
       if fl_le fl rub (fl_dec fl 0 0) then None
       else let amount = fl_div fl rub rubPerOne;
                amount' = (if \<not> fl_eq fl markupPercent (fl_dec fl 0 0)
                           then fl_mul fl amount (fl_add fl (fl_dec fl 1 0) (fl_div fl markupPercent (fl_dec fl 100 0)))
                           else amount)
            in Some (formatAssetAmount fl amount' asset))"

record exchange_rate =
  er_is_valid :: bool
  er_source :: string
  er_target :: string
  er_rate :: string

fun rub_rates :: "'f float_lib \<Rightarrow> exchange_rate list \<Rightarrow> (string \<times> 'f) list \<Rightarrow> (string \<times> 'f) list" where
  "rub_rates fl [] parsed = parsed"
| "rub_rates fl (r # rs) parsed = rub_rates fl rs
     (if \<not> er_is_valid r \<or> map to_upper (er_target r) \<noteq> ''RUB'' then parsed
      else case fl_parse fl (trim_space (er_rate r)) of
        None \<Rightarrow> parsed
      | Some rate \<Rightarrow> if fl_le fl rate (fl_dec fl 0 0) then parsed
                      else AList.update (map to_upper (er_source r)) rate parsed)"

text \<open>One \<open>refresh\<close> of \<open>RunRatesWorker\<close>; None is a failed request.\<close>

definition refresh_rates ::
    "'f float_lib \<Rightarrow> exchange_rate list option \<Rightarrow> time \<Rightarrow> 'f rates_cache \<Rightarrow> 'f rates_cache" where
  "refresh_rates fl rates now c = (case rates of
     None \<Rightarrow> c
   | Some rs \<Rightarrow> let parsed = rub_rates fl rs [] in if parsed = [] then c else SetRates parsed now c)"

section \<open>The price of an invoice\<close>

record invoice_pricing =
  ip_is_fiat :: bool
  ip_fiat_currency :: string
  ip_fiat_amount :: string
  ip_asset :: string
  ip_amount :: string
  ip_db_asset :: string
  ip_db_amount :: string

definition formatRub :: "'f float_lib \<Rightarrow> 'f \<Rightarrow> string" where
  "formatRub fl rub = formatAssetAmount fl rub ''RUB''"

definition crypto_price :: "string \<Rightarrow> string \<Rightarrow> invoice_pricing" where
  "crypto_price asset amount = \<lparr>ip_is_fiat = False, ip_fiat_currency = [], ip_fiat_amount = [],
     ip_asset = asset, ip_amount = amount, ip_db_asset = asset, ip_db_amount = amount\<rparr>"

definition static_price :: "'f crypto_plan \<Rightarrow> string \<Rightarrow> invoice_pricing option" where
  "static_price plan asset = (case map_of (cp_static_prices plan) asset of
     None \<Rightarrow> None | Some amount \<Rightarrow> if amount = [] then None else Some (crypto_price asset amount))"

text \<open>None is the \<open>pricingError\<close>; \<open>rates\<close> is None when no cache was set.\<close>

definition resolvePricing ::
    "'f float_lib \<Rightarrow> 'f crypto_config \<Rightarrow> 'f rates_cache option \<Rightarrow> time \<Rightarrow> 'f crypto_plan \<Rightarrow> string
      \<Rightarrow> invoice_pricing option" where
  "resolvePricing fl cfg rates now plan requestedAsset =
     (if cc_pricing_mode cfg = PricingModeFiat then
        let amount = formatRub fl (cp_price_rub plan) in
        Some \<lparr>ip_is_fiat = True, ip_fiat_currency = cc_fiat_currency cfg, ip_fiat_amount = amount,
              ip_asset = [], ip_amount = [], ip_db_asset = cc_fiat_currency cfg, ip_db_amount = amount\<rparr>
      else
        let asset = (if requestedAsset = [] then cc_default_asset cfg else requestedAsset) in
        case rates of
          Some c \<Rightarrow>
            if IsFresh c now (cc_rates_max_age cfg) then
              (case ConvertRubToAsset fl c (cp_price_rub plan) asset (cc_markup_percent cfg) of
                 Some amount \<Rightarrow> if amount \<noteq> [] then Some (crypto_price asset amount) else static_price plan asset
               | None \<Rightarrow> static_price plan asset)
            else static_price plan asset
        | None \<Rightarrow> static_price plan asset)"

end
