(* ===== verification/CryptoService.thy ===== *)
theory CryptoService
  imports CryptoPricing
begin

text \<open>
  The service \<open>internal/crypto_billing\<close>: its tables (repository.go), the creation of an invoice, the
  webhook of the provider CryptoBot with its HTTP handler, the worker for invoices that got stuck, and
  the consumer of \<open>crypto.commands\<close>. As in billing, an operation returns its value or error and the
  state, statements and transactions meet outages, and the provider is a state of any type that only the
  function \<open>ce_http\<close> touches.
\<close>

section \<open>Tables\<close>

datatype invoice_status = InvCreating | InvActive | InvPaid | InvExpired | InvFailed

text \<open>
  The table is keyed by the order id and ordered by \<open>id\<close>, that is by insertion. The columns
  \<open>raw_create_response\<close>, \<open>raw_last_webhook\<close> and \<open>updated_at\<close> are written and never read.
\<close>

record CryptoInvoice =
  ci_command_id :: string
  ci_telegram_id :: int
  ci_plan_code :: string
  ci_duration_days :: int
  ci_asset :: string
  ci_amount :: string
  ci_description :: string
  ci_invoice_id :: string
  ci_pay_url :: string
  ci_status :: invoice_status
  ci_expires_at :: "time option"
  ci_created_at :: time
  ci_paid_at :: "time option"

record 'w crypto_db = platform +
  crypto_invoices :: "(string, CryptoInvoice) table"
  crypto_webhooks :: "(string, string \<times> string) table"
  cryptobot :: 'w

definition InsertInvoiceTx ::
    "string \<Rightarrow> CryptoInvoice \<Rightarrow> 'w crypto_db \<Rightarrow> tx_error + (bool \<times> 'w crypto_db)" where
  "InsertInvoiceTx orderID ivc d =
     (if tget (crypto_invoices d) orderID \<noteq> None then Inr (False, d)
      else if ci_command_id ivc \<noteq> [] \<and> list_ex (\<lambda>(_, r). ci_command_id r = ci_command_id ivc) (crypto_invoices d)
        then Inl UniqueViolation
      else Inr (True, d\<lparr>crypto_invoices := tins orderID
        (ivc\<lparr>ci_status := InvCreating, ci_invoice_id := [], ci_pay_url := [], ci_paid_at := None\<rparr>) (crypto_invoices d)\<rparr>))"

definition MarkInvoiceActiveTx ::
    "string \<Rightarrow> string \<Rightarrow> string \<Rightarrow> 'w crypto_db \<Rightarrow> tx_error + (unit \<times> 'w crypto_db)" where
  "MarkInvoiceActiveTx orderID invoiceID payURL d =
     (if tget (crypto_invoices d) orderID \<noteq> None \<and> invoiceID \<noteq> []
         \<and> list_ex (\<lambda>(i, r). i \<noteq> orderID \<and> ci_invoice_id r = invoiceID) (crypto_invoices d)
      then Inl UniqueViolation
      else Inr ((), d\<lparr>crypto_invoices := tupd orderID (\<lambda>r. r\<lparr>ci_invoice_id := invoiceID, ci_pay_url := payURL,
             ci_status := InvActive\<rparr>) (crypto_invoices d)\<rparr>))"

definition MarkInvoiceFailedTx :: "string \<Rightarrow> 'w crypto_db \<Rightarrow> 'w crypto_db" where
  "MarkInvoiceFailedTx orderID d =
     d\<lparr>crypto_invoices := tupd orderID (\<lambda>r. r\<lparr>ci_status := InvFailed\<rparr>) (crypto_invoices d)\<rparr>"

text \<open>The row comes with its key.\<close>

definition GetInvoiceByInvoiceIDTx ::
    "string \<Rightarrow> 'w crypto_db \<Rightarrow> tx_error + ((string \<times> CryptoInvoice) \<times> 'w crypto_db)" where
  "GetInvoiceByInvoiceIDTx invoiceID d =
     (case List.find (\<lambda>(_, r). ci_invoice_id r = invoiceID) (crypto_invoices d) of
        None \<Rightarrow> Inl NoRows | Some x \<Rightarrow> Inr (x, d))"

definition MarkInvoicePaidTx :: "time \<Rightarrow> string \<Rightarrow> 'w crypto_db \<Rightarrow> bool \<times> 'w crypto_db" where
  "MarkInvoicePaidTx now orderID d =
     (case tget (crypto_invoices d) orderID of
        Some r \<Rightarrow> if ci_status r = InvPaid then (False, d)
          else (True, d\<lparr>crypto_invoices := tupd orderID (\<lambda>r. r\<lparr>ci_status := InvPaid, ci_paid_at := Some now\<rparr>)
                          (crypto_invoices d)\<rparr>)
      | None \<Rightarrow> (False, d))"

text \<open>\<open>provider\<close> is constant, so the fingerprint is the key.\<close>

definition RecordWebhookFingerprintTx ::
    "string \<Rightarrow> string \<Rightarrow> string \<Rightarrow> 'w crypto_db \<Rightarrow> bool \<times> 'w crypto_db" where
  "RecordWebhookFingerprintTx updateType invoiceID fp d =
     (tget (crypto_webhooks d) fp = None,
      d\<lparr>crypto_webhooks := tins fp (updateType, invoiceID) (crypto_webhooks d)\<rparr>)"

text \<open>\<open>locked\<close> are the rows other transactions hold (SKIP LOCKED).\<close>

definition LockStuckCreatingInvoicesTx ::
    "(string \<Rightarrow> bool) \<Rightarrow> time \<Rightarrow> int \<Rightarrow> 'w crypto_db \<Rightarrow> (string \<times> CryptoInvoice) list" where
  "LockStuckCreatingInvoicesTx locked cutoff limit d =
     take (nat (if limit \<le> 0 then 50 else limit))
       (filter (\<lambda>(i, r). ci_status r = InvCreating \<and> ci_created_at r < cutoff \<and> \<not> locked i) (crypto_invoices d))"

section \<open>The provider\<close>

record createInvoiceRequest =
  iq_fiat :: "(string \<times> string) option"
  iq_asset :: string
  iq_amount :: string
  iq_description :: string
  iq_payload :: string
  iq_expires_in :: int

record CryptoBotInvoice =
  cbi_invoice_id :: int
  cbi_bot_url :: string
  cbi_mini_app_url :: string
  cbi_web_app_url :: string
  cbi_pay_url :: string

text \<open>\<open>apiResponse\<close>: the flag, and what \<open>result\<close> decodes to.\<close>

record api_response =
  ar_ok :: bool
  ar_invoice :: "CryptoBotInvoice option"

text \<open>Inl is a failure of the transport; None is a body that is not an \<open>apiResponse\<close>.\<close>

record 'w crypto_env =
  ce_http :: "createInvoiceRequest \<Rightarrow> 'w \<Rightarrow> (string + api_response option) \<times> 'w"
  ce_out :: "nat \<Rightarrow> outage"
  ce_now :: time
  ce_uuid :: string

definition post_invoice ::
    "'w crypto_env \<Rightarrow> createInvoiceRequest \<Rightarrow> 'w crypto_db \<Rightarrow> (string + CryptoBotInvoice) \<times> 'w crypto_db" where
  "post_invoice env q d = (case ce_http env q (cryptobot d) of (a, w) \<Rightarrow>
     (case a of
        Inl e \<Rightarrow> Inl e
      | Inr None \<Rightarrow> Inl ''cryptobot createInvoice decode''
      | Inr (Some p) \<Rightarrow> if \<not> ar_ok p then Inl ''cryptobot createInvoice failed''
          else (case ar_invoice p of None \<Rightarrow> Inl ''cryptobot decode invoice'' | Some ivc \<Rightarrow> Inr ivc),
      d\<lparr>cryptobot := w\<rparr>))"

text \<open>\<open>int(expiresIn.Seconds())\<close>\<close>

definition CreateInvoice ::
    "'w crypto_env \<Rightarrow> string \<Rightarrow> string \<Rightarrow> string \<Rightarrow> string \<Rightarrow> duration \<Rightarrow> 'w crypto_db
      \<Rightarrow> (string + CryptoBotInvoice) \<times> 'w crypto_db" where
  "CreateInvoice env asset amount description payload expiresIn =
     post_invoice env \<lparr>iq_fiat = None, iq_asset = asset, iq_amount = amount, iq_description = description,
       iq_payload = payload, iq_expires_in = expiresIn div secs 1\<rparr>"

definition CreateInvoiceFiat ::
    "'w crypto_env \<Rightarrow> string \<Rightarrow> string \<Rightarrow> string \<Rightarrow> string \<Rightarrow> string \<Rightarrow> duration \<Rightarrow> 'w crypto_db
      \<Rightarrow> (string + CryptoBotInvoice) \<times> 'w crypto_db" where
  "CreateInvoiceFiat env fiat amount acceptedAssets description payload expiresIn =
     post_invoice env \<lparr>iq_fiat = Some (fiat, acceptedAssets), iq_asset = [], iq_amount = amount,
       iq_description = description, iq_payload = payload, iq_expires_in = expiresIn div secs 1\<rparr>"

definition PickPayURL :: "CryptoBotInvoice \<Rightarrow> string" where
  "PickPayURL ivc = (if cbi_bot_url ivc \<noteq> [] then cbi_bot_url ivc
     else if cbi_mini_app_url ivc \<noteq> [] then cbi_mini_app_url ivc
     else if cbi_web_app_url ivc \<noteq> [] then cbi_web_app_url ivc else cbi_pay_url ivc)"

text \<open>
  \<open>VerifyWebhookSignature\<close>; \<open>sha256\<close>, the keyed \<open>hmac\<close> (key, message) and \<open>hex\<close> decoding are the
  standard library's.
\<close>

record crypto_lib =
  cl_sha256 :: "string \<Rightarrow> string"
  cl_hmac :: "string \<Rightarrow> string \<Rightarrow> string"
  cl_unhex :: "string \<Rightarrow> string option"
  cl_hex :: "string \<Rightarrow> string"

definition VerifyWebhookSignature :: "crypto_lib \<Rightarrow> string \<Rightarrow> string \<Rightarrow> string \<Rightarrow> bool" where
  "VerifyWebhookSignature cl apiToken signatureHex rawBody =
     (case cl_unhex cl signatureHex of None \<Rightarrow> False
      | Some got \<Rightarrow> cl_hmac cl (cl_sha256 cl apiToken) rawBody = got)"

section \<open>The outbox\<close>

definition crypto_notification :: "int \<Rightarrow> tg_text \<Rightarrow> bool \<Rightarrow> tg_keyboard \<Rightarrow> tg_notification" where
  "crypto_notification tid txt markdown kb = \<lparr>ntf_telegram_id = tid, ntf_message = txt, ntf_markdown = markdown,
     ntf_keyboard = kb, ntf_pay_url = []\<rparr>"

definition cryptoNotifyTx :: "time \<Rightarrow> tg_notification \<Rightarrow> 'w crypto_db \<Rightarrow> 'w crypto_db" where
  "cryptoNotifyTx now n d =
     (if ntf_telegram_id n = 0 then d
      else AddTx now
        \<lparr>oe_aggregate_type = ''telegram'', oe_aggregate_id = show_int (ntf_telegram_id n),
         oe_topic = TopicTgNotifications, oe_message_key = show_int (ntf_telegram_id n),
         oe_event_type = ''tg.notification'', oe_payload = PNotification n\<rparr> d)"

definition cryptoPublishTx :: "time \<Rightarrow> billing_event \<Rightarrow> 'w crypto_db \<Rightarrow> 'w crypto_db" where
  "cryptoPublishTx now e d = AddTx now
     \<lparr>oe_aggregate_type = ''billing'', oe_aggregate_id = show_int (be_telegram_id e),
      oe_topic = TopicBillingEvents, oe_message_key = show_int (be_telegram_id e),
      oe_event_type = billing_event_type e, oe_payload = PBillingEvent e\<rparr> d"

section \<open>Creating an invoice\<close>

definition new_invoice :: "crypto_command \<Rightarrow> 'f crypto_plan \<Rightarrow> invoice_pricing \<Rightarrow> time \<Rightarrow> time \<Rightarrow> CryptoInvoice" where
  "new_invoice cmd plan price now expiresAt = \<lparr>ci_command_id = cr_command_id cmd, ci_telegram_id = cr_telegram_id cmd,
     ci_plan_code = cr_plan_code cmd, ci_duration_days = cp_duration_days plan, ci_asset = ip_db_asset price,
     ci_amount = ip_db_amount price, ci_description = cp_title plan, ci_invoice_id = [], ci_pay_url = [],
     ci_status = InvCreating, ci_expires_at = Some expiresAt, ci_created_at = now, ci_paid_at = None\<rparr>"

text \<open>The first transaction; its value is whether the command is new.\<close>

definition reserve_body ::
    "time \<Rightarrow> string \<Rightarrow> string \<Rightarrow> CryptoInvoice \<Rightarrow> 'w crypto_db \<Rightarrow> tx_error + (bool \<times> 'w crypto_db)" where
  "reserve_body now commandID orderID ivc d =
     (case MarkProcessed now ''crypto-billing-service'' commandID ''crypto.create_checkout'' d of
        Inl e \<Rightarrow> Inl (Refused e)
      | Inr (inserted, d1) \<Rightarrow>
          if \<not> inserted then Inr (False, d1)
          else andthen (InsertInvoiceTx orderID ivc d1) (\<lambda>_ d2. Inr (True, d2)))"

definition request_invoice ::
    "'f crypto_config \<Rightarrow> 'w crypto_env \<Rightarrow> invoice_pricing \<Rightarrow> 'f crypto_plan \<Rightarrow> string \<Rightarrow> 'w crypto_db
      \<Rightarrow> (string + CryptoBotInvoice) \<times> 'w crypto_db" where
  "request_invoice cfg env price plan orderID d =
     (if ip_is_fiat price
      then CreateInvoiceFiat env (ip_fiat_currency price) (ip_fiat_amount price) (AcceptedAssetsCSV cfg)
             (cp_title plan) orderID (cc_invoice_expires cfg) d
      else CreateInvoice env (ip_db_asset price) (ip_db_amount price) (cp_title plan) orderID
             (cc_invoice_expires cfg) d)"

lemma request_invoice_state: "\<exists>y w. request_invoice cfg env price plan orderID d = (y, d\<lparr>cryptobot := w\<rparr>)"
  by (auto simp: request_invoice_def CreateInvoiceFiat_def CreateInvoice_def post_invoice_def split: prod.split)

text \<open>The second transaction, for an invoice the provider created and for one it did not.\<close>

definition activate_body ::
    "time \<Rightarrow> string \<Rightarrow> CryptoBotInvoice \<Rightarrow> tg_notification \<Rightarrow> 'w crypto_db \<Rightarrow> tx_error + (unit \<times> 'w crypto_db)" where
  "activate_body now orderID ivc n d =
     andthen (MarkInvoiceActiveTx orderID (show_int (cbi_invoice_id ivc)) (PickPayURL ivc) d) (\<lambda>_ d1.
       Inr ((), cryptoNotifyTx now n d1))"

definition failed_body :: "time \<Rightarrow> string \<Rightarrow> tg_notification \<Rightarrow> 'w crypto_db \<Rightarrow> tx_error + (unit \<times> 'w crypto_db)" where
  "failed_body now orderID n d = Inr ((), cryptoNotifyTx now n (MarkInvoiceFailedTx orderID d))"

text \<open>
  What follows the first transaction. Where the failure of the invoice cannot even open a transaction, the
  code returns the provider's error instead of the database's; for the consumer both are an error to retry.
\<close>

definition finish_checkout ::
    "'f crypto_config \<Rightarrow> 'w crypto_env \<Rightarrow> invoice_pricing \<Rightarrow> 'f crypto_plan \<Rightarrow> int \<Rightarrow> string \<Rightarrow> 'w crypto_db
      \<Rightarrow> (bill_error + unit) \<times> 'w crypto_db" where
  "finish_checkout cfg env price plan tid orderID d =
     (case request_invoice cfg env price plan orderID d of
        (Inl e, d1) \<Rightarrow> commit (ce_out env 1)
          (failed_body (ce_now env) orderID (crypto_notification tid TxtCryptoFailed False KbBuyMenu)) d1
      | (Inr ivc, d1) \<Rightarrow> commit (ce_out env 1)
          (activate_body (ce_now env) orderID ivc (crypto_notification tid
             (TxtCryptoPayLink (cp_title plan) (ip_db_amount price) (ip_db_asset price) (PickPayURL ivc)
                (ce_now env + cc_invoice_expires cfg))
             True KbMainMenuWithBack)) d1)"

definition HandleCreateCheckout ::
    "'f float_lib \<Rightarrow> 'f crypto_config \<Rightarrow> 'f rates_cache option \<Rightarrow> 'w crypto_env \<Rightarrow> crypto_command option
      \<Rightarrow> 'w crypto_db \<Rightarrow> (bill_error + unit) \<times> 'w crypto_db" where
  "HandleCreateCheckout fl cfg rates env cmd d = (case cmd of
     None \<Rightarrow> (Inl (BillFailed ''nil create crypto checkout command''), d)
   | Some cmd \<Rightarrow> (case tget (cc_plans cfg) (cr_plan_code cmd) of
       None \<Rightarrow> (Inl (BillFailed ''unsupported plan code''), d)
     | Some plan \<Rightarrow> (case resolvePricing fl cfg rates (ce_now env) plan (cr_asset cmd) of
         None \<Rightarrow> (Inl (BillFailed ''no price available''), d)
       | Some price \<Rightarrow>
          let orderID = ''crypto-'' @ ce_uuid env; now = ce_now env
          in proceed (commit (ce_out env 0) (reserve_body now (cr_command_id cmd) orderID
                (new_invoice cmd plan price now (now + cc_invoice_expires cfg))) d) (\<lambda>inserted d1.
             if \<not> inserted then (Inr (), d1)
             else finish_checkout cfg env price plan (cr_telegram_id cmd) orderID d1))))"

section \<open>The webhook\<close>

text \<open>The fields of \<open>CryptoBotInvoicePayload\<close> the service reads.\<close>

record invoice_payload =
  wp_invoice_id :: int
  wp_status :: string
  wp_asset :: string
  wp_amount :: string
  wp_currency_type :: string
  wp_fiat :: string
  wp_paid_asset :: string

text \<open>\<open>CryptoBotWebhookUpdate\<close>: \<open>wu_payload\<close> is what the payload decodes to.\<close>

record webhook_update =
  wu_update_type :: string
  wu_request_date :: string
  wu_payload :: "invoice_payload option"

definition amountsEqual :: "'f float_lib \<Rightarrow> string \<Rightarrow> string \<Rightarrow> bool" where
  "amountsEqual fl a b = (case (fl_parse fl (trim_space a), fl_parse fl (trim_space b)) of
     (Some fa, Some fb) \<Rightarrow>
       let diff = fl_sub fl fa fb;
           diff' = (if fl_less fl diff (fl_dec fl 0 0) then fl_sub fl (fl_dec fl 0 0) diff else diff)
       in fl_less fl diff' (fl_dec fl 1 6)
   | _ \<Rightarrow> trim_space a = trim_space b)"

text \<open>\<open>strings.EqualFold\<close> on ASCII.\<close>

definition equal_fold :: "string \<Rightarrow> string \<Rightarrow> bool" where
  "equal_fold a b \<longleftrightarrow> map to_lower a = map to_lower b"

definition is_fiat_payload :: "invoice_payload \<Rightarrow> bool" where
  "is_fiat_payload p \<longleftrightarrow> equal_fold (wp_currency_type p) ''fiat'' \<or> wp_fiat p \<noteq> [] \<or> wp_paid_asset p \<noteq> []"

definition payload_matches :: "'f float_lib \<Rightarrow> invoice_payload \<Rightarrow> CryptoInvoice \<Rightarrow> bool" where
  "payload_matches fl p ivc \<longleftrightarrow>
     (wp_status p = [] \<or> wp_status p = ''paid'')
   \<and> (is_fiat_payload p
      \<or> ((wp_asset p = [] \<or> equal_fold (wp_asset p) (ci_asset ivc))
         \<and> (wp_amount p = [] \<or> amountsEqual fl (wp_amount p) (ci_amount ivc))))"

definition crypto_paid_event :: "time \<Rightarrow> string \<Rightarrow> string \<Rightarrow> CryptoInvoice \<Rightarrow> billing_event" where
  "crypto_paid_event paidAt invoiceID orderID ivc =
     BillingPaymentSucceededEvent BillingCheckoutTypeSubscription BillingChargeSourceInitial (ci_telegram_id ivc)
       orderID (''crypto:'' @ invoiceID) (ci_plan_code ivc) (ci_duration_days ivc) (ci_amount ivc) (ci_asset ivc)
       [] 0 False paidAt ''cryptobot''"

text \<open>
  The one transaction of the webhook; its value is whether the webhook is new. A webhook that does not
  match, or whose invoice is paid already, commits its fingerprint and nothing else.
\<close>

definition webhook_body ::
    "'f float_lib \<Rightarrow> time \<Rightarrow> string \<Rightarrow> string \<Rightarrow> invoice_payload \<Rightarrow> 'w crypto_db \<Rightarrow> tx_error + (bool \<times> 'w crypto_db)" where
  "webhook_body fl now updateType fp p d =
     (let i = show_int (wp_invoice_id p) in
      case RecordWebhookFingerprintTx updateType i fp d of (inserted, d1) \<Rightarrow>
        if \<not> inserted then Inr (False, d1)
        else andthen (GetInvoiceByInvoiceIDTx i d1) (\<lambda>(orderID, ivc) d2.
          if \<not> payload_matches fl p ivc then Inr (True, d2)
          else case MarkInvoicePaidTx now orderID d2 of (updated, d3) \<Rightarrow>
            if \<not> updated then Inr (True, d3)
            else Inr (True, cryptoNotifyTx now
              (crypto_notification (ci_telegram_id ivc) (TxtCryptoPaid (ci_amount ivc) (ci_asset ivc)) False KbMainMenuWithBack)
              (cryptoPublishTx now (crypto_paid_event now i orderID ivc) d3))))"

text \<open>
  What the transaction's end means: the only statement that finds no row is the SELECT of the invoice.
\<close>

definition webhook_outcome :: "(bill_error + bool) \<times> 's \<Rightarrow> (bill_error + unit) \<times> 's" where
  "webhook_outcome r = (case r of
     (Inl (BillDb NoRows), d) \<Rightarrow> (Inl InvoiceNotFound, d)
   | (Inl e, d) \<Rightarrow> (Inl e, d)
   | (Inr inserted, d) \<Rightarrow> (if inserted then Inr () else Inl DuplicateWebhook, d))"

lemma snd_webhook_outcome [simp]: "snd (webhook_outcome r) = snd r"
  by (cases r) (simp add: webhook_outcome_def split: sum.split bill_error.split tx_error.split)

text \<open>\<open>unmarshal\<close> decodes the body, \<open>parseTime\<close> is \<open>time.Parse(time.RFC3339, _)\<close>.\<close>

definition CryptoProcessWebhook ::
    "'f float_lib \<Rightarrow> (string \<Rightarrow> webhook_update option) \<Rightarrow> (string \<Rightarrow> time option) \<Rightarrow> outage \<Rightarrow> time \<Rightarrow> string \<Rightarrow> string
      \<Rightarrow> 'w crypto_db \<Rightarrow> (bill_error + unit) \<times> 'w crypto_db" where
  "CryptoProcessWebhook fl unmarshal parseTime out now raw fp d = (case unmarshal raw of
     None \<Rightarrow> (Inl (BillFailed ''decode webhook''), d)
   | Some u \<Rightarrow>
      if wu_request_date u \<noteq> [] \<and> (case parseTime (wu_request_date u) of None \<Rightarrow> False
           | Some t \<Rightarrow> now - t > minutes 15 \<or> now - t < - minutes 15) then (Inr (), d)
      else if wu_update_type u \<noteq> ''invoice_paid'' then (Inr (), d)
      else (case wu_payload u of
        None \<Rightarrow> (Inl (BillFailed ''decode invoice payload''), d)
      | Some p \<Rightarrow>
          if wp_invoice_id p = 0 then (Inl (BillFailed ''empty invoice_id in webhook''), d)
          else webhook_outcome (commit out (webhook_body fl now (wu_update_type u) fp p) d)))"

text \<open>The answer's status code.\<close>

definition webhook_status :: "(bill_error + unit) \<times> 's \<Rightarrow> int \<times> 's" where
  "webhook_status r = (case r of
     (Inr _, d) \<Rightarrow> (200, d)
   | (Inl DuplicateWebhook, d) \<Rightarrow> (200, d)
   | (Inl InvoiceNotFound, d) \<Rightarrow> (422, d)
   | (Inl _, d) \<Rightarrow> (500, d))"

lemma snd_webhook_status [simp]: "snd (webhook_status r) = snd r"
  by (cases r) (simp add: webhook_status_def split: sum.split bill_error.split)

record crypto_request =
  cq_method :: string
  cq_path :: string
  cq_signature :: string
  cq_body :: "string option"

definition handleCryptoBotWebhook ::
    "'f float_lib \<Rightarrow> crypto_lib \<Rightarrow> 'f crypto_config \<Rightarrow> (string \<Rightarrow> webhook_update option) \<Rightarrow> (string \<Rightarrow> time option)
      \<Rightarrow> outage \<Rightarrow> time \<Rightarrow> crypto_request \<Rightarrow> 'w crypto_db \<Rightarrow> int \<times> 'w crypto_db" where
  "handleCryptoBotWebhook fl cl cfg unmarshal parseTime out now q d =
     (if cq_method q \<noteq> ''POST'' then (405, d)
      else if trim_slash (strip_prefix ''/webhooks/cryptobot/'' (cq_path q)) \<noteq> cc_webhook_token cfg then (404, d)
      else (case cq_body q of
        None \<Rightarrow> (400, d)
      | Some raw \<Rightarrow>
          if cq_signature q = [] then (400, d)
          else if \<not> VerifyWebhookSignature cl (cc_api_token cfg) (cq_signature q) raw then (401, d)
          else webhook_status (CryptoProcessWebhook fl unmarshal parseTime out now raw (cl_hex cl (cl_sha256 cl raw)) d)))"

section \<open>Stuck invoices\<close>

fun fail_stuck :: "time \<Rightarrow> (string \<times> CryptoInvoice) list \<Rightarrow> 'w crypto_db \<Rightarrow> 'w crypto_db" where
  "fail_stuck now [] d = d"
| "fail_stuck now ((orderID, ivc) # invs) d = fail_stuck now invs (cryptoNotifyTx now
     (crypto_notification (ci_telegram_id ivc) TxtCryptoStuck False KbBuyMenu) (MarkInvoiceFailedTx orderID d))"

definition ProcessStuckCreatingInvoices ::
    "outage \<Rightarrow> (string \<Rightarrow> bool) \<Rightarrow> time \<Rightarrow> duration \<Rightarrow> int \<Rightarrow> 'w crypto_db \<Rightarrow> (bill_error + unit) \<times> 'w crypto_db" where
  "ProcessStuckCreatingInvoices out locked now threshold limit d =
     commit out (\<lambda>d. Inr ((), fail_stuck now (LockStuckCreatingInvoicesTx locked (now - threshold) limit d) d)) d"

section \<open>The consumer\<close>

definition decode_crypto_command :: "json_obj \<Rightarrow> crypto_command option" where
  "decode_crypto_command ob =
     need (fld_str ob ''command_id'') (\<lambda>i. need (fld_int ob ''telegram_id'') (\<lambda>tid.
     need (fld_str ob ''plan_code'') (\<lambda>pc. need (fld_str ob ''asset'') (\<lambda>asset.
       Some (CreateCryptoCheckoutCommand i tid pc asset)))))"

definition crypto_command_handler ::
    "'f float_lib \<Rightarrow> 'f crypto_config \<Rightarrow> 'f rates_cache option \<Rightarrow> 'w crypto_env \<Rightarrow> json_obj option kmsg
      \<Rightarrow> 'w crypto_db \<Rightarrow> handler_result \<times> 'w crypto_db" where
  "crypto_command_handler fl cfg rates env m d = (case km_value m of
     None \<Rightarrow> (HSkip, d)
   | Some ob \<Rightarrow> (case (fld_str ob ''type'', fld_str ob ''command_id'') of
       (Some t, Some _) \<Rightarrow>
         if t \<noteq> ''crypto.create_checkout'' then (HOk, d)
         else (case decode_crypto_command ob of
             None \<Rightarrow> (HSkip, d)
           | Some c \<Rightarrow> bill_result (HandleCreateCheckout fl cfg rates env (Some c) d))
     | _ \<Rightarrow> (HSkip, d)))"

end
