(* ===== verification/CryptoSystem.thy ===== *)
theory CryptoSystem
  imports CryptoService BillProperties
begin

text \<open>
  The crypto billing service in all its runs. Between its two transactions \<open>HandleCreateCheckout\<close> is on
  its own: other commands, webhooks and the worker may come in between, and the service may die there.
  A state is therefore the database and the set of order ids whose handler is between the two, and the
  steps are the transactions.
\<close>

section \<open>Steps\<close>

text \<open>A payload that announces a crypto payment, and the id of its invoice.\<close>

definition announces :: "string \<Rightarrow> payload \<Rightarrow> bool" where
  "announces i pl = (case pl of
     PBillingEvent (BillingPaymentSucceededEvent ct src tid oi pid pc n am cu mi an ar at pr) \<Rightarrow> pid = ''crypto:'' @ i
   | _ \<Rightarrow> False)"

text \<open>
  Elsewhere: the tables of this service are left alone; rows of the outbox are marked, removed or, when
  they announce no crypto payment, added.
\<close>

definition crypto_elsewhere :: "'w crypto_db \<Rightarrow> 'w crypto_db \<Rightarrow> bool" where
  "crypto_elsewhere d d' \<longleftrightarrow> crypto_invoices d' = crypto_invoices d \<and> crypto_webhooks d' = crypto_webhooks d
     \<and> (\<forall>i. mset (filter (announces i) (published d')) \<subseteq># mset (filter (announces i) (published d)))"

inductive crypto_step ::
    "'f float_lib \<Rightarrow> 'w crypto_db \<times> string set \<Rightarrow> 'w crypto_db \<times> string set \<Rightarrow> bool" for fl where
  CrReserve: "commit out (reserve_body now cid orderID ivc) d = (x, d') \<Longrightarrow>
    tget (crypto_invoices d) orderID = None \<Longrightarrow> ci_status ivc = InvCreating \<Longrightarrow>
    crypto_step fl (d, fly) (d'\<lparr>cryptobot := w\<rparr>, if x = Inr True then insert orderID fly else fly)"
| CrActivate: "orderID \<in> fly \<Longrightarrow>
    crypto_step fl (d, fly) (snd (commit out (activate_body now orderID cbi n) d), fly - {orderID})"
| CrFail: "orderID \<in> fly \<Longrightarrow>
    crypto_step fl (d, fly) (snd (commit out (failed_body now orderID n) d), fly - {orderID})"
| CrCrash: "crypto_step fl (d, fly) (d, fly - dead)"
| CrWebhook: "crypto_step fl (d, fly) (snd (handleCryptoBotWebhook fl cl cfg unmarshal parseTime out now q d), fly)"
| CrStuck: "crypto_step fl (d, fly) (snd (ProcessStuckCreatingInvoices out locked now threshold limit d), fly)"
| CrElsewhere: "crypto_elsewhere d d' \<Longrightarrow> crypto_step fl (d, fly) (d', fly)"

abbreviation crypto_steps where
  "crypto_steps fl \<equiv> (crypto_step fl)\<^sup>*\<^sup>*"

section \<open>The invariant\<close>

definition invoice_ok :: "CryptoInvoice \<Rightarrow> bool" where
  "invoice_ok r \<longleftrightarrow> (ci_status r = InvCreating \<longrightarrow> ci_invoice_id r = [])
     \<and> (ci_status r = InvActive \<or> ci_status r = InvPaid \<longrightarrow> ci_invoice_id r \<noteq> [])"

text \<open>What may be announced: a paid invoice, as it was ordered.\<close>

definition announced_ok :: "'w crypto_db \<Rightarrow> payload \<Rightarrow> bool" where
  "announced_ok d pl = (\<forall>ct src tid oi i pc n am cu mi an ar at pr.
     pl = PBillingEvent (BillingPaymentSucceededEvent ct src tid oi (''crypto:'' @ i) pc n am cu mi an ar at pr) \<longrightarrow>
       (\<exists>r. tget (crypto_invoices d) oi = Some r \<and> ci_status r = InvPaid \<and> ci_invoice_id r = i
          \<and> ci_telegram_id r = tid \<and> ci_plan_code r = pc \<and> ci_duration_days r = n))"

definition crypto_inv :: "'w crypto_db \<times> string set \<Rightarrow> bool" where
  "crypto_inv s \<longleftrightarrow> (case s of (d, fly) \<Rightarrow>
     twf (crypto_invoices d)
   \<and> (\<forall>i r. tget (crypto_invoices d) i = Some r \<longrightarrow> invoice_ok r)
   \<and> (\<forall>i j r s. tget (crypto_invoices d) i = Some r \<longrightarrow> tget (crypto_invoices d) j = Some s \<longrightarrow>
        ci_invoice_id r = ci_invoice_id s \<longrightarrow> ci_invoice_id r = [] \<or> i = j)
   \<and> (\<forall>i j r s. tget (crypto_invoices d) i = Some r \<longrightarrow> tget (crypto_invoices d) j = Some s \<longrightarrow>
        ci_command_id r = ci_command_id s \<longrightarrow> ci_command_id r = [] \<or> i = j)
   \<and> (\<forall>i \<in> fly. \<exists>r. tget (crypto_invoices d) i = Some r \<and> ci_invoice_id r = [])
   \<and> (\<forall>i. length (filter (announces i) (published d)) \<le> 1)
   \<and> (\<forall>pl \<in> set (published d). announced_ok d pl))"

lemma crypto_invD:
  assumes "crypto_inv (d, fly)"
  shows "twf (crypto_invoices d)"
    and "tget (crypto_invoices d) i = Some r \<Longrightarrow> invoice_ok r"
    and "tget (crypto_invoices d) i = Some r \<Longrightarrow> tget (crypto_invoices d) j = Some s \<Longrightarrow>
      ci_invoice_id r = ci_invoice_id s \<Longrightarrow> ci_invoice_id r = [] \<or> i = j"
    and "tget (crypto_invoices d) i = Some r \<Longrightarrow> tget (crypto_invoices d) j = Some s \<Longrightarrow>
      ci_command_id r = ci_command_id s \<Longrightarrow> ci_command_id r = [] \<or> i = j"
    and "i \<in> fly \<Longrightarrow> \<exists>r. tget (crypto_invoices d) i = Some r \<and> ci_invoice_id r = []"
    and "length (filter (announces k) (published d)) \<le> 1"
    and "pl \<in> set (published d) \<Longrightarrow> announced_ok d pl"
  using assms unfolding crypto_inv_def by blast+

text \<open>One invoice that is not paid is written.\<close>

lemma crypto_inv_update:
  assumes inv: "crypto_inv (d, fly)" and row: "tget (crypto_invoices d) k = Some r" "ci_status r \<noteq> InvPaid"
    and ok: "invoice_ok (f r)" and cmd: "ci_command_id (f r) = ci_command_id r"
    and id: "ci_invoice_id (f r) = [] \<or> ci_invoice_id (f r) = ci_invoice_id r
      \<or> (\<forall>i s. tget (crypto_invoices d) i = Some s \<longrightarrow> i \<noteq> k \<longrightarrow> ci_invoice_id s \<noteq> ci_invoice_id (f r))"
    and fly: "fly' \<subseteq> fly" "k \<in> fly' \<Longrightarrow> ci_invoice_id (f r) = []"
    and d': "crypto_invoices d' = tupd k f (crypto_invoices d)"
    and one: "\<And>i. length (filter (announces i) (published d')) \<le> 1"
    and new: "\<And>pl. pl \<in> set (published d') \<Longrightarrow> pl \<in> set (published d) \<or> announced_ok d' pl"
  shows "crypto_inv (d', fly')"
proof -
  have get: "tget (crypto_invoices d') i = (if i = k then Some (f r) else tget (crypto_invoices d) i)" for i
    using row(1) by (simp add: d' tget_tupd)
  have old: "announced_ok d' pl" if "announced_ok d pl" for pl
    using that row unfolding announced_ok_def get by (metis option.inject)
  have "\<forall>i r s. tget (crypto_invoices d') i = Some r \<longrightarrow> invoice_ok r"
    using crypto_invD(2) [OF inv] ok by (simp add: get)
  moreover have "\<forall>i j r s. tget (crypto_invoices d') i = Some r \<longrightarrow> tget (crypto_invoices d') j = Some s \<longrightarrow>
      ci_invoice_id r = ci_invoice_id s \<longrightarrow> ci_invoice_id r = [] \<or> i = j"
    using crypto_invD(3) [OF inv] id row(1) unfolding get by (smt (verit) option.inject)
  moreover have "\<forall>i j r s. tget (crypto_invoices d') i = Some r \<longrightarrow> tget (crypto_invoices d') j = Some s \<longrightarrow>
      ci_command_id r = ci_command_id s \<longrightarrow> ci_command_id r = [] \<or> i = j"
    using crypto_invD(4) [OF inv] cmd row(1) unfolding get by (smt (verit) option.inject)
  moreover have "\<forall>i \<in> fly'. \<exists>r. tget (crypto_invoices d') i = Some r \<and> ci_invoice_id r = []"
    using crypto_invD(5) [OF inv] fly unfolding get by auto
  moreover have "\<forall>pl \<in> set (published d'). announced_ok d' pl"
    using crypto_invD(7) [OF inv] new old by blast
  ultimately show ?thesis
    using crypto_invD(1) [OF inv] one unfolding crypto_inv_def by (simp add: d')
qed

lemma published_crypto [simp]:
  "published (cryptoNotifyTx now n d) = published d @ (if ntf_telegram_id n = 0 then [] else [PNotification n])"
  "published (cryptoPublishTx now e d) = published d @ [PBillingEvent e]"
  "published (d\<lparr>crypto_invoices := t\<rparr>) = published d"
  "published (d\<lparr>crypto_webhooks := h\<rparr>) = published d"
  "published (d\<lparr>cryptobot := w\<rparr>) = published d"
  by (simp_all add: published_def cryptoNotifyTx_def cryptoPublishTx_def AddTx_def new_row_def)

lemma invoices_frames [simp]:
  "crypto_invoices (cryptoNotifyTx now n d) = crypto_invoices d"
  "crypto_invoices (cryptoPublishTx now e d) = crypto_invoices d"
  by (simp_all add: cryptoNotifyTx_def cryptoPublishTx_def AddTx_def)

lemma announces_notification [simp]: "\<not> announces i (PNotification n)" "announced_ok d (PNotification n)"
  by (simp_all add: announces_def announced_ok_def)

text \<open>A change that leaves the invoices and the announcements alone.\<close>

lemma crypto_inv_frame:
  assumes inv: "crypto_inv (d, fly)" and "crypto_invoices d' = crypto_invoices d" and "fly' \<subseteq> fly"
    and sub: "\<And>i. mset (filter (announces i) (published d')) \<subseteq># mset (filter (announces i) (published d))"
  shows "crypto_inv (d', fly')"
proof -
  have "length (filter (announces i) (published d')) \<le> 1" for i
    using size_mset_mono [OF sub [of i]] crypto_invD(6) [OF inv, of i] unfolding size_mset by linarith
  moreover have "announced_ok d' pl" if "pl \<in> set (published d')" for pl
  proof (cases "\<exists>i. announces i pl")
    case True
    then obtain i where "announces i pl" ..
    then have "pl \<in># mset (filter (announces i) (published d'))" using that by simp
    then have "pl \<in> set (published d)" using mset_subset_eqD [OF sub] by fastforce
    then show ?thesis
      using crypto_invD(7) [OF inv] assms(2) by (simp add: announced_ok_def)
  next
    case False
    then show ?thesis by (auto simp: announced_ok_def announces_def)
  qed
  ultimately show ?thesis
    using inv assms(2,3) unfolding crypto_inv_def by auto
qed

section \<open>The steps keep it\<close>

lemma tget_updE:
  assumes "tget t k = None" shows "tupd k f t = t"
  using assms by (auto simp: tupd_def tget_def map_of_eq_None_iff intro!: map_idI split: prod.splits) force

lemma keep_MarkFailed:
  assumes inv: "crypto_inv (d, fly)"
    and free: "\<And>r. tget (crypto_invoices d) k = Some r \<Longrightarrow> ci_invoice_id r = []"
    and fly: "fly' \<subseteq> fly"
  shows "crypto_inv (cryptoNotifyTx now n (MarkInvoiceFailedTx k d), fly')"
proof (cases "tget (crypto_invoices d) k")
  case None
  then show ?thesis
    by (intro crypto_inv_frame [OF inv _ fly]) (simp_all add: MarkInvoiceFailedTx_def tget_updE)
next
  case (Some r)
  then have id: "ci_invoice_id r = []" by (rule free)
  then have "ci_status r \<noteq> InvPaid" using crypto_invD(2) [OF inv Some] by (auto simp: invoice_ok_def)
  then show ?thesis
    by (rule crypto_inv_update [OF inv Some _ _ _ _ fly])
      (use id crypto_invD(6) [OF inv] in \<open>auto simp: MarkInvoiceFailedTx_def invoice_ok_def split: if_splits\<close>)
qed

lemma keep_activate:
  assumes inv: "crypto_inv (d, fly)" and "k \<in> fly" and "activate_body now k cbi n d = Inr (a, d')"
  shows "crypto_inv (d', fly - {k})"
proof -
  obtain r where r: "tget (crypto_invoices d) k = Some r" "ci_invoice_id r = []"
    using crypto_invD(5) [OF inv assms(2)] by blast
  then have p: "ci_status r \<noteq> InvPaid" using crypto_invD(2) [OF inv] by (auto simp: invoice_ok_def)
  let ?i = "show_int (cbi_invoice_id cbi)"
  have ne: "?i \<noteq> []" by (simp add: show_int_def)
  have free: "\<forall>i s. tget (crypto_invoices d) i = Some s \<longrightarrow> i \<noteq> k \<longrightarrow> ci_invoice_id s \<noteq> ?i"
    and d': "d' = cryptoNotifyTx now n (d\<lparr>crypto_invoices := tupd k (\<lambda>r. r\<lparr>ci_invoice_id := ?i,
        ci_pay_url := PickPayURL cbi, ci_status := InvActive\<rparr>) (crypto_invoices d)\<rparr>)"
    using assms(3) r ne crypto_invD(1) [OF inv]
    by (auto simp: activate_body_def MarkInvoiceActiveTx_def list_ex_iff tget_in_set split: if_splits)
  show ?thesis
    by (rule crypto_inv_update [OF inv r(1) p, where f = "\<lambda>r. r\<lparr>ci_invoice_id := ?i,
        ci_pay_url := PickPayURL cbi, ci_status := InvActive\<rparr>"])
      (use free ne crypto_invD(6) [OF inv] in \<open>auto simp: d' invoice_ok_def split: if_splits\<close>)
qed

lemma keep_reserve:
  assumes inv: "crypto_inv (d, fly)" and "reserve_body now cid k ivc d = Inr (b, d')"
    and "tget (crypto_invoices d) k = None" and "ci_status ivc = InvCreating" and "fly' \<subseteq> (if b then insert k fly else fly)"
  shows "crypto_inv (d', fly')"
proof (cases b)
  case False
  then have "crypto_invoices d' = crypto_invoices d" "published d' = published d"
    using assms(2) by (auto simp: reserve_body_def MarkProcessed_def published_def Let_def split: if_splits)
  then show ?thesis using False assms(5) by (intro crypto_inv_frame [OF inv]) simp_all
next
  case True
  let ?row = "ivc\<lparr>ci_status := InvCreating, ci_invoice_id := [], ci_pay_url := [], ci_paid_at := None\<rparr>"
  have inv': "crypto_invoices d' = tins k ?row (crypto_invoices d)" "published d' = published d"
    and cmd: "ci_command_id ivc = [] \<or> (\<forall>(_, r) \<in> set (crypto_invoices d). ci_command_id r \<noteq> ci_command_id ivc)"
    using assms(2,3) True
    by (auto simp: reserve_body_def MarkProcessed_def InsertInvoiceTx_def published_def list_ex_iff Let_def split: if_splits)
  have cmd: "ci_command_id ivc = [] \<or> (\<forall>i r. tget (crypto_invoices d) i = Some r \<longrightarrow> ci_command_id r \<noteq> ci_command_id ivc)"
    using cmd crypto_invD(1) [OF inv] by (auto simp: tget_in_set)
  have get: "tget (crypto_invoices d') i = (if i = k then Some ?row else tget (crypto_invoices d) i)" for i
    using assms(3) by (simp add: inv' tget_tins)
  have old: "announced_ok d' pl" if "announced_ok d pl" for pl
    using that assms(3) unfolding announced_ok_def get by (metis option.distinct(1))
  have "invoice_ok ?row" by (simp add: invoice_ok_def)
  then have "\<forall>i r. tget (crypto_invoices d') i = Some r \<longrightarrow> invoice_ok r"
    using crypto_invD(2) [OF inv] by (simp add: get)
  moreover have "\<forall>i j r s. tget (crypto_invoices d') i = Some r \<longrightarrow> tget (crypto_invoices d') j = Some s \<longrightarrow>
      ci_invoice_id r = ci_invoice_id s \<longrightarrow> ci_invoice_id r = [] \<or> i = j"
    using crypto_invD(3) [OF inv] unfolding get by auto
  moreover have "\<forall>i j r s. tget (crypto_invoices d') i = Some r \<longrightarrow> tget (crypto_invoices d') j = Some s \<longrightarrow>
      ci_command_id r = ci_command_id s \<longrightarrow> ci_command_id r = [] \<or> i = j"
    using crypto_invD(4) [OF inv] cmd unfolding get by (auto split: if_splits) metis+
  moreover have "\<forall>i \<in> fly'. \<exists>r. tget (crypto_invoices d') i = Some r \<and> ci_invoice_id r = []"
    using crypto_invD(5) [OF inv] assms(5) unfolding get by (auto split: if_splits)
  ultimately show ?thesis
    using crypto_invD(1,6,7) [OF inv] old unfolding crypto_inv_def by (auto simp: inv')
qed

lemma fail_stuck_keep:
  assumes "crypto_inv (d, fly)" and "\<forall>(k, _) \<in> set invs. \<forall>r. tget (crypto_invoices d) k = Some r \<longrightarrow> ci_invoice_id r = []"
  shows "crypto_inv (fail_stuck now invs d, fly)"
  using assms
proof (induction invs arbitrary: d)
  case (Cons x invs)
  obtain k v where x: "x = (k, v)" by (cases x)
  let ?d = "cryptoNotifyTx now (crypto_notification (ci_telegram_id v) TxtCryptoStuck False KbBuyMenu) (MarkInvoiceFailedTx k d)"
  have "crypto_inv (?d, fly)"
    by (rule keep_MarkFailed [OF Cons.prems(1)]) (use Cons.prems(2) x in auto)
  moreover have "\<forall>(j, _) \<in> set invs. \<forall>r. tget (crypto_invoices ?d) j = Some r \<longrightarrow> ci_invoice_id r = []"
    using Cons.prems(2) by (fastforce simp: x MarkInvoiceFailedTx_def tget_tupd split: if_splits)
  ultimately show ?case using Cons.IH by (simp add: x)
qed simp

text \<open>What a webhook about a matching unpaid invoice does.\<close>

definition pay_invoice :: "time \<Rightarrow> string \<Rightarrow> string \<Rightarrow> CryptoInvoice \<Rightarrow> 'w crypto_db \<Rightarrow> 'w crypto_db" where
  "pay_invoice now i k r d = cryptoNotifyTx now
     (crypto_notification (ci_telegram_id r) (TxtCryptoPaid (ci_amount r) (ci_asset r)) False KbMainMenuWithBack)
     (cryptoPublishTx now (crypto_paid_event now i k r)
       (d\<lparr>crypto_invoices := tupd k (\<lambda>r. r\<lparr>ci_status := InvPaid, ci_paid_at := Some now\<rparr>) (crypto_invoices d)\<rparr>))"

lemma find_invoice:
  assumes "List.find (\<lambda>(_, r). ci_invoice_id r = i) (crypto_invoices d) = Some (k, r)" and "twf (crypto_invoices d)"
  shows "tget (crypto_invoices d) k = Some r" "ci_invoice_id r = i"
proof -
  have "(k, r) \<in> set (crypto_invoices d)" and "ci_invoice_id r = i"
    using assms(1) by (auto simp: find_Some_iff in_set_conv_nth)
  then show "tget (crypto_invoices d) k = Some r" "ci_invoice_id r = i"
    using assms(2) by (simp_all add: tget_in_set)
qed

lemma webhook_body_result:
  assumes "twf (crypto_invoices d)"
  shows "webhook_body fl now ut fp p d =
    (let i = show_int (wp_invoice_id p); d1 = d\<lparr>crypto_webhooks := tins fp (ut, i) (crypto_webhooks d)\<rparr> in
     if tget (crypto_webhooks d) fp \<noteq> None then Inr (False, d1)
     else case List.find (\<lambda>(_, r). ci_invoice_id r = i) (crypto_invoices d) of
       None \<Rightarrow> Inl NoRows
     | Some (k, r) \<Rightarrow>
         Inr (True, if payload_matches fl p r \<and> ci_status r \<noteq> InvPaid then pay_invoice now i k r d1 else d1))"
proof (cases "List.find (\<lambda>(_, r). ci_invoice_id r = show_int (wp_invoice_id p)) (crypto_invoices d)")
  case None
  then show ?thesis
    by (simp add: webhook_body_def RecordWebhookFingerprintTx_def GetInvoiceByInvoiceIDTx_def Let_def)
next
  case (Some x)
  obtain k r where x: "x = (k, r)" by (cases x)
  let ?d1 = "d\<lparr>crypto_webhooks := tins fp (ut, show_int (wp_invoice_id p)) (crypto_webhooks d)\<rparr>"
  have "tget (crypto_invoices d) k = Some r" by (rule find_invoice(1) [OF Some [unfolded x] assms])
  then have paid: "MarkInvoicePaidTx now k ?d1 = (ci_status r \<noteq> InvPaid, if ci_status r = InvPaid then ?d1
      else ?d1\<lparr>crypto_invoices := tupd k (\<lambda>r. r\<lparr>ci_status := InvPaid, ci_paid_at := Some now\<rparr>) (crypto_invoices d)\<rparr>)"
    by (simp add: MarkInvoicePaidTx_def)
  have found: "GetInvoiceByInvoiceIDTx (show_int (wp_invoice_id p)) ?d1 = Inr ((k, r), ?d1)"
    by (simp add: GetInvoiceByInvoiceIDTx_def Some x)
  show ?thesis
    unfolding webhook_body_def RecordWebhookFingerprintTx_def Let_def prod.case found andthen_simps paid pay_invoice_def
      Some x option.case
    by (simp split: if_split)
qed

lemma webhook_body_cases:
  assumes "twf (crypto_invoices d)" and "webhook_body fl now ut fp p d = Inr (b, d')"
  obtains "d' = d\<lparr>crypto_webhooks := tins fp (ut, show_int (wp_invoice_id p)) (crypto_webhooks d)\<rparr>"
    | k r where "tget (crypto_invoices d) k = Some r" "ci_invoice_id r = show_int (wp_invoice_id p)" "ci_status r \<noteq> InvPaid"
        "d' = pay_invoice now (show_int (wp_invoice_id p)) k r
           (d\<lparr>crypto_webhooks := tins fp (ut, show_int (wp_invoice_id p)) (crypto_webhooks d)\<rparr>)"
proof (cases "List.find (\<lambda>(_, r). ci_invoice_id r = show_int (wp_invoice_id p)) (crypto_invoices d)")
  case None
  then show thesis
    using assms(2) that(1) by (simp add: webhook_body_result [OF assms(1)] Let_def split: if_splits)
next
  case (Some x)
  obtain k r where x: "x = (k, r)" by (cases x)
  note found = find_invoice [OF Some [unfolded x] assms(1)]
  show thesis
  proof (cases "tget (crypto_webhooks d) fp = None \<and> payload_matches fl p r \<and> ci_status r \<noteq> InvPaid")
    case True
    then show thesis
      using assms(2) that(2) [OF found] by (simp add: webhook_body_result [OF assms(1)] Some x Let_def)
  next
    case False
    then show thesis
      using assms(2) that(1) by (auto simp: webhook_body_result [OF assms(1)] Some x Let_def split: if_splits)
  qed
qed

lemma pay_invoice_simps [simp]:
  "crypto_invoices (pay_invoice now i k r d) = tupd k (\<lambda>r. r\<lparr>ci_status := InvPaid, ci_paid_at := Some now\<rparr>) (crypto_invoices d)"
  "published (pay_invoice now i k r d) = published d @ PBillingEvent (crypto_paid_event now i k r)
     # (if ci_telegram_id r = 0 then [] else [PNotification (crypto_notification (ci_telegram_id r)
          (TxtCryptoPaid (ci_amount r) (ci_asset r)) False KbMainMenuWithBack)])"
  by (simp_all add: pay_invoice_def) (simp add: crypto_notification_def)

lemma announces_paid [simp]: "announces j (PBillingEvent (crypto_paid_event now i k r)) \<longleftrightarrow> j = i"
  by (auto simp: announces_def crypto_paid_event_def)

lemma keep_webhook_body:
  assumes inv: "crypto_inv (d, fly)" and "webhook_body fl now ut fp p d = Inr (b, d')"
  shows "crypto_inv (d', fly)"
  using crypto_invD(1) [OF inv] assms(2)
proof (cases rule: webhook_body_cases)
  case 1
  show ?thesis unfolding 1 by (rule crypto_inv_frame [OF inv]) simp_all
next
  case (2 k r)
  let ?i = "show_int (wp_invoice_id p)"
  note r = 2(1) and id = 2(2) and up = 2(3)
  have ne: "?i \<noteq> []" by (simp add: show_int_def)
  have d': "crypto_invoices d' = tupd k (\<lambda>r. r\<lparr>ci_status := InvPaid, ci_paid_at := Some now\<rparr>) (crypto_invoices d)"
    by (simp add: 2(4))
  have get: "tget (crypto_invoices d') k = Some (r\<lparr>ci_status := InvPaid, ci_paid_at := Some now\<rparr>)"
    by (simp add: d' tget_tupd r)
  have ev: "announced_ok d' (PBillingEvent (crypto_paid_event now ?i k r))"
    using get id by (simp add: announced_ok_def crypto_paid_event_def)
  note pub = arg_cong [OF 2(4), of published, simplified]
  have none: "filter (announces ?i) (published d) = []"
  proof (rule ccontr)
    assume "filter (announces ?i) (published d) \<noteq> []"
    then obtain pl where "pl \<in> set (published d)" "announces ?i pl" by (auto simp: filter_empty_conv)
    moreover obtain ct src tid oi pc n am cu mi an ar at pr where
      "pl = PBillingEvent (BillingPaymentSucceededEvent ct src tid oi (''crypto:'' @ ?i) pc n am cu mi an ar at pr)"
      using calculation(2) by (auto simp: announces_def split: payload.splits billing_event.splits)
    ultimately obtain s where "tget (crypto_invoices d) oi = Some s" "ci_status s = InvPaid" "ci_invoice_id s = ?i"
      using crypto_invD(7) [OF inv] unfolding announced_ok_def by blast
    moreover have "oi = k" using crypto_invD(3) [OF inv calculation(1) r] calculation id ne by auto
    ultimately show False using r up by simp
  qed
  have one: "length (filter (announces j) (published d')) \<le> 1" for j
    using crypto_invD(6) [OF inv, of j] none by (cases "j = ?i") (auto simp: pub)
  show ?thesis
    by (rule crypto_inv_update [OF inv r up _ _ _ order_refl _ d' one])
      (use ne id ev crypto_invD(5) [OF inv, of k] r in \<open>auto simp: invoice_ok_def pub split: if_splits\<close>)
qed

lemma commit_result:
  assumes "commit out f d = (x, d')"
  obtains a where "f d = Inr (a, d')" and "\<And>b. x = Inr b \<Longrightarrow> b = a" | "d' = d" and "\<And>a. x \<noteq> Inr a"
proof (rule commit_cases [of out f d])
  assume "snd (commit out f d) = d" and "\<And>a. fst (commit out f d) \<noteq> Inr a"
  then show thesis using assms that(2) by simp
next
  fix a d1
  assume "f d = Inr (a, d1)" and "snd (commit out f d) = d1" and "\<And>b. fst (commit out f d) = Inr b \<Longrightarrow> b = a \<and> out = Up"
  then show thesis using assms that(1) by simp
qed

lemma keep_commit:
  assumes "crypto_inv (d, fly)" and "\<And>a d'. f d = Inr (a, d') \<Longrightarrow> crypto_inv (d', fly)"
  shows "crypto_inv (snd (commit out f d), fly)"
  using assms by (cases "commit out f d") (auto elim!: commit_result)

lemma keep_webhook:
  assumes "crypto_inv (d, fly)"
  shows "crypto_inv (snd (handleCryptoBotWebhook fl cl cfg um pt out now q d), fly)"
proof -
  have "crypto_inv (snd (CryptoProcessWebhook fl um pt out now raw fp d), fly)" for raw fp
    using assms unfolding CryptoProcessWebhook_def
    by (auto split: option.split intro!: keep_commit [OF assms] elim: keep_webhook_body [OF assms])
  then show ?thesis
    using assms by (auto simp: handleCryptoBotWebhook_def split: option.split)
qed

lemma crypto_step_keeps: "crypto_step fl s s' \<Longrightarrow> crypto_inv s \<Longrightarrow> crypto_inv s'"
proof (induction rule: crypto_step.induct)
  case (CrReserve out now cid orderID ivc d x d' fly w)
  have "crypto_inv (d', if x = Inr True then insert orderID fly else fly)"
    using CrReserve(1)
  proof (cases rule: commit_result)
    case (1 a)
    show ?thesis
      by (rule keep_reserve [OF CrReserve(4) 1(1) CrReserve(2,3)]) (use 1(2) in auto)
  qed (use CrReserve(4) in auto)
  then show ?case by (rule crypto_inv_frame) simp_all
next
  case (CrActivate orderID fly d out now cbi n)
  obtain x d' where c: "commit out (activate_body now orderID cbi n) d = (x, d')"
    by (cases "commit out (activate_body now orderID cbi n) d")
  then show ?case
  proof (cases rule: commit_result)
    case (1 a)
    then show ?thesis using keep_activate [OF CrActivate(2,1)] c by simp
  next
    case 2
    then show ?thesis using c by (intro crypto_inv_frame [OF CrActivate(2)]) auto
  qed
next
  case (CrFail orderID fly d out now n)
  obtain x d' where c: "commit out (failed_body now orderID n) d = (x, d')"
    by (cases "commit out (failed_body now orderID n) d")
  then show ?case
  proof (cases rule: commit_result)
    case (1 a)
    then have "d' = cryptoNotifyTx now n (MarkInvoiceFailedTx orderID d)" by (simp add: failed_body_def)
    moreover have "crypto_inv (cryptoNotifyTx now n (MarkInvoiceFailedTx orderID d), fly - {orderID})"
      by (rule keep_MarkFailed [OF CrFail(2)]) (use crypto_invD(5) [OF CrFail(2,1)] in auto)
    ultimately show ?thesis using c by simp
  next
    case 2
    then show ?thesis using c by (intro crypto_inv_frame [OF CrFail(2)]) auto
  qed
next
  case (CrCrash d fly dead)
  then show ?case by (rule crypto_inv_frame) auto
next
  case (CrWebhook d fly cl cfg um pt out now q)
  then show ?case by (rule keep_webhook)
next
  case (CrStuck d fly out locked now threshold limit)
  have "crypto_inv (fail_stuck now (LockStuckCreatingInvoicesTx locked cutoff limit d) d, fly)" for cutoff
  proof (rule fail_stuck_keep [OF CrStuck], clarify)
    fix k v r
    assume "(k, v) \<in> set (LockStuckCreatingInvoicesTx locked cutoff limit d)" and r: "tget (crypto_invoices d) k = Some r"
    then have "(k, v) \<in> set (crypto_invoices d)" and "ci_status v = InvCreating"
      by (auto simp: LockStuckCreatingInvoicesTx_def dest: in_set_takeD)
    moreover have "r = v" using calculation(1) r crypto_invD(1) [OF CrStuck] by (simp add: tget_in_set [symmetric])
    ultimately show "ci_invoice_id r = []" using crypto_invD(2) [OF CrStuck r] by (simp add: invoice_ok_def)
  qed
  then show ?case unfolding ProcessStuckCreatingInvoices_def by (auto intro: keep_commit [OF CrStuck])
next
  case (CrElsewhere d d' fly)
  then show ?case unfolding crypto_elsewhere_def by (intro crypto_inv_frame [OF CrElsewhere(2)]) auto
qed

lemma crypto_steps_keep: "crypto_steps fl s s' \<Longrightarrow> crypto_inv s \<Longrightarrow> crypto_inv s'"
  by (induction rule: rtranclp_induct) (auto intro: crypto_step_keeps)

section \<open>All runs\<close>

definition empty_crypto_db :: "'w \<Rightarrow> 'w crypto_db" where
  "empty_crypto_db w = \<lparr>event_outbox = [], outbox_seq = 1, processed_messages = [], failed_messages = [],
     consumer_attempts = [], node_sync_results = None, crypto_invoices = [], crypto_webhooks = [], cryptobot = w\<rparr>"

lemma empty_crypto_inv: "crypto_inv (empty_crypto_db w, {})"
  by (simp add: crypto_inv_def empty_crypto_db_def published_def)

lemma finish_checkout_step:
  assumes "k \<in> fly"
  shows "\<exists>w fly'. crypto_step fl (d\<lparr>cryptobot := w\<rparr>, fly) (snd (finish_checkout cfg env price plan tid k d), fly')"
proof -
  obtain y w where call: "request_invoice cfg env price plan k d = (y, d\<lparr>cryptobot := w\<rparr>)"
    using request_invoice_state [of cfg env price plan k d] by blast
  show ?thesis
  proof (cases y)
    case (Inl e)
    show ?thesis
      unfolding finish_checkout_def call Inl prod.case sum.case by (intro exI) (rule CrFail [OF assms])
  next
    case (Inr ivc)
    show ?thesis
      unfolding finish_checkout_def call Inr prod.case sum.case by (intro exI) (rule CrActivate [OF assms])
  qed
qed

lemma accepted_checkout_steps:
  assumes fresh: "tget (crypto_invoices d) k = None" and "ci_status ivc = InvCreating"
  shows "\<exists>fly'. crypto_steps fl (d, fly) (snd (proceed (commit out (reserve_body now cid k ivc) d) (\<lambda>inserted d1.
    if \<not> inserted then (Inr (), d1) else finish_checkout cfg env price plan tid k d1)), fly')"
proof -
  obtain x d1 where r: "commit out (reserve_body now cid k ivc) d = (x, d1)"
    by (cases "commit out (reserve_body now cid k ivc) d")
  have step: "crypto_step fl (d, fly) (d1\<lparr>cryptobot := w\<rparr>, if x = Inr True then insert k fly else fly)" for w
    by (rule CrReserve [OF r assms])
  show ?thesis
  proof (cases "x = Inr True")
    case False
    then have "snd (proceed (x, d1) (\<lambda>inserted d1. if \<not> inserted then (Inr (), d1)
        else finish_checkout cfg env price plan tid k d1)) = d1\<lparr>cryptobot := cryptobot d1\<rparr>"
      by (cases x) auto
    then show ?thesis unfolding r using step [of "cryptobot d1"] by (metis r_into_rtranclp)
  next
    case True
    have "k \<in> insert k fly" by simp
    from finish_checkout_step [OF this, of fl d1 cfg env price plan tid]
    obtain w fly' where "crypto_step fl (d1\<lparr>cryptobot := w\<rparr>, insert k fly)
        (snd (finish_checkout cfg env price plan tid k d1), fly')" by blast
    then have "crypto_steps fl (d, fly) (snd (finish_checkout cfg env price plan tid k d1), fly')"
      using step [of w] True by (auto intro: converse_rtranclp_into_rtranclp)
    then show ?thesis unfolding r True by auto
  qed
qed

text \<open>A paid invoice stays as it is, and nothing announces it again.\<close>

definition settled_in :: "'w crypto_db \<Rightarrow> string \<Rightarrow> CryptoInvoice \<Rightarrow> 'w crypto_db \<Rightarrow> bool" where
  "settled_in d k r d' \<longleftrightarrow> tget (crypto_invoices d') k = Some r
     \<and> mset (filter (announces (ci_invoice_id r)) (published d'))
         \<subseteq># mset (filter (announces (ci_invoice_id r)) (published d))"

lemma fail_stuck_settled:
  assumes "settled_in d0 k r d" and "k \<notin> fst ` set invs"
  shows "settled_in d0 k r (fail_stuck now invs d)"
  using assms
proof (induction invs arbitrary: d)
  case (Cons x invs)
  then show ?case
    by (cases x) (auto simp: settled_in_def MarkInvoiceFailedTx_def tget_tupd intro!: Cons.IH)
qed simp

lemma commit_settled:
  assumes "settled_in d0 k r d" and "\<And>a d'. f d = Inr (a, d') \<Longrightarrow> settled_in d0 k r d'"
  shows "settled_in d0 k r (snd (commit out f d))"
  using assms by (cases "commit out f d") (auto elim!: commit_result)

lemma webhook_settled:
  assumes inv: "crypto_inv (d, fly)" and row: "tget (crypto_invoices d) k = Some r" "ci_status r = InvPaid"
  shows "settled_in d k r (snd (handleCryptoBotWebhook fl cl cfg um pt out now q d))"
proof -
  have same: "settled_in d k r d" using row by (simp add: settled_in_def)
  have body: "settled_in d k r d'" if "webhook_body fl now ut fp p d = Inr (b, d')" for fp ut p b d'
    using crypto_invD(1) [OF inv] that
  proof (cases rule: webhook_body_cases)
    case 1
    then show ?thesis using row by (simp add: settled_in_def)
  next
    case (2 j s)
    have ne: "show_int (wp_invoice_id p) \<noteq> []" by (simp add: show_int_def)
    then have "j \<noteq> k" and "ci_invoice_id r \<noteq> show_int (wp_invoice_id p)"
      using crypto_invD(3) [OF inv 2(1) row(1)] 2 row by auto
    then show ?thesis using row by (simp add: settled_in_def 2(4) tget_tupd)
  qed
  have "settled_in d k r (snd (CryptoProcessWebhook fl um pt out now raw fp d))" for raw fp
    using same unfolding CryptoProcessWebhook_def
    by (auto split: option.split intro!: commit_settled [OF same] elim: body)
  then show ?thesis
    using same by (auto simp: handleCryptoBotWebhook_def split: option.split)
qed

lemma crypto_step_settled:
  "crypto_step fl s s' \<Longrightarrow> crypto_inv s \<Longrightarrow> tget (crypto_invoices (fst s)) k = Some r \<Longrightarrow> ci_status r = InvPaid \<Longrightarrow>
    settled_in (fst s) k r (fst s')"
proof (induction rule: crypto_step.induct)
  case (CrReserve out now cid orderID ivc d x d' fly w)
  have same: "settled_in d k r d" using CrReserve by (simp add: settled_in_def)
  have ne: "orderID \<noteq> k" using CrReserve by auto
  have "settled_in d k r (snd (commit out (reserve_body now cid orderID ivc) d))"
    by (rule commit_settled [OF same])
      (use CrReserve ne in \<open>auto simp: settled_in_def reserve_body_def MarkProcessed_def InsertInvoiceTx_def
        published_def tget_tins Let_def split: if_splits\<close>)
  then show ?case using CrReserve(1) by (simp add: settled_in_def)
next
  case (CrActivate orderID fly d out now cbi n)
  have same: "settled_in d k r d" using CrActivate by (simp add: settled_in_def)
  have "orderID \<noteq> k"
    using crypto_invD(5) [OF CrActivate(2,1)] crypto_invD(2) [OF CrActivate(2), of k r] CrActivate(3,4)
    by (auto simp: invoice_ok_def)
  with same show ?case
    unfolding fst_conv
    by (intro commit_settled)
      (auto simp: settled_in_def activate_body_def MarkInvoiceActiveTx_def tget_tupd split: if_splits)
next
  case (CrFail orderID fly d out now n)
  have same: "settled_in d k r d" using CrFail by (simp add: settled_in_def)
  have "orderID \<noteq> k"
    using crypto_invD(5) [OF CrFail(2,1)] crypto_invD(2) [OF CrFail(2), of k r] CrFail(3,4)
    by (auto simp: invoice_ok_def)
  with same show ?case
    unfolding fst_conv
    by (intro commit_settled)
      (auto simp: settled_in_def failed_body_def MarkInvoiceFailedTx_def tget_tupd split: if_splits)
next
  case (CrWebhook d fly cl cfg um pt out now q)
  then show ?case using webhook_settled by simp
next
  case (CrStuck d fly out locked now threshold limit)
  have same: "settled_in d k r d" using CrStuck by (simp add: settled_in_def)
  have "k \<notin> fst ` set (LockStuckCreatingInvoicesTx locked cutoff limit d)" for cutoff
    using CrStuck(2,3) crypto_invD(1) [OF CrStuck(1)]
    by (auto simp: LockStuckCreatingInvoicesTx_def tget_in_set [symmetric] dest!: in_set_takeD)
  then show ?case
    unfolding ProcessStuckCreatingInvoices_def fst_conv
    by (auto intro!: commit_settled [OF same] fail_stuck_settled [OF same])
qed (auto simp: settled_in_def crypto_elsewhere_def)

lemma crypto_steps_settled:
  assumes "crypto_steps fl s s'" and "crypto_inv s" and "tget (crypto_invoices (fst s)) k = Some r" "ci_status r = InvPaid"
  shows "settled_in (fst s) k r (fst s')"
  using assms
proof (induction rule: rtranclp_induct)
  case (step t u)
  then have "settled_in (fst s) k r (fst t)" by blast
  moreover have "crypto_inv t" using crypto_steps_keep [OF step(1)] step(4) .
  ultimately show ?case
    using crypto_step_settled [OF step(2), of k r] step(6) by (auto simp: settled_in_def intro: subset_mset.order_trans)
qed (simp add: settled_in_def)

end
