(* ===== verification/CryptoProperties.thy ===== *)
theory CryptoProperties
  imports CryptoSystem Complex_Main
begin

text \<open>
  What the crypto billing service may be relied on for: its handlers are the steps of \<open>CryptoSystem\<close>,
  what a run may announce, the exact result of a webhook and of a pass of the recovery worker, and the
  numbers and lists it hands to the provider.
\<close>

section \<open>A concrete run\<close>

text \<open>
  Fixed point numbers with six decimals in the place of \<open>float64\<close>, a provider that numbers its invoices
  from 7, and the settings of an empty environment with both secrets set.
\<close>

definition pad_digits :: "nat \<Rightarrow> int \<Rightarrow> string" where
  "pad_digits k n = drop 1 (show_int (10 ^ k + n))"

definition micro_lib :: "int float_lib" where
  "micro_lib = \<lparr>fl_dec = (\<lambda>m k. m * 10 ^ 6 div 10 ^ k),
     fl_parse = (\<lambda>s. if s \<noteq> [] \<and> list_all is_digit s then Some (int (read_nat s) * 10 ^ 6) else None),
     fl_format = (\<lambda>v k. show_int (v div 10 ^ 6) @ ''.'' @ pad_digits k (v mod 10 ^ 6 * 10 ^ k div 10 ^ 6)),
     fl_add = (+), fl_sub = (-), fl_mul = (\<lambda>a b. a * b div 10 ^ 6), fl_div = (\<lambda>a b. a * 10 ^ 6 div b),
     fl_less = (<), fl_le = (\<le>), fl_eq = (=)\<rparr>"

definition sample_crypto_env :: "nat crypto_env" where
  "sample_crypto_env = \<lparr>ce_http = (\<lambda>_ n. (Inr (Some \<lparr>ar_ok = True, ar_invoice = Some \<lparr>cbi_invoice_id = int n,
       cbi_bot_url = ''bot'', cbi_mini_app_url = [], cbi_web_app_url = [], cbi_pay_url = ''old''\<rparr>\<rparr>), n + 1)),
     ce_out = (\<lambda>_. Up), ce_now = 1000, ce_uuid = ''u1''\<rparr>"

definition sample_getenv :: "string \<Rightarrow> string" where
  "sample_getenv k = (if k = ''CRYPTOBOT_API_TOKEN'' then ''t'' else if k = ''CRYPTOBOT_WEBHOOK_TOKEN'' then ''h'' else [])"

definition sample_crypto_config :: "int crypto_config" where
  "sample_crypto_config = (case LoadConfigFromEnv micro_lib (\<lambda>_. None) sample_getenv of Inr c \<Rightarrow> c)"

definition sample_crypto_command :: crypto_command where
  "sample_crypto_command = CreateCryptoCheckoutCommand ''c1'' 42 ''monthly_30d'' ''TON''"

text \<open>The database after one checkout.\<close>

definition ordered_db :: "nat crypto_db" where
  "ordered_db = snd (HandleCreateCheckout micro_lib sample_crypto_config None sample_crypto_env
     (Some sample_crypto_command) (empty_crypto_db 7))"

definition ordered_invoice :: CryptoInvoice where
  "ordered_invoice = \<lparr>ci_command_id = ''c1'', ci_telegram_id = 42, ci_plan_code = ''monthly_30d'',
     ci_duration_days = 30, ci_asset = ''TON'', ci_amount = ''1.3'', ci_description = ''subscription30'',
     ci_invoice_id = ''7'', ci_pay_url = ''bot'', ci_status = InvActive,
     ci_expires_at = Some (1000 + minutes 30), ci_created_at = 1000, ci_paid_at = None\<rparr>"

lemma ordered_row: "crypto_invoices ordered_db = [(''crypto-u1'', ordered_invoice)]"
  by code_simp

lemma ordered_no_webhook: "crypto_webhooks ordered_db = []"
  by code_simp

section \<open>The checkout\<close>

lemma checkout_steps:
  assumes "tget (crypto_invoices d) (''crypto-'' @ ce_uuid env) = None"
  shows "\<exists>fly'. crypto_steps fl (d, fly) (snd (HandleCreateCheckout fl' cfg rates env cmd d), fly')"
proof -
  have none: "\<exists>fly'. crypto_steps fl (d, fly) (d, fly')"
    by (rule exI [of _ fly]) (rule rtranclp.rtrancl_refl)
  have go: "\<exists>fly'. crypto_steps fl (d, fly) (snd (proceed (commit (ce_out env 0) (reserve_body now cid
      (''crypto-'' @ ce_uuid env) (new_invoice c plan price now expires)) d) (\<lambda>inserted d1.
        if \<not> inserted then (Inr (), d1) else finish_checkout cfg env price plan tid (''crypto-'' @ ce_uuid env) d1)), fly')"
    for now cid c plan price expires tid
    by (rule accepted_checkout_steps [OF assms]) (simp add: new_invoice_def)
  show ?thesis
    unfolding HandleCreateCheckout_def Let_def
    by (simp only: split: option.split) (simp only: fst_conv snd_conv none go simp_thms)
qed



lemma ordered_reachable:
  obtains fly where "crypto_steps micro_lib (empty_crypto_db (7 :: nat), {}) (ordered_db, fly)"
proof -
  have "tget (crypto_invoices (empty_crypto_db (7 :: nat))) (''crypto-'' @ ce_uuid sample_crypto_env) = None"
    by (simp add: empty_crypto_db_def tget_def)
  from checkout_steps [OF this] show thesis using that unfolding ordered_db_def by blast
qed

section \<open>All runs\<close>

lemma crypto_announcements_are_sound_parts:
  assumes "crypto_steps fl (empty_crypto_db w, {}) (d, fly)"
  shows "length (filter (announces i) (published d)) \<le> 1"
    and "PBillingEvent (BillingPaymentSucceededEvent ct src tid oi (''crypto:'' @ i) pc n am cu mi an ar paid pr) \<in> set (published d) \<Longrightarrow>
      \<exists>r. tget (crypto_invoices d) oi = Some r \<and> ci_status r = InvPaid \<and> ci_invoice_id r = i
        \<and> ci_telegram_id r = tid \<and> ci_plan_code r = pc \<and> ci_duration_days r = n"
    and "tget (crypto_invoices d) k = Some r \<Longrightarrow> tget (crypto_invoices d) j = Some s \<Longrightarrow>
      ci_command_id r = ci_command_id s \<and> ci_command_id r \<noteq> [] \<or> ci_invoice_id r = ci_invoice_id s \<and> ci_invoice_id r \<noteq> [] \<Longrightarrow>
      k = j"
proof -
  have inv: "crypto_inv (d, fly)" using crypto_steps_keep [OF assms empty_crypto_inv] .
  show "length (filter (announces i) (published d)) \<le> 1" by (rule crypto_invD(6) [OF inv])
  show "\<exists>r. tget (crypto_invoices d) oi = Some r \<and> ci_status r = InvPaid \<and> ci_invoice_id r = i
      \<and> ci_telegram_id r = tid \<and> ci_plan_code r = pc \<and> ci_duration_days r = n"
    if "PBillingEvent (BillingPaymentSucceededEvent ct src tid oi (''crypto:'' @ i) pc n am cu mi an ar paid pr) \<in> set (published d)"
    using crypto_invD(7) [OF inv that] unfolding announced_ok_def by blast
  show "k = j" if "tget (crypto_invoices d) k = Some r" "tget (crypto_invoices d) j = Some s"
    "ci_command_id r = ci_command_id s \<and> ci_command_id r \<noteq> [] \<or> ci_invoice_id r = ci_invoice_id s \<and> ci_invoice_id r \<noteq> []"
    using crypto_invD(3) [OF inv that(1,2)] crypto_invD(4) [OF inv that(1,2)] that(3) by auto
qed

text \<open>
  C22. Whatever commands, webhooks, outages, crashes and passes of the worker a run consists of: the outbox
  holds at most one announcement per invoice, an announcement is about a paid invoice and repeats its
  order, and no two invoices have the same invoice id or were created for the same command.
\<close>

theorem crypto_announcements_are_sound:
  assumes "crypto_steps fl (empty_crypto_db w, {}) (d, fly)"
  shows "(length (filter (announces i) (published d)) \<le> 1)
    \<and> (PBillingEvent (BillingPaymentSucceededEvent ct src tid oi (''crypto:'' @ i) pc n am cu mi an ar paid pr) \<in> set (published d) \<longrightarrow>
      (\<exists>r. tget (crypto_invoices d) oi = Some r \<and> ci_status r = InvPaid \<and> ci_invoice_id r = i
        \<and> ci_telegram_id r = tid \<and> ci_plan_code r = pc \<and> ci_duration_days r = n))
    \<and> (tget (crypto_invoices d) k = Some r \<longrightarrow> tget (crypto_invoices d) j = Some s \<longrightarrow>
      ci_command_id r = ci_command_id s \<and> ci_command_id r \<noteq> [] \<or> ci_invoice_id r = ci_invoice_id s \<and> ci_invoice_id r \<noteq> [] \<longrightarrow>
      k = j)"
  by (intro conjI impI crypto_announcements_are_sound_parts [OF assms])

lemma crypto_announcements_are_sound_witness:
  "length (filter (announces ''7'') (published ordered_db)) \<le> 1"
  by (rule ordered_reachable) (erule crypto_announcements_are_sound [THEN conjunct1])

lemma paid_invoice_is_final_parts:
  assumes "crypto_steps fl (empty_crypto_db w, {}) (d, fly)"
    and "tget (crypto_invoices d) k = Some r" and "ci_status r = InvPaid"
    and "crypto_steps fl (d, fly) (d', fly')"
  shows "tget (crypto_invoices d') k = Some r"
    and "mset (filter (announces (ci_invoice_id r)) (published d'))
      \<subseteq># mset (filter (announces (ci_invoice_id r)) (published d))"
proof -
  have "crypto_inv (d, fly)" using crypto_steps_keep [OF assms(1) empty_crypto_inv] .
  from crypto_steps_settled [OF assms(4) this, of k r] assms(2,3)
  show "tget (crypto_invoices d') k = Some r"
    and "mset (filter (announces (ci_invoice_id r)) (published d'))
      \<subseteq># mset (filter (announces (ci_invoice_id r)) (published d))"
    by (simp_all add: settled_in_def)
qed

text \<open>
  C23. A paid invoice is final: no later webhook, command, failure or worker changes its row or adds another
  announcement of it.
\<close>

theorem paid_invoice_is_final:
  assumes "crypto_steps fl (empty_crypto_db w, {}) (d, fly)"
    and "tget (crypto_invoices d) k = Some r" and "ci_status r = InvPaid"
    and "crypto_steps fl (d, fly) (d', fly')"
  shows "(tget (crypto_invoices d') k = Some r)
    \<and> (mset (filter (announces (ci_invoice_id r)) (published d'))
      \<subseteq># mset (filter (announces (ci_invoice_id r)) (published d)))"
  by (intro conjI impI paid_invoice_is_final_parts [OF assms])

text \<open>The webhook that pays the sample invoice, under toy stand-ins for the hash functions.\<close>

definition toy_crypto_lib :: crypto_lib where
  "toy_crypto_lib = \<lparr>cl_sha256 = (\<lambda>s. s), cl_hmac = (@), cl_unhex = Some, cl_hex = (\<lambda>s. s)\<rparr>"

definition sample_crypto_webhook :: webhook_update where
  "sample_crypto_webhook = \<lparr>wu_update_type = ''invoice_paid'', wu_request_date = [], wu_payload = Some
     \<lparr>wp_invoice_id = 7, wp_status = ''paid'', wp_asset = ''ton'', wp_amount = [], wp_currency_type = ''crypto'',
      wp_fiat = [], wp_paid_asset = []\<rparr>\<rparr>"

definition sample_crypto_request :: crypto_request where
  "sample_crypto_request = \<lparr>cq_method = ''POST'', cq_path = ''/webhooks/cryptobot/h'', cq_signature = ''tx'', cq_body = Some ''x''\<rparr>"

definition crypto_paid_db :: "nat crypto_db" where
  "crypto_paid_db = snd (handleCryptoBotWebhook micro_lib toy_crypto_lib sample_crypto_config
     (\<lambda>_. Some sample_crypto_webhook) (\<lambda>_. None) Up 2000 sample_crypto_request ordered_db)"

lemma paid_row:
  "crypto_invoices crypto_paid_db = [(''crypto-u1'', ordered_invoice\<lparr>ci_status := InvPaid, ci_paid_at := Some 2000\<rparr>)]"
  by code_simp

lemma paid_invoice_is_final_witness:
  "tget (crypto_invoices (snd (handleCryptoBotWebhook micro_lib toy_crypto_lib sample_crypto_config
     (\<lambda>_. Some sample_crypto_webhook) (\<lambda>_. None) Up 3000 (sample_crypto_request\<lparr>cq_body := Some ''y'', cq_signature := ''ty''\<rparr>)
     crypto_paid_db))) ''crypto-u1'' = Some (ordered_invoice\<lparr>ci_status := InvPaid, ci_paid_at := Some 2000\<rparr>)"
proof (rule ordered_reachable)
  fix fly
  assume r: "crypto_steps micro_lib (empty_crypto_db (7 :: nat), {}) (ordered_db, fly)"
  have "crypto_step micro_lib (ordered_db, fly) (crypto_paid_db, fly)"
    unfolding crypto_paid_db_def by (rule CrWebhook)
  then have paid: "crypto_steps micro_lib (empty_crypto_db 7, {}) (crypto_paid_db, fly)" using r by simp
  have more: "crypto_steps micro_lib (crypto_paid_db, fly) (snd (handleCryptoBotWebhook micro_lib toy_crypto_lib
      sample_crypto_config (\<lambda>_. Some sample_crypto_webhook) (\<lambda>_. None) Up 3000
      (sample_crypto_request\<lparr>cq_body := Some ''y'', cq_signature := ''ty''\<rparr>) crypto_paid_db), fly)"
    by (rule r_into_rtranclp) (rule CrWebhook)
  show ?thesis
    by (rule paid_invoice_is_final [OF paid _ _ more, THEN conjunct1]) (simp_all add: paid_row tget_def)
qed

section \<open>The webhook\<close>

lemma crypto_webhook_result_parts:
  fixes d d' :: "'w crypto_db"
  assumes "crypto_steps fl' (empty_crypto_db w, {}) (d, fly)"
    and "unmarshal raw = Some u" and "wu_update_type u = ''invoice_paid''"
    and "wu_request_date u = [] \<or> (\<exists>t. parseTime (wu_request_date u) = Some t \<and> \<bar>now - t\<bar> \<le> minutes 15)"
    and "wu_payload u = Some p" and "wp_invoice_id p \<noteq> 0" and "tget (crypto_webhooks d) fp = None"
    and "tget (crypto_invoices d) k = Some r" and "ci_invoice_id r = show_int (wp_invoice_id p)"
    and "ci_status r \<noteq> InvPaid" and "payload_matches fl p r" and "ci_telegram_id r \<noteq> 0"
    and "d' = snd (CryptoProcessWebhook fl unmarshal parseTime Up now raw fp d)"
  shows "fst (CryptoProcessWebhook fl unmarshal parseTime Up now raw fp d) = Inr ()"
    and "tget (crypto_invoices d') = (tget (crypto_invoices d))(k \<mapsto> r\<lparr>ci_status := InvPaid, ci_paid_at := Some now\<rparr>)"
    and "published d' = published d @
      [PBillingEvent (crypto_paid_event now (ci_invoice_id r) k r),
       PNotification (crypto_notification (ci_telegram_id r) (TxtCryptoPaid (ci_amount r) (ci_asset r)) False KbMainMenuWithBack)]"
    and "fst (CryptoProcessWebhook fl unmarshal parseTime Up now raw fp d') = Inl DuplicateWebhook"
    and "crypto_invoices (snd (CryptoProcessWebhook fl unmarshal parseTime Up now raw fp d')) = crypto_invoices d'"
    and "published (snd (CryptoProcessWebhook fl unmarshal parseTime Up now raw fp d')) = published d'"
proof -
  let ?i = "show_int (wp_invoice_id p)"
  let ?d1 = "d\<lparr>crypto_webhooks := tins fp (''invoice_paid'', ?i) (crypto_webhooks d)\<rparr>"
  have inv: "crypto_inv (d, fly)" using crypto_steps_keep [OF assms(1) empty_crypto_inv] .
  have wf: "twf (crypto_invoices d)" by (rule crypto_invD(1) [OF inv])
  have run: "CryptoProcessWebhook fl unmarshal parseTime Up now raw fp s
      = webhook_outcome (commit Up (webhook_body fl now ''invoice_paid'' fp p) s)" for s :: "'w crypto_db"
    using assms(2-6) by (auto simp: CryptoProcessWebhook_def)
  have "List.find (\<lambda>(_, r). ci_invoice_id r = ?i) (crypto_invoices d) = Some (k, r)"
  proof (cases "List.find (\<lambda>(_, r). ci_invoice_id r = ?i) (crypto_invoices d)")
    case None
    then show ?thesis using assms(8,9) wf by (auto simp: find_None_iff tget_in_set)
  next
    case (Some x)
    obtain j s where x: "x = (j, s)" by (cases x)
    note s = find_invoice [OF Some [unfolded x] wf]
    have "show_int (wp_invoice_id p) \<noteq> []" by (simp add: show_int_def)
    then have "j = k" using crypto_invD(3) [OF inv s(1) assms(8)] s(2) assms(9) by auto
    then show ?thesis using Some x s(1) assms(8) by simp
  qed
  then have body: "webhook_body fl now ''invoice_paid'' fp p d = Inr (True, pay_invoice now ?i k r ?d1)"
    using assms(7,10,11) by (simp add: webhook_body_result [OF wf] Let_def)
  have d': "d' = pay_invoice now ?i k r ?d1"
    unfolding assms(13) run by (simp add: commit_def body)
  show "fst (CryptoProcessWebhook fl unmarshal parseTime Up now raw fp d) = Inr ()"
    unfolding run by (simp add: commit_def body webhook_outcome_def)
  show "tget (crypto_invoices d') = (tget (crypto_invoices d))(k \<mapsto> r\<lparr>ci_status := InvPaid, ci_paid_at := Some now\<rparr>)"
    using assms(8) by (auto simp: d' tget_tupd)
  show "published d' = published d @
      [PBillingEvent (crypto_paid_event now (ci_invoice_id r) k r),
       PNotification (crypto_notification (ci_telegram_id r) (TxtCryptoPaid (ci_amount r) (ci_asset r)) False KbMainMenuWithBack)]"
    using assms(9,12) by (simp add: d')
  have hooks: "tget (crypto_webhooks d') fp \<noteq> None"
    using assms(7) by (simp add: d' pay_invoice_def cryptoNotifyTx_def cryptoPublishTx_def AddTx_def tget_tins)
  have "twf (crypto_invoices d')" using wf by (simp add: d')
  then have again: "webhook_body fl now ''invoice_paid'' fp p d' = Inr (False, d'\<lparr>crypto_webhooks :=
      tins fp (''invoice_paid'', ?i) (crypto_webhooks d')\<rparr>)"
    using hooks by (simp add: webhook_body_result Let_def)
  show "fst (CryptoProcessWebhook fl unmarshal parseTime Up now raw fp d') = Inl DuplicateWebhook"
    and "crypto_invoices (snd (CryptoProcessWebhook fl unmarshal parseTime Up now raw fp d')) = crypto_invoices d'"
    and "published (snd (CryptoProcessWebhook fl unmarshal parseTime Up now raw fp d')) = published d'"
    unfolding run by (simp_all add: commit_def again webhook_outcome_def)
qed

text \<open>
  C24. A webhook that is recent, new and matches an invoice that is not paid: the invoice is paid, billing
  and the user are told, and delivering the webhook once more is answered as a duplicate and changes
  neither the invoices nor the outbox.
\<close>

theorem crypto_webhook_result:
  fixes d d' :: "'w crypto_db"
  assumes "crypto_steps fl' (empty_crypto_db w, {}) (d, fly)"
    and "unmarshal raw = Some u" and "wu_update_type u = ''invoice_paid''"
    and "wu_request_date u = [] \<or> (\<exists>t. parseTime (wu_request_date u) = Some t \<and> \<bar>now - t\<bar> \<le> minutes 15)"
    and "wu_payload u = Some p" and "wp_invoice_id p \<noteq> 0" and "tget (crypto_webhooks d) fp = None"
    and "tget (crypto_invoices d) k = Some r" and "ci_invoice_id r = show_int (wp_invoice_id p)"
    and "ci_status r \<noteq> InvPaid" and "payload_matches fl p r" and "ci_telegram_id r \<noteq> 0"
    and "d' = snd (CryptoProcessWebhook fl unmarshal parseTime Up now raw fp d)"
  shows "(fst (CryptoProcessWebhook fl unmarshal parseTime Up now raw fp d) = Inr ())
    \<and> (tget (crypto_invoices d') = (tget (crypto_invoices d))(k \<mapsto> r\<lparr>ci_status := InvPaid, ci_paid_at := Some now\<rparr>))
    \<and> (published d' = published d @
      [PBillingEvent (crypto_paid_event now (ci_invoice_id r) k r),
       PNotification (crypto_notification (ci_telegram_id r) (TxtCryptoPaid (ci_amount r) (ci_asset r)) False KbMainMenuWithBack)])
    \<and> (fst (CryptoProcessWebhook fl unmarshal parseTime Up now raw fp d') = Inl DuplicateWebhook)
    \<and> (crypto_invoices (snd (CryptoProcessWebhook fl unmarshal parseTime Up now raw fp d')) = crypto_invoices d')
    \<and> (published (snd (CryptoProcessWebhook fl unmarshal parseTime Up now raw fp d')) = published d')"
  by (intro conjI impI crypto_webhook_result_parts [OF assms])

lemma crypto_webhook_result_witness:
  "fst (CryptoProcessWebhook micro_lib (\<lambda>_. Some sample_crypto_webhook) (\<lambda>_. None) Up 2000 [] ''f'' ordered_db) = Inr ()"
proof (rule ordered_reachable)
  fix fly
  assume r: "crypto_steps micro_lib (empty_crypto_db (7 :: nat), {}) (ordered_db, fly)"
  have id: "ci_invoice_id ordered_invoice = show_int (wp_invoice_id (the (wu_payload sample_crypto_webhook)))"
    and ok: "payload_matches micro_lib (the (wu_payload sample_crypto_webhook)) ordered_invoice"
    by code_simp+
  show ?thesis
    by (rule crypto_webhook_result [OF r _ _ _ _ _ _ _ id _ ok _ refl, where k = "''crypto-u1''" and u = sample_crypto_webhook, THEN conjunct1])
      (simp_all add: sample_crypto_webhook_def ordered_row ordered_no_webhook ordered_invoice_def tget_def)
qed

text \<open>
  A request changes the database only when it is a POST to the secret path whose body carries the
  signature of the API token.
\<close>

theorem forged_crypto_webhook_is_refused:
  assumes "snd (handleCryptoBotWebhook fl cl cfg unmarshal parseTime out now q d) \<noteq> d
    \<or> fst (handleCryptoBotWebhook fl cl cfg unmarshal parseTime out now q d) = 200"
  shows "cq_method q = ''POST''"
    and "trim_slash (strip_prefix ''/webhooks/cryptobot/'' (cq_path q)) = cc_webhook_token cfg"
    and "\<exists>raw. cq_body q = Some raw \<and> cl_unhex cl (cq_signature q) = Some (cl_hmac cl (cl_sha256 cl (cc_api_token cfg)) raw)"
  using assms by (auto simp: handleCryptoBotWebhook_def VerifyWebhookSignature_def split: if_splits option.splits)

lemma forged_crypto_webhook_is_refused_witness:
  "\<exists>raw. cq_body sample_crypto_request = Some raw
    \<and> cl_unhex toy_crypto_lib (cq_signature sample_crypto_request)
      = Some (cl_hmac toy_crypto_lib (cl_sha256 toy_crypto_lib (cc_api_token sample_crypto_config)) raw)"
proof (rule forged_crypto_webhook_is_refused(3) [OF disjI1])
  have "crypto_invoices ordered_db \<noteq> crypto_invoices crypto_paid_db"
    unfolding ordered_row paid_row by (simp add: ordered_invoice_def)
  then show "snd (handleCryptoBotWebhook micro_lib toy_crypto_lib sample_crypto_config
     (\<lambda>_. Some sample_crypto_webhook) (\<lambda>_. None) Up 2000 sample_crypto_request ordered_db) \<noteq> ordered_db"
    unfolding crypto_paid_db_def by metis
qed

section \<open>Stuck invoices\<close>

definition is_stuck :: "(string \<Rightarrow> bool) \<Rightarrow> time \<Rightarrow> string \<Rightarrow> CryptoInvoice \<Rightarrow> bool" where
  "is_stuck locked cutoff k r \<longleftrightarrow> ci_status r = InvCreating \<and> ci_created_at r < cutoff \<and> \<not> locked k"

lemma fail_stuck_result:
  assumes "twf (crypto_invoices d)" and "\<forall>(k, v) \<in> set invs. tget (crypto_invoices d) k = Some v" and "distinct (map fst invs)"
  shows "tget (crypto_invoices (fail_stuck now invs d)) k
      = (case tget (crypto_invoices d) k of None \<Rightarrow> None
         | Some r \<Rightarrow> Some (if (k, r) \<in> set invs then r\<lparr>ci_status := InvFailed\<rparr> else r))" (is ?rows)
    and "published (fail_stuck now invs d) = published d @
      map (\<lambda>(_, r). PNotification (crypto_notification (ci_telegram_id r) TxtCryptoStuck False KbBuyMenu))
        (filter (\<lambda>(_, r). ci_telegram_id r \<noteq> 0) invs)" (is ?out)
proof -
  have "?rows \<and> ?out"
    using assms
  proof (induction invs arbitrary: d)
    case (Cons x invs)
    obtain j v where x: "x = (j, v)" by (cases x)
    let ?d = "cryptoNotifyTx now (crypto_notification (ci_telegram_id v) TxtCryptoStuck False KbBuyMenu) (MarkInvoiceFailedTx j d)"
    have j: "tget (crypto_invoices d) j = Some v" "j \<notin> fst ` set invs" using Cons.prems x by auto
    have rows: "crypto_invoices ?d = tupd j (\<lambda>r. r\<lparr>ci_status := InvFailed\<rparr>) (crypto_invoices d)"
      by (simp add: MarkInvoiceFailedTx_def)
    have "twf (crypto_invoices ?d)" unfolding rows using Cons.prems(1) by simp
    moreover have "distinct (map fst invs)" using Cons.prems(3) x by simp
    moreover have "\<forall>(k, v) \<in> set invs. tget (crypto_invoices ?d) k = Some v"
    proof clarify
      fix k u
      assume u: "(k, u) \<in> set invs"
      then have "k \<noteq> j" using j(2) by force
      moreover have "tget (crypto_invoices d) k = Some u" using Cons.prems(2) u by auto
      ultimately show "tget (crypto_invoices ?d) k = Some u" unfolding rows by (simp add: tget_tupd)
    qed
    ultimately have IH: "tget (crypto_invoices (fail_stuck now invs ?d)) k
        = (case tget (crypto_invoices ?d) k of None \<Rightarrow> None
           | Some r \<Rightarrow> Some (if (k, r) \<in> set invs then r\<lparr>ci_status := InvFailed\<rparr> else r))
      \<and> published (fail_stuck now invs ?d) = published ?d @
        map (\<lambda>(_, r). PNotification (crypto_notification (ci_telegram_id r) TxtCryptoStuck False KbBuyMenu))
          (filter (\<lambda>(_, r). ci_telegram_id r \<noteq> 0) invs)"
      using Cons.IH by blast
    have "(k, w) \<notin> set invs" if "k = j" for w using j(2) that by force
    then show ?case
      using IH j by (auto simp: x rows tget_tupd MarkInvoiceFailedTx_def crypto_notification_def split: option.split)
  qed (auto split: option.split)
  then show ?rows and ?out by simp_all
qed

lemma stuck_invoices_are_reported_parts:
  assumes "crypto_steps fl (empty_crypto_db w, {}) (d, fly)" and "0 < limit"
    and "length (filter (\<lambda>(k, r). is_stuck locked (now - threshold) k r) (crypto_invoices d)) \<le> nat limit"
    and "ProcessStuckCreatingInvoices Up locked now threshold limit d = (x, d')"
  shows "x = Inr ()"
    and "tget (crypto_invoices d') k = (case tget (crypto_invoices d) k of None \<Rightarrow> None
      | Some r \<Rightarrow> Some (if is_stuck locked (now - threshold) k r then r\<lparr>ci_status := InvFailed\<rparr> else r))"
    and "published d' = published d @
      map (\<lambda>(_, r). PNotification (crypto_notification (ci_telegram_id r) TxtCryptoStuck False KbBuyMenu))
        (filter (\<lambda>(k, r). is_stuck locked (now - threshold) k r \<and> ci_telegram_id r \<noteq> 0) (crypto_invoices d))"
proof -
  let ?stuck = "filter (\<lambda>(k, r). is_stuck locked (now - threshold) k r) (crypto_invoices d)"
  have wf: "twf (crypto_invoices d)"
    using crypto_invD(1) [OF crypto_steps_keep [OF assms(1) empty_crypto_inv]] .
  have lock: "LockStuckCreatingInvoicesTx locked (now - threshold) limit d = ?stuck"
    using assms(2,3) by (simp add: LockStuckCreatingInvoicesTx_def is_stuck_def)
  have d': "d' = fail_stuck now ?stuck d" and x: "x = Inr ()"
    using assms(4) by (simp_all add: ProcessStuckCreatingInvoices_def lock)
  have in_stuck: "(k, r) \<in> set ?stuck \<longleftrightarrow> is_stuck locked (now - threshold) k r"
    if "tget (crypto_invoices d) k = Some r" for k r
    using that wf by (simp add: tget_in_set)
  have "\<forall>(k, v) \<in> set ?stuck. tget (crypto_invoices d) k = Some v" using wf by (auto simp: tget_in_set)
  moreover have "distinct (map fst ?stuck)" using wf by (simp add: twf_def distinct_map_filter)
  ultimately have res: "tget (crypto_invoices d') k = (case tget (crypto_invoices d) k of None \<Rightarrow> None
        | Some r \<Rightarrow> Some (if (k, r) \<in> set ?stuck then r\<lparr>ci_status := InvFailed\<rparr> else r))"
      "published d' = published d @
        map (\<lambda>(_, r). PNotification (crypto_notification (ci_telegram_id r) TxtCryptoStuck False KbBuyMenu))
          (filter (\<lambda>(_, r). ci_telegram_id r \<noteq> 0) ?stuck)"
    unfolding d' by (rule fail_stuck_result [OF wf])+
  show "x = Inr ()" by (rule x)
  show "tget (crypto_invoices d') k = (case tget (crypto_invoices d) k of None \<Rightarrow> None
      | Some r \<Rightarrow> Some (if is_stuck locked (now - threshold) k r then r\<lparr>ci_status := InvFailed\<rparr> else r))"
    unfolding res(1) using in_stuck by (auto split: option.split)
  show "published d' = published d @
      map (\<lambda>(_, r). PNotification (crypto_notification (ci_telegram_id r) TxtCryptoStuck False KbBuyMenu))
        (filter (\<lambda>(k, r). is_stuck locked (now - threshold) k r \<and> ci_telegram_id r \<noteq> 0) (crypto_invoices d))"
    unfolding res(2) by (simp add: conj_commute case_prod_beta')
qed

text \<open>
  One pass of the recovery worker over at most as many stuck invoices as its limit: exactly the
  invoices that are still being created since before the threshold fail, every other row stays, and
  exactly their users are told.
\<close>

theorem stuck_invoices_are_reported:
  assumes "crypto_steps fl (empty_crypto_db w, {}) (d, fly)" and "0 < limit"
    and "length (filter (\<lambda>(k, r). is_stuck locked (now - threshold) k r) (crypto_invoices d)) \<le> nat limit"
    and "ProcessStuckCreatingInvoices Up locked now threshold limit d = (x, d')"
  shows "(x = Inr ())
    \<and> (tget (crypto_invoices d') k = (case tget (crypto_invoices d) k of None \<Rightarrow> None
      | Some r \<Rightarrow> Some (if is_stuck locked (now - threshold) k r then r\<lparr>ci_status := InvFailed\<rparr> else r)))
    \<and> (published d' = published d @
      map (\<lambda>(_, r). PNotification (crypto_notification (ci_telegram_id r) TxtCryptoStuck False KbBuyMenu))
        (filter (\<lambda>(k, r). is_stuck locked (now - threshold) k r \<and> ci_telegram_id r \<noteq> 0) (crypto_invoices d)))"
  by (intro conjI impI stuck_invoices_are_reported_parts [OF assms])

text \<open>A checkout that died after its first transaction, found two minutes later.\<close>

definition reserved_db :: "nat crypto_db" where
  "reserved_db = snd (commit Up (reserve_body 1000 ''c1'' ''crypto-u1''
     (ordered_invoice\<lparr>ci_status := InvCreating, ci_invoice_id := [], ci_pay_url := []\<rparr>)) (empty_crypto_db 7))"

lemma stuck_invoices_are_reported_witness:
  "published (snd (ProcessStuckCreatingInvoices Up (\<lambda>_. False) (1001 + minutes 2) (minutes 2) 50 reserved_db))
    = [PNotification (crypto_notification 42 TxtCryptoStuck False KbBuyMenu)]"
proof -
  let ?inv = "ordered_invoice\<lparr>ci_status := InvCreating, ci_invoice_id := [], ci_pay_url := []\<rparr>"
  have row: "crypto_invoices reserved_db = [(''crypto-u1'', ?inv)]" and out: "published reserved_db = []"
    by code_simp+
  obtain x where "commit Up (reserve_body 1000 ''c1'' ''crypto-u1'' ?inv) (empty_crypto_db 7) = (x, reserved_db)"
    unfolding reserved_db_def by (metis prod.collapse)
  then have "crypto_step micro_lib (empty_crypto_db 7, {}) (reserved_db\<lparr>cryptobot := cryptobot reserved_db\<rparr>,
      if x = Inr True then insert ''crypto-u1'' {} else {})"
    by (rule CrReserve) (simp_all add: empty_crypto_db_def tget_def)
  then have r: "crypto_steps micro_lib (empty_crypto_db 7, {}) (reserved_db, if x = Inr True then insert ''crypto-u1'' {} else {})"
    by (auto intro: r_into_rtranclp)
  show ?thesis
    by (subst stuck_invoices_are_reported [OF r _ _ prod.collapse [symmetric], THEN conjunct2, THEN conjunct2])
      (simp_all add: row out is_stuck_def ordered_invoice_def)
qed

section \<open>Amounts\<close>

text \<open>The number a decimal string stands for.\<close>

definition decimal_value :: "string \<Rightarrow> rat" where
  "decimal_value s = (let i = takeWhile (\<lambda>c. c \<noteq> CHR ''.'') s; f = drop (Suc (length i)) s
     in of_nat (read_nat (i @ f)) / 10 ^ length f)"

lemma decimal_value_point:
  assumes "CHR ''.'' \<notin> set i"
  shows "decimal_value (i @ ''.'' @ f) = of_nat (read_nat (i @ f)) / 10 ^ length f"
    and "decimal_value i = of_nat (read_nat i)"
proof -
  have "\<forall>c \<in> set i. c \<noteq> CHR ''.''" using assms by blast
  then have tw: "takeWhile (\<lambda>c. c \<noteq> CHR ''.'') (i @ ''.'' @ f) = i" "takeWhile (\<lambda>c. c \<noteq> CHR ''.'') i = i"
    by (simp_all add: takeWhile_append takeWhile_eq_all_conv)
  then show "decimal_value (i @ ''.'' @ f) = of_nat (read_nat (i @ f)) / 10 ^ length f"
    and "decimal_value i = of_nat (read_nat i)"
    unfolding decimal_value_def Let_def tw by simp_all
qed

lemma read_nat_zeros: "read_nat (s @ replicate n (CHR ''0'')) = read_nat s * 10 ^ n"
proof (induction n)
  case (Suc n)
  have "s @ replicate (Suc n) (CHR ''0'') = (s @ replicate n (CHR ''0'')) @ [CHR ''0'']"
    by (simp add: replicate_append_same)
  then show ?case by (simp only: read_nat_snoc Suc) simp
qed simp

lemma trailing_zeros:
  obtains g n where "f = g @ replicate n c" and "g = [] \<or> last g \<noteq> c"
proof (induction f arbitrary: thesis rule: rev_induct)
  case Nil
  then show ?case by (metis append_Nil replicate_0)
next
  case (snoc x f)
  show ?case
  proof (cases "x = c")
    case True
    obtain g n where "f = g @ replicate n c" "g = [] \<or> last g \<noteq> c" using snoc.IH .
    then show ?thesis using snoc.prems [of g "Suc n"] True by (simp add: replicate_append_same [symmetric])
  next
    case False
    then show ?thesis using snoc.prems [of "f @ [x]" 0] by simp
  qed
qed

lemma trim_right_replicate:
  assumes "s = [] \<or> last s \<noteq> c"
  shows "trim_right c (s @ replicate n c) = s"
proof -
  have "dropWhile (\<lambda>x. x = c) (replicate n c @ rev s) = rev s"
    using assms by (induction n) (auto simp: dropWhile_eq_self_iff hd_rev)
  then show ?thesis by (simp add: trim_right_def)
qed

lemma formatAssetAmount_keeps_the_amount_parts:
  assumes "fl_format fl x (asset_decimals a) = i @ ''.'' @ f" and "i \<noteq> []"
    and "list_all is_digit i" and "list_all is_digit f"
  shows "decimal_value (formatAssetAmount fl x a) = decimal_value (i @ ''.'' @ f)"
    and "decimal_value (i @ ''.'' @ f) \<noteq> 0 \<Longrightarrow> CHR ''.'' \<in> set (formatAssetAmount fl x a) \<Longrightarrow>
      last (formatAssetAmount fl x a) \<noteq> CHR ''0'' \<and> last (formatAssetAmount fl x a) \<noteq> CHR ''.''"
proof -
  have point: "CHR ''.'' \<notin> set i" "CHR ''.'' \<notin> set f" using assms(3,4) by (auto simp: list_all_iff is_digit_def)
  obtain g n where f: "f = g @ replicate n (CHR ''0'')" and g: "g = [] \<or> last g \<noteq> CHR ''0''"
    by (rule trailing_zeros)
  let ?s = "i @ ''.'' @ f" and ?z = "trim_right CHR ''.'' (i @ ''.'' @ g)"
  have "trim_right CHR ''0'' ?s = i @ ''.'' @ g"
  proof -
    have "i @ ''.'' @ g = [] \<or> last (i @ ''.'' @ g) \<noteq> CHR ''0''" using g by auto
    from trim_right_replicate [OF this, of n] show ?thesis unfolding f by (simp only: append_assoc)
  qed
  then have z: "formatAssetAmount fl x a = (if ?z = [] \<or> ?z = ''0'' then ?s else ?z)"
    by (simp add: formatAssetAmount_def assms(1) Let_def)
  have tail: "last g \<noteq> CHR ''.''" if "g \<noteq> []"
  proof -
    have "last g \<in> set f" using that by (simp add: f)
    then show ?thesis using point(2) by metis
  qed
  have whole: "?z = (if g = [] then i else i @ ''.'' @ g)"
  proof (cases "g = []")
    case True
    have "i = [] \<or> last i \<noteq> CHR ''.''" using point(1) by (metis last_in_set)
    then show ?thesis using True trim_right_replicate [of i "CHR ''.''" 1] by simp
  next
    case False
    then have "last (i @ ''.'' @ g) \<noteq> CHR ''.''" using tail by simp
    then show ?thesis using False trim_right_replicate [of "i @ ''.'' @ g" "CHR ''.''" 0] by simp
  qed
  have "read_nat (i @ f) = read_nat (i @ g) * 10 ^ n"
    using read_nat_zeros [of "i @ g" n] by (simp add: f)
  then have val: "decimal_value ?z = decimal_value ?s"
    unfolding whole using decimal_value_point [OF point(1)] by (simp add: f power_add)
  then show "decimal_value (formatAssetAmount fl x a) = decimal_value ?s" unfolding z by simp
  assume nz: "decimal_value ?s \<noteq> 0" and dot: "CHR ''.'' \<in> set (formatAssetAmount fl x a)"
  have "decimal_value ''0'' = 0" by (simp add: decimal_value_def read_nat_def)
  then have "?z \<noteq> ''0''" using nz val by metis
  moreover have "?z \<noteq> []" unfolding whole using assms(2) by simp
  ultimately have r: "formatAssetAmount fl x a = i @ ''.'' @ g" "g \<noteq> []"
    using dot point(1) unfolding z whole by (auto split: if_splits)
  from r show "last (formatAssetAmount fl x a) \<noteq> CHR ''0'' \<and> last (formatAssetAmount fl x a) \<noteq> CHR ''.''"
    using g tail by auto
qed

text \<open>
  Where the library prints an amount with digits on both sides of a point, as \<open>FormatFloat\<close> documents
  for the precisions used, cutting the trailing zeros and the point changes nothing of the amount, and
  what is printed has no superfluous zero, unless the amount is zero.
\<close>

theorem formatAssetAmount_keeps_the_amount:
  assumes "fl_format fl x (asset_decimals a) = i @ ''.'' @ f" and "i \<noteq> []"
    and "list_all is_digit i" and "list_all is_digit f"
  shows "(decimal_value (formatAssetAmount fl x a) = decimal_value (i @ ''.'' @ f))
    \<and> (decimal_value (i @ ''.'' @ f) \<noteq> 0 \<longrightarrow> CHR ''.'' \<in> set (formatAssetAmount fl x a) \<longrightarrow>
      last (formatAssetAmount fl x a) \<noteq> CHR ''0'' \<and> last (formatAssetAmount fl x a) \<noteq> CHR ''.'')"
  by (intro conjI impI formatAssetAmount_keeps_the_amount_parts [OF assms])

lemma formatAssetAmount_keeps_the_amount_witness:
  "decimal_value (formatAssetAmount micro_lib 2500000 ''USDT'') = decimal_value ''2.50''"
proof -
  have "fl_format micro_lib 2500000 (asset_decimals ''USDT'') = ''2'' @ ''.'' @ ''50''" by code_simp
  from formatAssetAmount_keeps_the_amount [OF this, THEN conjunct1] show ?thesis
    by (simp add: is_digit_def)
qed

section \<open>Accepted assets\<close>

lemma of_char_to_upper: "(of_char (to_upper c) :: nat) = (if 97 \<le> (of_char c :: nat) \<and> (of_char c :: nat) \<le> 122 then of_char c - 32 else of_char c)"
  by (auto simp: to_upper_def of_char_of)

lemma char_eq_iff: "c = d \<longleftrightarrow> (of_char c :: nat) = of_char d"
  by simp

lemma to_upper_simps [simp]:
  "to_upper (to_upper c) = to_upper c" "is_space (to_upper c) \<longleftrightarrow> is_space c" "to_upper c = CHR '','' \<longleftrightarrow> c = CHR '',''"
  unfolding char_eq_iff [of "to_upper _"] char_eq_iff [of c "CHR '',''"]
  by (auto simp: is_space_def of_char_to_upper simp del: of_char_eq_iff)

lemma dropWhile_idem: "dropWhile P (dropWhile P s) = dropWhile P s"
  by (induction s) auto

lemma trim_space_map:
  assumes "\<And>c. is_space (f c) = is_space c"
  shows "trim_space (map f s) = map f (trim_space s)"
  using assms by (simp add: trim_space_def dropWhile_map rev_map comp_def)

lemma trim_space_idem: "trim_space (trim_space s) = trim_space s"
proof -
  have "dropWhile is_space (trim_space s) = trim_space s"
  proof (cases "trim_space s = []")
    case False
    let ?u = "dropWhile is_space s"
    obtain w where w: "rev ?u = w @ dropWhile is_space (rev ?u)" by (metis takeWhile_dropWhile_id)
    then have "?u = trim_space s @ rev w" by (metis rev_append rev_rev_ident trim_space_def)
    then have "hd (trim_space s) = hd ?u" using False by (metis hd_append2)
    moreover have "?u \<noteq> []" using False unfolding trim_space_def by fastforce
    ultimately have "\<not> is_space (hd (trim_space s))" using hd_dropWhile [of is_space s] by metis
    then show ?thesis using False by (cases "trim_space s") auto
  qed simp
  then show ?thesis
    unfolding trim_space_def [of "trim_space s"] by (simp add: trim_space_def dropWhile_idem)
qed

lemma split_comma_parts: "p \<in> set (split_comma acc s) \<Longrightarrow> CHR '','' \<notin> set acc \<Longrightarrow> CHR '','' \<notin> set p"
  by (induction acc s rule: split_comma.induct) (auto split: if_splits)

lemma trim_space_set: "set (trim_space s) \<subseteq> set s"
  unfolding trim_space_def by (auto dest!: set_dropWhileD)

definition asset_name :: "string \<Rightarrow> bool" where
  "asset_name a \<longleftrightarrow> a \<noteq> [] \<and> map to_upper (trim_space a) = a \<and> CHR '','' \<notin> set a"

lemma dedup_assets_names:
  assumes "\<forall>p \<in> set ps. CHR '','' \<notin> set p"
  shows "(\<forall>a \<in> set (dedup_assets seen ps). asset_name a) \<and> distinct (dedup_assets seen ps)
    \<and> set (dedup_assets seen ps) \<inter> set seen = {}"
  using assms
proof (induction seen ps rule: dedup_assets.induct)
  case (2 seen p ps)
  let ?a = "map to_upper (trim_space p)"
  have "asset_name ?a" if "?a \<noteq> []"
  proof -
    have "CHR '','' \<notin> set (trim_space p)" using 2(3) trim_space_set [of p] by auto
    then have "CHR '','' \<notin> set ?a" by (metis (no_types, lifting) imageE list.set_map to_upper_simps(3))
    then show ?thesis using that by (simp add: asset_name_def trim_space_map trim_space_idem comp_def)
  qed
  then show ?case using 2 by (auto simp: Let_def)
qed simp

lemma dedup_assets_id:
  assumes "\<forall>a \<in> set xs. asset_name a" and "distinct xs" and "set xs \<inter> set seen = {}"
  shows "dedup_assets seen xs = xs"
  using assms by (induction xs arbitrary: seen) (auto simp: asset_name_def Let_def)

lemma split_comma_append: "CHR '','' \<notin> set p \<Longrightarrow> split_comma acc (p @ s) = split_comma (acc @ p) s"
  by (induction p arbitrary: acc) auto

lemma split_join_comma:
  assumes "\<forall>p \<in> set ps. CHR '','' \<notin> set p" and "ps \<noteq> []"
  shows "split_comma [] (join_comma ps) = ps"
  using assms
proof (induction ps rule: join_comma.induct)
  case (2 p)
  then show ?case using split_comma_append [of p "[]" "[]"] by simp
qed (simp_all add: split_comma_append)

lemma accepted_assets_roundtrip_parts:
  assumes "LoadConfigFromEnv fl parseDuration getenv = Inr c"
  shows "cc_accepted_assets c \<noteq> []" and "distinct (cc_accepted_assets c)"
    and "\<forall>a \<in> set (cc_accepted_assets c). a \<noteq> [] \<and> map to_upper a = a"
    and "parseAssets (AcceptedAssetsCSV c) = cc_accepted_assets c"
proof -
  let ?p = "parseAssets (env_or getenv ''CRYPTO_ACCEPTED_ASSETS'' ''USDT,TON'')"
  have "(\<forall>a \<in> set ?p. asset_name a) \<and> distinct ?p"
    using dedup_assets_names [of "split_comma [] _" "[]"] split_comma_parts [of _ "[]"]
    unfolding parseAssets_def by simp
  moreover have "(\<forall>a \<in> set [''USDT'', ''TON'']. asset_name a) \<and> distinct [''USDT'', ''TON'']"
    by code_simp
  moreover have "cc_accepted_assets c = (if ?p = [] then [''USDT'', ''TON''] else ?p)"
    using assms by (auto simp: LoadConfigFromEnv_def Let_def split: if_splits)
  ultimately have ok: "\<forall>a \<in> set (cc_accepted_assets c). asset_name a" "distinct (cc_accepted_assets c)" "cc_accepted_assets c \<noteq> []"
    by (simp_all split: if_splits)
  show "cc_accepted_assets c \<noteq> []" "distinct (cc_accepted_assets c)" using ok by simp_all
  have "map to_upper a = a" if "asset_name a" for a
    using that unfolding asset_name_def by (metis (no_types, lifting) list.map_cong list.map_comp comp_apply to_upper_simps(1))
  then show "\<forall>a \<in> set (cc_accepted_assets c). a \<noteq> [] \<and> map to_upper a = a"
    using ok(1) by (auto simp: asset_name_def)
  have "split_comma [] (join_comma (cc_accepted_assets c)) = cc_accepted_assets c"
    by (rule split_join_comma) (use ok in \<open>auto simp: asset_name_def\<close>)
  then show "parseAssets (AcceptedAssetsCSV c) = cc_accepted_assets c"
    using dedup_assets_id [OF ok(1,2), of "[]"] by (simp add: parseAssets_def AcceptedAssetsCSV_def)
qed

text \<open>
  The accepted assets of a loaded configuration are names in capitals, none twice and at least one, and
  the list sent to the provider reads back as the same assets.
\<close>

theorem accepted_assets_roundtrip:
  assumes "LoadConfigFromEnv fl parseDuration getenv = Inr c"
  shows "(cc_accepted_assets c \<noteq> [])
    \<and> (distinct (cc_accepted_assets c))
    \<and> (\<forall>a \<in> set (cc_accepted_assets c). a \<noteq> [] \<and> map to_upper a = a)
    \<and> (parseAssets (AcceptedAssetsCSV c) = cc_accepted_assets c)"
  by (intro conjI impI accepted_assets_roundtrip_parts [OF assms])

lemma accepted_assets_roundtrip_witness:
  "parseAssets (AcceptedAssetsCSV sample_crypto_config) = cc_accepted_assets sample_crypto_config"
proof -
  have "\<exists>c. LoadConfigFromEnv micro_lib (\<lambda>_. None) sample_getenv = Inr c"
    by (simp add: LoadConfigFromEnv_def Let_def sample_getenv_def trim_space_def is_space_def env_or_def to_lower_def)
  then have "LoadConfigFromEnv micro_lib (\<lambda>_. None) sample_getenv = Inr sample_crypto_config"
    unfolding sample_crypto_config_def by auto
  then show ?thesis by (rule accepted_assets_roundtrip [THEN conjunct2, THEN conjunct2, THEN conjunct2])
qed

end
