(* ===== verification/Ratelimit.thy ===== *)
theory Ratelimit
  imports Prelude
begin

text \<open>
  The in-memory rate limiter, \<open>internal/common/ratelimit\<close>. A limiter is its window and a table
  from keys to counters; \<open>Allow\<close> and the body of \<open>cleanupLoop\<close> run under the mutex, so each is one
  atomic operation here. The clock reading is an argument. The stop channel and \<open>Close\<close>, which only
  end the cleanup goroutine, have no state to model.
\<close>

record counter =
  cn_count :: int
  cn_windowStart :: time

record limiter =
  lm_counts :: "(string, counter) table"
  lm_window :: duration

definition New :: "duration \<Rightarrow> limiter" where
  "New window = \<lparr>lm_counts = [], lm_window = (if window \<le> 0 then minutes 1 else window)\<rparr>"

text \<open>Storing a fresh counter: replace the key's entry or add one.\<close>

definition set_counter :: "string \<Rightarrow> counter \<Rightarrow> limiter \<Rightarrow> limiter" where
  "set_counter key c l = l\<lparr>lm_counts := tupd key (\<lambda>_. c) (tins key c (lm_counts l))\<rparr>"

definition Allow :: "time \<Rightarrow> string \<Rightarrow> int \<Rightarrow> limiter \<Rightarrow> bool \<times> limiter" where
  "Allow now key limit l =
     (if limit \<le> 0 then (True, l)
      else case tget (lm_counts l) key of
        None \<Rightarrow> (True, set_counter key \<lparr>cn_count = 1, cn_windowStart = now\<rparr> l)
      | Some c \<Rightarrow>
          if lm_window l \<le> now - cn_windowStart c
          then (True, set_counter key \<lparr>cn_count = 1, cn_windowStart = now\<rparr> l)
          else let c' = c\<lparr>cn_count := cn_count c + 1\<rparr>
               in (cn_count c' \<le> limit, set_counter key c' l))"

definition cleanup_tick :: "time \<Rightarrow> limiter \<Rightarrow> limiter" where
  "cleanup_tick now l =
     l\<lparr>lm_counts := filter (\<lambda>(k, c). \<not> lm_window l \<le> now - cn_windowStart c) (lm_counts l)\<rparr>"

section \<open>Runs\<close>

text \<open>What the process does with the limiter: requests for keys and ticks of the cleanup.\<close>

datatype lim_event = Request time string | Tick time

primrec lim_time :: "lim_event \<Rightarrow> time" where
  "lim_time (Request t k) = t"
| "lim_time (Tick t) = t"

fun granted :: "string \<Rightarrow> int \<Rightarrow> limiter \<Rightarrow> lim_event list \<Rightarrow> nat" where
  "granted key limit l [] = 0"
| "granted key limit l (Tick t # es) = granted key limit (cleanup_tick t l) es"
| "granted key limit l (Request t k # es) =
     (case Allow t k limit l of
        (ok, l') \<Rightarrow> (if k = key \<and> ok then 1 else 0) + granted key limit l' es)"

definition requests :: "string \<Rightarrow> lim_event list \<Rightarrow> nat" where
  "requests key es = length (filter (\<lambda>e. case e of Request t k \<Rightarrow> k = key | Tick t \<Rightarrow> False) es)"

lemma requests_simps [simp]:
  "requests key [] = 0"
  "requests key (Tick t # es) = requests key es"
  "requests key (Request t k # es) = (if k = key then 1 else 0) + requests key es"
  by (simp_all add: requests_def)

lemma set_counter_simps [simp]:
  "lm_window (set_counter k c l) = lm_window l"
  "tget (lm_counts (set_counter k c l)) k' = (if k' = k then Some c else tget (lm_counts l) k')"
  by (auto simp: set_counter_def table_simps map_option_case split: option.split)

lemma set_counter_wf [simp]: "twf (lm_counts l) \<Longrightarrow> twf (lm_counts (set_counter k c l))"
  by (simp add: set_counter_def)

lemma Allow_window [simp]: "lm_window (snd (Allow t k n l)) = lm_window l"
  by (simp add: Allow_def Let_def split: option.split)

lemma Allow_wf [simp]: "twf (lm_counts l) \<Longrightarrow> twf (lm_counts (snd (Allow t k n l)))"
  by (simp add: Allow_def Let_def split: option.split)

lemma Allow_other [simp]:
  "k \<noteq> key \<Longrightarrow> tget (lm_counts (snd (Allow t k n l))) key = tget (lm_counts l) key"
  by (simp add: Allow_def Let_def split: option.split)

lemma tick_wf [simp]: "twf (lm_counts l) \<Longrightarrow> twf (lm_counts (cleanup_tick t l))"
  by (auto simp: cleanup_tick_def twf_def intro: distinct_map_filter)

lemma tick_window [simp]: "lm_window (cleanup_tick t l) = lm_window l"
  by (simp add: cleanup_tick_def)

lemma tick_live:
  "twf (lm_counts l) \<Longrightarrow> tget (lm_counts l) k = Some c \<Longrightarrow> t - cn_windowStart c < lm_window l \<Longrightarrow>
     tget (lm_counts (cleanup_tick t l)) k = Some c"
proof -
  assume wf: "twf (lm_counts l)" and "tget (lm_counts l) k = Some c" "t - cn_windowStart c < lm_window l"
  then show ?thesis
    using tick_wf [OF wf, of t] by (auto simp: tget_in_set cleanup_tick_def)
qed

text \<open>While a key's window is open, its requests are granted until the limit is used up.\<close>

lemma granted_open_window:
  assumes "twf (lm_counts l)" and "tget (lm_counts l) key = Some c" and "1 \<le> limit" and "0 \<le> cn_count c"
    and "\<forall>e \<in> set es. lim_time e - cn_windowStart c < lm_window l"
  shows "granted key limit l es = min (requests key es) (nat (limit - cn_count c))"
  using assms
proof (induction es arbitrary: l c)
  case (Cons e es)
  show ?case
  proof (cases e)
    case (Tick t)
    with Cons.prems have "tget (lm_counts (cleanup_tick t l)) key = Some c"
      by (intro tick_live) auto
    with Cons.prems Cons.IH [of "cleanup_tick t l" c] Tick show ?thesis by simp
  next
    case (Request t k)
    show ?thesis
    proof (cases "k = key")
      case False
      with Cons.prems Cons.IH [of "snd (Allow t k limit l)" c] Request show ?thesis
        by (auto split: prod.split simp: prod_eq_iff)
    next
      case True
      let ?c = "c\<lparr>cn_count := cn_count c + 1\<rparr>"
      have step: "Allow t k limit l = (cn_count c + 1 \<le> limit, set_counter k ?c l)"
        using Cons.prems True Request by (auto simp: Allow_def Let_def)
      have "granted key limit (set_counter k ?c l) es = min (requests key es) (nat (limit - cn_count ?c))"
        using Cons.prems True by (intro Cons.IH) auto
      with step True Request Cons.prems(4) show ?thesis by auto
    qed
  qed
qed simp

lemma window_grants:
  assumes "twf (lm_counts l)" and "1 \<le> limit"
    and "tget (lm_counts l) key = None \<or>
      (\<exists>c. tget (lm_counts l) key = Some c \<and> lm_window l \<le> t0 - cn_windowStart c)"
    and "\<forall>e \<in> set es. lim_time e - t0 < lm_window l"
  shows "granted key limit l (Request t0 key # es) = min (1 + requests key es) (nat limit)"
proof -
  let ?l = "set_counter key \<lparr>cn_count = 1, cn_windowStart = t0\<rparr> l"
  have "Allow t0 key limit l = (True, ?l)"
    using assms(2,3) by (auto simp: Allow_def)
  moreover have "granted key limit ?l es = min (requests key es) (nat (limit - 1))"
    using assms granted_open_window [of ?l key "\<lparr>cn_count = 1, cn_windowStart = t0\<rparr>" limit es] by simp
  ultimately show ?thesis using assms(2) by auto
qed

section \<open>Properties\<close>

text \<open>
  The limit per window is exact. From a moment at which a key has no live counter, its
  requests within the window that the first of them opens are granted up to the limit and refused
  beyond it, whatever other keys do and whenever the cleanup runs.
\<close>

theorem window_grants_exactly_limit:
  assumes "twf (lm_counts l)" and "1 \<le> limit"
    and "tget (lm_counts l) key = None \<or>
      (\<exists>c. tget (lm_counts l) key = Some c \<and> lm_window l \<le> t0 - cn_windowStart c)"
    and "\<forall>e \<in> set es. lim_time e - t0 < lm_window l"
  shows "granted key limit l (Request t0 key # es) = min (1 + requests key es) (nat limit)"
  using assms by (rule window_grants)

lemma window_grants_exactly_limit_witness:
  "granted ''a'' 2 (New 100) [Request 0 ''a'', Request 5 ''b'', Tick 50, Request 60 ''a'', Request 99 ''a''] = 2"
  using window_grants_exactly_limit [of "New 100" 2 "''a''" 0
      "[Request 5 ''b'', Tick 50, Request 60 ''a'', Request 99 ''a'']"]
  by (simp add: New_def)

text \<open>Requests that fit the limit are all granted, and leave the counter advanced.\<close>

lemma granted_fitting:
  assumes "twf (lm_counts l)" and "tget (lm_counts l) key = Some c"
    and "cn_count c + int m \<le> limit" and "1 \<le> limit" and "t - cn_windowStart c < lm_window l"
  shows "\<exists>l'. twf (lm_counts l') \<and> lm_window l' = lm_window l \<and>
    tget (lm_counts l') key = Some (c\<lparr>cn_count := cn_count c + int m\<rparr>) \<and>
    granted key limit l (replicate m (Request t key) @ es) = m + granted key limit l' es"
  using assms
proof (induction m arbitrary: l c)
  case 0
  then show ?case by (intro exI [of _ l]) simp
next
  case (Suc m)
  let ?c = "c\<lparr>cn_count := cn_count c + 1\<rparr>"
  have step: "Allow t key limit l = (True, set_counter key ?c l)"
    using Suc.prems by (auto simp: Allow_def Let_def)
  have "\<exists>l'. twf (lm_counts l') \<and> lm_window l' = lm_window (set_counter key ?c l) \<and>
      tget (lm_counts l') key = Some (?c\<lparr>cn_count := cn_count ?c + int m\<rparr>) \<and>
      granted key limit (set_counter key ?c l) (replicate m (Request t key) @ es) = m + granted key limit l' es"
    using Suc.prems by (intro Suc.IH) auto
  then show ?case using step by (auto simp: add.assoc)
qed

text \<open>
  The window is a fixed one, not a sliding one: for every limit, two nanoseconds around the
  end of a window can see \<open>2 * limit - 1\<close> requests of one key granted.
\<close>

theorem fixed_window_burst:
  assumes "1 < window"
  shows "granted key (int (Suc n)) (New window)
      (Request 0 key # replicate n (Request (window - 1) key) @ replicate (Suc n) (Request window key))
    = 1 + n + Suc n"
proof -
  let ?lim = "int (Suc n)"
  let ?l = "set_counter key \<lparr>cn_count = 1, cn_windowStart = 0\<rparr> (New window)"
  have first: "Allow 0 key ?lim (New window) = (True, ?l)"
    by (simp add: Allow_def New_def)
  obtain l' where l': "twf (lm_counts l')" "lm_window l' = window"
      "tget (lm_counts l') key = Some \<lparr>cn_count = ?lim, cn_windowStart = 0\<rparr>"
      "granted key ?lim ?l (replicate n (Request (window - 1) key) @ replicate (Suc n) (Request window key))
        = n + granted key ?lim l' (replicate (Suc n) (Request window key))"
    using granted_fitting [of ?l key "\<lparr>cn_count = 1, cn_windowStart = 0\<rparr>" n ?lim "window - 1"
        "replicate (Suc n) (Request window key)"] assms
    by (auto simp: New_def)
  have "requests key (replicate n (Request window key)) = n" by (induction n) auto
  then have "granted key ?lim l' (replicate (Suc n) (Request window key)) = Suc n"
    using l' assms window_grants [of l' ?lim key window "replicate n (Request window key)"] by simp
  with first l'(4) show ?thesis by simp
qed

lemma fixed_window_burst_witness:
  "granted ''a'' 3 (New 100) [Request 0 ''a'', Request 99 ''a'', Request 99 ''a'',
     Request 100 ''a'', Request 100 ''a'', Request 100 ''a''] = 6"
  using fixed_window_burst [of 100 "''a''" 2] by (simp add: numeral_eq_Suc)

end
