(* ===== verification/VpnAlloc.thy ===== *)
theory VpnAlloc
  imports Contracts
begin

text \<open>
  The choice of the server of a user, \<open>internal/vpn_orchestrator/allocator.go\<close> and the \<open>ServerLoad\<close>
  of repository.go: one pool item per country, by health, capacity, stickiness and load.
  \<open>sort.SliceStable\<close> is insertion sort, whose result any stable sort shares when the comparison is a
  strict weak order. Maps keyed by strings that are only built and looked up are association lists.
\<close>

section \<open>Servers and pool items\<close>

record PoolItem =
  pi_id :: int
  pi_item_key :: string
  pi_server_key :: string
  pi_node_id :: string
  pi_country_code :: string
  pi_title :: string
  pi_profile_type :: string
  pi_enabled :: bool
  pi_sort_order :: int
  pi_public_host :: string
  pi_port :: int
  pi_transport :: string
  pi_security :: string
  pi_host_header :: string
  pi_sni :: string
  pi_ws_path :: string
  pi_inbound_tag :: string
  pi_flow :: string
  pi_level :: int

record ServerLoad =
  sl_server_key :: string
  sl_country_code :: string
  sl_enabled :: bool
  sl_max_users :: int
  sl_active_users :: int
  sl_online_users :: int
  sl_uplink_bps :: int
  sl_downlink_bps :: int
  sl_bandwidth_mbps :: int
  sl_weight :: int
  sl_last_heartbeat_at :: "time option"

definition AliveByHeartbeat :: "time \<Rightarrow> duration \<Rightarrow> ServerLoad \<Rightarrow> bool" where
  "AliveByHeartbeat now ttl s \<longleftrightarrow> sl_enabled s
     \<and> (case sl_last_heartbeat_at s of None \<Rightarrow> True | Some t \<Rightarrow> now - t \<le> ttl)"

definition HasCapacity :: "ServerLoad \<Rightarrow> bool" where
  "HasCapacity s \<longleftrightarrow> sl_max_users s \<le> 0 \<or> sl_active_users s < sl_max_users s"

definition load_weight :: "ServerLoad \<Rightarrow> int" where
  "load_weight s = (if sl_weight s \<le> 0 then 1 else sl_weight s)"

definition load_conns :: "ServerLoad \<Rightarrow> int" where
  "load_conns s = (if sl_online_users s \<le> 0 then sl_active_users s else sl_online_users s)"

definition LoadScore :: "'f float_lib \<Rightarrow> ServerLoad \<Rightarrow> 'f" where
  "LoadScore fl s =
     (let f = (\<lambda>n. fl_dec fl n 0); w = f (load_weight s);
          score = fl_div fl (f (wrap64 (load_conns s + 1))) w in
      if 0 < sl_bandwidth_mbps s \<and> 0 < sl_max_users s then
        (let capacityBps = fl_mul fl (f (sl_bandwidth_mbps s)) (f 1000000);
             usedBps = f (wrap64 (sl_uplink_bps s + sl_downlink_bps s)) in
         if fl_less fl (f 0) usedBps then
           (let bwScore = fl_div fl (fl_mul fl (fl_div fl usedBps capacityBps) (f (wrap64 (sl_max_users s + 1)))) w
            in if fl_less fl score bwScore then bwScore else score)
         else score)
      else score)"

section \<open>Stable sorting\<close>

text \<open>\<open>insert_by lt x xs\<close> puts \<open>x\<close> before the first element that is not less than it.\<close>

fun insert_by :: "('a \<Rightarrow> 'a \<Rightarrow> bool) \<Rightarrow> 'a \<Rightarrow> 'a list \<Rightarrow> 'a list" where
  "insert_by lt x [] = [x]"
| "insert_by lt x (y # ys) = (if lt y x then y # insert_by lt x ys else x # y # ys)"

definition sort_by :: "('a \<Rightarrow> 'a \<Rightarrow> bool) \<Rightarrow> 'a list \<Rightarrow> 'a list" where
  "sort_by lt xs = foldr (insert_by lt) xs []"

definition item_less :: "PoolItem \<Rightarrow> PoolItem \<Rightarrow> bool" where
  "item_less a b \<longleftrightarrow> (if pi_sort_order a = pi_sort_order b then pi_id a < pi_id b
                      else pi_sort_order a < pi_sort_order b)"

definition SortPoolItems :: "PoolItem list \<Rightarrow> PoolItem list" where
  "SortPoolItems items = sort_by item_less items"

definition scored_less :: "'f float_lib \<Rightarrow> PoolItem \<times> 'f \<Rightarrow> PoolItem \<times> 'f \<Rightarrow> bool" where
  "scored_less fl a b \<longleftrightarrow> (if fl_eq fl (snd a) (snd b) then item_less (fst a) (fst b)
                           else fl_less fl (snd a) (snd b))"

section \<open>The allocator\<close>

record Allocator =
  al_heartbeat_ttl :: duration
  al_soft_overflow :: bool

definition NewAllocator :: "duration \<Rightarrow> bool \<Rightarrow> Allocator" where
  "NewAllocator ttl soft = \<lparr>al_heartbeat_ttl = (if ttl \<le> 0 then secs 90 else ttl), al_soft_overflow = soft\<rparr>"

text \<open>
  \<open>byKey\<close>: of two entries with the same server key the last one visited stays. \<open>servers\<close> lists the
  map's entries in the order Go happens to visit them.
\<close>

definition by_key :: "(string \<times> ServerLoad list) list \<Rightarrow> string \<Rightarrow> ServerLoad option" where
  "by_key servers k = List.find (\<lambda>s. sl_server_key s = k) (rev (concat (map snd servers)))"

text \<open>The countries in order of first appearance, and each country's enabled items in the given order.\<close>

fun add_country :: "string list \<Rightarrow> PoolItem list \<Rightarrow> string list" where
  "add_country seen [] = seen"
| "add_country seen (it # items) =
     add_country (if pi_country_code it \<in> set seen then seen else seen @ [pi_country_code it]) items"

definition country_order :: "PoolItem list \<Rightarrow> string list" where
  "country_order items = add_country [] (filter pi_enabled items)"

definition candidates :: "PoolItem list \<Rightarrow> string \<Rightarrow> PoolItem list" where
  "candidates items c = filter (\<lambda>it. pi_enabled it \<and> pi_country_code it = c) items"

text \<open>A country's alive items with their scores: those with capacity and those over it.\<close>

definition alive_scored ::
    "'f float_lib \<Rightarrow> Allocator \<Rightarrow> (string \<times> ServerLoad list) list \<Rightarrow> time \<Rightarrow> bool \<Rightarrow> PoolItem list
      \<Rightarrow> (PoolItem \<times> 'f) list" where
  "alive_scored fl al servers now cap items =
     concat (map (\<lambda>it. case by_key servers (pi_server_key it) of
         None \<Rightarrow> []
       | Some s \<Rightarrow> if AliveByHeartbeat now (al_heartbeat_ttl al) s \<and> HasCapacity s = cap
                   then [(it, LoadScore fl s)] else []) items)"

definition country_pool ::
    "'f float_lib \<Rightarrow> Allocator \<Rightarrow> (string \<times> ServerLoad list) list \<Rightarrow> time \<Rightarrow> PoolItem list
      \<Rightarrow> (PoolItem \<times> 'f) list" where
  "country_pool fl al servers now items =
     (let withCapacity = alive_scored fl al servers now True items in
      if withCapacity \<noteq> [] then withCapacity
      else if al_soft_overflow al then alive_scored fl al servers now False items else [])"

definition bound_to :: "(string \<Rightarrow> string) \<Rightarrow> PoolItem \<Rightarrow> bool" where
  "bound_to sticky it \<longleftrightarrow> sticky (pi_item_key it) \<noteq> [] \<and> sticky (pi_item_key it) = pi_server_key it"

definition pick_item :: "'f float_lib \<Rightarrow> (string \<Rightarrow> string) \<Rightarrow> (PoolItem \<times> 'f) list \<Rightarrow> PoolItem" where
  "pick_item fl sticky pool = (case List.find (\<lambda>x. bound_to sticky (fst x)) pool of
     Some x \<Rightarrow> fst x
   | None \<Rightarrow> fst (hd (sort_by (scored_less fl) pool)))"

definition pick_country ::
    "'f float_lib \<Rightarrow> Allocator \<Rightarrow> (string \<times> ServerLoad list) list \<Rightarrow> (string \<Rightarrow> string) \<Rightarrow> time
      \<Rightarrow> PoolItem list \<Rightarrow> string \<Rightarrow> PoolItem list" where
  "pick_country fl al servers sticky now items c =
     (let pool = country_pool fl al servers now (candidates items c) in
      if pool = [] then [] else [pick_item fl sticky pool])"

definition Allocate ::
    "'f float_lib \<Rightarrow> Allocator \<Rightarrow> PoolItem list \<Rightarrow> (string \<times> ServerLoad list) list \<Rightarrow> (string \<Rightarrow> string)
      \<Rightarrow> time \<Rightarrow> PoolItem list" where
  "Allocate fl al items servers sticky now =
     SortPoolItems (concat (map (pick_country fl al servers sticky now items) (country_order items)))"

section \<open>Facts about sorting\<close>

lemma set_insert_by [simp]: "set (insert_by lt x xs) = insert x (set xs)"
  by (induction xs) auto

lemma sort_by_simps: "sort_by lt [] = []" "sort_by lt (x # xs) = insert_by lt x (sort_by lt xs)"
  by (simp_all add: sort_by_def)

lemma set_sort_by [simp]: "set (sort_by lt xs) = set xs"
  by (induction xs) (simp_all add: sort_by_simps)

lemma length_insert_by [simp]: "length (insert_by lt x xs) = Suc (length xs)"
  by (induction xs) auto

lemma length_sort_by [simp]: "length (sort_by lt xs) = length xs"
  by (induction xs) (simp_all add: sort_by_simps)

lemma sort_by_Nil_iff [simp]: "sort_by lt xs = [] \<longleftrightarrow> xs = []"
  by (metis length_0_conv length_sort_by)

lemma distinct_map_insert_by: "distinct (map f (insert_by lt x xs)) \<longleftrightarrow> f x \<notin> f ` set xs \<and> distinct (map f xs)"
  by (induction xs) auto

lemma distinct_map_sort_by: "distinct (map f (sort_by lt xs)) \<longleftrightarrow> distinct (map f xs)"
  by (induction xs) (auto simp: sort_by_simps distinct_map_insert_by)

text \<open>A comparison a sort can rely on: irreflexive comparisons whose negation is transitive.\<close>

locale weak_order =
  fixes lt :: "'a \<Rightarrow> 'a \<Rightarrow> bool"
  assumes asym: "lt x y \<Longrightarrow> \<not> lt y x"
    and negtrans: "\<not> lt y x \<Longrightarrow> \<not> lt z y \<Longrightarrow> \<not> lt z x"
begin

definition ordered :: "'a list \<Rightarrow> bool" where
  "ordered xs \<longleftrightarrow> sorted_wrt (\<lambda>x y. \<not> lt y x) xs"

lemma ordered_insert_by: "ordered xs \<Longrightarrow> ordered (insert_by lt x xs)"
  unfolding ordered_def by (induction xs) (auto dest: asym negtrans)

lemma ordered_sort_by: "ordered (sort_by lt xs)"
  by (induction xs) (auto simp: sort_by_simps ordered_insert_by, simp add: ordered_def)

lemma hd_sort_by_least: "xs \<noteq> [] \<Longrightarrow> y \<in> set xs \<Longrightarrow> \<not> lt y (hd (sort_by lt xs))"
proof -
  assume xs: "xs \<noteq> []" and y: "y \<in> set xs"
  obtain z zs where z: "sort_by lt xs = z # zs" using xs by (metis neq_Nil_conv sort_by_Nil_iff)
  have "y = z \<or> y \<in> set zs" using y z by (metis set_ConsD set_sort_by)
  then show ?thesis using ordered_sort_by [of xs] z by (auto simp: ordered_def dest: asym)
qed

end

interpretation items: weak_order item_less
  by unfold_locales (auto simp: item_less_def split: if_splits)

lemma scored_weak_order:
  fixes fl :: "('f :: linorder) float_lib"
  assumes "\<And>x y. fl_eq fl x y \<longleftrightarrow> x = y" and "\<And>x y. fl_less fl x y \<longleftrightarrow> x < y"
  shows "weak_order (scored_less fl)"
  by unfold_locales (auto simp: scored_less_def assms items.asym dest: items.negtrans split: if_splits)

section \<open>Facts about the allocation\<close>

lemma set_add_country: "set (add_country seen items) = set seen \<union> pi_country_code ` set items"
  by (induction seen items rule: add_country.induct) auto

lemma distinct_add_country: "distinct seen \<Longrightarrow> distinct (add_country seen items)"
  by (induction seen items rule: add_country.induct) auto

lemma set_country_order: "set (country_order items) = pi_country_code ` {it \<in> set items. pi_enabled it}"
  by (simp add: country_order_def set_add_country)

lemma distinct_country_order: "distinct (country_order items)"
  by (simp add: country_order_def distinct_add_country)

lemma alive_scored_iff:
  "(it, sc) \<in> set (alive_scored fl al servers now cap items) \<longleftrightarrow>
     it \<in> set items \<and> (\<exists>s. by_key servers (pi_server_key it) = Some s \<and> sc = LoadScore fl s
       \<and> AliveByHeartbeat now (al_heartbeat_ttl al) s \<and> HasCapacity s = cap)"
proof -
  have "(it, sc) \<in> set (case by_key servers (pi_server_key x) of None \<Rightarrow> []
      | Some s \<Rightarrow> if AliveByHeartbeat now (al_heartbeat_ttl al) s \<and> HasCapacity s = cap then [(x, LoadScore fl s)] else [])
    \<longleftrightarrow> it = x \<and> (\<exists>s. by_key servers (pi_server_key x) = Some s \<and> sc = LoadScore fl s
       \<and> AliveByHeartbeat now (al_heartbeat_ttl al) s \<and> HasCapacity s = cap)" for x
    by (cases "by_key servers (pi_server_key x)") auto
  then show ?thesis unfolding alive_scored_def by auto
qed

lemma pick_item_in: "pool \<noteq> [] \<Longrightarrow> \<exists>sc. (pick_item fl sticky pool, sc) \<in> set pool"
proof -
  assume p: "pool \<noteq> []"
  have "hd (sort_by (scored_less fl) pool) \<in> set pool"
    using p by (metis hd_in_set set_sort_by sort_by_Nil_iff)
  then have "\<exists>sc. (fst (hd (sort_by (scored_less fl) pool)), sc) \<in> set pool" by (metis prod.collapse)
  then show ?thesis
    unfolding pick_item_def by (auto simp: find_Some_iff split: option.split) (metis nth_mem prod.collapse)
qed

text \<open>What the code promises of the item it takes from a pool: a bound one if there is any, otherwise one of least load.\<close>

lemma pick_item_bound:
  assumes "\<exists>x \<in> set pool. bound_to sticky (fst x)"
  shows "bound_to sticky (pick_item fl sticky pool)"
proof (cases "List.find (\<lambda>x. bound_to sticky (fst x)) pool")
  case None
  then have "\<not> (\<exists>x. x \<in> set pool \<and> bound_to sticky (fst x))" by (simp only: find_None_iff simp_thms)
  then show ?thesis using assms by blast
next
  case (Some x)
  then have "bound_to sticky (fst x)" by (auto simp: find_Some_iff)
  then show ?thesis using Some by (simp add: pick_item_def)
qed

lemma pick_item_least:
  fixes fl :: "('f :: linorder) float_lib"
  assumes fl: "\<And>x y. fl_eq fl x y \<longleftrightarrow> x = y" "\<And>x y. fl_less fl x y \<longleftrightarrow> x < y"
    and free: "\<not> (\<exists>x \<in> set pool. bound_to sticky (fst x))" and p: "pool \<noteq> []"
  shows "\<exists>sc. (pick_item fl sticky pool, sc) \<in> set pool \<and> (\<forall>y \<in> set pool. sc \<le> snd y)"
proof -
  let ?h = "hd (sort_by (scored_less fl) pool)"
  have "List.find (\<lambda>x. bound_to sticky (fst x)) pool = None" using free by (auto simp: find_None_iff)
  then have pick: "pick_item fl sticky pool = fst ?h" by (simp add: pick_item_def)
  have "?h \<in> set pool" using p by (metis hd_in_set set_sort_by sort_by_Nil_iff)
  moreover have "snd ?h \<le> snd y" if "y \<in> set pool" for y
    using weak_order.hd_sort_by_least [OF scored_weak_order [OF fl] p that]
    by (auto simp: scored_less_def fl split: if_splits)
  ultimately show ?thesis unfolding pick by (metis prod.collapse)
qed

section \<open>What the allocation promises\<close>

definition alive_item :: "Allocator \<Rightarrow> (string \<times> ServerLoad list) list \<Rightarrow> time \<Rightarrow> PoolItem \<Rightarrow> bool" where
  "alive_item al servers now it = (case by_key servers (pi_server_key it) of
     None \<Rightarrow> False | Some s \<Rightarrow> AliveByHeartbeat now (al_heartbeat_ttl al) s)"

definition open_item :: "Allocator \<Rightarrow> (string \<times> ServerLoad list) list \<Rightarrow> time \<Rightarrow> PoolItem \<Rightarrow> bool" where
  "open_item al servers now it = (alive_item al servers now it \<and> (case by_key servers (pi_server_key it) of
     None \<Rightarrow> False | Some s \<Rightarrow> HasCapacity s))"

text \<open>The items a user may be given: with capacity, or over it when nothing in the country has any.\<close>

definition eligible ::
    "Allocator \<Rightarrow> PoolItem list \<Rightarrow> (string \<times> ServerLoad list) list \<Rightarrow> time \<Rightarrow> PoolItem \<Rightarrow> bool" where
  "eligible al items servers now it \<longleftrightarrow> it \<in> set items \<and> pi_enabled it \<and> alive_item al servers now it
     \<and> (open_item al servers now it
        \<or> al_soft_overflow al \<and> \<not> list_ex (open_item al servers now) (candidates items (pi_country_code it)))"

definition item_score :: "'f float_lib \<Rightarrow> (string \<times> ServerLoad list) list \<Rightarrow> PoolItem \<Rightarrow> 'f" where
  "item_score fl servers it = (case by_key servers (pi_server_key it) of
     None \<Rightarrow> fl_dec fl 0 0 | Some s \<Rightarrow> LoadScore fl s)"

lemma country_pool_iff:
  "(it, sc) \<in> set (country_pool fl al servers now (candidates items c)) \<longleftrightarrow>
     eligible al items servers now it \<and> pi_country_code it = c \<and> sc = item_score fl servers it"
proof -
  let ?pool = "\<lambda>cap. alive_scored fl al servers now cap (candidates items c)"
  have pool: "(it, sc) \<in> set (?pool cap) \<longleftrightarrow> it \<in> set (candidates items c) \<and> alive_item al servers now it
      \<and> open_item al servers now it = cap \<and> sc = item_score fl servers it" for it sc cap
    unfolding alive_scored_iff alive_item_def open_item_def item_score_def
    by (auto split: option.split)
  have none: "?pool True = [] \<longleftrightarrow> \<not> list_ex (open_item al servers now) (candidates items c)"
  proof -
    have "?pool True = [] \<longleftrightarrow> (\<forall>it sc. (it, sc) \<notin> set (?pool True))"
      by (metis equals0I set_empty surj_pair empty_iff)
    then show ?thesis unfolding pool by (auto simp: list_ex_iff open_item_def)
  qed
  have cand: "it \<in> set (candidates items c) \<longleftrightarrow> it \<in> set items \<and> pi_enabled it \<and> pi_country_code it = c" for it
    by (auto simp: candidates_def)
  have open_alive: "open_item al servers now it \<Longrightarrow> alive_item al servers now it" for it
    by (simp add: open_item_def)
  show ?thesis
  proof (cases "?pool True = []")
    case True
    then have "\<not> open_item al servers now it" if "it \<in> set (candidates items c)"
      using that none by (auto simp: list_ex_iff)
    then show ?thesis
      using True none by (auto simp: country_pool_def eligible_def pool cand)
  next
    case False
    then show ?thesis
      using none open_alive by (auto simp: country_pool_def eligible_def pool cand Let_def)
  qed
qed

lemma pick_country_iff:
  "it \<in> set (pick_country fl al servers sticky now items c) \<longleftrightarrow>
     country_pool fl al servers now (candidates items c) \<noteq> []
     \<and> it = pick_item fl sticky (country_pool fl al servers now (candidates items c))"
  by (auto simp: pick_country_def Let_def)

lemma pick_country_code: "it \<in> set (pick_country fl al servers sticky now items c) \<Longrightarrow>
    eligible al items servers now it \<and> pi_country_code it = c"
  using pick_item_in [of "country_pool fl al servers now (candidates items c)" fl sticky]
  by (auto simp: pick_country_iff country_pool_iff)

lemma distinct_pick_countries:
  assumes "distinct cs"
  shows "distinct (map pi_country_code (concat (map (pick_country fl al servers sticky now items) cs)))"
  using assms
proof (induction cs)
  case (Cons c cs)
  have "distinct (map pi_country_code (pick_country fl al servers sticky now items c))"
    by (simp add: pick_country_def Let_def)
  moreover have "pi_country_code it \<noteq> pi_country_code it'"
    if "it \<in> set (pick_country fl al servers sticky now items c)"
      and "it' \<in> set (concat (map (pick_country fl al servers sticky now items) cs))" for it it'
    using pick_country_code [OF that(1)] that(2) Cons.prems by (auto dest!: pick_country_code)
  ultimately show ?case using Cons by fastforce
qed simp

lemma set_Allocate: "it \<in> set (Allocate fl al items servers sticky now) \<longleftrightarrow>
    it \<in> set (pick_country fl al servers sticky now items (pi_country_code it))"
proof -
  have "pi_country_code it \<in> set (country_order items)"
    if "it \<in> set (pick_country fl al servers sticky now items (pi_country_code it))"
    using pick_country_code [OF that] by (auto simp: set_country_order eligible_def)
  then show ?thesis
    unfolding Allocate_def SortPoolItems_def set_sort_by by (auto dest: pick_country_code)
qed

text \<open>
  C35. What a user gets from the pool, when numbers compare as in a linear order (no NaN): at most one item
  per country and one for every country that has an eligible item, in the order of the feed; each is
  enabled, on a live node, over capacity only if overflow is allowed and nothing in its country has room;
  the node the user is bound to wins, otherwise no eligible node of the country has a lower load.
\<close>

theorem allocate_result:
  fixes fl :: "('f :: linorder) float_lib"
  assumes fl: "\<And>x y. fl_eq fl x y \<longleftrightarrow> x = y" "\<And>x y. fl_less fl x y \<longleftrightarrow> x < y"
    and r: "r = Allocate fl al items servers sticky now"
  shows "distinct (map pi_country_code r) \<and> sorted_wrt (\<lambda>a b. \<not> item_less b a) r
    \<and> pi_country_code ` set r = pi_country_code ` {it. eligible al items servers now it}
    \<and> (\<forall>it \<in> set r. eligible al items servers now it \<and> (bound_to sticky it
        \<or> (\<forall>it'. eligible al items servers now it' \<and> pi_country_code it' = pi_country_code it \<longrightarrow>
              \<not> bound_to sticky it' \<and> item_score fl servers it \<le> item_score fl servers it')))"
proof (intro conjI ballI)
  show "distinct (map pi_country_code r)"
    unfolding r Allocate_def SortPoolItems_def distinct_map_sort_by
    by (rule distinct_pick_countries [OF distinct_country_order])
  show "sorted_wrt (\<lambda>a b. \<not> item_less b a) r"
    unfolding r Allocate_def SortPoolItems_def by (rule items.ordered_sort_by [unfolded items.ordered_def])
  show "pi_country_code ` set r = pi_country_code ` {it. eligible al items servers now it}"
  proof (intro equalityI subsetI)
    fix c assume "c \<in> pi_country_code ` {it. eligible al items servers now it}"
    then have "country_pool fl al servers now (candidates items c) \<noteq> []"
      using country_pool_iff [of _ _ fl al servers now items c] by (metis empty_iff empty_set imageE mem_Collect_eq)
    then have "\<exists>it. it \<in> set (pick_country fl al servers sticky now items c)" unfolding pick_country_iff by blast
    then show "c \<in> pi_country_code ` set r" unfolding r image_iff Bex_def set_Allocate by (metis pick_country_code)
  qed (auto simp: r set_Allocate dest!: pick_country_code)
next
  fix it assume it: "it \<in> set r"
  let ?pool = "country_pool fl al servers now (candidates items (pi_country_code it))"
  have p: "?pool \<noteq> []" and pick: "it = pick_item fl sticky ?pool"
    using it unfolding r set_Allocate pick_country_iff by blast+
  show "eligible al items servers now it"
    using it pick_country_code unfolding r set_Allocate by blast
  show "bound_to sticky it \<or> (\<forall>it'. eligible al items servers now it' \<and> pi_country_code it' = pi_country_code it \<longrightarrow>
      \<not> bound_to sticky it' \<and> item_score fl servers it \<le> item_score fl servers it')"
  proof (cases "\<exists>x \<in> set ?pool. bound_to sticky (fst x)")
    case True
    from pick_item_bound [OF this, of fl] show ?thesis unfolding pick [symmetric] by blast
  next
    case False
    obtain sc where sc: "(it, sc) \<in> set ?pool" "\<forall>y \<in> set ?pool. sc \<le> snd y"
      using pick_item_least [OF fl False p] unfolding pick [symmetric] by blast
    have "\<not> bound_to sticky it' \<and> item_score fl servers it \<le> item_score fl servers it'"
      if "eligible al items servers now it'" "pi_country_code it' = pi_country_code it" for it'
    proof -
      have in_pool: "(it', item_score fl servers it') \<in> set ?pool" using that by (simp add: country_pool_iff)
      have "sc = item_score fl servers it" using sc(1) by (simp add: country_pool_iff)
      then show ?thesis using False bspec [OF sc(2) in_pool] in_pool by (metis fst_conv snd_conv)
    qed
    then show ?thesis by blast
  qed
qed

text \<open>Two nodes in one country, loads 9 and 3, in integer arithmetic.\<close>

definition int_lib :: "int float_lib" where
  "int_lib = \<lparr>fl_dec = (\<lambda>n k. n div 10 ^ k), fl_parse = atoi, fl_format = (\<lambda>n _. show_int n), fl_add = (+),
     fl_sub = (-), fl_mul = (*), fl_div = (div), fl_less = (<), fl_le = (\<le>), fl_eq = (=)\<rparr>"

definition sample_item :: "int \<Rightarrow> string \<Rightarrow> PoolItem" where
  "sample_item i k = \<lparr>pi_id = i, pi_item_key = k, pi_server_key = k, pi_node_id = k, pi_country_code = ''lt'',
     pi_title = ''Vilnius'', pi_profile_type = ''main'', pi_enabled = True, pi_sort_order = 10,
     pi_public_host = ''lt.example'', pi_port = 443, pi_transport = ''ws'', pi_security = ''tls'', pi_host_header = [],
     pi_sni = [], pi_ws_path = ''/ws'', pi_inbound_tag = ''vless-ws-in'', pi_flow = [], pi_level = 0\<rparr>"

definition sample_server :: "string \<Rightarrow> int \<Rightarrow> ServerLoad" where
  "sample_server k n = \<lparr>sl_server_key = k, sl_country_code = ''lt'', sl_enabled = True, sl_max_users = 100,
     sl_active_users = n, sl_online_users = 0, sl_uplink_bps = 0, sl_downlink_bps = 0, sl_bandwidth_mbps = 0,
     sl_weight = 1, sl_last_heartbeat_at = Some 0\<rparr>"

definition sample_choice :: "(string \<Rightarrow> string) \<Rightarrow> PoolItem list" where
  "sample_choice sticky = Allocate int_lib (NewAllocator 0 False) [sample_item 1 ''a'', sample_item 2 ''b'']
     [(''lt'', [sample_server ''a'' 8, sample_server ''b'' 2])] sticky (secs 5)"

lemma allocate_result_witness:
  "map pi_item_key (sample_choice (\<lambda>_. [])) = [''b''] \<and> map pi_item_key (sample_choice (\<lambda>k. k)) = [''a'']
    \<and> distinct (map pi_country_code (sample_choice (\<lambda>_. [])))"
proof (intro conjI)
  show "distinct (map pi_country_code (sample_choice (\<lambda>_. [])))"
    unfolding sample_choice_def by (rule allocate_result [OF _ _ refl, THEN conjunct1]) (simp_all add: int_lib_def)
qed code_simp+

end
