(* ===== verification/VpnConfig.thy ===== *)
theory VpnConfig
  imports VpnAlloc
begin

text \<open>
  The transports of a server and the links a client gets for them: \<open>cdn_config.go\<close>, \<open>grpc_config.go\<close>,
  \<open>hysteria_config.go\<close>, \<open>reality_config.go\<close>, the loaders in \<open>*_service.go\<close>, \<open>url_fragment.go\<close>, and
  \<open>buildEmail\<close>, \<open>cdnEmail\<close>, \<open>BuildVLESSURL\<close>. Strings are byte strings; \<open>url.QueryEscape\<close> of the standard
  library is \<open>query_escape\<close>. \<open>strings.EqualFold\<close> compares in lower case. \<open>getenv\<close> is \<open>os.Getenv\<close>.
\<close>

section \<open>Endpoints\<close>

record CDNEndpoint =
  ce_cdn_key :: string
  ce_server_key :: string
  ce_enabled :: bool
  ce_sort_order :: int
  ce_inbound_tag :: string
  ce_address :: string
  ce_server_name :: string
  ce_host :: string
  ce_port :: int
  ce_xhttp_path :: string
  ce_mode :: string
  ce_fingerprint :: string
  ce_alpn :: string
  ce_remarks :: string
  ce_padding_obfs_mode :: bool
  ce_padding_placement :: string
  ce_padding_key :: string
  ce_padding_method :: string
  ce_sc_max_buffered_posts :: int
  ce_sc_min_posts_interval_ms :: string
  ce_uplink_http_method :: string
  ce_uplink_data_placement :: string
  ce_uplink_data_key :: string
  ce_uplink_chunk_size :: int
  ce_sc_max_each_post_bytes :: int
  ce_session_id_placement :: string
  ce_session_id_key :: string
  ce_seq_placement :: string
  ce_seq_key :: string
  ce_x_padding_bytes :: string
  ce_x_padding_header :: string
  ce_enable_xmux :: bool
  ce_xmux_json :: string

record GRPCEndpoint =
  ge_grpc_key :: string
  ge_server_key :: string
  ge_enabled :: bool
  ge_sort_order :: int
  ge_inbound_tag :: string
  ge_address :: string
  ge_server_name :: string
  ge_host :: string
  ge_port :: int
  ge_service_name :: string
  ge_mode :: string
  ge_fingerprint :: string
  ge_alpn :: string
  ge_remarks :: string

record HysteriaEndpoint =
  he_hysteria_key :: string
  he_server_key :: string
  he_enabled :: bool
  he_sort_order :: int
  he_address :: string
  he_port :: int
  he_sni :: string
  he_insecure :: bool
  he_obfs_type :: string
  he_obfs_password :: string
  he_remarks :: string

record RealityEndpoint =
  re_reality_key :: string
  re_server_key :: string
  re_enabled :: bool
  re_sort_order :: int
  re_inbound_tag :: string
  re_address :: string
  re_port :: int
  re_server_name :: string
  re_public_key :: string
  re_short_id :: string
  re_spider_x :: string
  re_flow :: string
  re_fingerprint :: string
  re_remarks :: string

section \<open>Loading\<close>

definition equal_fold :: "string \<Rightarrow> string \<Rightarrow> bool" where
  "equal_fold a b \<longleftrightarrow> map to_lower a = map to_lower b"

definition or_default :: "string \<Rightarrow> string \<Rightarrow> string" where
  "or_default v def = (if v = [] then def else v)"

definition cdnConfigEnabled :: "(string \<Rightarrow> string) \<Rightarrow> bool" where
  "cdnConfigEnabled getenv = equal_fold (trim_space (getenv ''CDN_CONFIG_ENABLED'')) ''true''"

definition grpcConfigEnabled :: "(string \<Rightarrow> string) \<Rightarrow> bool" where
  "grpcConfigEnabled getenv = equal_fold (trim_space (getenv ''GRPC_CONFIG_ENABLED'')) ''true''"

definition hysteriaConfigEnabled :: "(string \<Rightarrow> string) \<Rightarrow> bool" where
  "hysteriaConfigEnabled getenv = equal_fold (trim_space (getenv ''HYSTERIA_CONFIG_ENABLED'')) ''true''"

definition realityConfigEnabled :: "(string \<Rightarrow> string) \<Rightarrow> bool" where
  "realityConfigEnabled getenv = (let v = trim_space (getenv ''REALITY_CONFIG_ENABLED'') in
     if v = [] then True else v = ''1'' \<or> equal_fold v ''true'')"

definition cdnEndpointFromEnv :: "(string \<Rightarrow> string) \<Rightarrow> CDNEndpoint option" where
  "cdnEndpointFromEnv getenv = (let addr = trim_space (getenv ''CDN_ADDRESS'') in
     if addr = [] then None
     else Some \<lparr>ce_cdn_key = ''env'', ce_server_key = trim_space (getenv ''CDN_SERVER_KEY''), ce_enabled = True,
       ce_sort_order = 0, ce_inbound_tag = [], ce_address = addr,
       ce_server_name = trim_space (getenv ''CDN_SERVER_NAME''), ce_host = trim_space (getenv ''CDN_HOST''),
       ce_port = positive_env atoi (getenv ''CDN_PORT'') 443,
       ce_xhttp_path = env_or getenv ''CDN_XHTTP_PATH'' ''/api/uploadFile/'',
       ce_mode = env_or getenv ''CDN_MODE'' ''packet-up'',
       ce_fingerprint = env_or getenv ''CDN_FINGERPRINT'' ''chrome'',
       ce_alpn = env_or getenv ''CDN_ALPN'' ''h2,http/1.1'',
       ce_remarks = env_or getenv ''CDN_REMARKS'' ''race-src-cdn'',
       ce_padding_obfs_mode = (\<not> equal_fold (trim_space (getenv ''CDN_PADDING_OBFS_MODE'')) ''false''),
       ce_padding_placement = env_or getenv ''CDN_PADDING_PLACEMENT'' ''cookie'',
       ce_padding_key = env_or getenv ''CDN_PADDING_KEY'' ''ssid'',
       ce_padding_method = env_or getenv ''CDN_PADDING_METHOD'' ''tokenish'',
       ce_sc_max_buffered_posts = positive_env atoi (getenv ''CDN_SC_MAX_BUFFERED_POSTS'') 256,
       ce_sc_min_posts_interval_ms = env_or getenv ''CDN_SC_MIN_POSTS_INTERVAL_MS'' ''5'',
       ce_uplink_http_method = [], ce_uplink_data_placement = [], ce_uplink_data_key = [],
       ce_uplink_chunk_size = 0, ce_sc_max_each_post_bytes = 0, ce_session_id_placement = [],
       ce_session_id_key = [], ce_seq_placement = [], ce_seq_key = [], ce_x_padding_bytes = [],
       ce_x_padding_header = [], ce_enable_xmux = False, ce_xmux_json = []\<rparr>)"

definition grpcEndpointFromEnv :: "(string \<Rightarrow> string) \<Rightarrow> GRPCEndpoint option" where
  "grpcEndpointFromEnv getenv = (let addr = trim_space (getenv ''GRPC_ADDRESS'') in
     if addr = [] then None
     else Some \<lparr>ge_grpc_key = ''env'', ge_server_key = trim_space (getenv ''GRPC_SERVER_KEY''), ge_enabled = True,
       ge_sort_order = 0, ge_inbound_tag = env_or getenv ''GRPC_INBOUND_TAG'' ''vless-grpc-cdn-in'',
       ge_address = addr, ge_server_name = trim_space (getenv ''GRPC_SERVER_NAME''),
       ge_host = trim_space (getenv ''GRPC_HOST''), ge_port = positive_env atoi (getenv ''GRPC_PORT'') 443,
       ge_service_name = env_or getenv ''GRPC_SERVICE_NAME'' ''api.grpc'',
       ge_mode = env_or getenv ''GRPC_MODE'' ''gun'',
       ge_fingerprint = env_or getenv ''GRPC_FINGERPRINT'' ''chrome'',
       ge_alpn = env_or getenv ''GRPC_ALPN'' ''h2'',
       ge_remarks = env_or getenv ''GRPC_REMARKS'' ''race-src-grpc''\<rparr>)"

definition hysteriaEndpointFromEnv :: "(string \<Rightarrow> string) \<Rightarrow> HysteriaEndpoint option" where
  "hysteriaEndpointFromEnv getenv = (let addr = trim_space (getenv ''HYSTERIA_ADDRESS'') in
     if addr = [] then None
     else Some \<lparr>he_hysteria_key = ''env'', he_server_key = trim_space (getenv ''HYSTERIA_SERVER_KEY''),
       he_enabled = True, he_sort_order = 0, he_address = addr,
       he_port = positive_env atoi (getenv ''HYSTERIA_PORT'') 443,
       he_sni = trim_space (getenv ''HYSTERIA_SNI''),
       he_insecure = equal_fold (trim_space (getenv ''HYSTERIA_INSECURE'')) ''true'',
       he_obfs_type = trim_space (getenv ''HYSTERIA_OBFS_TYPE''),
       he_obfs_password = trim_space (getenv ''HYSTERIA_OBFS_PASSWORD''),
       he_remarks = env_or getenv ''HYSTERIA_REMARKS'' ''Hysteria''\<rparr>)"

text \<open>\<open>listed\<close> is what the repository's List returned, None its error.\<close>

definition or_env :: "'e list option \<Rightarrow> 'e option \<Rightarrow> 'e list" where
  "or_env listed env = (case listed of Some (e # es) \<Rightarrow> e # es | _ \<Rightarrow> (case env of None \<Rightarrow> [] | Some e \<Rightarrow> [e]))"

definition loadCDNEndpoints :: "(string \<Rightarrow> string) \<Rightarrow> CDNEndpoint list option \<Rightarrow> CDNEndpoint list" where
  "loadCDNEndpoints getenv listed =
     (if \<not> cdnConfigEnabled getenv then [] else or_env listed (cdnEndpointFromEnv getenv))"

definition loadGRPCEndpoints :: "(string \<Rightarrow> string) \<Rightarrow> GRPCEndpoint list option \<Rightarrow> GRPCEndpoint list" where
  "loadGRPCEndpoints getenv listed =
     (if \<not> grpcConfigEnabled getenv then [] else or_env listed (grpcEndpointFromEnv getenv))"

definition loadHysteriaEndpoints :: "(string \<Rightarrow> string) \<Rightarrow> HysteriaEndpoint list option \<Rightarrow> HysteriaEndpoint list" where
  "loadHysteriaEndpoints getenv listed =
     (if \<not> hysteriaConfigEnabled getenv then [] else or_env listed (hysteriaEndpointFromEnv getenv))"

definition loadRealityEndpoints :: "(string \<Rightarrow> string) \<Rightarrow> RealityEndpoint list option \<Rightarrow> RealityEndpoint list" where
  "loadRealityEndpoints getenv listed =
     (if \<not> realityConfigEnabled getenv then [] else case listed of None \<Rightarrow> [] | Some es \<Rightarrow> es)"

definition selectCDNForServer :: "CDNEndpoint list \<Rightarrow> string \<Rightarrow> CDNEndpoint option" where
  "selectCDNForServer es key = (if es = [] \<or> key = [] then None else List.find (\<lambda>e. ce_server_key e = key) es)"

definition selectGRPCForServer :: "GRPCEndpoint list \<Rightarrow> string \<Rightarrow> GRPCEndpoint option" where
  "selectGRPCForServer es key = (if es = [] \<or> key = [] then None else List.find (\<lambda>e. ge_server_key e = key) es)"

definition selectHysteriaForServer :: "HysteriaEndpoint list \<Rightarrow> string \<Rightarrow> HysteriaEndpoint option" where
  "selectHysteriaForServer es key = (if es = [] \<or> key = [] then None else List.find (\<lambda>e. he_server_key e = key) es)"

definition selectRealityForServer :: "RealityEndpoint list \<Rightarrow> string \<Rightarrow> RealityEndpoint option" where
  "selectRealityForServer es key = (if es = [] \<or> key = [] then None else List.find (\<lambda>e. re_server_key e = key) es)"

section \<open>Escaping\<close>

definition unreserved :: "char \<Rightarrow> bool" where
  "unreserved c \<longleftrightarrow> (let n = of_char c :: nat in 48 \<le> n \<and> n \<le> 57 \<or> 65 \<le> n \<and> n \<le> 90 \<or> 97 \<le> n \<and> n \<le> 122)
     \<or> c \<in> {CHR ''-'', CHR ''_'', CHR ''.'', CHR ''~''}"

definition hex_digit :: "nat \<Rightarrow> char" where
  "hex_digit n = char_of (if n < 10 then 48 + n else 55 + n)"

definition percent :: "char \<Rightarrow> string" where
  "percent c = [CHR ''%'', hex_digit (of_char c div 16), hex_digit (of_char c mod 16)]"

definition query_escape :: "string \<Rightarrow> string" where
  "query_escape s = concat (map (\<lambda>c. if unreserved c then [c] else if c = CHR '' '' then ''+'' else percent c) s)"

definition escapeFragment :: "string \<Rightarrow> string" where
  "escapeFragment s = concat (map (\<lambda>c. if c = CHR ''+'' then ''%20'' else [c]) (query_escape s))"

section \<open>Links\<close>

record UserCredential =
  uc_telegram_id :: int
  uc_item_key :: string
  uc_server_key :: string
  uc_node_id :: string
  uc_inbound_tag :: string
  uc_email :: string
  uc_vless_uuid :: string
  uc_access_rev :: int
  uc_enabled :: bool

definition positive_or :: "int \<Rightarrow> int \<Rightarrow> int" where
  "positive_or n def = (if n \<le> 0 then def else n)"

text \<open>\<open>k=v\<close> with the value escaped, when it is not empty.\<close>

definition param :: "string \<Rightarrow> string \<Rightarrow> string" where
  "param k v = k @ ''='' @ query_escape v"

definition opt_param :: "string \<Rightarrow> string \<Rightarrow> string list" where
  "opt_param k v = (if v = [] then [] else [param k v])"

text \<open>The link all five builders assemble.\<close>

definition link :: "string \<Rightarrow> string \<Rightarrow> string \<Rightarrow> int \<Rightarrow> string list \<Rightarrow> string \<Rightarrow> string" where
  "link scheme user host port params remark =
     scheme @ ''://'' @ user @ ''@'' @ host @ '':'' @ show_int port @ ''?'' @ join_str ''&'' params @ ''#''
       @ escapeFragment remark"

definition BuildVLESSURL :: "PoolItem \<Rightarrow> UserCredential \<Rightarrow> string" where
  "BuildVLESSURL it cred =
     link ''vless'' (uc_vless_uuid cred) (pi_public_host it) (positive_or (pi_port it) 443)
       ([''encryption=none''] @ opt_param ''security'' (pi_security it) @ opt_param ''type'' (pi_transport it)
         @ opt_param ''host'' (pi_host_header it) @ opt_param ''path'' (pi_ws_path it)
         @ opt_param ''sni'' (pi_sni it) @ opt_param ''flow'' (pi_flow it)) (pi_title it)"

text \<open>A string field of the JSON object \<open>extra\<close>, copied as it is, and the fields left out when blank or not positive.\<close>

definition json_str :: "string \<Rightarrow> string \<Rightarrow> string" where
  "json_str k v = ''\"'' @ k @ ''\":\"'' @ v @ ''\"''"

definition json_raw :: "string \<Rightarrow> string \<Rightarrow> string" where
  "json_raw k v = ''\"'' @ k @ ''\":'' @ v"

definition opt_str :: "string \<Rightarrow> string \<Rightarrow> string list" where
  "opt_str k v = (if trim_space v = [] then [] else [json_str k (trim_space v)])"

definition opt_num :: "string \<Rightarrow> int \<Rightarrow> string list" where
  "opt_num k n = (if 0 < n then [json_raw k (show_int n)] else [])"

definition cdn_extra :: "CDNEndpoint \<Rightarrow> string list" where
  "cdn_extra e =
     [json_raw ''xPaddingObfsMode'' (if ce_padding_obfs_mode e then ''true'' else ''false''),
      json_str ''xPaddingPlacement'' (or_default (ce_padding_placement e) ''cookie''),
      json_str ''xPaddingKey'' (or_default (ce_padding_key e) ''ssid''),
      json_str ''xPaddingMethod'' (or_default (ce_padding_method e) ''tokenish''),
      json_raw ''scMaxBufferedPosts'' (show_int (positive_or (ce_sc_max_buffered_posts e) 256)),
      json_str ''scMinPostsIntervalMs'' (or_default (ce_sc_min_posts_interval_ms e) ''5'')]
     @ opt_str ''uplinkHTTPMethod'' (ce_uplink_http_method e)
     @ opt_str ''uplinkDataPlacement'' (ce_uplink_data_placement e)
     @ opt_str ''uplinkDataKey'' (ce_uplink_data_key e)
     @ opt_num ''uplinkChunkSize'' (ce_uplink_chunk_size e)
     @ opt_num ''scMaxEachPostBytes'' (ce_sc_max_each_post_bytes e)
     @ opt_str ''sessionIDPlacement'' (ce_session_id_placement e) @ opt_str ''sessionIDKey'' (ce_session_id_key e)
     @ opt_str ''seqPlacement'' (ce_seq_placement e) @ opt_str ''seqKey'' (ce_seq_key e)
     @ opt_str ''xPaddingBytes'' (ce_x_padding_bytes e) @ opt_str ''xPaddingHeader'' (ce_x_padding_header e)
     @ (let v = trim_space (ce_xmux_json e) in
        if ce_enable_xmux e \<and> v \<noteq> [] then [json_raw ''enableXmux'' ''true'', json_raw ''xmux'' v] else [])"

definition BuildCDNVLESSURLFromEndpoint :: "CDNEndpoint \<Rightarrow> string \<Rightarrow> string" where
  "BuildCDNVLESSURLFromEndpoint e userUUID =
     (if trim_space (ce_address e) = [] \<or> trim_space userUUID = [] then []
      else link ''vless'' userUUID (ce_address e) (positive_or (ce_port e) 443)
        [''encryption=none'', ''security=tls'',
         param ''sni'' (or_default (ce_server_name e) (ce_address e)),
         param ''fp'' (or_default (ce_fingerprint e) ''chrome''),
         param ''alpn'' (or_default (ce_alpn e) ''h2,http/1.1''),
         ''type=xhttp'',
         param ''host'' (or_default (ce_host e) (ce_address e)),
         param ''path'' (or_default (ce_xhttp_path e) ''/api/uploadFile/''),
         param ''mode'' (or_default (ce_mode e) ''packet-up''),
         param ''extra'' (''{'' @ join_str '','' (cdn_extra e) @ ''}'')]
        (or_default (ce_remarks e) ''race-src-cdn''))"

definition BuildGRPCVLESSURLFromEndpoint :: "GRPCEndpoint \<Rightarrow> string \<Rightarrow> string" where
  "BuildGRPCVLESSURLFromEndpoint e userUUID =
     (if trim_space (ge_address e) = [] \<or> trim_space userUUID = [] then []
      else link ''vless'' userUUID (ge_address e) (positive_or (ge_port e) 443)
        ([''encryption=none'', ''security=tls'', ''type=grpc'',
          param ''serviceName'' (or_default (ge_service_name e) ''api.grpc''),
          param ''mode'' (or_default (ge_mode e) ''gun''),
          param ''sni'' (or_default (ge_server_name e) (ge_address e)),
          param ''fp'' (or_default (ge_fingerprint e) ''chrome''),
          param ''alpn'' (or_default (ge_alpn e) ''h2'')]
         @ (if trim_space (ge_host e) \<noteq> [] \<and> ge_host e \<noteq> ge_address e then [param ''host'' (ge_host e)] else []))
        (or_default (ge_remarks e) ''race-src-grpc''))"

definition BuildHysteriaURL :: "HysteriaEndpoint \<Rightarrow> string \<Rightarrow> string" where
  "BuildHysteriaURL e userUUID =
     (if trim_space (he_address e) = [] \<or> trim_space userUUID = [] then []
      else link ''hysteria2'' (query_escape userUUID) (he_address e) (positive_or (he_port e) 443)
        ([param ''sni'' (or_default (trim_space (he_sni e)) (he_address e))]
         @ (if he_insecure e then [''insecure=1''] else [])
         @ (if he_obfs_type e \<noteq> [] \<and> he_obfs_password e \<noteq> []
            then [param ''obfs'' (he_obfs_type e), param ''obfs-password'' (he_obfs_password e)] else []))
        (or_default (trim_space (he_remarks e)) ''Hysteria''))"

definition BuildRealityVLESSURLFromEndpoint :: "RealityEndpoint \<Rightarrow> string \<Rightarrow> string" where
  "BuildRealityVLESSURLFromEndpoint e userUUID =
     (if trim_space (re_address e) = [] \<or> trim_space userUUID = []
         \<or> trim_space (re_public_key e) = [] \<or> trim_space (re_server_name e) = [] then []
      else link ''vless'' userUUID (re_address e) (positive_or (re_port e) 8443)
        ([''encryption=none'', ''security=reality'', ''type=tcp'',
          param ''sni'' (re_server_name e), param ''pbk'' (re_public_key e),
          param ''fp'' (or_default (re_fingerprint e) ''chrome''),
          param ''spx'' (or_default (re_spider_x e) ''/'')]
         @ opt_param ''sid'' (trim_space (re_short_id e)) @ opt_param ''flow'' (trim_space (re_flow e)))
        (or_default (re_remarks e) ''reality''))"

section \<open>The e-mails of the accounts\<close>

definition buildEmail :: "int \<Rightarrow> string \<Rightarrow> string" where
  "buildEmail telegramID itemKey =
     ''tg-'' @ show_int telegramID @ ''-''
       @ map (\<lambda>c. if c \<in> {CHR ''@'', CHR ''/'', CHR '' '', CHR '':''} then CHR ''-'' else c) itemKey
       @ ''@vpn-platform.local''"

definition has_suffix :: "string \<Rightarrow> string \<Rightarrow> bool" where
  "has_suffix s suf \<longleftrightarrow> length suf \<le> length s \<and> drop (length s - length suf) s = suf"

text \<open>The part before the last \<open>@\<close> and the part after it, if both are not empty.\<close>

definition split_email :: "string \<Rightarrow> (string \<times> string) option" where
  "split_email s =
     (let dmn = rev (takeWhile (\<lambda>c. c \<noteq> CHR ''@'') (rev s)); loc = take (length s - length dmn - 1) s in
      if CHR ''@'' \<notin> set s \<or> loc = [] \<or> dmn = [] then None else Some (loc, dmn))"

definition cdnEmail :: "string \<Rightarrow> string" where
  "cdnEmail baseEmail = (let s = trim_space baseEmail in case split_email s of
     None \<Rightarrow> []
   | Some (loc, dmn) \<Rightarrow> if has_suffix loc ''-cdn'' then s else loc @ ''-cdn'' @ ''@'' @ dmn)"

end
