(* ===== verification/VpnLinks.thy ===== *)
theory VpnLinks
  imports VpnConfig
begin

text \<open>
  The lines of a subscription, \<open>feed_builder.go\<close>, and what a client reads from a link: a decoder for
  links as the URL standard documents it, the round trips of the two escapings and of the links, what a
  feed contains, and when the CDN account's e-mail separates its traffic.
\<close>

section \<open>feed_builder.go\<close>

record FeedItem =
  fi_pool_item :: PoolItem
  fi_credential :: UserCredential
  fi_url :: string

definition nonempty :: "string \<Rightarrow> string list" where
  "nonempty s = (if s = [] then [] else [s])"

text \<open>The lines of the other transports of a server, and whether a CDN link is among them.\<close>

definition alt_lines ::
    "CDNEndpoint list \<Rightarrow> GRPCEndpoint list \<Rightarrow> HysteriaEndpoint list \<Rightarrow> RealityEndpoint list \<Rightarrow> string \<Rightarrow> string
      \<Rightarrow> string list \<times> bool" where
  "alt_lines cdn grpc hys rea key userUUID =
     (let lines = (\<lambda>build ep. case ep of None \<Rightarrow> [] | Some e \<Rightarrow> nonempty (build e userUUID));
          c = lines BuildCDNVLESSURLFromEndpoint (selectCDNForServer cdn key)
      in (c @ (case selectGRPCForServer grpc key of None \<Rightarrow> [] | Some e \<Rightarrow> nonempty (BuildGRPCVLESSURLFromEndpoint e userUUID))
            @ (case selectHysteriaForServer hys key of None \<Rightarrow> [] | Some e \<Rightarrow> nonempty (BuildHysteriaURL e userUUID))
            @ (case selectRealityForServer rea key of None \<Rightarrow> [] | Some e \<Rightarrow> nonempty (BuildRealityVLESSURLFromEndpoint e userUUID)),
          c \<noteq> []))"

text \<open>\<open>seen\<close> are the servers whose transports are already in the feed; the second result is \<open>cdnServers\<close>.\<close>

fun feed_lines ::
    "CDNEndpoint list \<Rightarrow> GRPCEndpoint list \<Rightarrow> HysteriaEndpoint list \<Rightarrow> RealityEndpoint list \<Rightarrow> string list
      \<Rightarrow> FeedItem list \<Rightarrow> string list \<times> string list" where
  "feed_lines cdn grpc hys rea seen [] = ([], [])"
| "feed_lines cdn grpc hys rea seen (it # items) =
     (let own = nonempty (trim_space (fi_url it));
          key = pi_server_key (fi_pool_item it); userUUID = uc_vless_uuid (fi_credential it) in
      if key = [] \<or> userUUID = [] \<or> key \<in> set seen
      then (let (ls, ss) = feed_lines cdn grpc hys rea seen items in (own @ ls, ss))
      else (let (al, hasCDN) = alt_lines cdn grpc hys rea key userUUID;
                (ls, ss) = feed_lines cdn grpc hys rea (key # seen) items
            in (own @ al @ ls, (if hasCDN then [key] else []) @ ss)))"

definition buildGroupedFeedLines ::
    "CDNEndpoint list \<Rightarrow> GRPCEndpoint list \<Rightarrow> HysteriaEndpoint list \<Rightarrow> RealityEndpoint list \<Rightarrow> FeedItem list
      \<Rightarrow> string list \<times> string list" where
  "buildGroupedFeedLines cdn grpc hys rea items = feed_lines cdn grpc hys rea [] items"

section \<open>What a client reads\<close>

definition hex_value :: "char \<Rightarrow> nat option" where
  "hex_value c = (let n = of_char c in
     if 48 \<le> n \<and> n \<le> 57 then Some (n - 48) else if 65 \<le> n \<and> n \<le> 70 then Some (n - 55)
     else if 97 \<le> n \<and> n \<le> 102 then Some (n - 87) else None)"

text \<open>Percent decoding; in a query (\<open>qs\<close>) the plus sign is a space, in a fragment it is itself.\<close>

fun percent_decode :: "bool \<Rightarrow> string \<Rightarrow> string" where
  "percent_decode qs [] = []"
| "percent_decode qs (c # s) =
     (if c = CHR ''%'' then
        (case s of a # b # t \<Rightarrow>
           (case (hex_value a, hex_value b) of
              (Some x, Some y) \<Rightarrow> char_of (16 * x + y) # percent_decode qs t
            | _ \<Rightarrow> c # percent_decode qs s)
         | _ \<Rightarrow> c # percent_decode qs s)
      else (if qs \<and> c = CHR ''+'' then CHR '' '' else c) # percent_decode qs s)"

definition cut :: "char \<Rightarrow> string \<Rightarrow> string \<times> string" where
  "cut c s = (takeWhile (\<lambda>x. x \<noteq> c) s, tl (dropWhile (\<lambda>x. x \<noteq> c) s))"

fun split_on :: "char \<Rightarrow> string \<Rightarrow> string list" where
  "split_on c [] = [[]]"
| "split_on c (x # xs) = (case split_on c xs of
     [] \<Rightarrow> [] | p # ps \<Rightarrow> if x = c then [] # p # ps else (x # p) # ps)"

definition read_param :: "string \<Rightarrow> string \<times> string" where
  "read_param p = (let (k, v) = cut (CHR ''='') p in (k, percent_decode True v))"

text \<open>The part before the question mark, the parameters and the title.\<close>

definition read_link :: "string \<Rightarrow> string \<times> (string \<times> string) list \<times> string" where
  "read_link s =
     (let (base, frag) = cut (CHR ''#'') s; (auth, query) = cut (CHR ''?'') base
      in (auth, map read_param (split_on (CHR ''&'') query), percent_decode False frag))"

section \<open>Round trips\<close>

lemma hex_value_char_of: "k < 256 \<Longrightarrow> hex_value (char_of k) =
    (if 48 \<le> k \<and> k \<le> 57 then Some (k - 48) else if 65 \<le> k \<and> k \<le> 70 then Some (k - 55)
     else if 97 \<le> k \<and> k \<le> 102 then Some (k - 87) else None)"
  by (simp only: hex_value_def Let_def of_char_of mod_less)

lemma hex_value_digit:
  assumes "n < 16"
  shows "hex_value (hex_digit n) = Some n"
proof (cases "n < 10")
  case True
  then have "hex_digit n = char_of (48 + n)" "48 + n < 256" "48 \<le> 48 + n \<and> 48 + n \<le> 57" "48 + n - 48 = n"
    by (simp_all add: hex_digit_def)
  then show ?thesis by (simp only: hex_value_char_of if_True simp_thms)
next
  case False
  then have "hex_digit n = char_of (55 + n)" "55 + n < 256" "\<not> (48 \<le> 55 + n \<and> 55 + n \<le> 57)"
    "65 \<le> 55 + n \<and> 55 + n \<le> 70" "55 + n - 55 = n"
    using assms by (simp_all add: hex_digit_def)
  then show ?thesis by (simp only: hex_value_char_of if_True if_False simp_thms)
qed

lemma halves: "(of_char c :: nat) div 16 < 16" "(of_char c :: nat) mod 16 < 16"
proof -
  have "(of_char c :: nat) < 256"
    using mod_less_divisor [of 256 "of_char c :: nat"] by (simp only: of_char_mod_256 zero_less_numeral simp_thms)
  then have "(of_char c :: nat) < 16 * 16" by simp
  then show "(of_char c :: nat) div 16 < 16" by (rule less_mult_imp_div_less)
qed simp

lemma decode_percent: "percent_decode qs (percent c @ s) = c # percent_decode qs s"
  by (simp add: percent_def hex_value_digit halves)

lemma unreserved_not: "unreserved c \<Longrightarrow> c \<notin> {CHR ''%'', CHR ''+'', CHR '' '', CHR ''&'', CHR ''#'', CHR ''?'', CHR ''=''}"
  by (auto simp: unreserved_def)

lemma query_escape_Cons: "query_escape (c # s)
    = (if unreserved c then [c] else if c = CHR '' '' then ''+'' else percent c) @ query_escape s"
  by (simp add: query_escape_def)

lemma query_roundtrip: "percent_decode True (query_escape s) = s"
proof (induction s)
  case (Cons c s)
  then show ?case
    using unreserved_not [of c] by (auto simp: query_escape_Cons decode_percent)
qed (simp add: query_escape_def)

lemma hex_digit_not_plus: "n < 16 \<Longrightarrow> hex_digit n \<noteq> CHR ''+''"
proof
  assume "n < 16" and "hex_digit n = CHR ''+''"
  then have "hex_value (CHR ''+'') = Some n" using hex_value_digit by metis
  then show False by (simp add: hex_value_def)
qed

lemma fragment_percent: "concat (map (\<lambda>c. if c = CHR ''+'' then ''%20'' else [c]) (percent c)) = percent c"
  by (simp add: percent_def hex_digit_not_plus halves)

lemma char_of_32: "(char_of (32 :: nat) :: char) = CHR '' ''"
  by (rule char_of_eq_iff [THEN iffD2]) simp

lemma fragment_roundtrip: "percent_decode False (escapeFragment s) = s"
proof (induction s)
  case (Cons c s)
  have "escapeFragment (c # s)
      = (if unreserved c then [c] else if c = CHR '' '' then ''%20'' else percent c) @ escapeFragment s"
    using unreserved_not [of c] by (simp add: escapeFragment_def query_escape_Cons fragment_percent)
  moreover have "percent_decode False (''%20'' @ t) = CHR '' '' # percent_decode False t" for t
    by (simp add: hex_value_def char_of_32)
  ultimately show ?case
    using Cons unreserved_not [of c] by (auto simp: decode_percent)
qed (simp add: escapeFragment_def query_escape_def)

lemma cut_at [simp]: "c \<notin> set a \<Longrightarrow> cut c (a @ c # b) = (a, b)"
  by (induction a) (auto simp: cut_def)

lemma query_escape_chars:
  assumes "c \<in> set (query_escape s)"
  shows "c \<notin> {CHR ''&'', CHR ''#'', CHR ''?'', CHR ''=''}"
proof -
  have hex: "hex_digit n \<notin> {CHR ''&'', CHR ''#'', CHR ''?'', CHR ''=''}" if "n < 16" for n
    using hex_value_digit [OF that] by (auto simp: hex_value_def)
  show ?thesis
    using assms
  proof (induction s)
    case (Cons x s)
    then show ?case
      using unreserved_not [of x] hex [OF halves(1) [of x]] hex [OF halves(2) [of x]]
      by (auto simp: query_escape_Cons percent_def split: if_splits)
  qed (simp add: query_escape_def)
qed

lemma escapeFragment_no_hash: "CHR ''#'' \<notin> set (query_escape s)"
  using query_escape_chars by blast

lemma read_param_param: "CHR ''='' \<notin> set k \<Longrightarrow> read_param (param k v) = (k, v)"
  by (simp add: read_param_def param_def query_roundtrip)

lemma split_on_nonempty [simp]: "split_on c s \<noteq> []"
  by (induction s) (auto split: list.split)

lemma split_on_part: "c \<notin> set p \<Longrightarrow> split_on c p = [p]"
  by (induction p) auto

lemma split_on_append: "c \<notin> set p \<Longrightarrow> split_on c (p @ c # s) = p # split_on c s"
  by (induction p) (auto split: list.split)

lemma split_on_join: "ps \<noteq> [] \<Longrightarrow> \<forall>p \<in> set ps. c \<notin> set p \<Longrightarrow> split_on c (join_str [c] ps) = ps"
proof (induction ps)
  case (Cons p ps)
  show ?case
  proof (cases ps)
    case Nil
    then show ?thesis using Cons.prems by (simp add: join_str_def split_on_part)
  next
    case (Cons q qs)
    have "join_str [c] (p # ps) = p @ c # join_str [c] ps" by (simp add: join_str_def Cons)
    then show ?thesis using Cons.IH Cons.prems Cons by (simp add: split_on_append)
  qed
qed simp

lemma set_join_str: "set (join_str sep ps) \<subseteq> set sep \<union> \<Union> (set ` set ps)"
  by (cases ps) (auto simp: join_str_def)

definition params :: "(string \<times> string) list \<Rightarrow> string list" where
  "params kvs = map (\<lambda>(k, v). param k v) kvs"

definition plain_key :: "string \<Rightarrow> bool" where
  "plain_key k \<longleftrightarrow> list_all (\<lambda>c. c \<notin> {CHR ''='', CHR ''&'', CHR ''#''}) k"

lemma show_int_digits: "c \<in> set (show_int i) \<Longrightarrow> c = CHR ''-'' \<or> is_digit c"
  using show_nat_digits by (fastforce simp: show_int_def is_digit_def split: if_splits)

lemma port_chars: "CHR ''#'' \<notin> set (show_int i)" "CHR ''?'' \<notin> set (show_int i)"
  by (auto dest!: show_int_digits simp: is_digit_def)

lemma param_chars:
  assumes "plain_key k"
  shows "CHR ''&'' \<notin> set (param k v)" "CHR ''#'' \<notin> set (param k v)" "read_param (param k v) = (k, v)"
  using assms query_escape_chars [of _ v] read_param_param [of k v]
  by (auto simp: plain_key_def list_all_iff param_def)

lemma read_link_link:
  assumes auth: "CHR ''#'' \<notin> set (scheme @ user @ host)" "CHR ''?'' \<notin> set (scheme @ user @ host)"
    and kvs: "kvs \<noteq> []" "\<forall>(k, v) \<in> set kvs. plain_key k"
  shows "read_link (link scheme user host port (params kvs) remark)
    = (scheme @ ''://'' @ user @ ''@'' @ host @ '':'' @ show_int port, kvs, remark)"
proof -
  define a where "a = scheme @ ''://'' @ user @ ''@'' @ host @ '':'' @ show_int port"
  define q where "q = join_str ''&'' (params kvs)"
  have a: "CHR ''#'' \<notin> set a" "CHR ''?'' \<notin> set a"
    using auth port_chars [of port] by (simp_all add: a_def)
  have parts: "\<forall>p \<in> set (params kvs). CHR ''&'' \<notin> set p \<and> CHR ''#'' \<notin> set p"
    using kvs(2) param_chars by (auto simp: params_def)
  then have q: "CHR ''#'' \<notin> set q"
    using set_join_str [of "''&''" "params kvs"] by (auto simp: q_def)
  have cut1: "cut (CHR ''#'') ((a @ CHR ''?'' # q) @ CHR ''#'' # escapeFragment remark) = (a @ CHR ''?'' # q, escapeFragment remark)"
    by (rule cut_at) (use a q in simp)
  have cut2: "cut (CHR ''?'') (a @ CHR ''?'' # q) = (a, q)" by (rule cut_at) (rule a)
  have split: "split_on (CHR ''&'') q = params kvs"
    unfolding q_def by (rule split_on_join) (use kvs(1) parts in \<open>simp_all add: params_def\<close>)
  have "map read_param (params kvs) = kvs"
    unfolding params_def map_map by (rule map_idI) (use kvs(2) param_chars in auto)
  moreover have "link scheme user host port (params kvs) remark = (a @ CHR ''?'' # q) @ CHR ''#'' # escapeFragment remark"
    by (simp add: link_def a_def q_def)
  ultimately have "read_link (link scheme user host port (params kvs) remark) = (a, kvs, remark)"
    unfolding read_link_def by (simp only: cut1 cut2 split Let_def split_conv fragment_roundtrip)
  then show ?thesis by (simp only: a_def)
qed

definition opt_pair :: "string \<Rightarrow> string \<Rightarrow> (string \<times> string) list" where
  "opt_pair k v = (if v = [] then [] else [(k, v)])"

lemma params_simps: "params [] = []" "params ((k, v) # kvs) = param k v # params kvs"
  "params (xs @ ys) = params xs @ params ys" "params (opt_pair k v) = opt_param k v"
  by (simp_all add: params_def opt_pair_def opt_param_def)

lemma opt_pair_keys: "x \<in> set (opt_pair k v) \<longleftrightarrow> x = (k, v) \<and> v \<noteq> []"
  by (auto simp: opt_pair_def)

lemma fixed_params:
  "''encryption=none'' = param ''encryption'' ''none''" "''security=tls'' = param ''security'' ''tls''"
  "''type=xhttp'' = param ''type'' ''xhttp''"
  by code_simp+

lemma plain_keys:
  "plain_key ''encryption''" "plain_key ''security''" "plain_key ''type''" "plain_key ''host''" "plain_key ''path''"
  "plain_key ''sni''" "plain_key ''flow''" "plain_key ''fp''" "plain_key ''alpn''" "plain_key ''mode''" "plain_key ''extra''"
  by code_simp+

text \<open>
  C36. What a client reads from the links of a user: the account's UUID at the server's address, every
  parameter with its value, whatever characters it has, and the title.
\<close>

theorem links_read_back:
  assumes "\<forall>c \<in> {CHR ''#'', CHR ''?''}. c \<notin> set (uc_vless_uuid cred) \<and> c \<notin> set (pi_public_host it) \<and> c \<notin> set (ce_address e)"
    and "trim_space (uc_vless_uuid cred) \<noteq> []" and "trim_space (ce_address e) \<noteq> []"
  shows "read_link (BuildVLESSURL it cred)
      = (''vless://'' @ uc_vless_uuid cred @ ''@'' @ pi_public_host it @ '':'' @ show_int (positive_or (pi_port it) 443),
         [(''encryption'', ''none'')] @ opt_pair ''security'' (pi_security it) @ opt_pair ''type'' (pi_transport it)
           @ opt_pair ''host'' (pi_host_header it) @ opt_pair ''path'' (pi_ws_path it) @ opt_pair ''sni'' (pi_sni it)
           @ opt_pair ''flow'' (pi_flow it), pi_title it)
    \<and> read_link (BuildCDNVLESSURLFromEndpoint e (uc_vless_uuid cred))
      = (''vless://'' @ uc_vless_uuid cred @ ''@'' @ ce_address e @ '':'' @ show_int (positive_or (ce_port e) 443),
         [(''encryption'', ''none''), (''security'', ''tls''), (''sni'', or_default (ce_server_name e) (ce_address e)),
          (''fp'', or_default (ce_fingerprint e) ''chrome''), (''alpn'', or_default (ce_alpn e) ''h2,http/1.1''),
          (''type'', ''xhttp''), (''host'', or_default (ce_host e) (ce_address e)),
          (''path'', or_default (ce_xhttp_path e) ''/api/uploadFile/''), (''mode'', or_default (ce_mode e) ''packet-up''),
          (''extra'', ''{'' @ join_str '','' (cdn_extra e) @ ''}'')],
         or_default (ce_remarks e) ''race-src-cdn'')" (is "?main \<and> ?cdn")
proof
  let ?own = "[(''encryption'', ''none'')] @ opt_pair ''security'' (pi_security it) @ opt_pair ''type'' (pi_transport it)
     @ opt_pair ''host'' (pi_host_header it) @ opt_pair ''path'' (pi_ws_path it) @ opt_pair ''sni'' (pi_sni it)
     @ opt_pair ''flow'' (pi_flow it)"
  have eq: "BuildVLESSURL it cred
      = link ''vless'' (uc_vless_uuid cred) (pi_public_host it) (positive_or (pi_port it) 443) (params ?own) (pi_title it)"
    unfolding BuildVLESSURL_def params_simps fixed_params by (simp only: append.simps)
  have keys: "\<forall>(k, v) \<in> set ?own. plain_key k"
    using plain_keys by (auto simp: opt_pair_def)
  show ?main
    unfolding eq by (subst read_link_link [OF _ _ _ keys]) (use assms(1) in simp_all)
next
  let ?alt = "[(''encryption'', ''none''), (''security'', ''tls''), (''sni'', or_default (ce_server_name e) (ce_address e)),
     (''fp'', or_default (ce_fingerprint e) ''chrome''), (''alpn'', or_default (ce_alpn e) ''h2,http/1.1''),
     (''type'', ''xhttp''), (''host'', or_default (ce_host e) (ce_address e)),
     (''path'', or_default (ce_xhttp_path e) ''/api/uploadFile/''), (''mode'', or_default (ce_mode e) ''packet-up''),
     (''extra'', ''{'' @ join_str '','' (cdn_extra e) @ ''}'')]"
  have eq: "BuildCDNVLESSURLFromEndpoint e (uc_vless_uuid cred)
      = link ''vless'' (uc_vless_uuid cred) (ce_address e) (positive_or (ce_port e) 443) (params ?alt)
          (or_default (ce_remarks e) ''race-src-cdn'')"
    unfolding BuildCDNVLESSURLFromEndpoint_def params_simps fixed_params using assms(2,3) by (simp only: simp_thms if_False)
  have keys: "\<forall>(k, v) \<in> set ?alt. plain_key k"
    by (simp only: list.set ball_simps split_conv plain_keys simp_thms)
  show ?cdn
    unfolding eq by (subst read_link_link [OF _ _ _ keys]) (use assms(1) in simp_all)
qed

definition sample_cred :: UserCredential where
  "sample_cred = \<lparr>uc_telegram_id = 7, uc_item_key = ''a'', uc_server_key = ''a'', uc_node_id = ''a'',
     uc_inbound_tag = ''vless-ws-in'', uc_email = buildEmail 7 ''a'', uc_vless_uuid = ''u-1'', uc_access_rev = 1, uc_enabled = True\<rparr>"

definition sample_cdn :: CDNEndpoint where
  "sample_cdn = (the (cdnEndpointFromEnv (\<lambda>k. if k = ''CDN_ADDRESS'' then ''cdn.example'' else if k = ''CDN_SERVER_KEY'' then ''a'' else [])))"

lemma links_read_back_witness:
  "snd (snd (read_link (BuildVLESSURL (sample_item 1 ''a''\<lparr>pi_title := ''A+B & C''\<rparr>) sample_cred))) = ''A+B & C''"
proof -
  have plain: "\<forall>c \<in> {CHR ''#'', CHR ''?''}. c \<notin> set (uc_vless_uuid sample_cred)
      \<and> c \<notin> set (pi_public_host (sample_item 1 ''a''\<lparr>pi_title := ''A+B & C''\<rparr>)) \<and> c \<notin> set (ce_address sample_cdn)"
    and ids: "trim_space (uc_vless_uuid sample_cred) \<noteq> []" "trim_space (ce_address sample_cdn) \<noteq> []"
    by code_simp+
  show ?thesis
    unfolding conjunct1 [OF links_read_back [OF plain ids]] by simp
qed

section \<open>The feed\<close>

definition has_link :: "CDNEndpoint list \<Rightarrow> string \<Rightarrow> bool" where
  "has_link cdn key \<longleftrightarrow> (case selectCDNForServer cdn key of None \<Rightarrow> False | Some e \<Rightarrow> trim_space (ce_address e) \<noteq> [])"

lemma nonempty_simps [simp]: "nonempty [] = []" "set (nonempty s) = (if s = [] then {} else {s})"
  by (simp_all add: nonempty_def)

lemma link_nonempty: "scheme \<noteq> [] \<Longrightarrow> link scheme u h p ps r \<noteq> []"
  by (simp add: link_def)

lemma cdn_link_empty: "trim_space u \<noteq> [] \<Longrightarrow> BuildCDNVLESSURLFromEndpoint e u = [] \<longleftrightarrow> trim_space (ce_address e) = []"
  unfolding BuildCDNVLESSURLFromEndpoint_def using link_nonempty [of "''vless''"] by simp

lemma alt_lines_cdn: "trim_space u \<noteq> [] \<Longrightarrow> snd (alt_lines cdn grpc hys rea key u) = has_link cdn key"
  by (auto simp: alt_lines_def Let_def has_link_def cdn_link_empty nonempty_def split: option.split)

definition item_key_of :: "FeedItem \<Rightarrow> string" where "item_key_of it = pi_server_key (fi_pool_item it)"
definition item_uuid :: "FeedItem \<Rightarrow> string" where "item_uuid it = uc_vless_uuid (fi_credential it)"

lemma feed_lines_Cons:
  "feed_lines cdn grpc hys rea seen (it # items) =
     (let own = nonempty (trim_space (fi_url it)) in
      if item_key_of it = [] \<or> item_uuid it = [] \<or> item_key_of it \<in> set seen
      then (own @ fst (feed_lines cdn grpc hys rea seen items), snd (feed_lines cdn grpc hys rea seen items))
      else (own @ fst (alt_lines cdn grpc hys rea (item_key_of it) (item_uuid it))
              @ fst (feed_lines cdn grpc hys rea (item_key_of it # seen) items),
            (if snd (alt_lines cdn grpc hys rea (item_key_of it) (item_uuid it)) then [item_key_of it] else [])
              @ snd (feed_lines cdn grpc hys rea (item_key_of it # seen) items)))"
  by (simp add: Let_def item_key_of_def item_uuid_def split: prod.split)

lemma feed_servers:
  assumes "\<forall>it \<in> set items. trim_space (item_uuid it) \<noteq> []"
  shows "distinct (snd (feed_lines cdn grpc hys rea seen items))
    \<and> set (snd (feed_lines cdn grpc hys rea seen items))
      = {k \<in> item_key_of ` set items. k \<noteq> [] \<and> k \<notin> set seen \<and> has_link cdn k}"
  using assms
proof (induction items arbitrary: seen)
  case (Cons it items)
  have uuid: "item_uuid it \<noteq> []" using Cons.prems by (auto simp: trim_space_def)
  have blank: "trim_space (item_uuid it) \<noteq> []" and rest: "\<forall>it \<in> set items. trim_space (item_uuid it) \<noteq> []"
    using Cons.prems by simp_all
  show ?case
  proof (cases "item_key_of it = [] \<or> item_key_of it \<in> set seen")
    case True
    then have "snd (feed_lines cdn grpc hys rea seen (it # items)) = snd (feed_lines cdn grpc hys rea seen items)"
      by (auto simp only: feed_lines_Cons Let_def if_True simp_thms snd_conv)
    then show ?thesis using Cons.IH [OF rest, of seen] True by auto
  next
    case False
    define r where "r = snd (feed_lines cdn grpc hys rea (item_key_of it # seen) items)"
    have IH: "distinct r" "set r = {k \<in> item_key_of ` set items. k \<noteq> [] \<and> k \<notin> set (item_key_of it # seen) \<and> has_link cdn k}"
      unfolding r_def using Cons.IH [OF rest, of "item_key_of it # seen"] by blast+
    have run: "snd (feed_lines cdn grpc hys rea seen (it # items)) = (if has_link cdn (item_key_of it) then [item_key_of it] else [])
        @ r"
      using uuid False by (simp only: feed_lines_Cons Let_def alt_lines_cdn [OF blank] if_False simp_thms snd_conv r_def)
    have "item_key_of it \<notin> set r" unfolding IH by simp
    then have "distinct ((if has_link cdn (item_key_of it) then [item_key_of it] else []) @ r)" using IH(1) by simp
    moreover have "set ((if has_link cdn (item_key_of it) then [item_key_of it] else []) @ r)
        = {k \<in> item_key_of ` set (it # items). k \<noteq> [] \<and> k \<notin> set seen \<and> has_link cdn k}"
      unfolding set_append IH(2) using False by (cases "has_link cdn (item_key_of it)") auto
    ultimately show ?thesis unfolding run by blast
  qed
qed simp

lemma feed_line_origin:
  assumes "l \<in> set (fst (feed_lines cdn grpc hys rea seen items))"
  shows "\<exists>it \<in> set items. l = trim_space (fi_url it)
    \<or> l \<in> set (fst (alt_lines cdn grpc hys rea (item_key_of it) (item_uuid it)))"
  using assms
proof (induction items arbitrary: seen)
  case (Cons it items)
  have "l = trim_space (fi_url it) \<or> l \<in> set (fst (alt_lines cdn grpc hys rea (item_key_of it) (item_uuid it)))
      \<or> l \<in> set (fst (feed_lines cdn grpc hys rea seen items))
      \<or> l \<in> set (fst (feed_lines cdn grpc hys rea (item_key_of it # seen) items))"
    using Cons.prems unfolding feed_lines_Cons Let_def by (auto split: if_splits)
  then show ?case using Cons.IH [of seen] Cons.IH [of "item_key_of it # seen"] by auto
qed simp

lemma feed_line_kept:
  assumes "it \<in> set items" and "trim_space (item_uuid it) \<noteq> []" and "item_key_of it \<noteq> []" and "item_key_of it \<notin> set seen"
  shows "\<exists>it' \<in> set items. item_key_of it' = item_key_of it
    \<and> set (fst (alt_lines cdn grpc hys rea (item_key_of it) (item_uuid it'))) \<subseteq> set (fst (feed_lines cdn grpc hys rea seen items))"
  using assms
proof (induction items arbitrary: seen)
  case (Cons x items)
  show ?case
  proof (cases "item_key_of x = item_key_of it \<and> item_uuid x \<noteq> []")
    case True
    then have "set (fst (alt_lines cdn grpc hys rea (item_key_of it) (item_uuid x)))
        \<subseteq> set (fst (feed_lines cdn grpc hys rea seen (x # items)))"
      using Cons.prems(3,4) unfolding feed_lines_Cons Let_def by auto
    then show ?thesis using True by (intro bexI [of _ x]) simp_all
  next
    case False
    then have it: "it \<in> set items" using Cons.prems(1,2) by (auto simp: trim_space_def)
    define seen' where "seen' = (if item_key_of x = [] \<or> item_uuid x = [] \<or> item_key_of x \<in> set seen then seen else item_key_of x # seen)"
    have "item_key_of it \<notin> set seen'" using False Cons.prems(4) by (auto simp: seen'_def)
    from Cons.IH [OF it Cons.prems(2,3) this] obtain it' where it': "it' \<in> set items" "item_key_of it' = item_key_of it"
      "set (fst (alt_lines cdn grpc hys rea (item_key_of it) (item_uuid it'))) \<subseteq> set (fst (feed_lines cdn grpc hys rea seen' items))"
      by blast
    have "set (fst (feed_lines cdn grpc hys rea seen' items)) \<subseteq> set (fst (feed_lines cdn grpc hys rea seen (x # items)))"
      unfolding feed_lines_Cons Let_def seen'_def by auto
    then show ?thesis using it' by (intro bexI [of _ it']) auto
  qed
qed simp

text \<open>
  C37. A feed for accounts with UUIDs: every line is an item's own link or the link of a transport of the
  item's own server under the item's own UUID; no server's transports are missing; and the servers counted for
  the header are, each once, exactly those whose CDN link is in the feed.
\<close>

theorem feed_uses_own_credentials:
  assumes "\<forall>it \<in> set items. trim_space (item_uuid it) \<noteq> []"
    and "buildGroupedFeedLines cdn grpc hys rea items = (ls, ss)"
  shows "(\<forall>l \<in> set ls. \<exists>it \<in> set items. l = trim_space (fi_url it)
      \<or> l \<in> set (fst (alt_lines cdn grpc hys rea (item_key_of it) (item_uuid it))))
    \<and> (\<forall>it \<in> set items. item_key_of it \<noteq> [] \<longrightarrow> (\<exists>it' \<in> set items. item_key_of it' = item_key_of it
        \<and> set (fst (alt_lines cdn grpc hys rea (item_key_of it) (item_uuid it'))) \<subseteq> set ls))
    \<and> distinct ss \<and> set ss = {k \<in> item_key_of ` set items. k \<noteq> [] \<and> has_link cdn k}"
proof -
  have run: "ls = fst (feed_lines cdn grpc hys rea [] items)" "ss = snd (feed_lines cdn grpc hys rea [] items)"
    using assms(2) by (simp_all add: buildGroupedFeedLines_def)
  have "\<forall>l \<in> set ls. \<exists>it \<in> set items. l = trim_space (fi_url it)
      \<or> l \<in> set (fst (alt_lines cdn grpc hys rea (item_key_of it) (item_uuid it)))"
    unfolding run using feed_line_origin by blast
  moreover have "\<forall>it \<in> set items. item_key_of it \<noteq> [] \<longrightarrow> (\<exists>it' \<in> set items. item_key_of it' = item_key_of it
      \<and> set (fst (alt_lines cdn grpc hys rea (item_key_of it) (item_uuid it'))) \<subseteq> set ls)"
    unfolding run using feed_line_kept assms(1) by simp
  ultimately show ?thesis using feed_servers [OF assms(1), of cdn grpc hys rea "[]"] run by simp
qed

definition sample_feed :: "string list \<times> string list" where
  "sample_feed = buildGroupedFeedLines [sample_cdn] [] [] []
     [\<lparr>fi_pool_item = sample_item 1 ''a'', fi_credential = sample_cred, fi_url = BuildVLESSURL (sample_item 1 ''a'') sample_cred\<rparr>]"

lemma feed_uses_own_credentials_witness:
  "set (snd sample_feed) = {''a''}"
proof -
  let ?it = "\<lparr>fi_pool_item = sample_item 1 ''a'', fi_credential = sample_cred, fi_url = BuildVLESSURL (sample_item 1 ''a'') sample_cred\<rparr>"
  have "\<forall>it \<in> set [?it]. trim_space (item_uuid it) \<noteq> []" and keys: "item_key_of ?it = ''a''" and cdn: "has_link [sample_cdn] ''a''"
    by code_simp+
  from feed_uses_own_credentials [OF this(1), of "[sample_cdn]" "[]" "[]" "[]" "fst sample_feed" "snd sample_feed"]
  have "set (snd sample_feed) = {k \<in> item_key_of ` set [?it]. k \<noteq> [] \<and> has_link [sample_cdn] k}"
    unfolding sample_feed_def by simp
  then show ?thesis using keys cdn by auto
qed

section \<open>The accounts' e-mails\<close>

definition clean_key :: "string \<Rightarrow> string" where
  "clean_key k = map (\<lambda>c. if c \<in> {CHR ''@'', CHR ''/'', CHR '' '', CHR '':''} then CHR ''-'' else c) k"

definition account :: "int \<Rightarrow> string \<Rightarrow> string" where
  "account t k = ''tg-'' @ show_int t @ ''-'' @ clean_key k"

lemma buildEmail_account: "buildEmail t k = account t k @ CHR ''@'' # ''vpn-platform.local''"
  by (simp add: buildEmail_def account_def clean_key_def)

lemma has_suffix_iff: "has_suffix s suf \<longleftrightarrow> (\<exists>p. s = p @ suf)"
proof
  assume "has_suffix s suf"
  then show "\<exists>p. s = p @ suf" unfolding has_suffix_def by (metis append_take_drop_id)
qed (auto simp: has_suffix_def)

lemma account_no_at: "CHR ''@'' \<notin> set (account t k)"
  by (auto simp: account_def clean_key_def dest!: show_int_digits simp: is_digit_def split: if_splits)

lemma split_email_at:
  assumes "CHR ''@'' \<notin> set d" and "a \<noteq> []" and "d \<noteq> []"
  shows "split_email (a @ CHR ''@'' # d) = Some (a, d)"
proof -
  have "takeWhile (\<lambda>c. c \<noteq> CHR ''@'') (rev d @ CHR ''@'' # rev a) = rev d"
    using assms(1) by (subst takeWhile_append2) auto
  then show ?thesis using assms by (simp add: split_email_def)
qed

lemma trim_space_id: "s \<noteq> [] \<Longrightarrow> \<not> is_space (hd s) \<Longrightarrow> \<not> is_space (last s) \<Longrightarrow> trim_space s = s"
proof -
  assume s: "s \<noteq> []" "\<not> is_space (hd s)" "\<not> is_space (last s)"
  have "dropWhile is_space s = s" using s(1,2) by (cases s) auto
  moreover have "dropWhile is_space (rev s) = rev s" using s(1,3) by (cases s rule: rev_cases) auto
  ultimately show ?thesis by (simp add: trim_space_def)
qed

lemma cdnEmail_account:
  "cdnEmail (buildEmail t k) = (if has_suffix (account t k) ''-cdn'' then buildEmail t k
     else account t k @ ''-cdn'' @ CHR ''@'' # ''vpn-platform.local'')"
proof -
  define d where "d = ''vpn-platform.local''"
  have d: "CHR ''@'' \<notin> set d" "d \<noteq> []" "\<not> is_space (last d)" by (simp_all add: d_def is_space_def)
  have a: "account t k \<noteq> []" "\<not> is_space (hd (account t k))" by (simp_all add: account_def is_space_def)
  have "trim_space (account t k @ CHR ''@'' # d) = account t k @ CHR ''@'' # d"
    by (rule trim_space_id) (use a d in simp_all)
  then show ?thesis
    unfolding cdnEmail_def buildEmail_account d_def [symmetric] Let_def
    using split_email_at [OF d(1) a(1) d(2)] by simp
qed

lemma digits_prefix:
  assumes "xs @ c # ys = xs' @ c # ys'" and "c \<notin> set xs" and "c \<notin> set xs'"
  shows "xs = xs' \<and> ys = ys'"
  using assms
proof (induction xs arbitrary: xs')
  case Nil
  then show ?case by (cases xs') auto
next
  case (Cons x xs)
  then show ?case by (cases xs') auto
qed

lemma buildEmail_inject:
  assumes "0 \<le> t" and "0 \<le> t'"
  shows "buildEmail t k = buildEmail t' k' \<longleftrightarrow> t = t' \<and> clean_key k = clean_key k'"
proof -
  have "CHR ''-'' \<notin> set (show_int i)" if "0 \<le> i" for i
    using that by (auto simp: show_int_def minus_not_digit)
  then have "show_int t @ CHR ''-'' # clean_key k = show_int t' @ CHR ''-'' # clean_key k' \<longleftrightarrow> t = t' \<and> clean_key k = clean_key k'"
    using assms digits_prefix [of "show_int t" "CHR ''-''" "clean_key k" "show_int t'" "clean_key k'"] by auto
  then show ?thesis by (simp add: buildEmail_account account_def)
qed

text \<open>
  Two accounts of one user or of two have different e-mails, unless their item keys are the same up to the
  replaced characters; and while no account's name ends in \<open>-cdn\<close>, the e-mail of a CDN account is the
  e-mail of no main account and of no other account's CDN twin, so Xray counts it apart.
\<close>

theorem cdn_accounts_are_counted_apart:
  assumes "0 \<le> t" and "0 \<le> t'" and "\<not> has_suffix (account t k) ''-cdn''" and "\<not> has_suffix (account t' k') ''-cdn''"
  shows "(buildEmail t k = buildEmail t' k' \<longleftrightarrow> t = t' \<and> clean_key k = clean_key k')
    \<and> cdnEmail (buildEmail t k) \<noteq> buildEmail t' k'
    \<and> (cdnEmail (buildEmail t k) = cdnEmail (buildEmail t' k') \<longleftrightarrow> t = t' \<and> clean_key k = clean_key k')"
proof (intro conjI)
  show same: "buildEmail t k = buildEmail t' k' \<longleftrightarrow> t = t' \<and> clean_key k = clean_key k'"
    by (rule buildEmail_inject [OF assms(1,2)])
  show "cdnEmail (buildEmail t k) \<noteq> buildEmail t' k'"
  proof
    assume "cdnEmail (buildEmail t k) = buildEmail t' k'"
    then have "account t k @ ''-cdn'' @ CHR ''@'' # ''vpn-platform.local'' = account t' k' @ CHR ''@'' # ''vpn-platform.local''"
      using assms(3) buildEmail_account [of t' k'] by (simp only: cdnEmail_account if_False)
    then have "account t' k' = account t k @ ''-cdn''" by simp
    then show False using assms(4) unfolding has_suffix_iff by blast
  qed
  have "cdnEmail (buildEmail t k) = cdnEmail (buildEmail t' k') \<longleftrightarrow> buildEmail t k = buildEmail t' k'"
  proof -
    have "cdnEmail (buildEmail t k) = cdnEmail (buildEmail t' k') \<longleftrightarrow> account t k = account t' k'"
      using assms(3,4) by (simp only: cdnEmail_account if_False append_same_eq)
    also have "\<dots> \<longleftrightarrow> buildEmail t k = buildEmail t' k'" by (simp only: buildEmail_account append_same_eq)
    finally show ?thesis .
  qed
  then show "cdnEmail (buildEmail t k) = cdnEmail (buildEmail t' k') \<longleftrightarrow> t = t' \<and> clean_key k = clean_key k'"
    using same by simp
qed

lemma cdn_accounts_are_counted_apart_witness:
  "cdnEmail (buildEmail 7 ''lt'') \<noteq> buildEmail 7 ''lt'' \<and> cdnEmail (buildEmail 7 ''lt'') = buildEmail 7 ''lt-cdn''"
proof
  have "\<not> has_suffix (account 7 ''lt'') ''-cdn''" by code_simp
  then show "cdnEmail (buildEmail 7 ''lt'') \<noteq> buildEmail 7 ''lt''"
    using cdn_accounts_are_counted_apart [of 7 7 "''lt''" "''lt''"] by simp
qed code_simp

text \<open>An item whose key ends in \<open>-cdn\<close> has one e-mail for both accounts, which may also be another item's CDN account.\<close>

lemma cdn_suffix_shares_the_counter:
  "cdnEmail (buildEmail 7 ''lt-cdn'') = buildEmail 7 ''lt-cdn'' \<and> cdnEmail (buildEmail 7 ''lt'') = buildEmail 7 ''lt-cdn''"
  by code_simp

end
