(* ===== verification/VpnModel.thy ===== *)
theory VpnModel
  imports Inbox VpnLinks
begin

text \<open>
  The tables of \<open>internal/vpn_orchestrator\<close> and its statements (repository.go, cdn_repository.go,
  grpc_repository.go, hysteria_repository.go, reality_repository.go). The service shares the database of
  the subscription service, whose tables it also reads. A statement on the pool is a function of the committed
  database, a \<open>...Tx\<close> statement one of the transaction's. Columns that are written and never read
  (\<open>updated_at\<close>, \<open>last_event_*\<close>, \<open>exhausted_at\<close>, \<open>exhausted_reason\<close>, the columns of
  \<open>vpn_node_sync_results\<close> other than its time) are left out. Rows are in the order of their ids.
\<close>

section \<open>Tables\<close>

record vpn_server =
  vs_node_id :: string
  vs_country_code :: string
  vs_title :: string
  vs_public_host :: string
  vs_port :: int
  vs_transport :: string
  vs_security :: string
  vs_default_inbound_tag :: string
  vs_host_header :: string
  vs_sni :: string
  vs_ws_path :: string
  vs_flow :: string
  vs_enabled :: bool
  vs_max_users :: int
  vs_weight :: int
  vs_bandwidth_mbps :: int
  vs_active_users :: int
  vs_last_heartbeat_at :: "time option"
  vs_online_users :: int
  vs_uplink_bps :: int
  vs_downlink_bps :: int

record pool_row =
  pr_id :: int
  pr_server_key :: string
  pr_country_code :: string
  pr_title :: string
  pr_profile_type :: string
  pr_enabled :: bool
  pr_sort_order :: int
  pr_inbound_tag :: string
  pr_host_header :: string
  pr_sni :: string
  pr_ws_path :: string
  pr_flow :: string
  pr_level :: int

record cred_row =
  cw_server_key :: string
  cw_node_id :: string
  cw_inbound_tag :: string
  cw_email :: string
  cw_vless_uuid :: string
  cw_access_rev :: int
  cw_enabled :: bool
  cw_last_synced_rev :: int
  cw_last_synced_at :: "time option"

record AccessState =
  ac_telegram_id :: int
  ac_status :: SubscriptionStatus
  ac_access_until :: "time option"
  ac_grace_until :: "time option"
  ac_access_rev :: int
  ac_country_code :: string

record quota_row =
  qr_period_key :: string
  qr_period_started_at :: time
  qr_baseline :: int
  qr_observed :: int
  qr_baseline_uplink :: int
  qr_observed_uplink :: int
  qr_limit :: int
  qr_exhausted :: bool
  qr_revision :: int
  qr_last_report_at :: "time option"

record vpn_db = sub_db +
  vpn_servers :: "(string, vpn_server) table"
  vpn_pool_items :: "(string, pool_row) table"
  pool_item_seq :: int
  node_credentials :: "(int \<times> string, cred_row) table"
  vpn_user_access :: "(int, AccessState) table"
  user_traffic_node :: "(int \<times> string, int \<times> int) table"
  cdn_quota :: "(int \<times> string, quota_row) table"
  cdn_endpoints :: "(string, CDNEndpoint) table"
  grpc_endpoints :: "(string, GRPCEndpoint) table"
  hysteria_endpoints :: "(string, HysteriaEndpoint) table"
  reality_endpoints :: "(string, RealityEndpoint) table"

text \<open>The platform and the subscription tables of a database are what another service sees of it.\<close>

section \<open>Reading the pool\<close>

definition first_set :: "string list \<Rightarrow> string" where
  "first_set vs = (case filter (\<lambda>v. v \<noteq> []) vs of [] \<Rightarrow> [] | v # _ \<Rightarrow> v)"

definition joined_item :: "string \<Rightarrow> pool_row \<Rightarrow> vpn_server \<Rightarrow> PoolItem" where
  "joined_item k p s = \<lparr>pi_id = pr_id p, pi_item_key = k, pi_server_key = pr_server_key p,
     pi_node_id = vs_node_id s, pi_country_code = pr_country_code p, pi_title = pr_title p,
     pi_profile_type = pr_profile_type p, pi_enabled = pr_enabled p, pi_sort_order = pr_sort_order p,
     pi_public_host = vs_public_host s, pi_port = vs_port s, pi_transport = vs_transport s,
     pi_security = vs_security s,
     pi_host_header = first_set [pr_host_header p, vs_host_header s, vs_public_host s],
     pi_sni = first_set [pr_sni p, vs_sni s, vs_public_host s],
     pi_ws_path = first_set [pr_ws_path p, vs_ws_path s, ''/ws''],
     pi_inbound_tag = first_set [pr_inbound_tag p, vs_default_inbound_tag s, ''vless-ws-tls''],
     pi_flow = first_set [pr_flow p, vs_flow s], pi_level = max 0 (pr_level p)\<rparr>"

definition ListEnabledPoolItems :: "'z vpn_db_scheme \<Rightarrow> PoolItem list" where
  "ListEnabledPoolItems d = sort_key pi_sort_order (concat (map (\<lambda>(k, p).
     case tget (vpn_servers d) (pr_server_key p) of
       None \<Rightarrow> []
     | Some s \<Rightarrow> if pr_enabled p \<and> vs_enabled s \<and> vs_node_id s \<noteq> [] \<and> vs_public_host s \<noteq> []
                 then [joined_item k p s] else []) (vpn_pool_items d)))"

definition active_users_of :: "'z vpn_db_scheme \<Rightarrow> string \<Rightarrow> int" where
  "active_users_of d key = int (length (filter (\<lambda>(_, c). cw_enabled c \<and> cw_server_key c = key) (node_credentials d)))"

definition server_load :: "'z vpn_db_scheme \<Rightarrow> string \<Rightarrow> vpn_server \<Rightarrow> ServerLoad" where
  "server_load d key s = \<lparr>sl_server_key = key, sl_country_code = vs_country_code s, sl_enabled = vs_enabled s,
     sl_max_users = vs_max_users s, sl_active_users = active_users_of d key, sl_online_users = vs_online_users s,
     sl_uplink_bps = vs_uplink_bps s, sl_downlink_bps = vs_downlink_bps s,
     sl_bandwidth_mbps = vs_bandwidth_mbps s, sl_weight = vs_weight s,
     sl_last_heartbeat_at = vs_last_heartbeat_at s\<rparr>"

text \<open>The map from countries to loads, a country at its first server.\<close>

definition LoadServersByCountry :: "'z vpn_db_scheme \<Rightarrow> (string \<times> ServerLoad list) list" where
  "LoadServersByCountry d =
     (let loads = map (\<lambda>(k, s). server_load d k s) (filter (\<lambda>(_, s). vs_enabled s) (vpn_servers d))
      in map (\<lambda>c. (c, filter (\<lambda>l. sl_country_code l = c) loads)) (remdups (map sl_country_code loads)))"

definition GetUserServerForItem :: "'z vpn_db_scheme \<Rightarrow> int \<Rightarrow> string \<Rightarrow> string" where
  "GetUserServerForItem d tid k = (case tget (node_credentials d) (tid, k) of
     Some c \<Rightarrow> if cw_enabled c then cw_server_key c else [] | None \<Rightarrow> [])"

section \<open>Access\<close>

definition sub_access :: "int \<Rightarrow> sub_row \<Rightarrow> AccessState" where
  "sub_access tid r = \<lparr>ac_telegram_id = tid, ac_status = us_status r, ac_access_until = us_expires_at r,
     ac_grace_until = us_grace_until r, ac_access_rev = us_access_rev r, ac_country_code = us_country r\<rparr>"

text \<open>None is \<open>ErrAccessNotFound\<close>. \<open>token\<close> is unique.\<close>

definition GetAccessByToken :: "'z sub_db_scheme \<Rightarrow> string \<Rightarrow> AccessState option" where
  "GetAccessByToken d token =
     (case List.find (\<lambda>(_, t). tk_token t = token \<and> tk_revoked_at t = None) (subscription_tokens d) of
        None \<Rightarrow> None
      | Some (tid, _) \<Rightarrow> map_option (sub_access tid) (tget (user_subscriptions d) tid))"

definition GetAccessByTelegramID :: "'z vpn_db_scheme \<Rightarrow> int \<Rightarrow> AccessState option" where
  "GetAccessByTelegramID d tid = tget (vpn_user_access d) tid"

definition live_access :: "time \<Rightarrow> sub_row \<Rightarrow> bool" where
  "live_access now r \<longleftrightarrow>
     (us_status r = StatusTrial \<or> us_status r = StatusActive)
       \<and> (case us_expires_at r of None \<Rightarrow> True | Some t \<Rightarrow> now < t)
   \<or> us_status r = StatusGrace \<and> (case us_grace_until r of None \<Rightarrow> True | Some t \<Rightarrow> now < t)"

definition ListActiveAccessesForReconcile :: "time \<Rightarrow> int \<Rightarrow> int \<Rightarrow> 'z sub_db_scheme \<Rightarrow> AccessState list" where
  "ListActiveAccessesForReconcile now after limit d =
     take (nat (if limit \<le> 0 then 200 else limit))
       (map (\<lambda>(tid, r). sub_access tid r)
         (sort_key fst (filter (\<lambda>(tid, r). live_access now r \<and> after < tid) (user_subscriptions d))))"

definition UpsertAccessProjectionTx :: "AccessState \<Rightarrow> 'z vpn_db_scheme \<Rightarrow> 'z vpn_db_scheme" where
  "UpsertAccessProjectionTx state d =
     (let s = (if ac_country_code state = [] then state\<lparr>ac_country_code := ''ALL''\<rparr> else state); tid = ac_telegram_id s in
      case tget (vpn_user_access d) tid of
        None \<Rightarrow> d\<lparr>vpn_user_access := tins tid s (vpn_user_access d)\<rparr>
      | Some r \<Rightarrow> if ac_access_rev r \<le> ac_access_rev s
                  then d\<lparr>vpn_user_access := tupd tid (\<lambda>_. s) (vpn_user_access d)\<rparr> else d)"

section \<open>Credentials\<close>

definition credential :: "int \<times> string \<Rightarrow> cred_row \<Rightarrow> UserCredential" where
  "credential k c = \<lparr>uc_telegram_id = fst k, uc_item_key = snd k, uc_server_key = cw_server_key c,
     uc_node_id = cw_node_id c, uc_inbound_tag = cw_inbound_tag c, uc_email = cw_email c,
     uc_vless_uuid = cw_vless_uuid c, uc_access_rev = cw_access_rev c, uc_enabled = cw_enabled c\<rparr>"

definition bump_active_users :: "int \<Rightarrow> string \<Rightarrow> 'z vpn_db_scheme \<Rightarrow> 'z vpn_db_scheme" where
  "bump_active_users n key d =
     (if trim_space key = [] then d
      else d\<lparr>vpn_servers := tupd key (\<lambda>s. s\<lparr>vs_active_users := max (vs_active_users s + n) 0\<rparr>) (vpn_servers d)\<rparr>)"

text \<open>
  The upsert of one credential. The server must exist and the e-mail must be nobody else's. RETURNING
  yields the new row, so the previous server it reports is the new one.
\<close>

definition upsert_credential ::
    "string \<Rightarrow> int \<Rightarrow> int \<Rightarrow> PoolItem \<Rightarrow> 'z vpn_db_scheme \<Rightarrow> tx_error + ((cred_row \<times> bool \<times> string) \<times> 'z vpn_db_scheme)" where
  "upsert_credential uuid tid arev it d =
     (let k = (tid, pi_item_key it); email = buildEmail tid (pi_item_key it) in
      case tget (node_credentials d) k of
        None \<Rightarrow>
          if list_ex (\<lambda>(_, c). cw_email c = email) (node_credentials d) then Inl UniqueViolation
          else if tget (vpn_servers d) (pi_server_key it) = None then Inl FkViolation
          else (let c = \<lparr>cw_server_key = pi_server_key it, cw_node_id = pi_node_id it,
                  cw_inbound_tag = pi_inbound_tag it, cw_email = email, cw_vless_uuid = uuid, cw_access_rev = arev,
                  cw_enabled = True, cw_last_synced_rev = 0, cw_last_synced_at = None\<rparr>
                in Inr ((c, True, []), d\<lparr>node_credentials := tins k c (node_credentials d)\<rparr>))
      | Some old \<Rightarrow>
          if tget (vpn_servers d) (pi_server_key it) = None then Inl FkViolation
          else (let c = old\<lparr>cw_server_key := pi_server_key it, cw_node_id := pi_node_id it,
                  cw_inbound_tag := pi_inbound_tag it, cw_access_rev := max (cw_access_rev old) arev, cw_enabled := True\<rparr>
                in Inr ((c, False, cw_server_key c), d\<lparr>node_credentials := tupd k (\<lambda>_. c) (node_credentials d)\<rparr>)))"

fun EnsureCredentialsForItemsTx ::
    "(string \<Rightarrow> string) \<Rightarrow> int \<Rightarrow> int \<Rightarrow> PoolItem list \<Rightarrow> 'z vpn_db_scheme
      \<Rightarrow> tx_error + (FeedItem list \<times> 'z vpn_db_scheme)" where
  "EnsureCredentialsForItemsTx uuid tid arev [] d = Inr ([], d)"
| "EnsureCredentialsForItemsTx uuid tid arev (it # items) d =
     andthen (upsert_credential (uuid (pi_item_key it)) tid arev it d) (\<lambda>(c, wasInserted, prev) d1.
       let d2 = (if wasInserted then bump_active_users 1 (pi_server_key it) d1
                 else if prev \<noteq> [] \<and> prev \<noteq> pi_server_key it
                 then bump_active_users (- 1) prev (bump_active_users 1 (pi_server_key it) d1) else d1);
           cred = credential (tid, pi_item_key it) c in
       andthen (EnsureCredentialsForItemsTx uuid tid arev items d2) (\<lambda>out d3.
         Inr (\<lparr>fi_pool_item = it, fi_credential = cred, fi_url = BuildVLESSURL it cred\<rparr> # out, d3)))"

definition disable_cred :: "int \<Rightarrow> cred_row \<Rightarrow> cred_row" where
  "disable_cred arev c = c\<lparr>cw_enabled := False, cw_access_rev := max (cw_access_rev c) arev\<rparr>"

definition creds_of :: "int \<Rightarrow> 'z vpn_db_scheme \<Rightarrow> UserCredential list" where
  "creds_of tid d = map (\<lambda>(k, c). credential k c) (filter (\<lambda>(k, _). fst k = tid) (node_credentials d))"

definition DisableUserCredentialsTx ::
    "int \<Rightarrow> int \<Rightarrow> 'z vpn_db_scheme \<Rightarrow> UserCredential list \<times> 'z vpn_db_scheme" where
  "DisableUserCredentialsTx tid arev d =
     (let d1 = d\<lparr>node_credentials := map (\<lambda>(k, c). (k, if fst k = tid then disable_cred arev c else c)) (node_credentials d)\<rparr>;
          out = creds_of tid d1
      in (out, fold (\<lambda>c d. if uc_server_key c \<noteq> [] then bump_active_users (- 1) (uc_server_key c) d else d) out d1))"

definition ListEnabledCredentialsForNodeTx :: "int \<Rightarrow> string \<Rightarrow> 'z vpn_db_scheme \<Rightarrow> UserCredential list" where
  "ListEnabledCredentialsForNodeTx tid node d =
     map (\<lambda>(k, c). credential k c) (filter (\<lambda>(k, c). fst k = tid \<and> cw_node_id c = node \<and> cw_enabled c) (node_credentials d))"

definition MarkCredentialsSyncedTx :: "time \<Rightarrow> int \<Rightarrow> int \<Rightarrow> string \<Rightarrow> 'z vpn_db_scheme \<Rightarrow> 'z vpn_db_scheme" where
  "MarkCredentialsSyncedTx now tid arev node d =
     d\<lparr>node_credentials := map (\<lambda>(k, c). (k,
        if fst k = tid \<and> cw_access_rev c \<le> arev \<and> cw_node_id c = node
        then c\<lparr>cw_last_synced_rev := max (cw_last_synced_rev c) arev, cw_last_synced_at := Some now\<rparr> else c)) (node_credentials d)\<rparr>"

section \<open>What the nodes report\<close>

definition UpdateNodeHeartbeatTx ::
    "string \<Rightarrow> string \<Rightarrow> time \<Rightarrow> int \<Rightarrow> int \<Rightarrow> int \<Rightarrow> 'z vpn_db_scheme \<Rightarrow> 'z vpn_db_scheme" where
  "UpdateNodeHeartbeatTx node key t online up down d =
     d\<lparr>vpn_servers := map (\<lambda>(k, s). (k, if vs_node_id s = node \<and> (key = [] \<or> k = key)
        then s\<lparr>vs_last_heartbeat_at := Some t, vs_online_users := online, vs_uplink_bps := up, vs_downlink_bps := down\<rparr> else s))
        (vpn_servers d)\<rparr>"

definition SaveNodeSyncResultTx :: "time \<Rightarrow> 'z platform_scheme \<Rightarrow> 'z platform_scheme" where
  "SaveNodeSyncResultTx now d = d\<lparr>node_sync_results := map_option (\<lambda>ts. ts @ [now]) (node_sync_results d)\<rparr>"

definition UpsertUserNodeTrafficTx :: "int \<Rightarrow> string \<Rightarrow> int \<Rightarrow> int \<Rightarrow> 'z vpn_db_scheme \<Rightarrow> 'z vpn_db_scheme" where
  "UpsertUserNodeTrafficTx tid node up down d =
     (let k = (tid, node) in case tget (user_traffic_node d) k of
        None \<Rightarrow> d\<lparr>user_traffic_node := tins k (up, down) (user_traffic_node d)\<rparr>
      | Some (u, w) \<Rightarrow> d\<lparr>user_traffic_node := tupd k (\<lambda>_. (max u up, max w down)) (user_traffic_node d)\<rparr>)"

definition GetUserTraffic :: "'z vpn_db_scheme \<Rightarrow> int \<Rightarrow> int \<times> int" where
  "GetUserTraffic d tid = (let rows = map snd (filter (\<lambda>(k, _). fst k = tid) (user_traffic_node d))
     in (sum_list (map fst rows), sum_list (map snd rows)))"

section \<open>Endpoints\<close>

definition ListEnabledCDNEndpoints :: "'z vpn_db_scheme \<Rightarrow> CDNEndpoint list" where
  "ListEnabledCDNEndpoints d = sort_key ce_sort_order (filter ce_enabled (map snd (cdn_endpoints d)))"

definition ListEnabledGRPCEndpoints :: "'z vpn_db_scheme \<Rightarrow> GRPCEndpoint list" where
  "ListEnabledGRPCEndpoints d = sort_key ge_sort_order (filter ge_enabled (map snd (grpc_endpoints d)))"

definition ListEnabledHysteriaEndpoints :: "'z vpn_db_scheme \<Rightarrow> HysteriaEndpoint list" where
  "ListEnabledHysteriaEndpoints d = sort_key he_sort_order (filter he_enabled (map snd (hysteria_endpoints d)))"

definition ListEnabledRealityEndpoints :: "'z vpn_db_scheme \<Rightarrow> RealityEndpoint list" where
  "ListEnabledRealityEndpoints d = sort_key re_sort_order (filter re_enabled (map snd (reality_endpoints d)))"

section \<open>What the statements leave alone\<close>

lemma bump_active_users_frame [simp]:
  "node_credentials (bump_active_users n k d) = node_credentials d"
  "cdn_quota (bump_active_users n k d) = cdn_quota d"
  "vpn_user_access (bump_active_users n k d) = vpn_user_access d"
  "event_outbox (bump_active_users n k d) = event_outbox d"
  "processed_messages (bump_active_users n k d) = processed_messages d"
  "tget (vpn_servers (bump_active_users n k d)) j = None \<longleftrightarrow> tget (vpn_servers d) j = None"
  by (simp_all add: bump_active_users_def table_simps)

lemma fold_bump_frame [simp]:
  "node_credentials (fold (\<lambda>c d. if uc_server_key c \<noteq> [] then bump_active_users n (uc_server_key c) d else d) cs d) = node_credentials d"
  "cdn_quota (fold (\<lambda>c d. if uc_server_key c \<noteq> [] then bump_active_users n (uc_server_key c) d else d) cs d) = cdn_quota d"
  "vpn_user_access (fold (\<lambda>c d. if uc_server_key c \<noteq> [] then bump_active_users n (uc_server_key c) d else d) cs d) = vpn_user_access d"
  "event_outbox (fold (\<lambda>c d. if uc_server_key c \<noteq> [] then bump_active_users n (uc_server_key c) d else d) cs d) = event_outbox d"
  "processed_messages (fold (\<lambda>c d. if uc_server_key c \<noteq> [] then bump_active_users n (uc_server_key c) d else d) cs d) = processed_messages d"
  by (induction cs arbitrary: d) simp_all

end
