(* ===== verification/VpnQuota.thy ===== *)
theory VpnQuota
  imports VpnModel
begin

text \<open>
  The quota of CDN traffic per user and node: cdn_quota.go, cdn_quota_repository.go, cdn_quota_worker.go and
  traffic_classify.go. \<open>time.Format\<close> of a UTC month is \<open>civil_month\<close>, the proleptic Gregorian calendar.
  \<open>time.ParseDuration\<close> and the collation of the database are parameters. Byte counts of a report are
  \<open>int64\<close> and their sums wrap; the database's own arithmetic does not overflow below \<open>2 ^ 62\<close>.
\<close>

section \<open>cdn_quota.go\<close>

datatype fail_mode = CDNQuotaFailOpen | CDNQuotaFailClose

record CDNQuotaPolicy =
  qp_enabled :: bool
  qp_enforce :: bool
  qp_limit_bytes :: int
  qp_stale_after :: duration
  qp_fail_mode :: fail_mode

definition envBoolDefault :: "(string \<Rightarrow> string) \<Rightarrow> string \<Rightarrow> bool \<Rightarrow> bool" where
  "envBoolDefault getenv key def = (let raw = map to_lower (trim_space (getenv key)) in
     if raw = [] then def else raw \<in> {''true'', ''1'', ''yes'', ''on''})"

definition quota_limit_env :: "string \<Rightarrow> int option" where
  "quota_limit_env v = (let raw = trim_space v in
     if raw = [] then Some 20000000000
     else case atoi raw of None \<Rightarrow> None | Some n \<Rightarrow> if n \<le> 0 then None else Some n)"

definition stale_after_env :: "(string \<Rightarrow> duration option) \<Rightarrow> string \<Rightarrow> duration option" where
  "stale_after_env parseDuration v = (let raw = trim_space v in
     if raw = [] then Some 0
     else case parseDuration raw of None \<Rightarrow> None | Some n \<Rightarrow> if n < 0 then None else Some n)"

definition fail_mode_env :: "string \<Rightarrow> fail_mode option" where
  "fail_mode_env v = (let raw = map to_lower (trim_space v) in
     if raw = [] \<or> raw = ''open'' then Some CDNQuotaFailOpen
     else if raw = ''close'' then Some CDNQuotaFailClose else None)"

definition LoadCDNQuotaPolicyFromEnv ::
    "(string \<Rightarrow> duration option) \<Rightarrow> (string \<Rightarrow> string) \<Rightarrow> string + CDNQuotaPolicy" where
  "LoadCDNQuotaPolicyFromEnv parseDuration getenv =
     (let enabled = envBoolDefault getenv ''CDN_QUOTA_ENABLED'' False;
          enforce = envBoolDefault getenv ''CDN_QUOTA_ENFORCE'' False in
      case quota_limit_env (getenv ''CDN_QUOTA_LIMIT_BYTES'') of
        None \<Rightarrow> Inl ''CDN_QUOTA_LIMIT_BYTES must be a positive integer''
      | Some limit \<Rightarrow>
      (case stale_after_env parseDuration (getenv ''CDN_QUOTA_TELEMETRY_STALE_AFTER'') of
        None \<Rightarrow> Inl ''CDN_QUOTA_TELEMETRY_STALE_AFTER must be a duration like 45m''
      | Some stale \<Rightarrow>
      (case fail_mode_env (getenv ''CDN_QUOTA_FAIL_MODE'') of
        None \<Rightarrow> Inl ''CDN_QUOTA_FAIL_MODE must be open or close''
      | Some mode \<Rightarrow>
          if mode = CDNQuotaFailClose \<and> stale = 0
            then Inl ''CDN_QUOTA_FAIL_MODE=close requires CDN_QUOTA_TELEMETRY_STALE_AFTER''
          else if enforce \<and> \<not> enabled then Inl ''CDN_QUOTA_ENFORCE=true requires CDN_QUOTA_ENABLED=true''
          else Inr \<lparr>qp_enabled = enabled, qp_enforce = enforce, qp_limit_bytes = limit,
                    qp_stale_after = stale, qp_fail_mode = mode\<rparr>)))"

definition cdnInboundAllowlist :: "CDNEndpoint list \<Rightarrow> string list" where
  "cdnInboundAllowlist endpoints = map (\<lambda>e. or_default (trim_space (ce_inbound_tag e)) ''vless-xhttp-cdn-in'') endpoints"

text \<open>Year and month of an instant.\<close>

definition civil_month :: "time \<Rightarrow> int \<times> int" where
  "civil_month t =
     (let z = t div days 1 + 719468; era = z div 146097; doe = z mod 146097;
          yoe = (doe - doe div 1460 + doe div 36524 - doe div 146096) div 365;
          doy = doe - (365 * yoe + yoe div 4 - yoe div 100);
          mp = (5 * doy + 2) div 153; m = (if mp < 10 then mp + 3 else mp - 9)
      in (yoe + era * 400 + (if m \<le> 2 then 1 else 0), m))"

definition pad_zeros :: "nat \<Rightarrow> int \<Rightarrow> string" where
  "pad_zeros w n = (let s = show_int n in replicate (w - length s) (CHR ''0'') @ s)"

definition calendarPeriodKey :: "time \<Rightarrow> string" where
  "calendarPeriodKey now = (let (y, m) = civil_month now in ''cal:'' @ pad_zeros 4 y @ ''-'' @ pad_zeros 2 m)"

definition paymentPeriodKey :: "string \<Rightarrow> string" where
  "paymentPeriodKey paymentID = (let p = trim_space paymentID in if p = [] then [] else ''pay:'' @ p)"

section \<open>traffic_classify.go\<close>

text \<open>The maps of totals are association lists from users to uplink and downlink.\<close>

record TrafficAggregate =
  ta_total_uplink :: int
  ta_total_downlink :: int
  ta_per_user :: "(int, int \<times> int) table"
  ta_cdn_per_user :: "(int, int \<times> int) table"
  ta_unclassified :: int

definition add_traffic :: "int \<Rightarrow> int \<Rightarrow> int \<Rightarrow> (int, int \<times> int) table \<Rightarrow> (int, int \<times> int) table" where
  "add_traffic tid up down t =
     tupd tid (\<lambda>(u, w). (wrap64 (u + up), wrap64 (w + down))) (tins tid (0, 0) t)"

definition classify_item :: "string list \<Rightarrow> VPNNodeTrafficItem \<Rightarrow> TrafficAggregate \<Rightarrow> TrafficAggregate" where
  "classify_item cdnInbounds it agg =
     (if ti_telegram_id it = 0 then agg
      else (let a = agg\<lparr>ta_per_user := add_traffic (ti_telegram_id it) (ti_uplink it) (ti_downlink it) (ta_per_user agg),
                    ta_total_uplink := wrap64 (ta_total_uplink agg + ti_uplink it),
                    ta_total_downlink := wrap64 (ta_total_downlink agg + ti_downlink it)\<rparr> in
        if cdnInbounds = [] then a
        else if ti_inbound_tag it = [] then a\<lparr>ta_unclassified := ta_unclassified a + 1\<rparr>
        else if ti_inbound_tag it \<notin> set cdnInbounds then a
        else a\<lparr>ta_cdn_per_user := add_traffic (ti_telegram_id it) (ti_uplink it) (ti_downlink it) (ta_cdn_per_user a)\<rparr>))"

definition classifyTrafficItems :: "VPNNodeTrafficItem list \<Rightarrow> string list \<Rightarrow> TrafficAggregate" where
  "classifyTrafficItems items cdnInbounds = fold (classify_item cdnInbounds) items
     \<lparr>ta_total_uplink = 0, ta_total_downlink = 0, ta_per_user = [], ta_cdn_per_user = [], ta_unclassified = 0\<rparr>"

section \<open>cdn_quota_repository.go\<close>

record CDNQuotaState =
  qs_telegram_id :: int
  qs_node_id :: string
  qs_period_key :: string
  qs_used_bytes :: int
  qs_limit_bytes :: int
  qs_exhausted :: bool
  qs_revision :: int
  qs_last_report_at :: "time option"
  qs_just_exhausted :: bool
  qs_counter_rebased :: bool

definition used_bytes :: "quota_row \<Rightarrow> int" where
  "used_bytes r = max (qr_observed r - qr_baseline r) 0"

definition observe_row :: "int \<Rightarrow> int \<Rightarrow> int \<Rightarrow> time \<Rightarrow> quota_row \<Rightarrow> quota_row" where
  "observe_row observed uplink limit t r =
     (let rebase = observed < qr_baseline r in
      r\<lparr>qr_baseline := (if rebase then max (observed - (qr_observed r - qr_baseline r)) 0 else qr_baseline r),
        qr_observed := (if rebase then observed else max (qr_observed r) observed),
        qr_baseline_uplink := (if rebase then max (uplink - (qr_observed_uplink r - qr_baseline_uplink r)) 0 else qr_baseline_uplink r),
        qr_observed_uplink := (if rebase then uplink else max (qr_observed_uplink r) uplink),
        qr_limit := limit, qr_last_report_at := Some t\<rparr>)"

definition first_row :: "int \<Rightarrow> int \<Rightarrow> int \<Rightarrow> string \<Rightarrow> time \<Rightarrow> quota_row" where
  "first_row observed uplink limit period t =
     \<lparr>qr_period_key = period, qr_period_started_at = t, qr_baseline = observed, qr_observed = observed,
      qr_baseline_uplink = uplink, qr_observed_uplink = uplink, qr_limit = limit, qr_exhausted = False,
      qr_revision = 0, qr_last_report_at = Some t\<rparr>"

text \<open>The conditional UPDATE that marks a row exhausted.\<close>

definition exhaust_row :: "quota_row \<Rightarrow> quota_row" where
  "exhaust_row r = (if \<not> qr_exhausted r \<and> qr_limit r \<le> used_bytes r
     then r\<lparr>qr_exhausted := True, qr_revision := qr_revision r + 1\<rparr> else r)"

definition ApplyObservationTx ::
    "int \<Rightarrow> string \<Rightarrow> int \<Rightarrow> int \<Rightarrow> int \<Rightarrow> string \<Rightarrow> time \<Rightarrow> 'z vpn_db_scheme
      \<Rightarrow> tx_error + (CDNQuotaState \<times> 'z vpn_db_scheme)" where
  "ApplyObservationTx tid node observed uplink limit period t d =
     (if tid = 0 \<or> node = [] then Inl (Refused ''empty telegram_id or node_id'')
      else if observed < 0 then Inl (Refused ''negative observed'')
      else if uplink < 0 then Inl (Refused ''negative observed uplink'')
      else if observed < uplink then Inl (Refused ''observed uplink exceeds total'')
      else if limit \<le> 0 then Inl (Refused ''non-positive limit'')
      else
        (let k = (tid, node); old = tget (cdn_quota d) k;
             r = (case old of None \<Rightarrow> first_row observed uplink limit period t
                  | Some r \<Rightarrow> observe_row observed uplink limit t r);
             rebased = (case old of None \<Rightarrow> False | Some r \<Rightarrow> observed < qr_baseline r);
             r' = exhaust_row r
         in Inr (\<lparr>qs_telegram_id = tid, qs_node_id = node, qs_period_key = qr_period_key r,
                  qs_used_bytes = used_bytes r, qs_limit_bytes = limit, qs_exhausted = qr_exhausted r',
                  qs_revision = qr_revision r', qs_last_report_at = Some t,
                  qs_just_exhausted = (qr_exhausted r' \<and> \<not> qr_exhausted r), qs_counter_rebased = rebased\<rparr>,
                 d\<lparr>cdn_quota := tupd k (\<lambda>_. r') (tins k r' (cdn_quota d))\<rparr>)))"

definition reset_row :: "string \<Rightarrow> int \<Rightarrow> time \<Rightarrow> quota_row \<Rightarrow> quota_row" where
  "reset_row period limit t r = r\<lparr>qr_period_key := period, qr_period_started_at := t, qr_baseline := qr_observed r,
     qr_limit := limit, qr_exhausted := False, qr_revision := qr_revision r + 1\<rparr>"

definition ResetQuotaTx ::
    "int \<Rightarrow> string \<Rightarrow> string \<Rightarrow> int \<Rightarrow> time \<Rightarrow> 'z vpn_db_scheme \<Rightarrow> tx_error + (bool \<times> 'z vpn_db_scheme)" where
  "ResetQuotaTx tid node period limit t d =
     (if period = [] then Inl (Refused ''empty period key'')
      else case tget (cdn_quota d) (tid, node) of
        None \<Rightarrow> Inr (False, d)
      | Some r \<Rightarrow> if qr_period_key r = period then Inr (False, d)
          else Inr (True, d\<lparr>cdn_quota := tupd (tid, node) (reset_row period limit t) (cdn_quota d)\<rparr>))"

definition ResetQuotaForUserTx ::
    "int \<Rightarrow> string \<Rightarrow> int \<Rightarrow> time \<Rightarrow> 'z vpn_db_scheme \<Rightarrow> tx_error + (string list \<times> 'z vpn_db_scheme)" where
  "ResetQuotaForUserTx tid period limit t d =
     (if period = [] then Inl (Refused ''empty period key'')
      else Inr (map (\<lambda>(k, _). snd k) (filter (\<lambda>(k, r). fst k = tid \<and> qr_period_key r \<noteq> period) (cdn_quota d)),
        d\<lparr>cdn_quota := map (\<lambda>(k, r). (k, if fst k = tid \<and> qr_period_key r \<noteq> period then reset_row period limit t r else r))
            (cdn_quota d)\<rparr>))"

definition ExhaustedNodesForUser :: "'z vpn_db_scheme \<Rightarrow> int \<Rightarrow> string list" where
  "ExhaustedNodesForUser d tid = map (\<lambda>(k, _). snd k) (filter (\<lambda>(k, r). fst k = tid \<and> qr_exhausted r) (cdn_quota d))"

definition SumCDNUsageForUser :: "'z vpn_db_scheme \<Rightarrow> int \<Rightarrow> int \<times> int" where
  "SumCDNUsageForUser d tid =
     (if tid = 0 then (0, 0)
      else (let rows = map snd (filter (\<lambda>(k, _). fst k = tid) (cdn_quota d)) in
        (sum_list (map (\<lambda>r. max (qr_observed_uplink r - qr_baseline_uplink r) 0) rows),
         sum_list (map (\<lambda>r. max ((qr_observed r - qr_baseline r) - (qr_observed_uplink r - qr_baseline_uplink r)) 0) rows))))"

record CDNQuotaSummary =
  sm_node_id :: string
  sm_rows :: int
  sm_exhausted_rows :: int
  sm_used_bytes_total :: int
  sm_stale_rows :: int

definition SummarizeQuotas :: "time \<Rightarrow> duration \<Rightarrow> 'z vpn_db_scheme \<Rightarrow> CDNQuotaSummary list" where
  "SummarizeQuotas now stale d = map (\<lambda>node.
     (let rows = map snd (filter (\<lambda>(k, _). snd k = node) (cdn_quota d)) in
      \<lparr>sm_node_id = node, sm_rows = int (length rows), sm_exhausted_rows = int (length (filter qr_exhausted rows)),
       sm_used_bytes_total = sum_list (map used_bytes rows),
       sm_stale_rows = int (length (filter (\<lambda>r. 0 < stale \<and> (case qr_last_report_at r of None \<Rightarrow> True | Some t \<Rightarrow> t < now - stale)) rows))\<rparr>))
     (remdups (map (snd \<circ> fst) (cdn_quota d)))"

text \<open>\<open>lt\<close> is the order of the node ids in the database's collation.\<close>

definition quota_key_less :: "(string \<Rightarrow> string \<Rightarrow> bool) \<Rightarrow> int \<times> string \<Rightarrow> int \<times> string \<Rightarrow> bool" where
  "quota_key_less lt a b \<longleftrightarrow> fst a < fst b \<or> fst a = fst b \<and> lt (snd a) (snd b)"

definition quotas_after ::
    "(string \<Rightarrow> string \<Rightarrow> bool) \<Rightarrow> string \<Rightarrow> int \<times> string \<Rightarrow> 'z vpn_db_scheme \<Rightarrow> ((int \<times> string) \<times> quota_row) list" where
  "quotas_after lt period cur d =
     filter (\<lambda>(k, r). qr_period_key r \<noteq> period \<and> quota_key_less lt cur k)
       (sort_by (\<lambda>a b. quota_key_less lt (fst a) (fst b)) (cdn_quota d))"

definition ListQuotasForCalendarReset ::
    "(string \<Rightarrow> string \<Rightarrow> bool) \<Rightarrow> string \<Rightarrow> int \<Rightarrow> int \<times> string \<Rightarrow> 'z vpn_db_scheme \<Rightarrow> ((int \<times> string) \<times> quota_row) list" where
  "ListQuotasForCalendarReset lt period limit cur d =
     take (nat (if limit \<le> 0 then 500 else limit)) (quotas_after lt period cur d)"

section \<open>Loops over pages\<close>

text \<open>
  The loop of the workers: read a page after the cursor, treat its rows, stop at a page that is not full.
  \<open>page c s\<close> is None when the query fails, which ends the pass. None is the end of the fuel.
\<close>

fun paged ::
    "nat \<Rightarrow> ('k \<Rightarrow> 's \<Rightarrow> 'r list option) \<Rightarrow> ('r \<Rightarrow> 'k) \<Rightarrow> ('r \<Rightarrow> 's \<Rightarrow> 's) \<Rightarrow> nat \<Rightarrow> 'k \<Rightarrow> 's \<Rightarrow> 's option" where
  "paged 0 page key step n c s = None"
| "paged (Suc fuel) page key step n c s = (case page c s of
     None \<Rightarrow> Some s
   | Some rows \<Rightarrow>
       if rows = [] then Some s
       else if length rows < n then Some (fold step rows s)
       else paged fuel page key step n (key (last rows)) (fold step rows s))"

text \<open>Treating a row leaves the rows after it, in their order, as what comes after its key.\<close>

locale pagination =
  fixes after :: "'k \<Rightarrow> 's \<Rightarrow> 'r list" and key :: "'r \<Rightarrow> 'k" and step :: "'r \<Rightarrow> 's \<Rightarrow> 's" and ok :: "'s \<Rightarrow> bool"
  assumes rest: "ok s \<Longrightarrow> after c s = r # rs \<Longrightarrow> after (key r) (step r s) = rs"
    and keeps_ok: "ok s \<Longrightarrow> ok (step r s)"
begin

lemma after_fold:
  assumes "ok s" and "after c s = rows @ rest" and "rows \<noteq> []"
  shows "after (key (last rows)) (fold step rows s) = rest \<and> ok (fold step rows s)"
  using assms
proof (induction rows arbitrary: c s)
  case (Cons r rows)
  have r: "after (key r) (step r s) = rows @ rest" using rest [OF Cons.prems(1)] Cons.prems(2) by simp
  show ?case
  proof (cases rows)
    case Nil
    then show ?thesis using r keeps_ok Cons.prems(1) by simp
  next
    case (Cons q qs)
    then show ?thesis using Cons.IH [OF keeps_ok [OF Cons.prems(1)] r] by simp
  qed
qed simp

text \<open>Every row is treated once, in order, and the loop ends.\<close>

lemma paged_all:
  assumes "ok s" and "0 < n" and "length (after c s) < fuel"
    and page: "\<And>c s. page c s = Some (take n (after c s))"
  shows "paged fuel page key step n c s = Some (fold step (after c s) s)"
  using assms(1,3)
proof (induction fuel arbitrary: c s)
  case (Suc fuel)
  let ?rows = "take n (after c s)" and ?left = "drop n (after c s)"
  show ?case
  proof (cases "length ?rows < n \<or> ?rows = []")
    case True
    then have "?left = []" using assms(2) by auto
    then show ?thesis using True by (auto simp: page)
  next
    case False
    have split: "after c s = ?rows @ ?left" by simp
    from after_fold [OF Suc.prems(1) split] False
    have next_page: "after (key (last ?rows)) (fold step ?rows s) = ?left" "ok (fold step ?rows s)" by blast+
    have "length ?left < fuel" using Suc.prems(2) False assms(2) by (auto simp: not_less)
    from Suc.IH [OF next_page(2)] this next_page(1)
    have "paged fuel page key step n (key (last ?rows)) (fold step ?rows s) = Some (fold step ?left (fold step ?rows s))"
      by simp
    also have "fold step ?left (fold step ?rows s) = fold step (after c s) s"
      by (metis split fold_append comp_apply)
    finally show ?thesis using False by (simp add: page)
  qed
qed simp

end

section \<open>cdn_quota_worker.go\<close>

definition reset_pair ::
    "(int \<times> string \<Rightarrow> outage) \<Rightarrow> string \<Rightarrow> int \<Rightarrow> time \<Rightarrow> (int \<times> string) \<times> quota_row \<Rightarrow> 'z vpn_db_scheme \<Rightarrow> 'z vpn_db_scheme" where
  "reset_pair out period limit now x d =
     snd (run_tx (out (fst x)) (ResetQuotaTx (fst (fst x)) (snd (fst x)) period limit now) d)"

definition runCalendarReset ::
    "nat \<Rightarrow> (string \<Rightarrow> string \<Rightarrow> bool) \<Rightarrow> (int \<times> string \<Rightarrow> bool) \<Rightarrow> (int \<times> string \<Rightarrow> outage) \<Rightarrow> CDNQuotaPolicy \<Rightarrow> time \<Rightarrow> int
      \<Rightarrow> 'z vpn_db_scheme \<Rightarrow> 'z vpn_db_scheme option" where
  "runCalendarReset fuel lt fails out pol now batchSize d =
     (let period = calendarPeriodKey now in
      paged fuel (\<lambda>c d. if fails c then None else Some (ListQuotasForCalendarReset lt period batchSize c d))
        fst (reset_pair out period (qp_limit_bytes pol) now) (nat batchSize) (0, []) d)"

text \<open>\<open>lock\<close> is the answer of \<open>pg_try_advisory_lock\<close>, None its error. \<open>RunCDNQuotaWorker\<close> makes the batch size positive.\<close>

definition cdnQuotaPassOnce ::
    "nat \<Rightarrow> bool option \<Rightarrow> (string \<Rightarrow> string \<Rightarrow> bool) \<Rightarrow> (int \<times> string \<Rightarrow> bool) \<Rightarrow> (int \<times> string \<Rightarrow> outage) \<Rightarrow> CDNQuotaPolicy
      \<Rightarrow> time \<Rightarrow> int \<Rightarrow> 'z vpn_db_scheme \<Rightarrow> 'z vpn_db_scheme option" where
  "cdnQuotaPassOnce fuel lock lt fails out pol now batchSize d =
     (if qp_enabled pol \<and> lock = Some True
      then runCalendarReset fuel lt fails out pol now (if batchSize \<le> 0 then 500 else batchSize) d
      else Some d)"

end
