(* ===== verification/VpnMetering.thy ===== *)
theory VpnMetering
  imports VpnQuota "HOL-Library.Char_ord" "HOL-Library.List_Lexorder"
begin

text \<open>
  What the CDN quota promises: how a report is split among users, what repeated, reordered and rolled-back
  counters do to the consumption, when a quota is exhausted and reset, and that a pass of the calendar worker
  treats every row once.
\<close>

section \<open>Classification\<close>

definition traffic_of :: "(int, int \<times> int) table \<Rightarrow> int \<Rightarrow> int \<times> int" where
  "traffic_of t tid = (case tget t tid of None \<Rightarrow> (0, 0) | Some x \<Rightarrow> x)"

lemma traffic_of_add: "traffic_of (add_traffic i up down t) tid =
    (if tid = i then (wrap64 (fst (traffic_of t tid) + up), wrap64 (snd (traffic_of t tid) + down)) else traffic_of t tid)"
  by (auto simp: traffic_of_def add_traffic_def table_simps split: option.split)

lemma tkeys_add_traffic [simp]: "tkeys (add_traffic i up down t) = insert i (tkeys t)"
proof -
  have "k \<in> tkeys (add_traffic i up down t) \<longleftrightarrow> k \<in> insert i (tkeys t)" for k
    unfolding tkeys_iff insert_iff by (auto simp: add_traffic_def table_simps)
  then show ?thesis by blast
qed

definition counted :: "VPNNodeTrafficItem list \<Rightarrow> (VPNNodeTrafficItem \<Rightarrow> bool) \<Rightarrow> int \<times> int" where
  "counted items P = (sum_list (map ti_uplink (filter P items)), sum_list (map ti_downlink (filter P items)))"

definition is_cdn_item :: "string list \<Rightarrow> VPNNodeTrafficItem \<Rightarrow> bool" where
  "is_cdn_item tags it \<longleftrightarrow> ti_inbound_tag it \<noteq> [] \<and> ti_inbound_tag it \<in> set tags"

definition wrap_pair :: "int \<times> int \<Rightarrow> int \<times> int" where
  "wrap_pair x = (wrap64 (fst x), wrap64 (snd x))"

lemma wrap64_idem [simp]: "wrap64 (wrap64 a) = wrap64 a"
  using wrap64_add(1) [of a 0] by simp

lemma wrap64_assoc: "wrap64 (wrap64 (a + b) + c) = wrap64 (a + (b + c))"
  by (simp add: add.assoc)

definition add_pair :: "int \<times> int \<Rightarrow> int \<times> int \<Rightarrow> int \<times> int" where
  "add_pair x y = (fst x + fst y, snd x + snd y)"

lemma counted_simps:
  "counted [] P = (0, 0)"
  "counted (it # items) P = (if P it then add_pair (ti_uplink it, ti_downlink it) (counted items P) else counted items P)"
  by (simp_all add: counted_def add_pair_def)

lemma classify_item_step:
  assumes "tid \<noteq> 0"
  shows "traffic_of (ta_per_user (classify_item tags it agg)) tid = (if ti_telegram_id it = tid
      then wrap_pair (add_pair (traffic_of (ta_per_user agg) tid) (ti_uplink it, ti_downlink it)) else traffic_of (ta_per_user agg) tid)"
    and "traffic_of (ta_cdn_per_user (classify_item tags it agg)) tid = (if ti_telegram_id it = tid \<and> is_cdn_item tags it
      then wrap_pair (add_pair (traffic_of (ta_cdn_per_user agg) tid) (ti_uplink it, ti_downlink it)) else traffic_of (ta_cdn_per_user agg) tid)"
  using assms by (auto simp: classify_item_def Let_def traffic_of_add is_cdn_item_def wrap_pair_def add_pair_def)

lemma wrap_pair_add: "wrap_pair (add_pair (wrap_pair x) y) = wrap_pair (add_pair x y)"
  by (simp add: wrap_pair_def add_pair_def)

lemma add_pair_assoc: "add_pair (add_pair x y) z = add_pair x (add_pair y z)" "add_pair x (0, 0) = x"
  by (simp_all add: add_pair_def)

lemma classify_fold:
  assumes "tid \<noteq> 0"
  shows "wrap_pair (traffic_of (ta_per_user (fold (classify_item tags) items agg)) tid)
      = wrap_pair (add_pair (traffic_of (ta_per_user agg) tid) (counted items (\<lambda>it. ti_telegram_id it = tid)))
    \<and> wrap_pair (traffic_of (ta_cdn_per_user (fold (classify_item tags) items agg)) tid)
      = wrap_pair (add_pair (traffic_of (ta_cdn_per_user agg) tid)
          (counted items (\<lambda>it. ti_telegram_id it = tid \<and> is_cdn_item tags it)))"
proof (induction items arbitrary: agg)
  case (Cons it items)
  show ?case
    using Cons.IH [of "classify_item tags it agg"]
    by (simp add: counted_simps classify_item_step [OF assms] wrap_pair_add add_pair_assoc)
qed (simp add: counted_simps add_pair_assoc)

definition wrapped :: "(int, int \<times> int) table \<Rightarrow> bool" where
  "wrapped t \<longleftrightarrow> (\<forall>tid. wrap_pair (traffic_of t tid) = traffic_of t tid)"

lemma wrapped_fold:
  assumes "wrapped (ta_per_user agg)" and "wrapped (ta_cdn_per_user agg)"
  shows "wrapped (ta_per_user (fold (classify_item tags) items agg)) \<and> wrapped (ta_cdn_per_user (fold (classify_item tags) items agg))"
  using assms
proof (induction items arbitrary: agg)
  case (Cons it items)
  have "wrapped (add_traffic i up down t)" if "wrapped t" for i up down t
    using that by (auto simp: wrapped_def traffic_of_add wrap_pair_def)
  then show ?case using Cons by (simp add: classify_item_def Let_def)
qed simp

lemma cdn_users_fold:
  "tid \<in> tkeys (ta_cdn_per_user (fold (classify_item tags) items agg)) \<longleftrightarrow>
     tid \<in> tkeys (ta_cdn_per_user agg) \<or> tid \<noteq> 0 \<and> (\<exists>it \<in> set items. ti_telegram_id it = tid \<and> is_cdn_item tags it)"
proof (induction items arbitrary: agg)
  case (Cons it items)
  have "tkeys (ta_cdn_per_user (classify_item tags it agg))
      = (if ti_telegram_id it \<noteq> 0 \<and> is_cdn_item tags it then insert (ti_telegram_id it) (tkeys (ta_cdn_per_user agg))
         else tkeys (ta_cdn_per_user agg))"
    by (auto simp: classify_item_def Let_def is_cdn_item_def)
  then show ?case unfolding fold_Cons comp_apply Cons.IH by auto
qed simp

text \<open>
  C38. A report is split exactly: a user's traffic is the sum of all items of that user, the CDN part the sum
  of the items whose tag is on the allowlist, in the arithmetic of \<open>int64\<close>, and only users with such an item
  appear in the CDN part; with an empty allowlist nobody does.
\<close>

theorem classification_is_exact:
  assumes "tid \<noteq> 0"
  shows "traffic_of (ta_per_user (classifyTrafficItems items tags)) tid = wrap_pair (counted items (\<lambda>it. ti_telegram_id it = tid))
    \<and> traffic_of (ta_cdn_per_user (classifyTrafficItems items tags)) tid
      = wrap_pair (counted items (\<lambda>it. ti_telegram_id it = tid \<and> is_cdn_item tags it))
    \<and> (tid \<in> tkeys (ta_cdn_per_user (classifyTrafficItems items tags)) \<longleftrightarrow>
        (\<exists>it \<in> set items. ti_telegram_id it = tid \<and> is_cdn_item tags it))"
proof -
  let ?e = "\<lparr>ta_total_uplink = 0, ta_total_downlink = 0, ta_per_user = [], ta_cdn_per_user = [], ta_unclassified = 0\<rparr>"
  have "wrapped []" by (simp add: wrapped_def traffic_of_def wrap_pair_def)
  then have w: "wrapped (ta_per_user (classifyTrafficItems items tags)) \<and> wrapped (ta_cdn_per_user (classifyTrafficItems items tags))"
    unfolding classifyTrafficItems_def by (intro wrapped_fold) simp_all
  have z: "traffic_of [] tid = (0, 0)" "add_pair (0, 0) x = x" for x by (simp_all add: traffic_of_def add_pair_def)
  show ?thesis
    using classify_fold [OF assms, of tags items ?e] w cdn_users_fold [of tid tags items ?e] assms
    unfolding classifyTrafficItems_def wrapped_def by (simp add: z tkeys_iff)
qed

definition traffic_item :: "int \<Rightarrow> string \<Rightarrow> int \<Rightarrow> VPNNodeTrafficItem" where
  "traffic_item tid tag n = \<lparr>ti_telegram_id = tid, ti_email = [], ti_uplink = n, ti_downlink = 2 * n, ti_inbound_tag = tag\<rparr>"

lemma classification_is_exact_witness:
  "traffic_of (ta_cdn_per_user (classifyTrafficItems [traffic_item 7 ''cdn'' 1, traffic_item 7 [] 10, traffic_item 8 ''cdn'' 100,
     traffic_item 7 ''cdn'' 1000] [''cdn''])) 7 = (1001, 2002)"
  by (subst classification_is_exact [THEN conjunct2, THEN conjunct1])
    (simp_all add: counted_simps traffic_item_def is_cdn_item_def add_pair_def wrap_pair_def)

section \<open>Consumption\<close>

text \<open>The CHECK constraints of the table.\<close>

definition quota_ok :: "quota_row \<Rightarrow> bool" where
  "quota_ok r \<longleftrightarrow> 0 \<le> qr_baseline r \<and> qr_baseline r \<le> qr_observed r \<and> 0 \<le> qr_baseline_uplink r
     \<and> qr_baseline_uplink r \<le> qr_observed_uplink r \<and> qr_observed_uplink r \<le> qr_observed r \<and> 0 < qr_limit r"

definition quotas_ok :: "'z vpn_db_scheme \<Rightarrow> bool" where
  "quotas_ok d \<longleftrightarrow> twf (cdn_quota d) \<and> (\<forall>k r. tget (cdn_quota d) k = Some r \<longrightarrow> quota_ok r)"

lemma quota_ok_rows:
  assumes "0 \<le> uplink" and "uplink \<le> observed" and "0 < limit"
  shows "quota_ok (first_row observed uplink limit period t)"
    and "quota_ok r \<Longrightarrow> quota_ok (observe_row observed uplink limit t r)"
  using assms by (auto simp: quota_ok_def first_row_def observe_row_def Let_def)

lemma quota_ok_steps [simp]:
  "quota_ok (exhaust_row r) = quota_ok r"
  "0 < limit \<Longrightarrow> quota_ok r \<Longrightarrow> quota_ok (reset_row period limit t r)"
  by (auto simp: quota_ok_def exhaust_row_def reset_row_def)

lemma used_exhaust [simp]: "used_bytes (exhaust_row r) = used_bytes r"
  by (simp add: exhaust_row_def used_bytes_def)

lemma used_observe:
  assumes "quota_ok r" and "0 \<le> observed"
  shows "used_bytes (observe_row observed uplink limit t r) = (if observed < qr_baseline r then min (used_bytes r) observed
    else max (used_bytes r) (observed - qr_baseline r))"
  using assms by (auto simp: used_bytes_def observe_row_def Let_def quota_ok_def)

text \<open>A report of a pair as the handler applies it: observed total, uplink, instant.\<close>

type_synonym report = "int \<times> int \<times> time"

definition report_ok :: "report \<Rightarrow> bool" where
  "report_ok x \<longleftrightarrow> 0 \<le> fst (snd x) \<and> fst (snd x) \<le> fst x"

definition observe :: "int \<Rightarrow> string \<Rightarrow> int \<Rightarrow> string \<Rightarrow> report \<Rightarrow> 'z vpn_db_scheme \<Rightarrow> tx_error + (CDNQuotaState \<times> 'z vpn_db_scheme)" where
  "observe tid node limit period x d = ApplyObservationTx tid node (fst x) (fst (snd x)) limit period (snd (snd x)) d"

definition observed_row :: "int \<Rightarrow> string \<Rightarrow> report \<Rightarrow> quota_row option \<Rightarrow> quota_row" where
  "observed_row limit period x old = (case old of
     None \<Rightarrow> first_row (fst x) (fst (snd x)) limit period (snd (snd x))
   | Some r \<Rightarrow> observe_row (fst x) (fst (snd x)) limit (snd (snd x)) r)"

lemma observe_result:
  assumes "tid \<noteq> 0" and "node \<noteq> []" and "0 < limit" and "report_ok x"
    and "r = observed_row limit period x (tget (cdn_quota d) (tid, node))"
  shows "\<exists>st d'. observe tid node limit period x d = Inr (st, d')
    \<and> cdn_quota d' = tupd (tid, node) (\<lambda>_. exhaust_row r) (tins (tid, node) (exhaust_row r) (cdn_quota d))
    \<and> qs_used_bytes st = used_bytes r \<and> (qs_just_exhausted st \<longleftrightarrow> qr_exhausted (exhaust_row r) \<and> \<not> qr_exhausted r)
    \<and> qs_exhausted st = qr_exhausted (exhaust_row r)"
  using assms by (simp add: observe_def ApplyObservationTx_def report_ok_def Let_def observed_row_def)

text \<open>All reports of a pair in one order, each with the transaction it runs in; the flags tell which exhausted the quota.\<close>

fun observe_all ::
    "int \<Rightarrow> string \<Rightarrow> int \<Rightarrow> string \<Rightarrow> report list \<Rightarrow> 'z vpn_db_scheme \<Rightarrow> tx_error + (bool list \<times> 'z vpn_db_scheme)" where
  "observe_all tid node limit period [] d = Inr ([], d)"
| "observe_all tid node limit period (x # xs) d = andthen (observe tid node limit period x d) (\<lambda>st d1.
     andthen (observe_all tid node limit period xs d1) (\<lambda>flags d2. Inr (qs_just_exhausted st # flags, d2)))"

lemma tget_put: "tget (tupd k (\<lambda>_. r) (tins k r t)) k' = (if k' = k then Some r else tget t k')"
  by (auto simp: table_simps)

lemma fold_max_Max: "fold max ys (a :: int) = Max (insert a (set ys))"
  using Max.set_eq_fold [of a ys] by simp

lemma fold_max_ge: "(a :: int) \<le> fold max ys a"
  unfolding fold_max_Max by simp

lemma observe_all_row:
  assumes "tid \<noteq> 0" and "node \<noteq> []" and "0 < limit" and "\<forall>x \<in> set xs. report_ok x \<and> qr_baseline r \<le> fst x"
    and "tget (cdn_quota d) (tid, node) = Some r" and "quota_ok r"
  shows "\<exists>flags d' r'. observe_all tid node limit period xs d = Inr (flags, d')
    \<and> tget (cdn_quota d') (tid, node) = Some r' \<and> quota_ok r'
    \<and> qr_baseline r' = qr_baseline r \<and> qr_observed r' = fold max (map fst xs) (qr_observed r)
    \<and> length (filter (\<lambda>b. b) flags) = (if qr_exhausted r' \<and> \<not> qr_exhausted r then 1 else 0)
    \<and> (qr_exhausted r' \<longleftrightarrow> qr_exhausted r \<or> xs \<noteq> [] \<and> limit \<le> used_bytes r')
    \<and> (\<forall>k. k \<noteq> (tid, node) \<longrightarrow> tget (cdn_quota d') k = tget (cdn_quota d) k)"
  using assms(4-6)
proof (induction xs arbitrary: d r)
  case (Cons x xs)
  let ?r1 = "observe_row (fst x) (fst (snd x)) limit (snd (snd x)) r"
  obtain st d1 where st: "observe tid node limit period x d = Inr (st, d1)"
      "cdn_quota d1 = tupd (tid, node) (\<lambda>_. exhaust_row ?r1) (tins (tid, node) (exhaust_row ?r1) (cdn_quota d))"
      "qs_just_exhausted st \<longleftrightarrow> qr_exhausted (exhaust_row ?r1) \<and> \<not> qr_exhausted ?r1"
    using observe_result [OF assms(1-3) _ refl, of x period d] Cons.prems by (auto simp: observed_row_def)
  have row: "tget (cdn_quota d1) (tid, node) = Some (exhaust_row ?r1)" unfolding st(2) tget_put by simp
  have ok: "quota_ok (exhaust_row ?r1)"
    using Cons.prems(1,3) assms(3) quota_ok_rows(2) by (simp add: report_ok_def)
  have base: "qr_baseline (exhaust_row ?r1) = qr_baseline r" "qr_observed (exhaust_row ?r1) = max (fst x) (qr_observed r)"
    "qr_exhausted ?r1 = qr_exhausted r" "qr_exhausted (exhaust_row ?r1) \<longleftrightarrow> qr_exhausted r \<or> limit \<le> used_bytes (exhaust_row ?r1)"
    using Cons.prems(1) by (auto simp: observe_row_def Let_def exhaust_row_def used_bytes_def)
  have "\<forall>y \<in> set xs. report_ok y \<and> qr_baseline (exhaust_row ?r1) \<le> fst y" using Cons.prems(1) base(1) by simp
  from Cons.IH [OF this row ok] obtain flags d' r' where IH: "observe_all tid node limit period xs d1 = Inr (flags, d')"
      "tget (cdn_quota d') (tid, node) = Some r'" "quota_ok r'" "qr_baseline r' = qr_baseline (exhaust_row ?r1)"
      "qr_observed r' = fold max (map fst xs) (qr_observed (exhaust_row ?r1))"
      "length (filter (\<lambda>b. b) flags) = (if qr_exhausted r' \<and> \<not> qr_exhausted (exhaust_row ?r1) then 1 else 0)"
      "qr_exhausted r' \<longleftrightarrow> qr_exhausted (exhaust_row ?r1) \<or> xs \<noteq> [] \<and> limit \<le> used_bytes r'"
      "\<forall>k. k \<noteq> (tid, node) \<longrightarrow> tget (cdn_quota d') k = tget (cdn_quota d1) k"
    by blast
  have "qr_observed (exhaust_row ?r1) \<le> qr_observed r'"
    unfolding IH(5) by (rule fold_max_ge)
  then have "used_bytes (exhaust_row ?r1) \<le> used_bytes r'" "xs = [] \<Longrightarrow> used_bytes r' = used_bytes (exhaust_row ?r1)"
    using IH(4,5) by (simp_all add: used_bytes_def del: used_exhaust)
  then have "qr_exhausted r' \<longleftrightarrow> qr_exhausted r \<or> limit \<le> used_bytes r'" using IH(7) base(4) by (cases "xs = []") auto
  moreover have "length (filter (\<lambda>b. b) (qs_just_exhausted st # flags)) = (if qr_exhausted r' \<and> \<not> qr_exhausted r then 1 else 0)"
    using IH(6,7) st(3) base(3,4) by auto
  moreover have "\<forall>k. k \<noteq> (tid, node) \<longrightarrow> tget (cdn_quota d') k = tget (cdn_quota d) k"
    using IH(8) by (simp add: st(2) tget_put)
  moreover have "observe_all tid node limit period (x # xs) d = Inr (qs_just_exhausted st # flags, d')"
    using st(1) IH(1) by simp
  moreover have "qr_observed r' = fold max (map fst (x # xs)) (qr_observed r)" using IH(5) base(2) by simp
  ultimately show ?case
    using IH(2-4) base(1) by (intro exI [of _ "qs_just_exhausted st # flags"] exI [of _ d'] exI [of _ r']) simp
qed simp


definition empty_sub_db :: sub_db where
  "empty_sub_db = \<lparr>event_outbox = [], outbox_seq = 1, processed_messages = [], failed_messages = [], consumer_attempts = [],
     node_sync_results = Some [], subscription_plans = [], telegram_users = [], user_subscriptions = [], subscription_tokens = [],
     subscription_grants = [], referral_codes = [], referrals = [], referral_reward_grants = []\<rparr>"

definition empty_vpn_db :: vpn_db where
  "empty_vpn_db = sub_db.extend empty_sub_db (vpn_db.fields [] [] 1 [] [] [] [] [] [] [] [])"

lemma empty_vpn_db_simps [simp]:
  "cdn_quota empty_vpn_db = []" "node_credentials empty_vpn_db = []" "vpn_servers empty_vpn_db = []"
  "vpn_pool_items empty_vpn_db = []" "vpn_user_access empty_vpn_db = []" "event_outbox empty_vpn_db = []"
  "processed_messages empty_vpn_db = []" "user_subscriptions empty_vpn_db = []" "cdn_endpoints empty_vpn_db = []"
  "user_traffic_node empty_vpn_db = []"
  by (simp_all add: empty_vpn_db_def empty_sub_db_def sub_db.defs vpn_db.defs)


section \<open>Counters that go back\<close>

text \<open>
  A counter that restarts below the start of the period keeps the consumption only as far as the new
  total reaches: what was used is cut down to it, and forgotten when the counter starts at zero.
\<close>

theorem rollback_cuts_consumption:
  assumes "tid \<noteq> 0" and "node \<noteq> []" and "0 < limit" and "tget (cdn_quota d) (tid, node) = Some r" and "quota_ok r"
    and "0 \<le> uplink" and "uplink \<le> observed" and "observed < qr_baseline r"
  shows "\<exists>st d' r'. ApplyObservationTx tid node observed uplink limit period t d = Inr (st, d')
    \<and> tget (cdn_quota d') (tid, node) = Some r' \<and> qs_counter_rebased st \<and> used_bytes r' = min (used_bytes r) observed"
proof -
  have ok: "report_ok (observed, uplink, t)" using assms(6,7) by (simp add: report_ok_def)
  let ?r = "observe_row observed uplink limit t r"
  have "used_bytes ?r = min (used_bytes r) observed"
    using used_observe [OF assms(5), of observed uplink limit t] assms(6-8) by simp
  then show ?thesis
    using assms by (simp add: ApplyObservationTx_def Let_def tget_put)
qed

definition rolled_back_db :: vpn_db where
  "rolled_back_db = empty_vpn_db\<lparr>cdn_quota := [((7, ''n''), (first_row 30 3 20 ''cal:2024-05'' 0)\<lparr>qr_observed := 45\<rparr>)]\<rparr>"

lemma rollback_cuts_consumption_witness:
  "\<exists>st d' r'. ApplyObservationTx 7 ''n'' 1 0 20 ''cal:2024-05'' 9 rolled_back_db = Inr (st, d')
    \<and> tget (cdn_quota d') (7, ''n'') = Some r' \<and> qs_counter_rebased st \<and> used_bytes r' = 1"
proof -
  have row: "tget (cdn_quota rolled_back_db) (7, ''n'') = Some ((first_row 30 3 20 ''cal:2024-05'' 0)\<lparr>qr_observed := 45\<rparr>)"
    by (simp add: rolled_back_db_def tget_def)
  have "quota_ok ((first_row 30 3 20 ''cal:2024-05'' 0)\<lparr>qr_observed := 45\<rparr>)" by (simp add: quota_ok_def first_row_def)
  from rollback_cuts_consumption [OF _ _ _ row this, of 20 0 1] show ?thesis by (simp add: used_bytes_def first_row_def)
qed

section \<open>New periods\<close>

lemma reset_row_simps [simp]:
  "qr_period_key (reset_row p l t r) = p" "qr_exhausted (reset_row p l t r) = False" "used_bytes (reset_row p l t r) = 0"
  by (simp_all add: reset_row_def used_bytes_def)

text \<open>
  Opening a period starts the pair's consumption at zero, lifts the exhaustion, counts the revision and changes no
  other row; opening the same period again does nothing.
\<close>

theorem period_opens_once:
  assumes "period \<noteq> []" and "tget (cdn_quota d) (tid, node) = Some r" and "qr_period_key r \<noteq> period"
    and "ResetQuotaTx tid node period limit t d = Inr (b, d')"
  shows "b \<and> (\<exists>r'. tget (cdn_quota d') (tid, node) = Some r' \<and> used_bytes r' = 0 \<and> \<not> qr_exhausted r'
      \<and> qr_period_key r' = period \<and> qr_revision r' = qr_revision r + 1 \<and> qr_limit r' = limit)
    \<and> (\<forall>k. k \<noteq> (tid, node) \<longrightarrow> tget (cdn_quota d') k = tget (cdn_quota d) k)
    \<and> ResetQuotaTx tid node period limit' t' d' = Inr (False, d')"
  using assms by (auto simp: ResetQuotaTx_def table_simps) (simp_all add: reset_row_def)

lemma period_opens_once_witness:
  "\<exists>b d'. ResetQuotaTx 7 ''n'' ''cal:2024-06'' 20 5 rolled_back_db = Inr (b, d')
    \<and> ResetQuotaTx 7 ''n'' ''cal:2024-06'' 20 6 d' = Inr (False, d')"
proof -
  have row: "tget (cdn_quota rolled_back_db) (7, ''n'') = Some ((first_row 30 3 20 ''cal:2024-05'' 0)\<lparr>qr_observed := 45\<rparr>)"
    by (simp add: rolled_back_db_def tget_def)
  obtain b d' where run: "ResetQuotaTx 7 ''n'' ''cal:2024-06'' 20 5 rolled_back_db = Inr (b, d')"
    by (simp add: ResetQuotaTx_def row first_row_def)
  from period_opens_once [OF _ row _ run] run show ?thesis by (auto simp: first_row_def)
qed

text \<open>
  The uplink of the past periods stays in what a reset leaves: the header of the subscription goes on showing
  it, with no downlink, although the quota of the new period is unused.
\<close>

theorem reset_keeps_showing_uplink:
  assumes "tid \<noteq> 0" and "cdn_quota d = [((tid, node), r)]" and "quota_ok r" and "period \<noteq> []" and "qr_period_key r \<noteq> period"
    and "ResetQuotaTx tid node period limit t d = Inr (b, d')"
  shows "used_bytes (snd (hd (cdn_quota d'))) = 0
    \<and> SumCDNUsageForUser d' tid = (qr_observed_uplink r - qr_baseline_uplink r, 0)"
  using assms by (auto simp: ResetQuotaTx_def SumCDNUsageForUser_def tget_def tupd_def quota_ok_def reset_row_def used_bytes_def)

lemma reset_keeps_showing_uplink_witness:
  "\<exists>b d'. ResetQuotaTx 7 ''n'' ''cal:2024-06'' 20 5 (rolled_back_db\<lparr>cdn_quota := [((7, ''n''),
      (first_row 30 3 20 ''cal:2024-05'' 0)\<lparr>qr_observed := 45, qr_observed_uplink := 12\<rparr>)]\<rparr>) = Inr (b, d')
    \<and> SumCDNUsageForUser d' 7 = (9, 0)"
proof -
  let ?r = "(first_row 30 3 20 ''cal:2024-05'' 0)\<lparr>qr_observed := 45, qr_observed_uplink := 12\<rparr>"
  let ?d = "rolled_back_db\<lparr>cdn_quota := [((7, ''n''), ?r)]\<rparr>"
  obtain b d' where run: "ResetQuotaTx 7 ''n'' ''cal:2024-06'' 20 5 ?d = Inr (b, d')"
    by (simp add: ResetQuotaTx_def tget_def first_row_def)
  have "quota_ok ?r" by (simp add: quota_ok_def first_row_def)
  from reset_keeps_showing_uplink [OF _ _ this _ _ run] run show ?thesis by (auto simp: first_row_def)
qed

section \<open>The calendar worker\<close>

lemma filter_after_next:
  assumes "sorted_wrt L xs" and "\<And>x y. L x y \<Longrightarrow> \<not> L y x" and "\<And>x. C r \<Longrightarrow> L r x \<Longrightarrow> C x"
    and "filter (\<lambda>x. P x \<and> C x) xs = r # rs"
  shows "filter (\<lambda>x. P x \<and> L r x) xs = rs"
proof -
  obtain us vs where xs: "xs = us @ r # vs" and us: "\<forall>u \<in> set us. \<not> (P u \<and> C u)" and r: "P r \<and> C r"
    and rs: "rs = filter (\<lambda>x. P x \<and> C x) vs"
    using assms(4) unfolding filter_eq_Cons_iff by blast
  have "\<forall>u \<in> set us. \<not> L r u" "\<not> L r r" using assms(1,2) unfolding xs by (auto simp: sorted_wrt_append)
  moreover have "\<forall>v \<in> set vs. L r v" using assms(1) unfolding xs by (simp add: sorted_wrt_append)
  moreover have "\<forall>v \<in> set vs. C v" using calculation(3) assms(3) r by blast
  ultimately have "filter (\<lambda>x. P x \<and> L r x) us = []" "filter (\<lambda>x. P x \<and> L r x) vs = filter (\<lambda>x. P x \<and> C x) vs"
    by (auto simp: filter_empty_conv intro: filter_cong)
  then show ?thesis using \<open>\<not> L r r\<close> unfolding xs rs by simp
qed

lemma insert_by_map: "(\<And>a b. lt (f a) (f b) = lt a b) \<Longrightarrow> insert_by lt (f x) (map f xs) = map f (insert_by lt x xs)"
  by (induction xs) auto

lemma sort_by_map: "(\<And>a b. lt (f a) (f b) = lt a b) \<Longrightarrow> sort_by lt (map f xs) = map f (sort_by lt xs)"
  by (induction xs) (simp_all add: sort_by_simps insert_by_map)

text \<open>A collation: any strict linear order of the strings.\<close>

definition collation :: "(string \<Rightarrow> string \<Rightarrow> bool) \<Rightarrow> bool" where
  "collation lt \<longleftrightarrow> (\<forall>x. \<not> lt x x) \<and> (\<forall>x y z. lt x y \<longrightarrow> lt y z \<longrightarrow> lt x z) \<and> (\<forall>x y. x \<noteq> y \<longrightarrow> lt x y \<or> lt y x)"

lemma quota_key_order:
  assumes "collation lt"
  shows "\<not> quota_key_less lt x x" "quota_key_less lt x y \<Longrightarrow> quota_key_less lt y z \<Longrightarrow> quota_key_less lt x z"
    "x \<noteq> y \<Longrightarrow> quota_key_less lt x y \<or> quota_key_less lt y x" "quota_key_less lt x y \<Longrightarrow> \<not> quota_key_less lt y x"
proof -
  have lt: "\<not> lt a a" "lt a b \<Longrightarrow> lt b c \<Longrightarrow> lt a c" "a \<noteq> b \<Longrightarrow> lt a b \<or> lt b a" for a b c
    using assms unfolding collation_def by blast+
  show irrefl: "\<not> quota_key_less lt x x" by (simp add: quota_key_less_def lt(1))
  show trans: "quota_key_less lt x z" if "quota_key_less lt x y" "quota_key_less lt y z" for x y z
    using that lt(2) [of "snd x" "snd y" "snd z"] by (auto simp: quota_key_less_def)
  show "quota_key_less lt x y \<or> quota_key_less lt y x" if "x \<noteq> y"
    using that lt(3) [of "snd x" "snd y"] by (auto simp: quota_key_less_def prod_eq_iff)
  show "\<not> quota_key_less lt y x" if "quota_key_less lt x y"
    using trans [OF that, of x] quota_key_less_def lt(1) by auto
qed

lemma sorted_total:
  assumes "sorted_wrt (\<lambda>x y. \<not> lt (f y) (f x)) xs" and "distinct (map f xs)" and "\<And>a b. a \<noteq> b \<Longrightarrow> lt a b \<or> lt b a"
  shows "sorted_wrt (\<lambda>x y. lt (f x) (f y)) xs"
  using assms(1,2)
proof (induction xs)
  case (Cons x xs)
  have "lt (f x) (f y)" if "y \<in> set xs" for y
    using Cons.prems that assms(3) [of "f x" "f y"] by auto
  then show ?case using Cons by simp
qed simp

lemma quota_rows_sorted:
  assumes "collation lt" and "twf t"
  shows "sorted_wrt (\<lambda>a b. quota_key_less lt (fst a) (fst b)) (sort_by (\<lambda>a b. quota_key_less lt (fst a) (fst b)) t)"
proof (rule sorted_total)
  let ?L = "\<lambda>a b :: (int \<times> string) \<times> 'a. quota_key_less lt (fst a) (fst b)"
  have o: "weak_order ?L"
    by unfold_locales (use quota_key_order [OF assms(1)] in blast, metis quota_key_order [OF assms(1)])
  show "sorted_wrt (\<lambda>x y. \<not> ?L y x) (sort_by ?L t)"
    using weak_order.ordered_sort_by [OF o] unfolding weak_order.ordered_def [OF o] .
  show "distinct (map fst (sort_by ?L t))" using assms(2) by (simp add: distinct_map_sort_by twf_def)
qed (rule quota_key_order(3) [OF assms(1)])

lemma tupd_id: "tupd k (\<lambda>r. r) t = t"
  by (induction t) (auto simp: tupd_def)

lemma reset_pair_quota:
  "\<exists>f. cdn_quota (reset_pair out period limit now x d) = tupd (fst x) f (cdn_quota d)"
proof -
  obtain b d' where run: "run_tx (out (fst x)) (ResetQuotaTx (fst (fst x)) (snd (fst x)) period limit now) d = (b, d')"
    by (meson surj_pair)
  have "d' = d \<or> cdn_quota d' = tupd (fst x) (reset_row period limit now) (cdn_quota d)"
    using run by (auto simp: run_tx_def ResetQuotaTx_def split: outage.splits option.splits if_splits)
  then show ?thesis unfolding reset_pair_def run snd_conv using tupd_id [of "fst x" "cdn_quota d"] by metis
qed

lemma filter_map_same:
  assumes "\<And>x. C (g x) \<longleftrightarrow> C x" and "\<And>x. C x \<Longrightarrow> g x = x"
  shows "filter (\<lambda>x. P x \<and> C x) (map g xs) = filter (\<lambda>x. P x \<and> C x) xs"
  using assms by (induction xs) auto

text \<open>The pass is a pagination, whatever its transactions meet.\<close>

lemma quota_pagination:
  assumes c: "collation lt"
  shows "pagination (quotas_after lt period) fst (reset_pair out period limit now) (\<lambda>d. twf (cdn_quota d))"
proof
  fix cur and d :: "'a vpn_db_scheme" and r rs
  assume wf: "twf (cdn_quota d)" and after: "quotas_after lt period cur d = r # rs"
  let ?L = "\<lambda>a b :: (int \<times> string) \<times> quota_row. quota_key_less lt (fst a) (fst b)"
  let ?S = "sort_by ?L (cdn_quota d)" and ?P = "\<lambda>x :: (int \<times> string) \<times> quota_row. qr_period_key (snd x) \<noteq> period"
  obtain f where f: "cdn_quota (reset_pair out period limit now r d) = tupd (fst r) f (cdn_quota d)"
    using reset_pair_quota by blast
  let ?g = "\<lambda>(k, v). (k, if k = fst r then f v else v)"
  have "sort_by ?L (tupd (fst r) f (cdn_quota d)) = map ?g ?S"
    unfolding tupd_def by (rule sort_by_map) (simp add: split_beta)
  then have "quotas_after lt period (fst r) (reset_pair out period limit now r d) = filter (\<lambda>x. ?P x \<and> ?L r x) (map ?g ?S)"
    by (simp add: quotas_after_def f split_beta')
  also have "\<dots> = filter (\<lambda>x. ?P x \<and> ?L r x) ?S"
    by (rule filter_map_same) (auto simp: quota_key_order(1) [OF c])
  also have "\<dots> = rs"
  proof (rule filter_after_next [where L = ?L and P = ?P and C = "\<lambda>x. quota_key_less lt cur (fst x)"])
    show "sorted_wrt ?L ?S" by (rule quota_rows_sorted [OF c wf])
    show "filter (\<lambda>x. ?P x \<and> quota_key_less lt cur (fst x)) ?S = r # rs"
      using after by (simp add: quotas_after_def split_beta')
    show "\<not> ?L y x" if "?L x y" for x y by (rule quota_key_order(4) [OF c that])
    show "quota_key_less lt cur (fst x)" if "quota_key_less lt cur (fst r)" "?L r x" for x
      by (rule quota_key_order(2) [OF c that])
  qed
  finally show "quotas_after lt period (fst r) (reset_pair out period limit now r d) = rs" .
next
  fix d :: "'a vpn_db_scheme" and r
  assume "twf (cdn_quota d)"
  then show "twf (cdn_quota (reset_pair out period limit now r d))"
    using reset_pair_quota [of out period limit now r d] by auto
qed

text \<open>The order of the C collation.\<close>

lemma byte_collation: "collation (<)"
  unfolding collation_def by auto

interpretation calendar: pagination "quotas_after (<) period" fst "reset_pair out period limit now" "\<lambda>d. twf (cdn_quota d)"
  for period out limit now
  by (rule quota_pagination [OF byte_collation])

lemma fold_reset_pair:
  assumes "period \<noteq> []" and "distinct (map fst xs)" and "\<forall>(k, r) \<in> set xs. tget (cdn_quota d) k = Some r \<and> qr_period_key r \<noteq> period"
  shows "tget (cdn_quota (fold (reset_pair (\<lambda>_. Up) period limit now) xs d)) k
    = (if k \<in> fst ` set xs then map_option (reset_row period limit now) (tget (cdn_quota d) k) else tget (cdn_quota d) k)"
  using assms(2,3)
proof (induction xs arbitrary: d)
  case (Cons x xs)
  obtain j r where x: "x = (j, r)" by (cases x)
  let ?d = "reset_pair (\<lambda>_. Up) period limit now x d"
  have d1: "cdn_quota ?d = tupd j (reset_row period limit now) (cdn_quota d)"
    using Cons.prems(2) assms(1) by (simp add: x reset_pair_def ResetQuotaTx_def)
  have j: "j \<notin> fst ` set xs" using Cons.prems(1) by (simp add: x)
  have "\<forall>(k, r) \<in> set xs. tget (cdn_quota ?d) k = Some r \<and> qr_period_key r \<noteq> period"
  proof clarify
    fix a b q
    assume q: "((a, b), q) \<in> set xs"
    then have "(a, b) \<noteq> j" using j by force
    then show "tget (cdn_quota ?d) (a, b) = Some q \<and> qr_period_key q \<noteq> period"
      using Cons.prems(2) q by (auto simp: d1 tget_tupd)
  qed
  from Cons.IH [OF _ this] have "tget (cdn_quota (fold (reset_pair (\<lambda>_. Up) period limit now) xs ?d)) k
      = (if k \<in> fst ` set xs then map_option (reset_row period limit now) (tget (cdn_quota ?d) k) else tget (cdn_quota ?d) k)"
    using Cons.prems(1) by simp
  moreover have "fst ` set (x # xs) = insert j (fst ` set xs)" by (simp add: x)
  ultimately show ?case using j unfolding d1 tget_tupd by simp
qed simp

lemma calendar_rows:
  assumes "collation lt" and "twf (cdn_quota d)" and "0 < batchSize" and "length (cdn_quota d) < fuel"
  shows "\<exists>d'. runCalendarReset fuel lt (\<lambda>_. False) (\<lambda>_. Up) pol now batchSize d = Some d'
    \<and> (\<forall>k. tget (cdn_quota d') k = map_option (\<lambda>r.
        if qr_period_key r \<noteq> calendarPeriodKey now \<and> quota_key_less lt (0, []) k
        then reset_row (calendarPeriodKey now) (qp_limit_bytes pol) now r else r) (tget (cdn_quota d) k))"
proof -
  let ?P = "calendarPeriodKey now" and ?step = "reset_pair (\<lambda>_. Up) (calendarPeriodKey now) (qp_limit_bytes pol) now"
  let ?rows = "quotas_after lt ?P (0, []) d"
  note page = pagination.paged_all [OF quota_pagination [OF assms(1)]]
  have len: "length ?rows < fuel"
    unfolding quotas_after_def using assms(4) by (intro le_less_trans [OF length_filter_le]) simp
  have run: "runCalendarReset fuel lt (\<lambda>_. False) (\<lambda>_. Up) pol now batchSize d = Some (fold ?step ?rows d)"
    unfolding runCalendarReset_def Let_def if_False
    by (rule page [OF assms(2) _ len]) (use assms(3) in \<open>simp_all add: ListQuotasForCalendarReset_def\<close>)
  have in_rows: "(k, r) \<in> set ?rows \<longleftrightarrow> tget (cdn_quota d) k = Some r \<and> qr_period_key r \<noteq> ?P \<and> quota_key_less lt (0, []) k" for k r
    using assms(2) by (auto simp: quotas_after_def tget_in_set)
  have "distinct (map fst (sort_by (\<lambda>a b. quota_key_less lt (fst a) (fst b)) (cdn_quota d)))"
    using assms(2) by (simp add: distinct_map_sort_by twf_def)
  then have dist: "distinct (map fst ?rows)" unfolding quotas_after_def by (rule distinct_map_filter)
  have ne: "?P \<noteq> []" by (simp add: calendarPeriodKey_def split_beta)
  have old: "\<forall>(k, r) \<in> set ?rows. tget (cdn_quota d) k = Some r \<and> qr_period_key r \<noteq> ?P" using in_rows by blast
  have row: "tget (cdn_quota (fold ?step ?rows d)) k
      = (if k \<in> fst ` set ?rows then map_option (reset_row ?P (qp_limit_bytes pol) now) (tget (cdn_quota d) k) else tget (cdn_quota d) k)" for k
    by (rule fold_reset_pair [OF ne dist old])
  have keys: "k \<in> fst ` set ?rows \<longleftrightarrow> (\<exists>r. tget (cdn_quota d) k = Some r \<and> qr_period_key r \<noteq> ?P \<and> quota_key_less lt (0, []) k)" for k
  proof
    assume "k \<in> fst ` set ?rows"
    then obtain r where "(k, r) \<in> set ?rows" by (metis (no_types, lifting) imageE prod.collapse)
    then show "\<exists>r. tget (cdn_quota d) k = Some r \<and> qr_period_key r \<noteq> ?P \<and> quota_key_less lt (0, []) k" unfolding in_rows by (rule exI)
  next
    assume "\<exists>r. tget (cdn_quota d) k = Some r \<and> qr_period_key r \<noteq> ?P \<and> quota_key_less lt (0, []) k"
    then show "k \<in> fst ` set ?rows" unfolding in_rows [symmetric] by (metis image_eqI fst_conv)
  qed
  have "tget (cdn_quota (fold ?step ?rows d)) k = map_option (\<lambda>r.
        if qr_period_key r \<noteq> ?P \<and> quota_key_less lt (0, []) k then reset_row ?P (qp_limit_bytes pol) now r else r) (tget (cdn_quota d) k)" for k
    unfolding row keys by (cases "tget (cdn_quota d) k") simp_all
  then show ?thesis by (intro exI [of _ "fold ?step ?rows d"] conjI run) simp
qed

text \<open>
  C40. A pass of the calendar worker whose statements succeed ends, and has opened the month's period for exactly
  the rows behind, each once, whatever the size of its pages; every other row is unchanged.
\<close>

theorem calendar_pass_result:
  assumes "collation lt" and "twf (cdn_quota d)" and "0 < batchSize" and "length (cdn_quota d) < fuel"
  shows "\<exists>d'. runCalendarReset fuel lt (\<lambda>_. False) (\<lambda>_. Up) pol now batchSize d = Some d'
    \<and> (\<forall>k. tget (cdn_quota d') k = map_option (\<lambda>r.
        if qr_period_key r \<noteq> calendarPeriodKey now \<and> quota_key_less lt (0, []) k
        then reset_row (calendarPeriodKey now) (qp_limit_bytes pol) now r else r) (tget (cdn_quota d) k))"
  by (rule calendar_rows [OF assms])

lemma calendar_pass_result_witness:
  "\<exists>d' r. runCalendarReset 2 (<) (\<lambda>_. False) (\<lambda>_. Up) \<lparr>qp_enabled = True, qp_enforce = True, qp_limit_bytes = 20,
     qp_stale_after = 0, qp_fail_mode = CDNQuotaFailOpen\<rparr> (days 19876) 500 rolled_back_db = Some d'
   \<and> tget (cdn_quota d') (7, ''n'') = Some r \<and> qr_period_key r = ''cal:2024-06'' \<and> used_bytes r = 0"
proof -
  have key: "calendarPeriodKey (days 19876) = ''cal:2024-06''" by code_simp
  have wf: "twf (cdn_quota rolled_back_db)" "length (cdn_quota rolled_back_db) < 2" by (simp_all add: rolled_back_db_def twf_def)
  have row: "tget (cdn_quota rolled_back_db) (7, ''n'') = Some ((first_row 30 3 20 ''cal:2024-05'' 0)\<lparr>qr_observed := 45\<rparr>)"
    by (simp add: rolled_back_db_def tget_def)
  from calendar_pass_result [OF byte_collation wf(1) _ wf(2), of 500 "\<lparr>qp_enabled = True, qp_enforce = True, qp_limit_bytes = 20,
     qp_stale_after = 0, qp_fail_mode = CDNQuotaFailOpen\<rparr>" "days 19876"]
  obtain d' where run: "runCalendarReset 2 (<) (\<lambda>_. False) (\<lambda>_. Up) \<lparr>qp_enabled = True, qp_enforce = True, qp_limit_bytes = 20,
     qp_stale_after = 0, qp_fail_mode = CDNQuotaFailOpen\<rparr> (days 19876) 500 rolled_back_db = Some d'"
    and rows: "\<forall>k. tget (cdn_quota d') k = map_option (\<lambda>r. if qr_period_key r \<noteq> calendarPeriodKey (days 19876) \<and> quota_key_less (<) (0, []) k
        then reset_row (calendarPeriodKey (days 19876)) (qp_limit_bytes \<lparr>qp_enabled = True, qp_enforce = True, qp_limit_bytes = 20,
     qp_stale_after = 0, qp_fail_mode = CDNQuotaFailOpen\<rparr>) (days 19876) r else r) (tget (cdn_quota rolled_back_db) k)"
    by auto
  show ?thesis
    using run rows [THEN spec, of "(7, ''n'')"] unfolding key row
    by (auto simp: first_row_def quota_key_less_def)
qed

text \<open>
  The period a payment opened lasts until the next pass of the calendar worker, whose key differs from every
  payment's: the pass starts the consumption at zero again, and after it a repetition of the same payment opens
  a further period.
\<close>

theorem paid_period_is_reset_again:
  assumes "collation lt" and "twf (cdn_quota d)" and "0 < batchSize" and "length (cdn_quota d) < fuel"
    and "0 < tid" and "trim_space paymentID \<noteq> []" and "tget (cdn_quota d) (tid, node) = Some r"
    and "qr_period_key r = paymentPeriodKey paymentID"
  shows "\<exists>d' r' nodes d''. runCalendarReset fuel lt (\<lambda>_. False) (\<lambda>_. Up) pol now batchSize d = Some d'
    \<and> tget (cdn_quota d') (tid, node) = Some r' \<and> used_bytes r' = 0 \<and> qr_revision r' = qr_revision r + 1
    \<and> ResetQuotaForUserTx tid (paymentPeriodKey paymentID) limit t d' = Inr (nodes, d'') \<and> node \<in> set nodes"
proof -
  let ?cal = "calendarPeriodKey now" and ?pay = "paymentPeriodKey paymentID"
  have keys: "?pay \<noteq> ?cal" "?pay \<noteq> []"
    using assms(6) by (simp_all add: paymentPeriodKey_def calendarPeriodKey_def Let_def split_beta)
  obtain d' where run: "runCalendarReset fuel lt (\<lambda>_. False) (\<lambda>_. Up) pol now batchSize d = Some d'"
    and rows: "\<forall>k. tget (cdn_quota d') k = map_option (\<lambda>r. if qr_period_key r \<noteq> ?cal \<and> quota_key_less lt (0, []) k
        then reset_row ?cal (qp_limit_bytes pol) now r else r) (tget (cdn_quota d) k)"
    using calendar_rows [OF assms(1-4), of pol now] by blast
  have row: "tget (cdn_quota d') (tid, node) = Some (reset_row ?cal (qp_limit_bytes pol) now r)"
    using rows [THEN spec, of "(tid, node)"] assms(5,7,8) keys(1) by (simp add: quota_key_less_def)
  have "((tid, node), reset_row ?cal (qp_limit_bytes pol) now r) \<in> set (cdn_quota d')"
    using row unfolding tget_def by (rule map_of_SomeD)
  then have "node \<in> set (map (\<lambda>(k, _). snd k) (filter (\<lambda>(k, r). fst k = tid \<and> qr_period_key r \<noteq> ?pay) (cdn_quota d')))"
    using keys(1) by force
  then show ?thesis
    using run row keys(2) by (simp add: ResetQuotaForUserTx_def) (simp add: reset_row_def)
qed

definition paid_quota_db :: vpn_db where
  "paid_quota_db = empty_vpn_db\<lparr>cdn_quota := [((7, ''n''), (first_row 30 3 20 ''pay:p1'' 0)\<lparr>qr_observed := 45\<rparr>)]\<rparr>"

lemma paid_period_is_reset_again_witness:
  "\<exists>d' r' nodes d''. runCalendarReset 2 (<) (\<lambda>_. False) (\<lambda>_. Up) \<lparr>qp_enabled = True, qp_enforce = True, qp_limit_bytes = 20,
     qp_stale_after = 0, qp_fail_mode = CDNQuotaFailOpen\<rparr> 0 500 paid_quota_db = Some d'
    \<and> tget (cdn_quota d') (7, ''n'') = Some r' \<and> used_bytes r' = 0 \<and> qr_revision r' = 1
    \<and> ResetQuotaForUserTx 7 (paymentPeriodKey ''p1'') 20 9 d' = Inr (nodes, d'') \<and> ''n'' \<in> set nodes"
proof -
  have wf: "twf (cdn_quota paid_quota_db)" "length (cdn_quota paid_quota_db) < 2" by (simp_all add: paid_quota_db_def twf_def)
  have row: "tget (cdn_quota paid_quota_db) (7, ''n'') = Some ((first_row 30 3 20 ''pay:p1'' 0)\<lparr>qr_observed := 45\<rparr>)"
    by (simp add: paid_quota_db_def tget_def)
  have key: "paymentPeriodKey ''p1'' = ''pay:p1''" "trim_space ''p1'' \<noteq> []" by code_simp+
  from paid_period_is_reset_again [OF byte_collation wf(1) _ wf(2) _ key(2) row, of 500 "\<lparr>qp_enabled = True, qp_enforce = True,
     qp_limit_bytes = 20, qp_stale_after = 0, qp_fail_mode = CDNQuotaFailOpen\<rparr>" 0 20 9]
  show ?thesis by (simp add: key first_row_def)
qed

end
