(* ===== verification/VpnService.thy ===== *)
theory VpnService
  imports VpnQuota
begin

text \<open>
  The service \<open>internal/vpn_orchestrator/service.go\<close>: who gets which profiles on which node, the commands to
  the nodes, the handlers of the subscription's and the nodes' events, the pass of reconcile_worker.go. A
  handler runs in a transaction \<open>d\<close>, but the statements its Go code sends to the pool read the committed
  database \<open>p\<close>, not what the transaction has written. \<open>ve_fails\<close> tells which of those reads fail, the two
  orders are those in which Go ranges over its maps, a fresh UUID is named by what it is for.
\<close>

section \<open>Settings and environment\<close>

record vpn_config =
  vg_feed_format :: string
  vg_allocator :: Allocator
  vg_quota :: CDNQuotaPolicy
  vg_producer :: bool
  vg_getenv :: "string \<Rightarrow> string"

definition NewService :: "string \<Rightarrow> duration \<Rightarrow> bool \<Rightarrow> CDNQuotaPolicy \<Rightarrow> bool \<Rightarrow> (string \<Rightarrow> string) \<Rightarrow> vpn_config" where
  "NewService format ttl overflow quota producer getenv =
     \<lparr>vg_feed_format = or_default (map to_lower (trim_space format)) ''base64'',
      vg_allocator = NewAllocator (if ttl \<le> 0 then secs 90 else ttl) overflow, vg_quota = quota,
      vg_producer = producer, vg_getenv = getenv\<rparr>"

datatype vpn_query = QPoolItems | QServers | QSticky string | QCDN | QGRPC | QHysteria | QReality | QExhausted | QUsage | QAccess

record 'f vpn_env =
  ve_now :: time
  ve_float :: "'f float_lib"
  ve_cred_uuid :: "string \<Rightarrow> string"
  ve_cmd_uuid :: "string \<Rightarrow> string"
  ve_fails :: "vpn_query \<Rightarrow> bool"
  ve_node_order :: "string list \<Rightarrow> string list"
  ve_user_order :: "int list \<Rightarrow> int list"

definition asked :: "'f vpn_env \<Rightarrow> vpn_query \<Rightarrow> 'a \<Rightarrow> 'a option" where
  "asked env q x = (if ve_fails env q then None else Some x)"

definition cdn_now :: "vpn_config \<Rightarrow> 'f vpn_env \<Rightarrow> 'z vpn_db_scheme \<Rightarrow> CDNEndpoint list" where
  "cdn_now cfg env p = loadCDNEndpoints (vg_getenv cfg) (asked env QCDN (ListEnabledCDNEndpoints p))"

definition grpc_now :: "vpn_config \<Rightarrow> 'f vpn_env \<Rightarrow> 'z vpn_db_scheme \<Rightarrow> GRPCEndpoint list" where
  "grpc_now cfg env p = loadGRPCEndpoints (vg_getenv cfg) (asked env QGRPC (ListEnabledGRPCEndpoints p))"

definition hysteria_now :: "vpn_config \<Rightarrow> 'f vpn_env \<Rightarrow> 'z vpn_db_scheme \<Rightarrow> HysteriaEndpoint list" where
  "hysteria_now cfg env p = loadHysteriaEndpoints (vg_getenv cfg) (asked env QHysteria (ListEnabledHysteriaEndpoints p))"

definition reality_now :: "vpn_config \<Rightarrow> 'f vpn_env \<Rightarrow> 'z vpn_db_scheme \<Rightarrow> RealityEndpoint list" where
  "reality_now cfg env p = loadRealityEndpoints (vg_getenv cfg) (asked env QReality (ListEnabledRealityEndpoints p))"

section \<open>Access and choice of servers\<close>

definition accessAllowed :: "time \<Rightarrow> AccessState \<Rightarrow> bool" where
  "accessAllowed now s = (case ac_status s of
     StatusTrial \<Rightarrow> (case ac_access_until s of None \<Rightarrow> False | Some t \<Rightarrow> now < t)
   | StatusActive \<Rightarrow> (case ac_access_until s of None \<Rightarrow> False | Some t \<Rightarrow> now < t)
   | StatusGrace \<Rightarrow> (case ac_grace_until s of None \<Rightarrow> False | Some t \<Rightarrow> now < t)
   | _ \<Rightarrow> False)"

definition ErrNoPoolItems :: tx_error where "ErrNoPoolItems = Refused ''no enabled vpn pool items''"

definition selectBalancedItems :: "vpn_config \<Rightarrow> 'f vpn_env \<Rightarrow> 'z vpn_db_scheme \<Rightarrow> int \<Rightarrow> tx_error + PoolItem list" where
  "selectBalancedItems cfg env p tid =
     (if ve_fails env QPoolItems then Inl ConnLost
      else if ListEnabledPoolItems p = [] then Inl ErrNoPoolItems
      else if ve_fails env QServers then Inl ConnLost
      else (let sel = Allocate (ve_float env) (vg_allocator cfg) (ListEnabledPoolItems p) (LoadServersByCountry p)
              (\<lambda>k. if ve_fails env (QSticky k) then [] else GetUserServerForItem p tid k) (ve_now env)
            in if sel = [] then Inl ErrNoPoolItems else Inr sel))"

section \<open>Profiles\<close>

definition buildCDNProfile :: "VPNNodeUserProfile \<Rightarrow> string \<Rightarrow> CDNEndpoint list \<Rightarrow> VPNNodeUserProfile option" where
  "buildCDNProfile base key cdn = (case selectCDNForServer cdn key of
     None \<Rightarrow> None
   | Some e \<Rightarrow> Some (base\<lparr>up_inbound_tag := or_default (ce_inbound_tag e) ''vless-xhttp-cdn-in'', up_optional := True,
       up_email := (if cdnEmail (up_email base) \<noteq> [] then cdnEmail (up_email base) else up_email base)\<rparr>))"

definition profile_key :: "VPNNodeUserProfile \<Rightarrow> string" where
  "profile_key q = up_inbound_tag q @ ''|'' @ up_email q"

definition add_profile :: "VPNNodeUserProfile \<Rightarrow> VPNNodeUserProfile list \<Rightarrow> VPNNodeUserProfile list" where
  "add_profile q out = (if profile_key q \<in> set (map profile_key out) then out else out @ [q])"

definition add_option :: "VPNNodeUserProfile option \<Rightarrow> VPNNodeUserProfile list \<Rightarrow> VPNNodeUserProfile list" where
  "add_option q out = (case q of None \<Rightarrow> out | Some q \<Rightarrow> add_profile q out)"

definition buildUserProfiles ::
    "VPNNodeUserProfile \<Rightarrow> string \<Rightarrow> CDNEndpoint list \<Rightarrow> GRPCEndpoint list \<Rightarrow> RealityEndpoint list \<Rightarrow> bool
      \<Rightarrow> VPNNodeUserProfile list" where
  "buildUserProfiles base key cdn grpc rea skipCDN =
     add_option (map_option (\<lambda>e. base\<lparr>up_inbound_tag := or_default (re_inbound_tag e) ''vless-reality-in'',
         up_flow := trim_space (re_flow e), up_optional := True\<rparr>) (selectRealityForServer rea key))
     (add_option (map_option (\<lambda>e. base\<lparr>up_inbound_tag := or_default (ge_inbound_tag e) ''vless-grpc-cdn-in'',
         up_optional := True\<rparr>) (selectGRPCForServer grpc key))
     (add_option (if skipCDN then None else buildCDNProfile base key cdn) [base]))"

section \<open>Commands\<close>

definition vpn_event_of :: "string \<Rightarrow> vpn_command \<Rightarrow> outbox_event" where
  "vpn_event_of node cmd = \<lparr>oe_aggregate_type = ''vpn-command'', oe_aggregate_id = node, oe_topic = TopicVPNCommands,
     oe_message_key = node, oe_event_type = vpn_command_type cmd, oe_payload = PVpnCommand cmd\<rparr>"

definition sync_profile :: "AccessState \<Rightarrow> FeedItem \<Rightarrow> VPNNodeUserProfile" where
  "sync_profile access it = \<lparr>up_item_key = pi_item_key (fi_pool_item it),
     up_country_code = pi_country_code (fi_pool_item it), up_title = pi_title (fi_pool_item it),
     up_profile_type = pi_profile_type (fi_pool_item it), up_inbound_tag = uc_inbound_tag (fi_credential it),
     up_email = uc_email (fi_credential it), up_vless_uuid = uc_vless_uuid (fi_credential it),
     up_flow = pi_flow (fi_pool_item it), up_level = pi_level (fi_pool_item it),
     up_access_until = ac_access_until access, up_optional = False\<rparr>"

definition exhausted_nodes :: "vpn_config \<Rightarrow> 'f vpn_env \<Rightarrow> 'z vpn_db_scheme \<Rightarrow> int \<Rightarrow> string list" where
  "exhausted_nodes cfg env p tid =
     (if qp_enabled (vg_quota cfg) \<and> qp_enforce (vg_quota cfg) \<and> \<not> ve_fails env QExhausted
      then ExhaustedNodesForUser p tid else [])"

definition sync_command ::
    "vpn_config \<Rightarrow> 'f vpn_env \<Rightarrow> 'z vpn_db_scheme \<Rightarrow> AccessState \<Rightarrow> FeedItem list \<Rightarrow> string \<Rightarrow> vpn_command" where
  "sync_command cfg env p access items node =
     (let mine = filter (\<lambda>it. pi_node_id (fi_pool_item it) = node) items;
          skipCDN = (node \<in> set (exhausted_nodes cfg env p (ac_telegram_id access)))
      in NodeSyncUserCommand (ve_cmd_uuid env node) node (pi_server_key (fi_pool_item (last mine)))
           (ac_telegram_id access) (ac_access_rev access) (ac_access_until access)
           (concat (map (\<lambda>it. buildUserProfiles (sync_profile access it) (pi_server_key (fi_pool_item it))
              (cdn_now cfg env p) (grpc_now cfg env p) (reality_now cfg env p) skipCDN) mine))
           (ve_now env))"

definition publish_all :: "time \<Rightarrow> (string \<Rightarrow> vpn_command) \<Rightarrow> string list \<Rightarrow> 'z platform_scheme \<Rightarrow> 'z platform_scheme" where
  "publish_all now cmd nodes d = fold (\<lambda>node. AddTx now (vpn_event_of node (cmd node))) nodes d"

definition nodes_of :: "string list \<Rightarrow> string list" where
  "nodes_of nodes = remdups (filter (\<lambda>n. n \<noteq> []) nodes)"

definition publishSyncCommands ::
    "vpn_config \<Rightarrow> 'f vpn_env \<Rightarrow> 'z vpn_db_scheme \<Rightarrow> AccessState \<Rightarrow> FeedItem list \<Rightarrow> 'z vpn_db_scheme \<Rightarrow> 'z vpn_db_scheme" where
  "publishSyncCommands cfg env p access items d =
     (if \<not> vg_producer cfg then d
      else publish_all (ve_now env) (sync_command cfg env p access items)
        (ve_node_order env (nodes_of (map (\<lambda>it. pi_node_id (fi_pool_item it)) items))) d)"

definition revoke_profile :: "UserCredential \<Rightarrow> VPNNodeUserProfile" where
  "revoke_profile c = \<lparr>up_item_key = uc_item_key c, up_country_code = [], up_title = [], up_profile_type = [],
     up_inbound_tag = uc_inbound_tag c, up_email = uc_email c, up_vless_uuid = uc_vless_uuid c, up_flow = [],
     up_level = 0, up_access_until = None, up_optional = False\<rparr>"

definition revoke_command ::
    "vpn_config \<Rightarrow> 'f vpn_env \<Rightarrow> 'z vpn_db_scheme \<Rightarrow> int \<Rightarrow> int \<Rightarrow> string \<Rightarrow> UserCredential list \<Rightarrow> string \<Rightarrow> vpn_command" where
  "revoke_command cfg env p tid arev reason creds node =
     (let mine = filter (\<lambda>c. uc_node_id c = node) creds
      in NodeRevokeUserCommand (ve_cmd_uuid env node) node (uc_server_key (last mine)) tid arev reason RevokeScopeAll
           (concat (map (\<lambda>c. buildUserProfiles (revoke_profile c) (uc_server_key c)
              (cdn_now cfg env p) (grpc_now cfg env p) (reality_now cfg env p) False) mine))
           (ve_now env))"

definition publishRevokeCommands ::
    "vpn_config \<Rightarrow> 'f vpn_env \<Rightarrow> 'z vpn_db_scheme \<Rightarrow> int \<Rightarrow> int \<Rightarrow> string \<Rightarrow> 'z vpn_db_scheme \<Rightarrow> 'z vpn_db_scheme" where
  "publishRevokeCommands cfg env p tid arev reason d =
     (if \<not> vg_producer cfg then d
      else (let (creds, d1) = DisableUserCredentialsTx tid arev d
            in publish_all (ve_now env) (revoke_command cfg env p tid arev reason creds)
                 (ve_node_order env (nodes_of (map uc_node_id creds))) d1))"

definition ensureUserCredentialsAndSyncTx ::
    "vpn_config \<Rightarrow> 'f vpn_env \<Rightarrow> 'z vpn_db_scheme \<Rightarrow> AccessState \<Rightarrow> 'z vpn_db_scheme
      \<Rightarrow> tx_error + (FeedItem list \<times> 'z vpn_db_scheme)" where
  "ensureUserCredentialsAndSyncTx cfg env p access d =
     (case selectBalancedItems cfg env p (ac_telegram_id access) of
        Inl e \<Rightarrow> Inl e
      | Inr items \<Rightarrow>
          andthen (EnsureCredentialsForItemsTx (ve_cred_uuid env) (ac_telegram_id access) (ac_access_rev access) items d)
            (\<lambda>feed d1. Inr (feed, publishSyncCommands cfg env p access feed d1)))"

text \<open>The versions that open their own transaction read the database it starts from.\<close>

definition ensureUserCredentialsAndSync ::
    "vpn_config \<Rightarrow> 'f vpn_env \<Rightarrow> outage \<Rightarrow> AccessState \<Rightarrow> 'z vpn_db_scheme \<Rightarrow> tx_error option \<times> 'z vpn_db_scheme" where
  "ensureUserCredentialsAndSync cfg env out access d = run_tx out (ensureUserCredentialsAndSyncTx cfg env d access) d"

definition ensureUserCredentials ::
    "vpn_config \<Rightarrow> 'f vpn_env \<Rightarrow> outage \<Rightarrow> AccessState \<Rightarrow> 'z vpn_db_scheme \<Rightarrow> FeedItem list option \<times> 'z vpn_db_scheme" where
  "ensureUserCredentials cfg env out access d =
     (case selectBalancedItems cfg env d (ac_telegram_id access) of
        Inl _ \<Rightarrow> (None, d)
      | Inr items \<Rightarrow>
          (let body = EnsureCredentialsForItemsTx (ve_cred_uuid env) (ac_telegram_id access) (ac_access_rev access) items;
               (err, d') = run_tx out body d
           in (case err of None \<Rightarrow> (case body d of Inl _ \<Rightarrow> None | Inr (feed, _) \<Rightarrow> Some feed) | Some _ \<Rightarrow> None, d')))"

section \<open>CDN quota\<close>

definition publishCDNRevoke ::
    "vpn_config \<Rightarrow> 'f vpn_env \<Rightarrow> 'z vpn_db_scheme \<Rightarrow> int \<Rightarrow> string \<Rightarrow> string \<Rightarrow> string \<Rightarrow> 'z vpn_db_scheme \<Rightarrow> 'z vpn_db_scheme" where
  "publishCDNRevoke cfg env p tid node key reason d =
     (let creds = ListEnabledCredentialsForNodeTx tid node d;
          profiles = concat (map (\<lambda>c. case buildCDNProfile (revoke_profile c) (uc_server_key c) (cdn_now cfg env p) of
             None \<Rightarrow> [] | Some q \<Rightarrow> [q]) creds)
      in if creds = [] \<or> profiles = [] then d
         else AddTx (ve_now env) (vpn_event_of node (NodeRevokeUserCommand (ve_cmd_uuid env node) node key tid
            (fold max (map uc_access_rev creds) 0) reason RevokeScopeListedProfiles profiles (ve_now env))) d)"

fun apply_quotas ::
    "vpn_config \<Rightarrow> 'f vpn_env \<Rightarrow> 'z vpn_db_scheme \<Rightarrow> string \<Rightarrow> string \<Rightarrow> (int, int \<times> int) table \<Rightarrow> time \<Rightarrow> int list
      \<Rightarrow> 'z vpn_db_scheme \<Rightarrow> tx_error + (unit \<times> 'z vpn_db_scheme)" where
  "apply_quotas cfg env p node key usage t [] d = Inr ((), d)"
| "apply_quotas cfg env p node key usage t (tid # tids) d =
     (let (up, down) = (case tget usage tid of None \<Rightarrow> (0, 0) | Some x \<Rightarrow> x) in
      andthen (ApplyObservationTx tid node (wrap64 (up + down)) up (qp_limit_bytes (vg_quota cfg)) (calendarPeriodKey t) t d)
        (\<lambda>st d1. apply_quotas cfg env p node key usage t tids
           (if qs_just_exhausted st \<and> qp_enforce (vg_quota cfg)
            then publishCDNRevoke cfg env p tid node key ''cdn_quota_exhausted'' d1 else d1)))"

definition applyCDNQuota ::
    "vpn_config \<Rightarrow> 'f vpn_env \<Rightarrow> 'z vpn_db_scheme \<Rightarrow> string \<Rightarrow> string \<Rightarrow> (int, int \<times> int) table \<Rightarrow> time
      \<Rightarrow> 'z vpn_db_scheme \<Rightarrow> tx_error + (unit \<times> 'z vpn_db_scheme)" where
  "applyCDNQuota cfg env p node key usage t d =
     (if \<not> qp_enabled (vg_quota cfg) \<or> usage = [] then Inr ((), d)
      else apply_quotas cfg env p node key usage (if t = zero_time then ve_now env else t)
             (ve_user_order env (map fst usage)) d)"

definition resetCDNQuotaOnPayment ::
    "vpn_config \<Rightarrow> 'f vpn_env \<Rightarrow> int \<Rightarrow> string \<Rightarrow> time \<Rightarrow> 'z vpn_db_scheme \<Rightarrow> tx_error + (unit \<times> 'z vpn_db_scheme)" where
  "resetCDNQuotaOnPayment cfg env tid paymentID t d =
     (if \<not> qp_enabled (vg_quota cfg) \<or> paymentPeriodKey paymentID = [] then Inr ((), d)
      else andthen (ResetQuotaForUserTx tid (paymentPeriodKey paymentID) (qp_limit_bytes (vg_quota cfg))
             (if t = zero_time then ve_now env else t) d) (\<lambda>_ d1. Inr ((), d1)))"

section \<open>Handlers\<close>

definition sync_access ::
    "vpn_config \<Rightarrow> 'f vpn_env \<Rightarrow> 'z vpn_db_scheme \<Rightarrow> AccessState \<Rightarrow> 'z vpn_db_scheme \<Rightarrow> tx_error + (unit \<times> 'z vpn_db_scheme)" where
  "sync_access cfg env p access d = andthen (ensureUserCredentialsAndSyncTx cfg env p access d) (\<lambda>_ d1. Inr ((), d1))"

definition ApplyTrialStarted ::
    "vpn_config \<Rightarrow> 'f vpn_env \<Rightarrow> 'z vpn_db_scheme \<Rightarrow> int \<Rightarrow> time \<Rightarrow> string \<Rightarrow> int \<Rightarrow> 'z vpn_db_scheme
      \<Rightarrow> tx_error + (unit \<times> 'z vpn_db_scheme)" where
  "ApplyTrialStarted cfg env p tid until country arev d =
     (let access = \<lparr>ac_telegram_id = tid, ac_status = StatusTrial, ac_access_until = Some until, ac_grace_until = None,
        ac_access_rev = arev, ac_country_code = country\<rparr>
      in sync_access cfg env p access (UpsertAccessProjectionTx access d))"

definition ApplyActivated ::
    "vpn_config \<Rightarrow> 'f vpn_env \<Rightarrow> 'z vpn_db_scheme \<Rightarrow> int \<Rightarrow> time \<Rightarrow> time \<Rightarrow> string \<Rightarrow> string \<Rightarrow> int \<Rightarrow> 'z vpn_db_scheme
      \<Rightarrow> tx_error + (unit \<times> 'z vpn_db_scheme)" where
  "ApplyActivated cfg env p tid activatedAt until country paymentID arev d =
     (let access = \<lparr>ac_telegram_id = tid, ac_status = StatusActive, ac_access_until = Some until, ac_grace_until = None,
        ac_access_rev = arev, ac_country_code = country\<rparr>
      in andthen (resetCDNQuotaOnPayment cfg env tid paymentID activatedAt (UpsertAccessProjectionTx access d))
           (\<lambda>_ d1. sync_access cfg env p access d1))"

definition ApplyCanceled ::
    "vpn_config \<Rightarrow> 'f vpn_env \<Rightarrow> 'z vpn_db_scheme \<Rightarrow> int \<Rightarrow> time option \<Rightarrow> bool \<Rightarrow> int \<Rightarrow> 'z vpn_db_scheme
      \<Rightarrow> tx_error + (unit \<times> 'z vpn_db_scheme)" where
  "ApplyCanceled cfg env p tid until atPeriodEnd arev d =
     (let active = (atPeriodEnd \<and> (case until of None \<Rightarrow> False | Some t \<Rightarrow> ve_now env < t));
          access = \<lparr>ac_telegram_id = tid, ac_status = (if active then StatusActive else StatusExpired), ac_access_until = until,
            ac_grace_until = None, ac_access_rev = arev, ac_country_code = ''ALL''\<rparr>;
          d1 = UpsertAccessProjectionTx access d
      in if active then sync_access cfg env p access d1
         else Inr ((), publishRevokeCommands cfg env p tid arev ''subscription_canceled'' d1))"

definition ApplyGraceStarted ::
    "vpn_config \<Rightarrow> 'f vpn_env \<Rightarrow> 'z vpn_db_scheme \<Rightarrow> int \<Rightarrow> time \<Rightarrow> int \<Rightarrow> 'z vpn_db_scheme
      \<Rightarrow> tx_error + (unit \<times> 'z vpn_db_scheme)" where
  "ApplyGraceStarted cfg env p tid until arev d =
     (let access = \<lparr>ac_telegram_id = tid, ac_status = StatusGrace, ac_access_until = None, ac_grace_until = Some until,
        ac_access_rev = arev, ac_country_code = ''ALL''\<rparr>
      in sync_access cfg env p access (UpsertAccessProjectionTx access d))"

definition ApplySuspended ::
    "vpn_config \<Rightarrow> 'f vpn_env \<Rightarrow> 'z vpn_db_scheme \<Rightarrow> int \<Rightarrow> time \<Rightarrow> int \<Rightarrow> 'z vpn_db_scheme
      \<Rightarrow> tx_error + (unit \<times> 'z vpn_db_scheme)" where
  "ApplySuspended cfg env p tid suspendedAt arev d =
     (let access = \<lparr>ac_telegram_id = tid, ac_status = StatusExpired, ac_access_until = Some suspendedAt, ac_grace_until = None,
        ac_access_rev = arev, ac_country_code = ''ALL''\<rparr>
      in Inr ((), publishRevokeCommands cfg env p tid arev ''subscription_suspended'' (UpsertAccessProjectionTx access d)))"

definition ApplyNodeHeartbeat :: "VPNNodeHeartbeatEvent \<Rightarrow> 'z vpn_db_scheme \<Rightarrow> 'z vpn_db_scheme" where
  "ApplyNodeHeartbeat e d = UpdateNodeHeartbeatTx (hb_node_id e) (hb_server_key e) (hb_created_at e)
     (hb_online_users e) (hb_uplink_bps e) (hb_downlink_bps e) d"

definition ApplyNodeTraffic ::
    "vpn_config \<Rightarrow> 'f vpn_env \<Rightarrow> 'z vpn_db_scheme \<Rightarrow> string \<Rightarrow> string \<Rightarrow> VPNNodeTrafficItem list \<Rightarrow> time \<Rightarrow> 'z vpn_db_scheme
      \<Rightarrow> tx_error + (unit \<times> 'z vpn_db_scheme)" where
  "ApplyNodeTraffic cfg env p nodeID key items t d =
     (let node = (if nodeID = [] then key else nodeID) in
      if items = [] \<or> node = [] then Inr ((), d)
      else
        (let tags = (if qp_enabled (vg_quota cfg) then cdnInboundAllowlist (cdn_now cfg env p) else []);
             agg = classifyTrafficItems items tags;
             d1 = fold (\<lambda>tid d. case tget (ta_per_user agg) tid of None \<Rightarrow> d
                    | Some (up, down) \<Rightarrow> UpsertUserNodeTrafficTx tid node up down d)
                  (ve_user_order env (map fst (ta_per_user agg))) d
         in applyCDNQuota cfg env p node key (ta_cdn_per_user agg) t d1))"

definition ApplyNodeUserSynced :: "'f vpn_env \<Rightarrow> VPNNodeUserSyncedEvent \<Rightarrow> 'z vpn_db_scheme \<Rightarrow> 'z vpn_db_scheme" where
  "ApplyNodeUserSynced env e d =
     (let d1 = SaveNodeSyncResultTx (ve_now env) d in
      if ny_success e then MarkCredentialsSyncedTx (ve_now env) (ny_telegram_id e) (ny_access_rev e) (ny_node_id e) d1 else d1)"

definition ApplyNodeUserRevoked :: "'f vpn_env \<Rightarrow> 'z vpn_db_scheme \<Rightarrow> 'z vpn_db_scheme" where
  "ApplyNodeUserRevoked env d = SaveNodeSyncResultTx (ve_now env) d"

definition ApplyNodeError :: "'f vpn_env \<Rightarrow> 'z vpn_db_scheme \<Rightarrow> 'z vpn_db_scheme" where
  "ApplyNodeError env d = SaveNodeSyncResultTx (ve_now env) d"

section \<open>reconcile_worker.go\<close>

definition reconcile_user ::
    "vpn_config \<Rightarrow> (int \<Rightarrow> 'f vpn_env) \<Rightarrow> (int \<Rightarrow> outage) \<Rightarrow> AccessState \<Rightarrow> 'z vpn_db_scheme \<Rightarrow> 'z vpn_db_scheme" where
  "reconcile_user cfg env out a d =
     snd (ensureUserCredentialsAndSync cfg (env (ac_telegram_id a)) (out (ac_telegram_id a)) a d)"

definition reconcileOnce ::
    "nat \<Rightarrow> vpn_config \<Rightarrow> bool option \<Rightarrow> (int \<Rightarrow> bool) \<Rightarrow> (int \<Rightarrow> 'f vpn_env) \<Rightarrow> (int \<Rightarrow> outage) \<Rightarrow> time \<Rightarrow> int
      \<Rightarrow> 'z vpn_db_scheme \<Rightarrow> 'z vpn_db_scheme option" where
  "reconcileOnce fuel cfg lock fails env out now batchSize d =
     (if lock \<noteq> Some True then Some d
      else paged fuel (\<lambda>c d. if fails c then None else Some (ListActiveAccessesForReconcile now c batchSize d))
             ac_telegram_id (reconcile_user cfg env out) (nat batchSize) 0 d)"

end
