(* ===== verification/VpnMessages.thy ===== *)
theory VpnMessages
  imports VpnService BillMessages
begin

text \<open>
  \<open>internal/vpn_orchestrator/kafka_handlers.go\<close>: the consumers of the subscription's events and of the
  nodes' events. Unlike the other services, this one marks a message in the inbox in the transaction that
  applies it. A message's value is a JSON object whose field \<open>items\<close>, the only array the service reads, is
  kept beside the others.
\<close>

section \<open>Messages\<close>

text \<open>\<open>jm_items\<close> is the value of \<open>items\<close>: no field or null are the empty list, None is a value that is no
  array of objects.\<close>

record vpn_json =
  jm_fields :: json_obj
  jm_items :: "json_obj list option"

definition fld_time_opt :: "json_obj \<Rightarrow> string \<Rightarrow> time option option" where
  "fld_time_opt ob k = (case map_of ob k of
     None \<Rightarrow> Some None | Some JNull \<Rightarrow> Some None | Some (JTime t) \<Rightarrow> Some (Some t) | Some _ \<Rightarrow> None)"

text \<open>Of the subscription's events, those the service handles; \<open>Inl ()\<close> is one it passes over.\<close>

definition decode_subscription_event :: "json_obj \<Rightarrow> (unit + subscription_event) option" where
  "decode_subscription_event ob = need (decode_envelope ob) (\<lambda>en. let t = en_type en in
     if t = ''subscription.trial_started'' then
       need (fld_int ob ''telegram_id'') (\<lambda>tid. need (fld_time ob ''trial_until'') (\<lambda>until.
       need (fld_int ob ''days_left'') (\<lambda>left. need (fld_str ob ''country'') (\<lambda>country.
       need (fld_int ob ''access_rev'') (\<lambda>arev.
         Some (Inr (SubscriptionTrialStartedEvent tid until left country arev)))))))
     else if t = ''subscription.activated'' then map_option Inr (decode_activated ob)
     else if t = ''subscription.canceled'' then
       need (fld_int ob ''telegram_id'') (\<lambda>tid. need (fld_time ob ''canceled_at'') (\<lambda>at.
       need (fld_time_opt ob ''access_until'') (\<lambda>until. need (fld_bool ob ''cancel_at_period_end'') (\<lambda>atEnd.
       need (fld_int ob ''access_rev'') (\<lambda>arev.
         Some (Inr (SubscriptionCanceledEvent tid at until atEnd arev)))))))
     else if t = ''subscription.grace_started'' then
       need (fld_int ob ''telegram_id'') (\<lambda>tid. need (fld_time ob ''grace_until'') (\<lambda>until.
       need (fld_str ob ''reason'') (\<lambda>r. need (fld_int ob ''access_rev'') (\<lambda>arev.
         Some (Inr (SubscriptionGraceStartedEvent tid until r arev))))))
     else if t = ''subscription.suspended'' then
       need (fld_int ob ''telegram_id'') (\<lambda>tid. need (fld_time ob ''suspended_at'') (\<lambda>at.
       need (fld_str ob ''reason'') (\<lambda>r. need (fld_int ob ''access_rev'') (\<lambda>arev.
         Some (Inr (SubscriptionSuspendedEvent tid at r arev))))))
     else Some (Inl ()))"

definition decode_traffic_item :: "json_obj \<Rightarrow> VPNNodeTrafficItem option" where
  "decode_traffic_item ob =
     need (fld_int ob ''telegram_id'') (\<lambda>tid. need (fld_str ob ''email'') (\<lambda>email.
     need (fld_int ob ''uplink'') (\<lambda>up. need (fld_int ob ''downlink'') (\<lambda>down.
     need (fld_str ob ''inbound_tag'') (\<lambda>tag.
       Some \<lparr>ti_telegram_id = tid, ti_email = email, ti_uplink = up, ti_downlink = down, ti_inbound_tag = tag\<rparr>)))))"

primrec decode_all :: "('a \<Rightarrow> 'b option) \<Rightarrow> 'a list \<Rightarrow> 'b list option" where
  "decode_all f [] = Some []"
| "decode_all f (x # xs) = need (f x) (\<lambda>y. need (decode_all f xs) (\<lambda>ys. Some (y # ys)))"

definition decode_ack :: "json_obj \<Rightarrow> VPNNodeUserSyncedEvent option" where
  "decode_ack ob =
     need (fld_str ob ''command_id'') (\<lambda>cid. need (fld_str ob ''node_id'') (\<lambda>node.
     need (fld_str ob ''server_key'') (\<lambda>key. need (fld_int ob ''telegram_id'') (\<lambda>tid.
     need (fld_int ob ''access_rev'') (\<lambda>arev. need (fld_int ob ''profiles'') (\<lambda>n.
     need (fld_bool ob ''success'') (\<lambda>success. need (fld_str ob ''error'') (\<lambda>err.
     need (fld_time ob ''created_at'') (\<lambda>at.
       Some \<lparr>ny_command_id = cid, ny_node_id = node, ny_server_key = key, ny_telegram_id = tid,
         ny_access_rev = arev, ny_profiles = n, ny_success = success, ny_error = err, ny_created_at = at\<rparr>)))))))))"

definition decode_vpn_event :: "vpn_json \<Rightarrow> (unit + vpn_event) option" where
  "decode_vpn_event v = (let ob = jm_fields v in need (decode_envelope ob) (\<lambda>en. let t = en_type en in
     if t = ''vpn.node_heartbeat'' then
       need (fld_str ob ''node_id'') (\<lambda>node. need (fld_str ob ''server_key'') (\<lambda>key.
       need (fld_bool ob ''online'') (\<lambda>online. need (fld_int ob ''applied_users'') (\<lambda>applied.
       need (fld_int ob ''online_users'') (\<lambda>users. need (fld_int ob ''uplink_bps'') (\<lambda>up.
       need (fld_int ob ''downlink_bps'') (\<lambda>down. need (fld_str ob ''xray_api_addr'') (\<lambda>addr.
       need (fld_str ob ''agent_version'') (\<lambda>ver. need (fld_time ob ''created_at'') (\<lambda>at.
         Some (Inr (EvNodeHeartbeat \<lparr>hb_node_id = node, hb_server_key = key, hb_online = online,
           hb_applied_users = applied, hb_online_users = users, hb_uplink_bps = up, hb_downlink_bps = down,
           hb_xray_api_addr = addr, hb_agent_version = ver, hb_created_at = at\<rparr>)))))))))))
     )
     else if t = ''vpn.node_user_synced'' then need (decode_ack ob) (\<lambda>e. Some (Inr (EvNodeUserSynced e)))
     else if t = ''vpn.node_user_revoked'' then need (decode_ack ob) (\<lambda>e. Some (Inr (EvNodeUserRevoked e)))
     else if t = ''vpn.node_traffic'' then
       need (fld_str ob ''node_id'') (\<lambda>node. need (fld_str ob ''server_key'') (\<lambda>key.
       need (jm_items v) (\<lambda>objs. need (decode_all decode_traffic_item objs) (\<lambda>items.
       need (fld_time ob ''created_at'') (\<lambda>at.
         Some (Inr (EvNodeTraffic node key items at)))))))
     else if t = ''vpn.node_error'' then
       need (fld_str ob ''command_id'') (\<lambda>cid. need (fld_str ob ''node_id'') (\<lambda>node.
       need (fld_str ob ''server_key'') (\<lambda>key. need (fld_str ob ''error'') (\<lambda>err.
       need (fld_time ob ''created_at'') (\<lambda>at.
         Some (Inr (EvNodeError cid node key err at)))))))
     else Some (Inl ())))"

section \<open>Dispatch\<close>

datatype orch_error = OrSkip | OrTx tx_error

definition orch_result :: "tx_error + (unit \<times> 's) \<Rightarrow> orch_error + (unit \<times> 's)" where
  "orch_result r = (case r of Inl e \<Rightarrow> Inl (OrTx e) | Inr x \<Rightarrow> Inr x)"

text \<open>\<open>p\<close> is the committed database, \<open>d\<close> the transaction's.\<close>

fun handle_sub_event ::
    "vpn_config \<Rightarrow> 'f vpn_env \<Rightarrow> 'z vpn_db_scheme \<Rightarrow> subscription_event \<Rightarrow> 'z vpn_db_scheme \<Rightarrow> tx_error + (unit \<times> 'z vpn_db_scheme)" where
  "handle_sub_event cfg env p (SubscriptionTrialStartedEvent tid until left country arev) d =
     ApplyTrialStarted cfg env p tid until country arev d"
| "handle_sub_event cfg env p (SubscriptionActivatedEvent tid pc at until left country source pid ar arev) d =
     ApplyActivated cfg env p tid at until country pid arev d"
| "handle_sub_event cfg env p (SubscriptionCanceledEvent tid at until atEnd arev) d =
     ApplyCanceled cfg env p tid until atEnd arev d"
| "handle_sub_event cfg env p (SubscriptionGraceStartedEvent tid until r arev) d =
     ApplyGraceStarted cfg env p tid until arev d"
| "handle_sub_event cfg env p (SubscriptionSuspendedEvent tid at r arev) d = ApplySuspended cfg env p tid at arev d"
| "handle_sub_event cfg env p (SubscriptionLinksIssuedEvent tid until links) d = Inr ((), d)"

fun handle_vpn_event ::
    "vpn_config \<Rightarrow> 'f vpn_env \<Rightarrow> 'z vpn_db_scheme \<Rightarrow> vpn_event \<Rightarrow> 'z vpn_db_scheme \<Rightarrow> tx_error + (unit \<times> 'z vpn_db_scheme)" where
  "handle_vpn_event cfg env p (EvNodeHeartbeat e) d = Inr ((), ApplyNodeHeartbeat e d)"
| "handle_vpn_event cfg env p (EvNodeUserSynced e) d = Inr ((), ApplyNodeUserSynced env e d)"
| "handle_vpn_event cfg env p (EvNodeUserRevoked e) d = Inr ((), ApplyNodeUserRevoked env d)"
| "handle_vpn_event cfg env p (EvNodeTraffic node key items at) d = ApplyNodeTraffic cfg env p node key items at d"
| "handle_vpn_event cfg env p (EvNodeError cid node key err at) d = Inr ((), ApplyNodeError env d)"

definition decoded :: "(unit + 'e) option \<Rightarrow> ('e \<Rightarrow> 's \<Rightarrow> tx_error + (unit \<times> 's)) \<Rightarrow> 's \<Rightarrow> orch_error + (unit \<times> 's)" where
  "decoded e handle d = (case e of
     None \<Rightarrow> Inl OrSkip | Some (Inl _) \<Rightarrow> Inr ((), d) | Some (Inr e) \<Rightarrow> orch_result (handle e d))"

section \<open>Once per message\<close>

text \<open>\<open>out\<close> strikes at the commit; a transaction that cannot begin is a \<open>Lost\<close> one.\<close>

definition processOrchestratorMessageOnce ::
    "outage \<Rightarrow> time \<Rightarrow> envelope \<Rightarrow> 'v kmsg \<Rightarrow> ('z platform_scheme \<Rightarrow> orch_error + (unit \<times> 'z platform_scheme))
      \<Rightarrow> 'z platform_scheme \<Rightarrow> handler_result \<times> 'z platform_scheme" where
  "processOrchestratorMessageOnce out now en m handle d =
     (case MarkProcessed now ''vpn-orchestrator-service'' (message_id en m) (en_type en) d of
        Inl e \<Rightarrow> (HErr e, d)
      | Inr (inserted, d1) \<Rightarrow>
          if \<not> inserted then (if out = Up then HOk else HErr ''commit'', d)
          else (case handle d1 of
            Inl OrSkip \<Rightarrow> (HSkip, d)
          | Inl (OrTx _) \<Rightarrow> (HErr ''handler'', d)
          | Inr (_, d2) \<Rightarrow>
              (case out of Up \<Rightarrow> (HOk, d2) | Lost \<Rightarrow> (HErr ''commit'', d) | LostAck \<Rightarrow> (HErr ''commit'', d2))))"

definition orch_consumer ::
    "('v \<Rightarrow> json_obj) \<Rightarrow> ('v \<Rightarrow> 'z platform_scheme \<Rightarrow> orch_error + (unit \<times> 'z platform_scheme)) \<Rightarrow> outage \<Rightarrow> time
      \<Rightarrow> 'v option kmsg \<Rightarrow> 'z platform_scheme \<Rightarrow> handler_result \<times> 'z platform_scheme" where
  "orch_consumer flds handle out now m d = (case km_value m of
     None \<Rightarrow> (HSkip, d)
   | Some v \<Rightarrow> (case decode_envelope (flds v) of
       None \<Rightarrow> (HSkip, d)
     | Some en \<Rightarrow> processOrchestratorMessageOnce out now en m (handle v) d))"

definition subscription_events_consumer ::
    "vpn_config \<Rightarrow> 'f vpn_env \<Rightarrow> outage \<Rightarrow> json_obj option kmsg \<Rightarrow> 'z vpn_db_scheme \<Rightarrow> handler_result \<times> 'z vpn_db_scheme" where
  "subscription_events_consumer cfg env out m d =
     orch_consumer (\<lambda>ob. ob) (\<lambda>ob. decoded (decode_subscription_event ob) (handle_sub_event cfg env d)) out (ve_now env) m d"

definition vpn_events_consumer ::
    "vpn_config \<Rightarrow> 'f vpn_env \<Rightarrow> outage \<Rightarrow> vpn_json option kmsg \<Rightarrow> 'z vpn_db_scheme \<Rightarrow> handler_result \<times> 'z vpn_db_scheme" where
  "vpn_events_consumer cfg env out m d =
     orch_consumer jm_fields (\<lambda>v. decoded (decode_vpn_event v) (handle_vpn_event cfg env d)) out (ve_now env) m d"

section \<open>A message and its effect are one\<close>

definition orch_seen :: "envelope \<Rightarrow> 'v kmsg \<Rightarrow> 'z platform_scheme \<Rightarrow> bool" where
  "orch_seen en m d \<longleftrightarrow> tget (processed_messages d) (inbox_key ''vpn-orchestrator-service'' (message_id en m)) \<noteq> None"

definition orch_marked :: "time \<Rightarrow> envelope \<Rightarrow> 'v kmsg \<Rightarrow> 'z platform_scheme \<Rightarrow> 'z platform_scheme" where
  "orch_marked now en m d = d\<lparr>processed_messages := tins (inbox_key ''vpn-orchestrator-service'' (message_id en m))
     \<lparr>ib_source = ''vpn-orchestrator-service'', ib_message_type = en_type en, ib_processed_at = now\<rparr> (processed_messages d)\<rparr>"

lemma orch_seen_marked [simp]: "orch_seen en m (orch_marked now en m d)"
  by (simp add: orch_seen_def orch_marked_def table_simps split: option.split)

lemma orch_once_seen: "orch_seen en m d \<Longrightarrow>
    processOrchestratorMessageOnce out now en m handle d = (if out = Up then HOk else HErr ''commit'', d)"
  by (auto simp: processOrchestratorMessageOnce_def MarkProcessed_def orch_seen_def Let_def)

lemma orch_once_new: "\<not> orch_seen en m d \<Longrightarrow>
    processOrchestratorMessageOnce out now en m handle d = (case handle (orch_marked now en m d) of
        Inl OrSkip \<Rightarrow> (HSkip, d) | Inl (OrTx _) \<Rightarrow> (HErr ''handler'', d)
      | Inr (_, d2) \<Rightarrow> (case out of Up \<Rightarrow> (HOk, d2) | Lost \<Rightarrow> (HErr ''commit'', d) | LostAck \<Rightarrow> (HErr ''commit'', d2)))"
  by (simp add: processOrchestratorMessageOnce_def MarkProcessed_def orch_seen_def orch_marked_def Let_def)

lemma orch_once_cases:
  obtains "snd (processOrchestratorMessageOnce out now en m handle d) = d"
    | d2 where "\<not> orch_seen en m d" and "handle (orch_marked now en m d) = Inr ((), d2)"
        and "processOrchestratorMessageOnce out now en m handle d = (if out = Up then HOk else HErr ''commit'', d2)" and "out \<noteq> Lost"
proof (cases "orch_seen en m d")
  case True
  then show thesis using orch_once_seen [OF True, of out now handle] that(1) by simp
next
  case False
  then show thesis
    using that orch_once_new [OF False, of out now handle]
    by (cases "handle (orch_marked now en m d)" ; cases out) (auto split: orch_error.splits)
qed

end
