(* ===== verification/VpnAdmin.thy ===== *)
theory VpnAdmin
  imports VpnMessages
begin

text \<open>
  The administration of \<open>internal/vpn_orchestrator\<close>: admin_http.go and the statements behind it in
  repository.go, cdn_repository.go, grpc_repository.go, hysteria_repository.go and reality_repository.go, with
  the foreign keys and CHECK constraints of the migrations. An endpoint without a server has the empty key,
  which stands for NULL. \<open>encoding/json\<close> is a parameter. Integers are assumed to fit their columns. A
  statement outside a transaction is a transaction of its own.
\<close>

section \<open>Requests\<close>

record AdminNodeRequest =
  an_server_key :: string
  an_node_id :: string
  an_country_code :: string
  an_title :: string
  an_public_host :: string
  an_port :: int
  an_transport :: string
  an_security :: string
  an_default_inbound_tag :: string
  an_host_header :: string
  an_sni :: string
  an_ws_path :: string
  an_flow :: string
  an_max_users :: int
  an_weight :: int
  an_bandwidth_mbps :: int
  an_enabled :: bool

record AdminPoolItemRequest =
  ap_item_key :: string
  ap_server_key :: string
  ap_country_code :: string
  ap_title :: string
  ap_profile_type :: string
  ap_enabled :: bool
  ap_sort_order :: int
  ap_inbound_tag :: string
  ap_host_header :: string
  ap_sni :: string
  ap_ws_path :: string
  ap_flow :: string
  ap_level :: int

record AdminCDNEndpointRequest =
  acd_cdn_key :: string
  acd_server_key :: string
  acd_enabled :: "bool option"
  acd_sort_order :: "int option"
  acd_inbound_tag :: string
  acd_address :: string
  acd_server_name :: string
  acd_host :: string
  acd_port :: "int option"
  acd_xhttp_path :: string
  acd_mode :: string
  acd_fingerprint :: string
  acd_alpn :: string
  acd_remarks :: string
  acd_padding_obfs_mode :: "bool option"
  acd_padding_placement :: string
  acd_padding_key :: string
  acd_padding_method :: string
  acd_sc_max_buffered_posts :: "int option"
  acd_sc_min_posts_interval_ms :: string
  acd_uplink_http_method :: string
  acd_uplink_data_placement :: string
  acd_uplink_data_key :: string
  acd_uplink_chunk_size :: "int option"
  acd_sc_max_each_post_bytes :: "int option"
  acd_session_id_placement :: string
  acd_session_id_key :: string
  acd_seq_placement :: string
  acd_seq_key :: string
  acd_x_padding_bytes :: string
  acd_x_padding_header :: string
  acd_enable_xmux :: bool
  acd_xmux_json :: string

record AdminGRPCEndpointRequest =
  agr_grpc_key :: string
  agr_server_key :: string
  agr_enabled :: "bool option"
  agr_sort_order :: "int option"
  agr_inbound_tag :: string
  agr_address :: string
  agr_server_name :: string
  agr_host :: string
  agr_port :: "int option"
  agr_service_name :: string
  agr_mode :: string
  agr_fingerprint :: string
  agr_alpn :: string
  agr_remarks :: string

record AdminHysteriaEndpointRequest =
  ahy_hysteria_key :: string
  ahy_server_key :: string
  ahy_enabled :: "bool option"
  ahy_sort_order :: "int option"
  ahy_address :: string
  ahy_port :: "int option"
  ahy_sni :: string
  ahy_insecure :: "bool option"
  ahy_obfs_type :: string
  ahy_obfs_password :: string
  ahy_remarks :: string

record AdminRealityEndpointRequest =
  are_reality_key :: string
  are_server_key :: string
  are_enabled :: "bool option"
  are_sort_order :: "int option"
  are_inbound_tag :: string
  are_address :: string
  are_port :: "int option"
  are_server_name :: string
  are_public_key :: string
  are_short_id :: string
  are_spider_x :: string
  are_flow :: string
  are_fingerprint :: string
  are_remarks :: string

section \<open>Statements\<close>

text \<open>INSERT ... ON CONFLICT DO UPDATE, with the row written over the old one, if there is one.\<close>

definition tput :: "'k \<Rightarrow> ('v option \<Rightarrow> 'v) \<Rightarrow> ('k, 'v) table \<Rightarrow> ('k, 'v) table" where
  "tput k f t = (case tget t k of None \<Rightarrow> tins k (f None) t | Some _ \<Rightarrow> tupd k (\<lambda>r. f (Some r)) t)"

lemma tget_tput [table_simps]: "tget (tput k f t) k' = (if k' = k then Some (f (tget t k)) else tget t k')"
  by (auto simp: tput_def table_simps split: option.split)

lemma twf_tput [simp, intro]: "twf t \<Longrightarrow> twf (tput k f t)"
  by (auto simp: tput_def split: option.split)

definition or_set :: "'a \<Rightarrow> 'a option \<Rightarrow> 'a" where
  "or_set def v = (case v of None \<Rightarrow> def | Some x \<Rightarrow> x)"

definition positive_set :: "int \<Rightarrow> int option \<Rightarrow> int" where
  "positive_set def v = (case v of None \<Rightarrow> def | Some n \<Rightarrow> if 0 < n then n else def)"

definition server_known :: "string \<Rightarrow> 'z vpn_db_scheme \<Rightarrow> bool" where
  "server_known key d \<longleftrightarrow> key = [] \<or> tget (vpn_servers d) key \<noteq> None"

text \<open>A node keeps the counters that the request does not name.\<close>

definition node_row :: "AdminNodeRequest \<Rightarrow> vpn_server option \<Rightarrow> vpn_server" where
  "node_row q old =
     \<lparr>vs_node_id = an_node_id q, vs_country_code = an_country_code q, vs_title = an_title q,
      vs_public_host = an_public_host q, vs_port = positive_or (an_port q) 443, vs_transport = an_transport q,
      vs_security = an_security q, vs_default_inbound_tag = an_default_inbound_tag q, vs_host_header = an_host_header q,
      vs_sni = an_sni q, vs_ws_path = an_ws_path q, vs_flow = an_flow q, vs_enabled = an_enabled q,
      vs_max_users = positive_or (an_max_users q) 200, vs_weight = positive_or (an_weight q) 100,
      vs_bandwidth_mbps = an_bandwidth_mbps q,
      vs_active_users = (case old of None \<Rightarrow> 0 | Some s \<Rightarrow> vs_active_users s),
      vs_last_heartbeat_at = (case old of None \<Rightarrow> None | Some s \<Rightarrow> vs_last_heartbeat_at s),
      vs_online_users = (case old of None \<Rightarrow> 0 | Some s \<Rightarrow> vs_online_users s),
      vs_uplink_bps = (case old of None \<Rightarrow> 0 | Some s \<Rightarrow> vs_uplink_bps s),
      vs_downlink_bps = (case old of None \<Rightarrow> 0 | Some s \<Rightarrow> vs_downlink_bps s)\<rparr>"

definition UpsertAdminNode :: "AdminNodeRequest \<Rightarrow> 'z vpn_db_scheme \<Rightarrow> tx_error + (unit \<times> 'z vpn_db_scheme)" where
  "UpsertAdminNode q d =
     (if an_server_key q = [] \<or> an_node_id q = [] \<or> an_public_host q = []
      then Inl (Refused ''server_key, node_id and public_host are required'')
      else if 65535 < an_port q then Inl CheckViolation
      else Inr ((), d\<lparr>vpn_servers := tput (an_server_key q) (node_row q) (vpn_servers d)\<rparr>))"

definition SetAdminNodeEnabled :: "string \<Rightarrow> bool \<Rightarrow> 'z vpn_db_scheme \<Rightarrow> tx_error + (unit \<times> 'z vpn_db_scheme)" where
  "SetAdminNodeEnabled node enabled d = Inr ((), d\<lparr>vpn_servers :=
     map (\<lambda>(k, s). (k, if vs_node_id s = node then s\<lparr>vs_enabled := enabled\<rparr> else s)) (vpn_servers d)\<rparr>)"

definition pool_row_of :: "int \<Rightarrow> AdminPoolItemRequest \<Rightarrow> pool_row option \<Rightarrow> pool_row" where
  "pool_row_of i q old =
     \<lparr>pr_id = (case old of None \<Rightarrow> i | Some r \<Rightarrow> pr_id r), pr_server_key = ap_server_key q,
      pr_country_code = ap_country_code q, pr_title = ap_title q, pr_profile_type = or_default (ap_profile_type q) ''vless'',
      pr_enabled = ap_enabled q, pr_sort_order = ap_sort_order q, pr_inbound_tag = ap_inbound_tag q,
      pr_host_header = ap_host_header q, pr_sni = ap_sni q, pr_ws_path = ap_ws_path q, pr_flow = ap_flow q,
      pr_level = ap_level q\<rparr>"

definition UpsertAdminPoolItem :: "AdminPoolItemRequest \<Rightarrow> 'z vpn_db_scheme \<Rightarrow> tx_error + (unit \<times> 'z vpn_db_scheme)" where
  "UpsertAdminPoolItem q d =
     (if ap_item_key q = [] \<or> ap_server_key q = [] then Inl (Refused ''item_key and server_key are required'')
      else if \<not> server_known (ap_server_key q) d then Inl FkViolation
      else if ap_level q < 0 then Inl CheckViolation
      else Inr ((), d\<lparr>vpn_pool_items := tput (ap_item_key q) (pool_row_of (pool_item_seq d) q) (vpn_pool_items d),
                      pool_item_seq := pool_item_seq d + 1\<rparr>))"

definition cdn_row :: "AdminCDNEndpointRequest \<Rightarrow> CDNEndpoint" where
  "cdn_row q = (let xmux = trim_space (acd_xmux_json q); enable = (acd_enable_xmux q \<and> xmux \<noteq> []) in
     \<lparr>ce_cdn_key = acd_cdn_key q, ce_server_key = acd_server_key q, ce_enabled = or_set True (acd_enabled q),
      ce_sort_order = or_set 100 (acd_sort_order q), ce_inbound_tag = or_default (acd_inbound_tag q) ''vless-xhttp-cdn-in'',
      ce_address = acd_address q, ce_server_name = acd_server_name q, ce_host = acd_host q,
      ce_port = positive_set 443 (acd_port q), ce_xhttp_path = or_default (acd_xhttp_path q) ''/api/uploadFile/'',
      ce_mode = or_default (acd_mode q) ''packet-up'', ce_fingerprint = or_default (acd_fingerprint q) ''chrome'',
      ce_alpn = or_default (acd_alpn q) ''h2,http/1.1'', ce_remarks = or_default (acd_remarks q) ''race-src-cdn'',
      ce_padding_obfs_mode = or_set True (acd_padding_obfs_mode q),
      ce_padding_placement = or_default (acd_padding_placement q) ''cookie'',
      ce_padding_key = or_default (acd_padding_key q) ''ssid'',
      ce_padding_method = or_default (acd_padding_method q) ''tokenish'',
      ce_sc_max_buffered_posts = positive_set 256 (acd_sc_max_buffered_posts q),
      ce_sc_min_posts_interval_ms = or_default (acd_sc_min_posts_interval_ms q) ''5'',
      ce_uplink_http_method = acd_uplink_http_method q, ce_uplink_data_placement = acd_uplink_data_placement q,
      ce_uplink_data_key = acd_uplink_data_key q, ce_uplink_chunk_size = positive_set 0 (acd_uplink_chunk_size q),
      ce_sc_max_each_post_bytes = positive_set 0 (acd_sc_max_each_post_bytes q),
      ce_session_id_placement = acd_session_id_placement q, ce_session_id_key = acd_session_id_key q,
      ce_seq_placement = acd_seq_placement q, ce_seq_key = acd_seq_key q, ce_x_padding_bytes = acd_x_padding_bytes q,
      ce_x_padding_header = acd_x_padding_header q, ce_enable_xmux = enable,
      ce_xmux_json = (if enable then xmux else [])\<rparr>)"

definition cdn_checks :: "CDNEndpoint \<Rightarrow> bool" where
  "cdn_checks e \<longleftrightarrow>
     ce_uplink_http_method e \<in> {[], ''POST'', ''GET'', ''PUT'', ''PATCH''}
   \<and> ce_uplink_data_placement e \<in> {[], ''body'', ''header'', ''cookie''}
   \<and> ce_session_id_placement e \<in> {[], ''path'', ''query'', ''cookie'', ''header''}
   \<and> ce_seq_placement e \<in> {[], ''path'', ''query'', ''cookie'', ''header''}
   \<and> 0 \<le> ce_uplink_chunk_size e \<and> 0 \<le> ce_sc_max_each_post_bytes e
   \<and> (ce_xmux_json e = [] \<or> 2 \<le> length (ce_xmux_json e) \<and> hd (ce_xmux_json e) = CHR ''{'' \<and> last (ce_xmux_json e) = CHR ''}'')"

definition UpsertAdminCDNEndpoint ::
    "AdminCDNEndpointRequest \<Rightarrow> 'z vpn_db_scheme \<Rightarrow> tx_error + (unit \<times> 'z vpn_db_scheme)" where
  "UpsertAdminCDNEndpoint q d =
     (if \<not> cdn_checks (cdn_row q) then Inl CheckViolation
      else if \<not> server_known (acd_server_key q) d then Inl FkViolation
      else Inr ((), d\<lparr>cdn_endpoints := tput (acd_cdn_key q) (\<lambda>_. cdn_row q) (cdn_endpoints d)\<rparr>))"

definition grpc_row :: "AdminGRPCEndpointRequest \<Rightarrow> GRPCEndpoint" where
  "grpc_row q = \<lparr>ge_grpc_key = agr_grpc_key q, ge_server_key = agr_server_key q, ge_enabled = or_set True (agr_enabled q),
      ge_sort_order = or_set 100 (agr_sort_order q), ge_inbound_tag = or_default (agr_inbound_tag q) ''vless-grpc-cdn-in'',
      ge_address = agr_address q, ge_server_name = agr_server_name q, ge_host = agr_host q,
      ge_port = positive_set 443 (agr_port q), ge_service_name = or_default (agr_service_name q) ''api.grpc'',
      ge_mode = or_default (agr_mode q) ''gun'', ge_fingerprint = or_default (agr_fingerprint q) ''chrome'',
      ge_alpn = or_default (agr_alpn q) ''h2'', ge_remarks = or_default (agr_remarks q) ''race-src-grpc''\<rparr>"

definition UpsertAdminGRPCEndpoint ::
    "AdminGRPCEndpointRequest \<Rightarrow> 'z vpn_db_scheme \<Rightarrow> tx_error + (unit \<times> 'z vpn_db_scheme)" where
  "UpsertAdminGRPCEndpoint q d =
     (if \<not> server_known (agr_server_key q) d then Inl FkViolation
      else Inr ((), d\<lparr>grpc_endpoints := tput (agr_grpc_key q) (\<lambda>_. grpc_row q) (grpc_endpoints d)\<rparr>))"

definition hysteria_row :: "AdminHysteriaEndpointRequest \<Rightarrow> HysteriaEndpoint" where
  "hysteria_row q = \<lparr>he_hysteria_key = ahy_hysteria_key q, he_server_key = ahy_server_key q,
      he_enabled = or_set True (ahy_enabled q), he_sort_order = or_set 100 (ahy_sort_order q), he_address = ahy_address q,
      he_port = positive_set 443 (ahy_port q), he_sni = ahy_sni q, he_insecure = or_set False (ahy_insecure q),
      he_obfs_type = ahy_obfs_type q, he_obfs_password = ahy_obfs_password q,
      he_remarks = or_default (ahy_remarks q) ''Hysteria''\<rparr>"

definition UpsertAdminHysteriaEndpoint ::
    "AdminHysteriaEndpointRequest \<Rightarrow> 'z vpn_db_scheme \<Rightarrow> tx_error + (unit \<times> 'z vpn_db_scheme)" where
  "UpsertAdminHysteriaEndpoint q d =
     (if \<not> server_known (ahy_server_key q) d then Inl FkViolation
      else Inr ((), d\<lparr>hysteria_endpoints := tput (ahy_hysteria_key q) (\<lambda>_. hysteria_row q) (hysteria_endpoints d)\<rparr>))"

definition reality_row :: "AdminRealityEndpointRequest \<Rightarrow> RealityEndpoint" where
  "reality_row q = \<lparr>re_reality_key = are_reality_key q, re_server_key = are_server_key q,
      re_enabled = or_set True (are_enabled q), re_sort_order = or_set 100 (are_sort_order q),
      re_inbound_tag = or_default (are_inbound_tag q) ''vless-reality-in'', re_address = are_address q,
      re_port = positive_set 8443 (are_port q), re_server_name = are_server_name q, re_public_key = are_public_key q,
      re_short_id = are_short_id q, re_spider_x = or_default (are_spider_x q) ''/'',
      re_flow = or_default (are_flow q) ''xtls-rprx-vision'', re_fingerprint = or_default (are_fingerprint q) ''chrome'',
      re_remarks = or_default (are_remarks q) ''reality''\<rparr>"

definition lower_hex :: "char \<Rightarrow> bool" where
  "lower_hex c \<longleftrightarrow> is_digit c \<or> (97::nat) \<le> of_char c \<and> (of_char c :: nat) \<le> 102"

definition reality_checks :: "RealityEndpoint \<Rightarrow> bool" where
  "reality_checks e \<longleftrightarrow> 0 < re_port e \<and> re_port e \<le> 65535 \<and> re_flow e \<in> {[], ''xtls-rprx-vision''}
   \<and> (let s = re_short_id e in s = [] \<or> list_all lower_hex s \<and> even (length s) \<and> length s \<le> 16)"

definition UpsertAdminRealityEndpoint ::
    "AdminRealityEndpointRequest \<Rightarrow> 'z vpn_db_scheme \<Rightarrow> tx_error + (unit \<times> 'z vpn_db_scheme)" where
  "UpsertAdminRealityEndpoint q d =
     (if \<not> reality_checks (reality_row q) then Inl CheckViolation
      else if \<not> server_known (are_server_key q) d then Inl FkViolation
      else Inr ((), d\<lparr>reality_endpoints := tput (are_reality_key q) (\<lambda>_. reality_row q) (reality_endpoints d)\<rparr>))"

definition DeleteCDNEndpoint :: "string \<Rightarrow> 'z vpn_db_scheme \<Rightarrow> tx_error + (unit \<times> 'z vpn_db_scheme)" where
  "DeleteCDNEndpoint k d = Inr ((), d\<lparr>cdn_endpoints := tdel k (cdn_endpoints d)\<rparr>)"

definition DeleteGRPCEndpoint :: "string \<Rightarrow> 'z vpn_db_scheme \<Rightarrow> tx_error + (unit \<times> 'z vpn_db_scheme)" where
  "DeleteGRPCEndpoint k d = Inr ((), d\<lparr>grpc_endpoints := tdel k (grpc_endpoints d)\<rparr>)"

definition DeleteHysteriaEndpoint :: "string \<Rightarrow> 'z vpn_db_scheme \<Rightarrow> tx_error + (unit \<times> 'z vpn_db_scheme)" where
  "DeleteHysteriaEndpoint k d = Inr ((), d\<lparr>hysteria_endpoints := tdel k (hysteria_endpoints d)\<rparr>)"

definition DeleteRealityEndpoint :: "string \<Rightarrow> 'z vpn_db_scheme \<Rightarrow> tx_error + (unit \<times> 'z vpn_db_scheme)" where
  "DeleteRealityEndpoint k d = Inr ((), d\<lparr>reality_endpoints := tdel k (reality_endpoints d)\<rparr>)"

section \<open>Handlers\<close>

record admin_request =
  aq_method :: string
  aq_path :: string
  aq_auth :: "(string \<times> string) option"
  aq_body :: string

record admin_json =
  aj_node :: "string \<Rightarrow> AdminNodeRequest option"
  aj_enabled :: "string \<Rightarrow> bool option"
  aj_pool :: "string \<Rightarrow> AdminPoolItemRequest option"
  aj_cdn :: "string \<Rightarrow> AdminCDNEndpointRequest option"
  aj_grpc :: "string \<Rightarrow> AdminGRPCEndpointRequest option"
  aj_hysteria :: "string \<Rightarrow> AdminHysteriaEndpointRequest option"
  aj_reality :: "string \<Rightarrow> AdminRealityEndpointRequest option"

text \<open>A statement, and the status of its outcome.\<close>

definition admin_exec :: "outage \<Rightarrow> ('s \<Rightarrow> tx_error + (unit \<times> 's)) \<Rightarrow> 's \<Rightarrow> int \<times> 's" where
  "admin_exec out f d = (case run_tx out f d of (None, d') \<Rightarrow> (204, d') | (Some _, d') \<Rightarrow> (400, d'))"

text \<open>The shape of the POST handlers: decode, look for the required fields, write.\<close>

definition admin_post ::
    "(string \<Rightarrow> 'q option) \<Rightarrow> ('q \<Rightarrow> bool) \<Rightarrow> ('q \<Rightarrow> 's \<Rightarrow> tx_error + (unit \<times> 's)) \<Rightarrow> outage \<Rightarrow> admin_request \<Rightarrow> 's \<Rightarrow> int \<times> 's" where
  "admin_post decode complete write out q d =
     (if aq_method q \<noteq> ''POST'' then (405, d)
      else case decode (aq_body q) of
        None \<Rightarrow> (400, d)
      | Some r \<Rightarrow> if complete r then admin_exec out (write r) d else (400, d))"

definition blank :: "string \<Rightarrow> bool" where
  "blank s \<longleftrightarrow> trim_space s = []"

definition handleAdminNodes :: "admin_json \<Rightarrow> outage \<Rightarrow> admin_request \<Rightarrow> 'z vpn_db_scheme \<Rightarrow> int \<times> 'z vpn_db_scheme" where
  "handleAdminNodes j = admin_post (aj_node j) (\<lambda>_. True) UpsertAdminNode"

definition handleAdminNodeByID :: "admin_json \<Rightarrow> outage \<Rightarrow> admin_request \<Rightarrow> 'z vpn_db_scheme \<Rightarrow> int \<times> 'z vpn_db_scheme" where
  "handleAdminNodeByID j out q d =
     (let node = trim_slash (strip_prefix ''/admin/nodes/'' (aq_path q)) in
      if aq_method q \<noteq> ''PATCH'' then (405, d)
      else if node = [] then (404, d)
      else case aj_enabled j (aq_body q) of
        None \<Rightarrow> (400, d)
      | Some enabled \<Rightarrow> admin_exec out (SetAdminNodeEnabled node enabled) d)"

definition handleAdminPoolItems :: "admin_json \<Rightarrow> outage \<Rightarrow> admin_request \<Rightarrow> 'z vpn_db_scheme \<Rightarrow> int \<times> 'z vpn_db_scheme" where
  "handleAdminPoolItems j = admin_post (aj_pool j) (\<lambda>_. True) UpsertAdminPoolItem"

definition handleAdminCDNEndpoints :: "admin_json \<Rightarrow> outage \<Rightarrow> admin_request \<Rightarrow> 'z vpn_db_scheme \<Rightarrow> int \<times> 'z vpn_db_scheme" where
  "handleAdminCDNEndpoints j = admin_post (aj_cdn j)
     (\<lambda>r. \<not> blank (acd_cdn_key r) \<and> \<not> blank (acd_address r)) UpsertAdminCDNEndpoint"

definition handleAdminGRPCEndpoints :: "admin_json \<Rightarrow> outage \<Rightarrow> admin_request \<Rightarrow> 'z vpn_db_scheme \<Rightarrow> int \<times> 'z vpn_db_scheme" where
  "handleAdminGRPCEndpoints j = admin_post (aj_grpc j)
     (\<lambda>r. \<not> blank (agr_grpc_key r) \<and> \<not> blank (agr_address r)) UpsertAdminGRPCEndpoint"

definition handleAdminHysteriaEndpoints :: "admin_json \<Rightarrow> outage \<Rightarrow> admin_request \<Rightarrow> 'z vpn_db_scheme \<Rightarrow> int \<times> 'z vpn_db_scheme" where
  "handleAdminHysteriaEndpoints j = admin_post (aj_hysteria j)
     (\<lambda>r. \<not> blank (ahy_hysteria_key r) \<and> \<not> blank (ahy_address r) \<and> \<not> blank (ahy_server_key r)) UpsertAdminHysteriaEndpoint"

definition handleAdminRealityEndpoints :: "admin_json \<Rightarrow> outage \<Rightarrow> admin_request \<Rightarrow> 'z vpn_db_scheme \<Rightarrow> int \<times> 'z vpn_db_scheme" where
  "handleAdminRealityEndpoints j = admin_post (aj_reality j)
     (\<lambda>r. \<not> blank (are_reality_key r) \<and> \<not> blank (are_address r) \<and> \<not> blank (are_public_key r) \<and> \<not> blank (are_server_name r))
     UpsertAdminRealityEndpoint"

text \<open>The shape of the DELETE handlers.\<close>

definition admin_delete ::
    "string \<Rightarrow> (string \<Rightarrow> 's \<Rightarrow> tx_error + (unit \<times> 's)) \<Rightarrow> outage \<Rightarrow> admin_request \<Rightarrow> 's \<Rightarrow> int \<times> 's" where
  "admin_delete base delete out q d =
     (let k = trim_slash (strip_prefix base (aq_path q)) in
      if k = [] then (400, d)
      else if aq_method q \<noteq> ''DELETE'' then (405, d)
      else admin_exec out (delete k) d)"

definition handleAdminCDNEndpointByKey :: "outage \<Rightarrow> admin_request \<Rightarrow> 'z vpn_db_scheme \<Rightarrow> int \<times> 'z vpn_db_scheme" where
  "handleAdminCDNEndpointByKey = admin_delete ''/admin/cdn-endpoints/'' DeleteCDNEndpoint"

definition handleAdminGRPCEndpointByKey :: "outage \<Rightarrow> admin_request \<Rightarrow> 'z vpn_db_scheme \<Rightarrow> int \<times> 'z vpn_db_scheme" where
  "handleAdminGRPCEndpointByKey = admin_delete ''/admin/grpc-endpoints/'' DeleteGRPCEndpoint"

definition handleAdminHysteriaEndpointByKey :: "outage \<Rightarrow> admin_request \<Rightarrow> 'z vpn_db_scheme \<Rightarrow> int \<times> 'z vpn_db_scheme" where
  "handleAdminHysteriaEndpointByKey = admin_delete ''/admin/hysteria-endpoints/'' DeleteHysteriaEndpoint"

definition handleAdminRealityEndpointByKey :: "outage \<Rightarrow> admin_request \<Rightarrow> 'z vpn_db_scheme \<Rightarrow> int \<times> 'z vpn_db_scheme" where
  "handleAdminRealityEndpointByKey = admin_delete ''/admin/reality-endpoints/'' DeleteRealityEndpoint"

fun split_slash :: "string \<Rightarrow> string \<Rightarrow> string list" where
  "split_slash acc [] = [rev acc]"
| "split_slash acc (c # s) = (if c = CHR ''/'' then rev acc # split_slash [] s else split_slash (c # acc) s)"

definition handleAdminUserActions ::
    "vpn_config \<Rightarrow> 'f vpn_env \<Rightarrow> outage \<Rightarrow> admin_request \<Rightarrow> 'z vpn_db_scheme \<Rightarrow> int \<times> 'z vpn_db_scheme" where
  "handleAdminUserActions cfg env out q d =
     (if aq_method q \<noteq> ''POST'' then (405, d)
      else case split_slash [] (trim_slash (strip_prefix ''/admin/users/'' (aq_path q))) of
        [who, what] \<Rightarrow>
          if what \<noteq> ''resync'' then (404, d)
          else (case atoi (trim_space who) of
            None \<Rightarrow> (400, d)
          | Some tid \<Rightarrow>
              if ve_fails env QAccess then (400, d)
              else (case GetAccessByTelegramID d tid of
                None \<Rightarrow> (400, d)
              | Some access \<Rightarrow> (case ensureUserCredentialsAndSync cfg env out access d of
                  (None, d') \<Rightarrow> (204, d') | (Some _, d') \<Rightarrow> (400, d'))))
      | _ \<Rightarrow> (404, d))"

section \<open>Routes\<close>

definition withAdminAuth :: "(string \<Rightarrow> string) \<Rightarrow> (admin_request \<Rightarrow> 's \<Rightarrow> int \<times> 's) \<Rightarrow> admin_request \<Rightarrow> 's \<Rightarrow> int \<times> 's" where
  "withAdminAuth getenv handler q d =
     (let user = getenv ''ORCHESTRATOR_ADMIN_USER''; pass = getenv ''ORCHESTRATOR_ADMIN_PASS'' in
      if trim_space user = [] \<or> trim_space pass = [] then (503, d)
      else if aq_auth q \<noteq> Some (user, pass) then (401, d)
      else handler q d)"

definition starts_with :: "string \<Rightarrow> string \<Rightarrow> bool" where
  "starts_with p s \<longleftrightarrow> take (length p) s = p"

text \<open>A pattern that ends in a slash matches every path below it, the others only themselves.\<close>

definition RegisterAdmin ::
    "vpn_config \<Rightarrow> admin_json \<Rightarrow> 'f vpn_env \<Rightarrow> outage \<Rightarrow> admin_request \<Rightarrow> 'z vpn_db_scheme \<Rightarrow> int \<times> 'z vpn_db_scheme" where
  "RegisterAdmin cfg j env out q d =
     (let path = aq_path q; route = (\<lambda>handler. withAdminAuth (vg_getenv cfg) handler q d) in
      if path = ''/admin/nodes'' then route (handleAdminNodes j out)
      else if starts_with ''/admin/nodes/'' path then route (handleAdminNodeByID j out)
      else if path = ''/admin/pool-items'' then route (handleAdminPoolItems j out)
      else if path = ''/admin/cdn-endpoints'' then route (handleAdminCDNEndpoints j out)
      else if starts_with ''/admin/cdn-endpoints/'' path then route (handleAdminCDNEndpointByKey out)
      else if path = ''/admin/grpc-endpoints'' then route (handleAdminGRPCEndpoints j out)
      else if starts_with ''/admin/grpc-endpoints/'' path then route (handleAdminGRPCEndpointByKey out)
      else if path = ''/admin/hysteria-endpoints'' then route (handleAdminHysteriaEndpoints j out)
      else if starts_with ''/admin/hysteria-endpoints/'' path then route (handleAdminHysteriaEndpointByKey out)
      else if path = ''/admin/reality-endpoints'' then route (handleAdminRealityEndpoints j out)
      else if starts_with ''/admin/reality-endpoints/'' path then route (handleAdminRealityEndpointByKey out)
      else if starts_with ''/admin/users/'' path then route (handleAdminUserActions cfg env out)
      else (404, d))"

end
