(* ===== verification/VpnInvariant.thy ===== *)
theory VpnInvariant
  imports VpnMetering VpnAdmin
begin

text \<open>
  What holds of the orchestrator's tables and of the commands it has written, and how they may change: a third instance
  of the contract \<open>history\<close>, with the changes of one table that keep it. An account, once written, keeps its
  UUID and its e-mail, and every command names accounts of the user it is about only.
\<close>

text \<open>Keys that are pairs stay together in statements about tables.\<close>

declare split_paired_All [simp del] split_paired_Ex [simp del]

section \<open>The invariant\<close>

definition cred_ok :: "'z vpn_db_scheme \<Rightarrow> int \<times> string \<Rightarrow> cred_row \<Rightarrow> bool" where
  "cred_ok d k c \<longleftrightarrow> cw_email c = buildEmail (fst k) (snd k) \<and> tget (vpn_servers d) (cw_server_key c) \<noteq> None"

text \<open>A profile of a command is an account of the user the command names: its UUID, and its own e-mail or that of its CDN account.\<close>

definition own_profile :: "'z vpn_db_scheme \<Rightarrow> int \<Rightarrow> VPNNodeUserProfile \<Rightarrow> bool" where
  "own_profile d tid q \<longleftrightarrow> (\<exists>c. tget (node_credentials d) (tid, up_item_key q) = Some c
     \<and> up_vless_uuid q = cw_vless_uuid c \<and> up_email q \<in> {cw_email c, cdnEmail (cw_email c)})"

definition command_ok :: "'z vpn_db_scheme \<Rightarrow> string \<Rightarrow> payload \<Rightarrow> bool" where
  "command_ok d key pl \<longleftrightarrow> (case pl of
     PVpnCommand cmd \<Rightarrow> key = vc_node_id cmd \<and> (\<forall>q \<in> set (vc_profiles cmd). own_profile d (vc_telegram_id cmd) q)
   | _ \<Rightarrow> True)"

definition vpn_inv :: "'z vpn_db_scheme \<Rightarrow> bool" where
  "vpn_inv d \<longleftrightarrow> twf (node_credentials d) \<and> twf (vpn_servers d) \<and> twf (vpn_user_access d) \<and> twf (user_traffic_node d)
   \<and> quotas_ok d
   \<and> (\<forall>k c. tget (node_credentials d) k = Some c \<longrightarrow> cred_ok d k c)
   \<and> (\<forall>j k b c. tget (node_credentials d) j = Some b \<longrightarrow> tget (node_credentials d) k = Some c \<longrightarrow>
        cw_email b = cw_email c \<longrightarrow> j = k)
   \<and> (\<forall>r \<in> set (event_outbox d). command_ok d (ob_message_key r) (ob_payload r))"

text \<open>An account keeps its UUID and e-mail, and no revision goes back.\<close>

definition same_account :: "cred_row \<Rightarrow> cred_row \<Rightarrow> bool" where
  "same_account c c' \<longleftrightarrow> cw_vless_uuid c' = cw_vless_uuid c \<and> cw_email c' = cw_email c
     \<and> cw_access_rev c \<le> cw_access_rev c' \<and> cw_last_synced_rev c \<le> cw_last_synced_rev c'"

definition vpn_later :: "'z vpn_db_scheme \<Rightarrow> 'z vpn_db_scheme \<Rightarrow> bool" where
  "vpn_later d d' \<longleftrightarrow>
     (\<forall>k c. tget (node_credentials d) k = Some c \<longrightarrow> (\<exists>c'. tget (node_credentials d') k = Some c' \<and> same_account c c'))
   \<and> (\<forall>k. tget (vpn_servers d) k \<noteq> None \<longrightarrow> tget (vpn_servers d') k \<noteq> None)
   \<and> (\<forall>t a. tget (vpn_user_access d) t = Some a \<longrightarrow>
        (\<exists>a'. tget (vpn_user_access d') t = Some a' \<and> ac_access_rev a \<le> ac_access_rev a'))
   \<and> (\<forall>k r. tget (cdn_quota d) k = Some r \<longrightarrow> (\<exists>r'. tget (cdn_quota d') k = Some r' \<and> qr_revision r \<le> qr_revision r'))"

lemma same_account_refl [simp]: "same_account c c"
  by (simp add: same_account_def)

lemma same_account_trans: "same_account a b \<Longrightarrow> same_account b c \<Longrightarrow> same_account a c"
  by (simp add: same_account_def)

lemma vpn_later_refl [simp]: "vpn_later d d"
  by (simp add: vpn_later_def)

lemma vpn_later_trans: "vpn_later d1 d2 \<Longrightarrow> vpn_later d2 d3 \<Longrightarrow> vpn_later d1 d3"
  unfolding vpn_later_def by (meson same_account_trans order_trans)

interpretation vpn: history vpn_inv vpn_later
  by unfold_locales (auto intro: vpn_later_trans)

abbreviation stays_vpn :: "'z vpn_db_scheme \<Rightarrow> 'z vpn_db_scheme \<Rightarrow> bool" where
  "stays_vpn \<equiv> stays vpn_inv vpn_later"

abbreviation keeps_vpn :: "'z vpn_db_scheme \<Rightarrow> tx_error + ('a \<times> 'z vpn_db_scheme) \<Rightarrow> bool" where
  "keeps_vpn \<equiv> keeps_tx vpn_inv vpn_later"

lemma later_account:
  assumes "vpn_later d d'" and "tget (node_credentials d) k = Some c"
  shows "\<exists>c'. tget (node_credentials d') k = Some c' \<and> same_account c c'"
  using assms unfolding vpn_later_def by blast

lemma own_profile_later:
  assumes "vpn_later d d'" and "own_profile d tid q"
  shows "own_profile d' tid q"
proof -
  obtain c where "tget (node_credentials d) (tid, up_item_key q) = Some c" and q: "up_vless_uuid q = cw_vless_uuid c"
      "up_email q \<in> {cw_email c, cdnEmail (cw_email c)}"
    using assms(2) unfolding own_profile_def by blast
  from later_account [OF assms(1) this(1)] q show ?thesis
    unfolding own_profile_def same_account_def by (elim exE) simp
qed

lemma command_ok_later: "vpn_later d d' \<Longrightarrow> command_ok d key pl \<Longrightarrow> command_ok d' key pl"
  by (auto simp: command_ok_def intro: own_profile_later split: payload.splits)

lemma vpn_invD:
  assumes "vpn_inv d"
  shows "twf (node_credentials d)" and "twf (vpn_servers d)" and "twf (vpn_user_access d)" and "twf (user_traffic_node d)"
    and "quotas_ok d" and "tget (node_credentials d) k = Some c \<Longrightarrow> cred_ok d k c"
    and "tget (node_credentials d) j = Some b \<Longrightarrow> tget (node_credentials d) k = Some c \<Longrightarrow> cw_email b = cw_email c \<Longrightarrow> j = k"
    and "r \<in> set (event_outbox d) \<Longrightarrow> command_ok d (ob_message_key r) (ob_payload r)"
  using assms unfolding vpn_inv_def by blast+

section \<open>Changes of one table\<close>

lemma stays_vpn_frame:
  assumes "node_credentials d' = node_credentials d" and "vpn_servers d' = vpn_servers d"
    and "vpn_user_access d' = vpn_user_access d" and "cdn_quota d' = cdn_quota d" and "twf (user_traffic_node d) \<Longrightarrow> twf (user_traffic_node d')"
    and "\<And>row. row \<in> set (event_outbox d') \<Longrightarrow> command_ok d (ob_message_key row) (ob_payload row)
      \<or> (\<exists>r \<in> set (event_outbox d). ob_message_key r = ob_message_key row \<and> ob_payload r = ob_payload row)"
  shows "stays_vpn d d'"
proof (rule staysI)
  assume inv: "vpn_inv d"
  show later: "vpn_later d d'" using assms(1-4) by (simp add: vpn_later_def)
  have "command_ok d' (ob_message_key row) (ob_payload row)" if "row \<in> set (event_outbox d')" for row
    using assms(6) [OF that] vpn_invD(8) [OF inv] command_ok_later [OF later] by metis
  moreover have "cred_ok d' k c = cred_ok d k c" for k c using assms(2) by (simp add: cred_ok_def)
  ultimately show "vpn_inv d'"
    using inv assms(1-5) unfolding vpn_inv_def quotas_ok_def by simp
qed

lemma stays_vpn_AddTx:
  assumes "command_ok d (oe_message_key e) (oe_payload e)"
  shows "stays_vpn d (AddTx now e d)"
  by (rule stays_vpn_frame) (use assms in \<open>auto simp: AddTx_def new_row_def\<close>)

lemma stays_credentials:
  assumes "vpn_inv d \<Longrightarrow> twf t"
    and "\<And>k c. vpn_inv d \<Longrightarrow> tget t k = Some c \<Longrightarrow> cred_ok d k c"
    and "\<And>j k b c. vpn_inv d \<Longrightarrow> tget t j = Some b \<Longrightarrow> tget t k = Some c \<Longrightarrow> cw_email b = cw_email c \<Longrightarrow> j = k"
    and "\<And>k c. tget (node_credentials d) k = Some c \<Longrightarrow> \<exists>c'. tget t k = Some c' \<and> same_account c c'"
  shows "stays_vpn d (d\<lparr>node_credentials := t\<rparr>)"
proof (rule staysI)
  assume inv: "vpn_inv d"
  show later: "vpn_later d (d\<lparr>node_credentials := t\<rparr>)"
    using assms(4) by (auto simp: vpn_later_def)
  have "cred_ok (d\<lparr>node_credentials := t\<rparr>) k c = cred_ok d k c" for k c by (simp add: cred_ok_def)
  then show "vpn_inv (d\<lparr>node_credentials := t\<rparr>)"
    using assms(1,2,3) [OF inv] vpn_invD(2-5,8) [OF inv] command_ok_later [OF later]
    unfolding vpn_inv_def quotas_ok_def by simp
qed

text \<open>Rows that are changed in place and stay the same account.\<close>

lemma stays_credentials_map:
  assumes "\<And>k c. same_account c (f k c) \<and> cw_server_key (f k c) = cw_server_key c"
  shows "stays_vpn d (d\<lparr>node_credentials := map (\<lambda>(k, c). (k, f k c)) (node_credentials d)\<rparr>)"
proof -
  have get: "tget (map (\<lambda>(k, c). (k, f k c)) t) k = map_option (f k) (tget t k)" for t k
    by (induction t) (auto simp: tget_def)
  have keys: "map fst (map (\<lambda>(k, c). (k, f k c)) t) = map fst t" for t by (induction t) auto
  show ?thesis
  proof (rule stays_credentials)
    show "twf (map (\<lambda>(k, c). (k, f k c)) (node_credentials d))" if "vpn_inv d"
      using vpn_invD(1) [OF that] unfolding twf_def keys .
    show "cred_ok d k c" if inv: "vpn_inv d" and c: "tget (map (\<lambda>(k, c). (k, f k c)) (node_credentials d)) k = Some c" for k c
    proof -
      obtain b where b: "tget (node_credentials d) k = Some b" "c = f k b" using c unfolding get by auto
      then show ?thesis using vpn_invD(6) [OF inv b(1)] assms [of b k] by (simp add: cred_ok_def same_account_def)
    qed
    show "j = k" if inv: "vpn_inv d" and b: "tget (map (\<lambda>(k, c). (k, f k c)) (node_credentials d)) j = Some b"
      and c: "tget (map (\<lambda>(k, c). (k, f k c)) (node_credentials d)) k = Some c" and eq: "cw_email b = cw_email c" for j k b c
    proof -
      obtain x y where "tget (node_credentials d) j = Some x" "b = f j x" "tget (node_credentials d) k = Some y" "c = f k y"
        using b c unfolding get by auto
      then show ?thesis using vpn_invD(7) [OF inv] eq assms [of x j] assms [of y k] unfolding same_account_def by metis
    qed
    show "\<exists>c'. tget (map (\<lambda>(k, c). (k, f k c)) (node_credentials d)) k = Some c' \<and> same_account c c'"
      if "tget (node_credentials d) k = Some c" for k c
      using that assms unfolding get by auto
  qed
qed

lemma stays_servers:
  assumes "twf (vpn_servers d) \<Longrightarrow> twf t" and "\<And>k. tget (vpn_servers d) k \<noteq> None \<Longrightarrow> tget t k \<noteq> None"
  shows "stays_vpn d (d\<lparr>vpn_servers := t\<rparr>)"
proof (rule staysI)
  assume inv: "vpn_inv d"
  show later: "vpn_later d (d\<lparr>vpn_servers := t\<rparr>)" using assms(2) by (auto simp: vpn_later_def)
  have "cred_ok (d\<lparr>vpn_servers := t\<rparr>) k c" if "tget (node_credentials d) k = Some c" for k c
    using vpn_invD(6) [OF inv that] assms(2) by (auto simp: cred_ok_def)
  then show "vpn_inv (d\<lparr>vpn_servers := t\<rparr>)"
    using assms(1) vpn_invD [OF inv] command_ok_later [OF later]
    unfolding vpn_inv_def quotas_ok_def by simp
qed

lemma stays_access:
  assumes "twf (vpn_user_access d) \<Longrightarrow> twf t"
    and "\<And>k a. tget (vpn_user_access d) k = Some a \<Longrightarrow> \<exists>a'. tget t k = Some a' \<and> ac_access_rev a \<le> ac_access_rev a'"
  shows "stays_vpn d (d\<lparr>vpn_user_access := t\<rparr>)"
proof (rule staysI)
  assume inv: "vpn_inv d"
  show later: "vpn_later d (d\<lparr>vpn_user_access := t\<rparr>)" using assms(2) by (auto simp: vpn_later_def)
  have "cred_ok (d\<lparr>vpn_user_access := t\<rparr>) k c = cred_ok d k c" for k c by (simp add: cred_ok_def)
  then show "vpn_inv (d\<lparr>vpn_user_access := t\<rparr>)"
    using assms(1) vpn_invD [OF inv] command_ok_later [OF later]
    unfolding vpn_inv_def quotas_ok_def by simp
qed

lemma stays_quota:
  assumes "\<And>k r. quotas_ok d \<Longrightarrow> tget t k = Some r \<Longrightarrow> quota_ok r" and "twf (cdn_quota d) \<Longrightarrow> twf t"
    and "\<And>k r. tget (cdn_quota d) k = Some r \<Longrightarrow> \<exists>r'. tget t k = Some r' \<and> qr_revision r \<le> qr_revision r'"
  shows "stays_vpn d (d\<lparr>cdn_quota := t\<rparr>)"
proof (rule staysI)
  assume inv: "vpn_inv d"
  show later: "vpn_later d (d\<lparr>cdn_quota := t\<rparr>)" using assms(3) by (auto simp: vpn_later_def)
  have "cred_ok (d\<lparr>cdn_quota := t\<rparr>) k c = cred_ok d k c" for k c by (simp add: cred_ok_def)
  moreover have "quotas_ok (d\<lparr>cdn_quota := t\<rparr>)"
    using assms(1) [OF vpn_invD(5) [OF inv]] assms(2) vpn_invD(5) [OF inv] by (simp add: quotas_ok_def)
  ultimately show "vpn_inv (d\<lparr>cdn_quota := t\<rparr>)"
    using vpn_invD(1-4,6-8) [OF inv] command_ok_later [OF later]
    unfolding vpn_inv_def by simp
qed

end
