(* ===== verification/VpnKeeps.thy ===== *)
theory VpnKeeps
  imports VpnInvariant
begin

text \<open>
  Every operation of the orchestrator keeps \<open>vpn_inv\<close> along \<open>vpn_later\<close>, whatever fails and whatever the
  committed database its pool reads is.
\<close>

section \<open>Credentials\<close>

lemma stays_bump [keeps]: "stays_vpn d (bump_active_users n key d)"
  unfolding bump_active_users_def by (auto simp: vpn.stays_refl table_simps intro!: stays_servers)

lemma stays_new_credential:
  assumes new: "tget (node_credentials d) k = None" and ok: "cred_ok d k c"
    and free: "\<not> list_ex (\<lambda>(_, b). cw_email b = cw_email c) (node_credentials d)"
  shows "stays_vpn d (d\<lparr>node_credentials := tins k c (node_credentials d)\<rparr>)"
proof (rule stays_credentials)
  have get: "tget (tins k c (node_credentials d)) j = (if j = k then Some c else tget (node_credentials d) j)" for j
    using new by (simp add: tget_tins)
  have other: "cw_email b \<noteq> cw_email c" if "vpn_inv d" and "tget (node_credentials d) j = Some b" for j b
    using that(2) free unfolding tget_in_set [OF vpn_invD(1) [OF that(1)]] list_ex_iff by fastforce
  show "twf (tins k c (node_credentials d))" if "vpn_inv d"
    using vpn_invD(1) [OF that] by (rule twf_tins)
  show "cred_ok d j b" if "vpn_inv d" "tget (tins k c (node_credentials d)) j = Some b" for j b
    using that(2) ok vpn_invD(6) [OF that(1)] unfolding get by (auto split: if_splits)
  show "i = j" if inv: "vpn_inv d" and a: "tget (tins k c (node_credentials d)) i = Some a"
      and b: "tget (tins k c (node_credentials d)) j = Some b" and eq: "cw_email a = cw_email b" for i j a b
  proof (cases "i = k \<or> j = k")
    case True
    then show ?thesis using a b eq other [OF inv, of i a] other [OF inv, of j b] unfolding get by (auto split: if_splits)
  next
    case False
    then show ?thesis using a b vpn_invD(7) [OF inv _ _ eq] unfolding get by simp
  qed
  show "\<exists>b'. tget (tins k c (node_credentials d)) j = Some b' \<and> same_account b b'" if "tget (node_credentials d) j = Some b" for j b
    using that new by (intro exI [of _ b]) (auto simp: get)
qed

lemma stays_changed_credential:
  assumes old: "tget (node_credentials d) k = Some b" and same: "same_account b c" and known: "tget (vpn_servers d) (cw_server_key c) \<noteq> None"
  shows "stays_vpn d (d\<lparr>node_credentials := tupd k (\<lambda>_. c) (node_credentials d)\<rparr>)"
proof (rule stays_credentials)
  have get: "tget (tupd k (\<lambda>_. c) (node_credentials d)) j = (if j = k then Some c else tget (node_credentials d) j)" for j
    using old by (simp add: tget_tupd)
  have before: "\<exists>a. tget (node_credentials d) j = Some a \<and> cw_email a = cw_email x"
    if "tget (tupd k (\<lambda>_. c) (node_credentials d)) j = Some x" for j x
    using that old same unfolding get same_account_def by (auto split: if_splits)
  show "twf (tupd k (\<lambda>_. c) (node_credentials d))" if "vpn_inv d"
    using vpn_invD(1) [OF that] by simp
  show "cred_ok d j x" if "vpn_inv d" "tget (tupd k (\<lambda>_. c) (node_credentials d)) j = Some x" for j x
  proof (cases "j = k")
    case True
    then have "x = c" using that(2) unfolding get by simp
    then show ?thesis using vpn_invD(6) [OF that(1) old] same known True by (simp add: cred_ok_def same_account_def)
  next
    case False
    then show ?thesis using that(2) vpn_invD(6) [OF that(1)] unfolding get by simp
  qed
  show "i = j" if "vpn_inv d" and "tget (tupd k (\<lambda>_. c) (node_credentials d)) i = Some x"
      and "tget (tupd k (\<lambda>_. c) (node_credentials d)) j = Some y" and "cw_email x = cw_email y" for i j x y
    using before [OF that(2)] before [OF that(3)] that(4) vpn_invD(7) [OF that(1), of i _ j] by metis
  show "\<exists>x'. tget (tupd k (\<lambda>_. c) (node_credentials d)) j = Some x' \<and> same_account x x'" if "tget (node_credentials d) j = Some x" for j x
    using that old same unfolding get by (cases "j = k") simp_all
qed

lemma keeps_upsert: "keeps_vpn d (upsert_credential uuid tid arev it d)"
proof (cases "tget (node_credentials d) (tid, pi_item_key it)")
  case None
  let ?c = "\<lparr>cw_server_key = pi_server_key it, cw_node_id = pi_node_id it, cw_inbound_tag = pi_inbound_tag it,
     cw_email = buildEmail tid (pi_item_key it), cw_vless_uuid = uuid, cw_access_rev = arev, cw_enabled = True,
     cw_last_synced_rev = 0, cw_last_synced_at = None\<rparr>"
  show ?thesis
  proof (cases "list_ex (\<lambda>(_, c). cw_email c = buildEmail tid (pi_item_key it)) (node_credentials d)
      \<or> tget (vpn_servers d) (pi_server_key it) = None")
    case True
    then show ?thesis using None by (auto simp: upsert_credential_def Let_def)
  next
    case False
    then have "upsert_credential uuid tid arev it d
        = Inr ((?c, True, []), d\<lparr>node_credentials := tins (tid, pi_item_key it) ?c (node_credentials d)\<rparr>)"
      using None by (simp add: upsert_credential_def Let_def)
    moreover have "stays_vpn d (d\<lparr>node_credentials := tins (tid, pi_item_key it) ?c (node_credentials d)\<rparr>)"
      using False None by (intro stays_new_credential) (simp_all add: cred_ok_def)
    ultimately show ?thesis by (simp only: vpn.keeps_value)
  qed
next
  case (Some old)
  let ?c = "old\<lparr>cw_server_key := pi_server_key it, cw_node_id := pi_node_id it, cw_inbound_tag := pi_inbound_tag it,
     cw_access_rev := max (cw_access_rev old) arev, cw_enabled := True\<rparr>"
  show ?thesis
  proof (cases "tget (vpn_servers d) (pi_server_key it) = None")
    case True
    then show ?thesis using Some by (simp add: upsert_credential_def Let_def)
  next
    case False
    then have "upsert_credential uuid tid arev it d
        = Inr ((?c, False, pi_server_key it), d\<lparr>node_credentials := tupd (tid, pi_item_key it) (\<lambda>_. ?c) (node_credentials d)\<rparr>)"
      using Some by (simp add: upsert_credential_def Let_def)
    moreover have "stays_vpn d (d\<lparr>node_credentials := tupd (tid, pi_item_key it) (\<lambda>_. ?c) (node_credentials d)\<rparr>)"
      using False Some by (intro stays_changed_credential [OF Some]) (simp_all add: same_account_def)
    ultimately show ?thesis by (simp only: vpn.keeps_value)
  qed
qed

lemma upsert_value:
  "upsert_credential uuid tid arev it d = Inr ((c, ins, prev), d') \<Longrightarrow> tget (node_credentials d') (tid, pi_item_key it) = Some c"
  by (auto simp: upsert_credential_def Let_def tget_tins tget_tupd split: option.splits if_splits)

text \<open>The accounts of a feed are those of the database it was made in.\<close>

definition feed_item_ok :: "'z vpn_db_scheme \<Rightarrow> int \<Rightarrow> FeedItem \<Rightarrow> bool" where
  "feed_item_ok d tid x \<longleftrightarrow> (\<exists>c. tget (node_credentials d) (tid, pi_item_key (fi_pool_item x)) = Some c
     \<and> uc_vless_uuid (fi_credential x) = cw_vless_uuid c \<and> uc_email (fi_credential x) = cw_email c)"

lemma feed_item_ok_later: "vpn_later d d' \<Longrightarrow> feed_item_ok d tid x \<Longrightarrow> feed_item_ok d' tid x"
  unfolding feed_item_ok_def same_account_def vpn_later_def by metis

definition moved_users :: "PoolItem \<Rightarrow> bool \<Rightarrow> string \<Rightarrow> 'z vpn_db_scheme \<Rightarrow> 'z vpn_db_scheme" where
  "moved_users it ins prev d = (if ins then bump_active_users 1 (pi_server_key it) d
     else if prev \<noteq> [] \<and> prev \<noteq> pi_server_key it
     then bump_active_users (- 1) prev (bump_active_users 1 (pi_server_key it) d) else d)"

lemma stays_moved [keeps]: "stays_vpn d (moved_users it ins prev d)"
  unfolding moved_users_def by (auto intro: stays_bump vpn.stays_refl vpn.stays_trans)

lemma ensure_Cons:
  "EnsureCredentialsForItemsTx uuid tid arev (it # items) d =
     andthen (upsert_credential (uuid (pi_item_key it)) tid arev it d) (\<lambda>x d1.
       andthen (EnsureCredentialsForItemsTx uuid tid arev items (moved_users it (fst (snd x)) (snd (snd x)) d1)) (\<lambda>out d3.
         Inr (\<lparr>fi_pool_item = it, fi_credential = credential (tid, pi_item_key it) (fst x),
           fi_url = BuildVLESSURL it (credential (tid, pi_item_key it) (fst x))\<rparr> # out, d3)))"
  by (auto simp: moved_users_def Let_def andthen_def split: sum.split prod.split)

lemma keeps_ensure:
  fixes d :: "'z vpn_db_scheme"
  shows "keeps_vpn d (EnsureCredentialsForItemsTx uuid tid arev items d)"
proof (induction items arbitrary: d)
  case (Cons it items)
  show ?case
    unfolding ensure_Cons
  proof (rule vpn.keeps_andthen [OF keeps_upsert], rule vpn.keeps_andthen)
    fix x and d1 :: "'z vpn_db_scheme"
    show "keeps_vpn d1 (EnsureCredentialsForItemsTx uuid tid arev items (moved_users it (fst (snd x)) (snd (snd x)) d1))"
      by (rule vpn.keeps_after [OF stays_moved Cons.IH])
  qed (rule vpn.keeps_return)
qed simp

lemma ensure_items:
  assumes "EnsureCredentialsForItemsTx uuid tid arev items d = Inr (out, d')" and "vpn_inv d"
  shows "map fi_pool_item out = items \<and> (\<forall>x \<in> set out. feed_item_ok d' tid x)"
  using assms
proof (induction items arbitrary: d out)
  case (Cons it items)
  obtain x d1 rest where up: "upsert_credential (uuid (pi_item_key it)) tid arev it d = Inr (x, d1)"
    and rec: "EnsureCredentialsForItemsTx uuid tid arev items (moved_users it (fst (snd x)) (snd (snd x)) d1) = Inr (rest, d')"
    and out: "out = \<lparr>fi_pool_item = it, fi_credential = credential (tid, pi_item_key it) (fst x),
      fi_url = BuildVLESSURL it (credential (tid, pi_item_key it) (fst x))\<rparr> # rest"
    using Cons.prems(1) unfolding ensure_Cons by blast
  obtain c ins prev where x: "x = (c, ins, prev)" by (cases x)
  let ?d2 = "moved_users it ins prev d1"
  have "vpn_inv d1" using keeps_upsert keeps_txD [OF _ up] Cons.prems(2) by blast
  then have inv2: "vpn_inv ?d2" using staysD [OF stays_moved] by blast
  have cr: "node_credentials ?d2 = node_credentials d1" by (simp add: moved_users_def)
  have "tget (node_credentials ?d2) (tid, pi_item_key it) = Some c" using upsert_value [OF up [unfolded x]] cr by simp
  moreover have "vpn_later ?d2 d'" using keeps_txD [OF keeps_ensure rec] inv2 by (simp add: x)
  ultimately have "feed_item_ok d' tid (hd out)"
    using later_account [of ?d2 d' "(tid, pi_item_key it)" c] by (auto simp: out x feed_item_ok_def credential_def same_account_def)
  then show ?case using Cons.IH [OF rec] inv2 by (simp add: out x)
qed simp

lemma creds_ofD: "x \<in> set (creds_of tid d) \<Longrightarrow> \<exists>k c. (k, c) \<in> set (node_credentials d) \<and> fst k = tid \<and> x = credential k c"
  by (auto simp: creds_of_def)

definition disabled_db :: "int \<Rightarrow> int \<Rightarrow> 'z vpn_db_scheme \<Rightarrow> 'z vpn_db_scheme" where
  "disabled_db tid arev d = d\<lparr>node_credentials :=
     map (\<lambda>(k, c). (k, if fst k = tid then disable_cred arev c else c)) (node_credentials d)\<rparr>"

lemma stays_disabled: "stays_vpn d (disabled_db tid arev d)"
  unfolding disabled_db_def by (rule stays_credentials_map) (simp add: same_account_def disable_cred_def)

lemma disable_parts:
  "fst (DisableUserCredentialsTx tid arev d) = creds_of tid (disabled_db tid arev d)"
  "node_credentials (snd (DisableUserCredentialsTx tid arev d)) = node_credentials (disabled_db tid arev d)"
  unfolding DisableUserCredentialsTx_def Let_def fst_conv snd_conv disabled_db_def
  by (rule refl, rule fold_bump_frame)

lemma stays_disable [keeps]: "stays_vpn d (snd (DisableUserCredentialsTx tid arev d))"
proof -
  have bumps: "stays_vpn e (fold (\<lambda>c d. if uc_server_key c \<noteq> [] then bump_active_users (- 1) (uc_server_key c) d else d) cs e)" for cs e
    by (induction cs arbitrary: e) (auto intro: vpn.stays_refl vpn.stays_trans stays_bump)
  show ?thesis
    unfolding DisableUserCredentialsTx_def Let_def snd_conv disabled_db_def [symmetric]
    by (rule vpn.stays_trans [OF stays_disabled bumps])
qed

lemma disabled_creds:
  assumes "vpn_inv d" and "x \<in> set (fst (DisableUserCredentialsTx tid arev d))"
  shows "\<exists>c. tget (node_credentials (snd (DisableUserCredentialsTx tid arev d))) (tid, uc_item_key x) = Some c
    \<and> uc_vless_uuid x = cw_vless_uuid c \<and> uc_email x = cw_email c"
proof -
  have wf: "twf (node_credentials (disabled_db tid arev d))"
    by (rule vpn_invD(1) [OF staysD [OF stays_disabled assms(1), THEN conjunct1]])
  obtain k c where kc: "(k, c) \<in> set (node_credentials (disabled_db tid arev d))" "fst k = tid" "x = credential k c"
    using creds_ofD [OF assms(2) [unfolded disable_parts(1)]] by blast
  obtain i where k: "k = (tid, i)" using kc(2) by (cases k) simp
  have x: "uc_item_key x = i" "uc_vless_uuid x = cw_vless_uuid c" "uc_email x = cw_email c"
    unfolding kc(3) k by (simp_all add: credential_def)
  have "tget (node_credentials (disabled_db tid arev d)) (tid, i) = Some c"
    by (rule iffD2 [OF tget_in_set [OF wf] kc(1) [unfolded k]])
  then have "tget (node_credentials (disabled_db tid arev d)) (tid, uc_item_key x) = Some c
      \<and> uc_vless_uuid x = cw_vless_uuid c \<and> uc_email x = cw_email c" unfolding x by simp
  then show ?thesis unfolding disable_parts(2) by (rule exI)
qed

section \<open>Profiles and commands\<close>

lemma add_optionD: "q \<in> set (add_option o' out) \<Longrightarrow> o' = Some q \<or> q \<in> set out"
  by (auto simp: add_option_def add_profile_def split: option.splits if_splits)

text \<open>Every profile of an account has its item and its UUID, and its e-mail or the CDN's.\<close>

lemma buildUserProfiles_own:
  assumes "q \<in> set (buildUserProfiles base key cdn grpc rea skip)"
  shows "up_item_key q = up_item_key base \<and> up_vless_uuid q = up_vless_uuid base \<and> up_email q \<in> {up_email base, cdnEmail (up_email base)}"
  using assms unfolding buildUserProfiles_def
  by (auto dest!: add_optionD simp: buildCDNProfile_def split: option.splits if_splits)

lemma own_profiles:
  assumes "tget (node_credentials d) (tid, up_item_key base) = Some c" and "up_vless_uuid base = cw_vless_uuid c"
    and "up_email base = cw_email c" and "q \<in> set (buildUserProfiles base key cdn grpc rea skip)"
  shows "own_profile d tid q"
  using buildUserProfiles_own [OF assms(4)] assms(1-3) unfolding own_profile_def by auto

lemma stays_publish_all:
  assumes "\<And>node. node \<in> set nodes \<Longrightarrow> vpn_inv d \<Longrightarrow> vc_node_id (cmd node) = node
      \<and> (\<forall>q \<in> set (vc_profiles (cmd node)). own_profile d (vc_telegram_id (cmd node)) q)"
  shows "stays_vpn d (publish_all now cmd nodes d)"
proof (rule staysI)
  assume inv: "vpn_inv d"
  have "vpn_inv (publish_all now cmd ns d) \<and> vpn_later d (publish_all now cmd ns d)
      \<and> node_credentials (publish_all now cmd ns d) = node_credentials d" if "set ns \<subseteq> set nodes" for ns
    using that
  proof (induction ns rule: rev_induct)
    case Nil
    then show ?case using inv by (simp add: publish_all_def)
  next
    case (snoc n ns)
    let ?d = "publish_all now cmd ns d"
    have ih: "vpn_inv ?d" "vpn_later d ?d" "node_credentials ?d = node_credentials d" using snoc by auto
    have "command_ok ?d n (PVpnCommand (cmd n))"
      using assms [of n] inv snoc.prems ih(3) by (simp add: command_ok_def own_profile_def)
    then have "stays_vpn ?d (AddTx now (vpn_event_of n (cmd n)) ?d)"
      by (intro stays_vpn_AddTx) (simp add: vpn_event_of_def)
    from staysD [OF this ih(1)] ih show ?case
      by (auto simp: publish_all_def AddTx_def intro: vpn_later_trans)
  qed
  then show "vpn_inv (publish_all now cmd nodes d)" "vpn_later d (publish_all now cmd nodes d)" by blast+
qed

lemma stays_sync:
  assumes "vpn_inv d \<Longrightarrow> \<forall>x \<in> set items. feed_item_ok d (ac_telegram_id access) x"
  shows "stays_vpn d (publishSyncCommands cfg env p access items d)"
proof -
  have "stays_vpn d (publish_all (ve_now env) (sync_command cfg env p access items) nodes d)" for nodes
  proof (rule stays_publish_all, intro conjI ballI)
    fix node q
    assume inv: "vpn_inv d" and "q \<in> set (vc_profiles (sync_command cfg env p access items node))"
    then obtain it where it: "it \<in> set items" and q: "q \<in> set (buildUserProfiles (sync_profile access it)
        (pi_server_key (fi_pool_item it)) (cdn_now cfg env p) (grpc_now cfg env p) (reality_now cfg env p)
        (node \<in> set (exhausted_nodes cfg env p (ac_telegram_id access))))"
      by (auto simp: sync_command_def Let_def)
    obtain c where "tget (node_credentials d) (ac_telegram_id access, pi_item_key (fi_pool_item it)) = Some c"
        "uc_vless_uuid (fi_credential it) = cw_vless_uuid c" "uc_email (fi_credential it) = cw_email c"
      using assms [OF inv] it unfolding feed_item_ok_def by blast
    then show "own_profile d (vc_telegram_id (sync_command cfg env p access items node)) q"
      using own_profiles [OF _ _ _ q, of d "ac_telegram_id access" c] by (simp add: sync_profile_def sync_command_def Let_def)
  qed (simp add: sync_command_def Let_def)
  then show ?thesis by (simp add: publishSyncCommands_def vpn.stays_refl)
qed

lemma stays_revoke [keeps]: "stays_vpn d (publishRevokeCommands cfg env p tid arev reason d)"
proof (cases "vg_producer cfg")
  case True
  let ?creds = "fst (DisableUserCredentialsTx tid arev d)" and ?d1 = "snd (DisableUserCredentialsTx tid arev d)"
  have own: "own_profile ?d1 tid q" if inv: "vpn_inv d" and q: "q \<in> set (vc_profiles (revoke_command cfg env p tid arev reason ?creds node))" for node q
  proof -
    obtain x where x: "x \<in> set ?creds" and q: "q \<in> set (buildUserProfiles (revoke_profile x) (uc_server_key x)
        (cdn_now cfg env p) (grpc_now cfg env p) (reality_now cfg env p) False)"
      using q by (auto simp: revoke_command_def Let_def)
    obtain c where "tget (node_credentials ?d1) (tid, uc_item_key x) = Some c" "uc_vless_uuid x = cw_vless_uuid c" "uc_email x = cw_email c"
      using disabled_creds [OF inv x] by blast
    then show ?thesis using own_profiles [OF _ _ _ q, of ?d1 tid c] by (simp add: revoke_profile_def)
  qed
  have "stays_vpn d (publish_all (ve_now env) (revoke_command cfg env p tid arev reason ?creds) nodes ?d1)" for nodes
  proof (rule staysI)
    assume inv: "vpn_inv d"
    have "stays_vpn ?d1 (publish_all (ve_now env) (revoke_command cfg env p tid arev reason ?creds) nodes ?d1)"
    proof (rule stays_publish_all, intro conjI ballI)
      fix node q
      assume "q \<in> set (vc_profiles (revoke_command cfg env p tid arev reason ?creds node))"
      from own [OF inv this] show "own_profile ?d1 (vc_telegram_id (revoke_command cfg env p tid arev reason ?creds node)) q"
        by (simp add: revoke_command_def Let_def)
    qed (simp add: revoke_command_def Let_def)
    from vpn.stays_trans [OF stays_disable this] inv
    show "vpn_inv (publish_all (ve_now env) (revoke_command cfg env p tid arev reason ?creds) nodes ?d1)"
      "vpn_later d (publish_all (ve_now env) (revoke_command cfg env p tid arev reason ?creds) nodes ?d1)"
      by (simp_all add: stays_def)
  qed
  then show ?thesis using True by (simp add: publishRevokeCommands_def Let_def split_beta)
qed (simp add: publishRevokeCommands_def vpn.stays_refl)

lemma enabled_creds:
  assumes "vpn_inv d" and "x \<in> set (ListEnabledCredentialsForNodeTx tid node d)"
  shows "\<exists>c. tget (node_credentials d) (tid, uc_item_key x) = Some c \<and> uc_vless_uuid x = cw_vless_uuid c \<and> uc_email x = cw_email c
    \<and> cw_node_id c = node \<and> cw_enabled c"
proof -
  obtain i c where kc: "((tid, i), c) \<in> set (node_credentials d)" "x = credential (tid, i) c" "cw_node_id c = node" "cw_enabled c"
    using assms(2) by (auto simp: ListEnabledCredentialsForNodeTx_def)
  have "tget (node_credentials d) (tid, i) = Some c"
    by (rule iffD2 [OF tget_in_set [OF vpn_invD(1) [OF assms(1)]] kc(1)])
  then show ?thesis using kc(3,4) unfolding kc(2) by (simp add: credential_def)
qed

lemma stays_CDNRevoke [keeps]: "stays_vpn d (publishCDNRevoke cfg env p tid node key reason d)"
proof -
  let ?creds = "ListEnabledCredentialsForNodeTx tid node d"
  let ?profiles = "concat (map (\<lambda>c. case buildCDNProfile (revoke_profile c) (uc_server_key c) (cdn_now cfg env p) of
             None \<Rightarrow> [] | Some q \<Rightarrow> [q]) ?creds)"
  let ?e = "vpn_event_of node (NodeRevokeUserCommand (ve_cmd_uuid env node) node key tid
            (fold max (map uc_access_rev ?creds) 0) reason RevokeScopeListedProfiles ?profiles (ve_now env))"
  have own: "own_profile d tid q" if inv: "vpn_inv d" and q: "q \<in> set ?profiles" for q
  proof -
    obtain x where x: "x \<in> set ?creds" and q: "buildCDNProfile (revoke_profile x) (uc_server_key x) (cdn_now cfg env p) = Some q"
      using q by (auto split: option.splits)
    from enabled_creds [OF inv x] q show ?thesis
      by (auto simp: own_profile_def buildCDNProfile_def revoke_profile_def split: option.splits if_splits)
  qed
  have "stays_vpn d (AddTx (ve_now env) ?e d)"
  proof (rule staysI)
    assume inv: "vpn_inv d"
    have "command_ok d (oe_message_key ?e) (oe_payload ?e)"
      using own [OF inv] by (simp add: command_ok_def vpn_event_of_def)
    from staysD [OF stays_vpn_AddTx [OF this] inv]
    show "vpn_inv (AddTx (ve_now env) ?e d)" "vpn_later d (AddTx (ve_now env) ?e d)" by blast+
  qed
  then show ?thesis by (simp add: publishCDNRevoke_def Let_def vpn.stays_refl)
qed

end
