(* ===== verification/VpnHandlers.thy ===== *)
theory VpnHandlers
  imports VpnKeeps
begin

text \<open>
  The handlers of the orchestrator's two topics keep the invariant of its tables, whatever they meet.
\<close>

section \<open>Quotas and access\<close>

lemma keeps_observation: "keeps_vpn d (ApplyObservationTx tid node observed uplink limit period t d)"
proof (cases "tid = 0 \<or> node = [] \<or> observed < 0 \<or> uplink < 0 \<or> observed < uplink \<or> limit \<le> 0")
  case False
  let ?k = "(tid, node)"
  let ?r = "exhaust_row (case tget (cdn_quota d) ?k of None \<Rightarrow> first_row observed uplink limit period t | Some r \<Rightarrow> observe_row observed uplink limit t r)"
  have "stays_vpn d (d\<lparr>cdn_quota := tupd ?k (\<lambda>_. ?r) (tins ?k ?r (cdn_quota d))\<rparr>)"
  proof (rule stays_quota)
    show "quota_ok r" if "quotas_ok d" "tget (tupd ?k (\<lambda>_. ?r) (tins ?k ?r (cdn_quota d))) k = Some r" for k r
      using that False quota_ok_rows [of uplink observed limit] unfolding tget_put
      by (cases "k = ?k") (auto simp: quotas_ok_def split: option.splits)
    show "\<exists>r'. tget (tupd ?k (\<lambda>_. ?r) (tins ?k ?r (cdn_quota d))) k = Some r' \<and> qr_revision r \<le> qr_revision r'"
      if "tget (cdn_quota d) k = Some r" for k r
      using that unfolding tget_put
      by (cases "k = ?k") (auto simp: exhaust_row_def observe_row_def Let_def)
  qed simp
  then show ?thesis using False by (simp add: ApplyObservationTx_def Let_def stays_def)
qed (auto simp: ApplyObservationTx_def)

lemma stays_reset:
  assumes "0 < limit" and get: "\<And>k. tget t k = map_option (\<lambda>r. if b k r then reset_row period limit at r else r) (tget (cdn_quota d) k)"
    and "twf (cdn_quota d) \<Longrightarrow> twf t"
  shows "stays_vpn d (d\<lparr>cdn_quota := t\<rparr>)"
proof (rule stays_quota)
  show "quota_ok r" if "quotas_ok d" "tget t k = Some r" for k r
    using that assms(1) unfolding get by (auto simp: quotas_ok_def)
  show "\<exists>r'. tget t k = Some r' \<and> qr_revision r \<le> qr_revision r'" if "tget (cdn_quota d) k = Some r" for k r
    using that unfolding get by (auto simp: reset_row_def)
qed (rule assms(3))

lemma keeps_ResetQuota: "0 < limit \<Longrightarrow> keeps_vpn d (ResetQuotaTx tid node period limit t d)"
proof -
  assume l: "0 < limit"
  have "stays_vpn d (d\<lparr>cdn_quota := tupd (tid, node) (reset_row period limit t) (cdn_quota d)\<rparr>)"
    by (rule stays_reset [OF l, where b = "\<lambda>k _. k = (tid, node)" and period = period and at = t])
      (auto simp: tget_tupd option.map_ident)
  then show ?thesis
    by (auto simp: ResetQuotaTx_def vpn.keeps_return vpn.keeps_value simp del: keeps_tx_Inr split: option.split)
qed

text \<open>A change of every row in place, and of the rows a condition picks.\<close>

lemma twf_map_rows: "twf (map (\<lambda>(k, r). (k, f k r)) xs) = twf xs"
proof -
  have "map fst (map (\<lambda>(k, r). (k, f k r)) xs) = map fst xs" by (induction xs) auto
  then show ?thesis unfolding twf_def by (rule arg_cong)
qed

lemma tget_map_rows: "tget (map (\<lambda>(k, r). (k, f k r)) xs) k = map_option (f k) (tget xs k)"
  by (induction xs) (auto simp: tget_def)

lemma keeps_ResetQuotaForUser: "0 < limit \<Longrightarrow> keeps_vpn d (ResetQuotaForUserTx tid period limit t d)"
proof -
  assume l: "0 < limit"
  let ?t = "map (\<lambda>(k, r). (k, if fst k = tid \<and> qr_period_key r \<noteq> period then reset_row period limit t r else r)) (cdn_quota d)"
  have "stays_vpn d (d\<lparr>cdn_quota := ?t\<rparr>)"
  proof (rule stays_reset [OF l, where b = "\<lambda>k r. fst k = tid \<and> qr_period_key r \<noteq> period" and period = period and at = t])
    show "tget ?t k = map_option (\<lambda>r. if fst k = tid \<and> qr_period_key r \<noteq> period then reset_row period limit t r else r) (tget (cdn_quota d) k)" for k
      by (rule tget_map_rows)
    show "twf ?t" if "twf (cdn_quota d)" using that unfolding twf_map_rows .
  qed
  then show ?thesis
    by (simp add: ResetQuotaForUserTx_def vpn.keeps_value del: keeps_tx_Inr)
qed

lemma stays_projection [keeps]: "stays_vpn d (UpsertAccessProjectionTx state d)"
proof -
  obtain s where s: "s = (if ac_country_code state = [] then state\<lparr>ac_country_code := ''ALL''\<rparr> else state)" by simp
  let ?tid = "ac_telegram_id state"
  have ids: "ac_telegram_id s = ?tid" "ac_access_rev s = ac_access_rev state" unfolding s by simp_all
  have upd: "UpsertAccessProjectionTx state d = (case tget (vpn_user_access d) ?tid of
      None \<Rightarrow> d\<lparr>vpn_user_access := tins ?tid s (vpn_user_access d)\<rparr>
    | Some r \<Rightarrow> if ac_access_rev r \<le> ac_access_rev state
        then d\<lparr>vpn_user_access := tupd ?tid (\<lambda>_. s) (vpn_user_access d)\<rparr> else d)"
    unfolding UpsertAccessProjectionTx_def Let_def s [symmetric] ids ..
  have "stays_vpn d (d\<lparr>vpn_user_access := tins ?tid s (vpn_user_access d)\<rparr>)" if "tget (vpn_user_access d) ?tid = None"
    using that by (intro stays_access) (auto simp: table_simps)
  moreover have "stays_vpn d (d\<lparr>vpn_user_access := tupd ?tid (\<lambda>_. s) (vpn_user_access d)\<rparr>)"
    if "tget (vpn_user_access d) ?tid = Some r" "ac_access_rev r \<le> ac_access_rev state" for r
    using that ids by (intro stays_access) (auto simp: table_simps)
  ultimately show ?thesis unfolding upd by (auto simp: vpn.stays_refl split: option.split)
qed

lemma stays_small [keeps]:
  "stays_vpn d (MarkCredentialsSyncedTx now tid arev node d)"
  "stays_vpn d (UpdateNodeHeartbeatTx node key t online up down d)"
  "stays_vpn d (SaveNodeSyncResultTx now d)"
  "stays_vpn d (UpsertUserNodeTrafficTx tid node up down d)"
proof -
  show "stays_vpn d (MarkCredentialsSyncedTx now tid arev node d)"
    unfolding MarkCredentialsSyncedTx_def by (rule stays_credentials_map) (simp add: same_account_def)
  show "stays_vpn d (UpdateNodeHeartbeatTx node key t online up down d)"
    unfolding UpdateNodeHeartbeatTx_def by (rule stays_servers) (simp_all add: twf_map_rows tget_map_rows)
  show "stays_vpn d (SaveNodeSyncResultTx now d)"
    by (rule stays_vpn_frame) (auto simp: SaveNodeSyncResultTx_def)
  show "stays_vpn d (UpsertUserNodeTrafficTx tid node up down d)"
    unfolding UpsertUserNodeTrafficTx_def Let_def
    by (cases "tget (user_traffic_node d) (tid, node)") (auto intro!: stays_vpn_frame split: prod.split)
qed

section \<open>Handlers\<close>

definition limit_positive :: "vpn_config \<Rightarrow> bool" where
  "limit_positive cfg \<longleftrightarrow> 0 < qp_limit_bytes (vg_quota cfg)"

text \<open>The settings the service can start with have a positive limit.\<close>

lemma loaded_limit_positive: "LoadCDNQuotaPolicyFromEnv pd getenv = Inr pol \<Longrightarrow> 0 < qp_limit_bytes pol"
  by (auto simp: LoadCDNQuotaPolicyFromEnv_def quota_limit_env_def Let_def split: option.splits if_splits)

lemma keeps_sync: "keeps_vpn d (ensureUserCredentialsAndSyncTx cfg env p access d)"
proof -
  have "keeps_vpn d (andthen (EnsureCredentialsForItemsTx (ve_cred_uuid env) (ac_telegram_id access) (ac_access_rev access) items d)
            (\<lambda>feed d1. Inr (feed, publishSyncCommands cfg env p access feed d1)))" for items
    unfolding keeps_tx_def
  proof
    assume inv: "vpn_inv d"
    show "ends (\<lambda>_ d'. vpn_inv d' \<and> vpn_later d d') (andthen (EnsureCredentialsForItemsTx (ve_cred_uuid env) (ac_telegram_id access) (ac_access_rev access) items d)
            (\<lambda>feed d1. Inr (feed, publishSyncCommands cfg env p access feed d1)))"
    proof (rule endsI, elim andthen_InrE)
      fix a s feed d1
      assume e: "EnsureCredentialsForItemsTx (ve_cred_uuid env) (ac_telegram_id access) (ac_access_rev access) items d = Inr (feed, d1)"
        and r: "Inr (feed, publishSyncCommands cfg env p access feed d1) = Inr (a, s)"
      from keeps_txD [OF keeps_ensure e inv] have d1: "vpn_inv d1" "vpn_later d d1" by blast+
      have "stays_vpn d1 (publishSyncCommands cfg env p access feed d1)"
        using ensure_items [OF e inv] by (intro stays_sync) simp
      from staysD [OF this d1(1)] d1(2) r show "vpn_inv s \<and> vpn_later d s" by (auto intro: vpn_later_trans)
    qed
  qed
  then show ?thesis by (simp add: ensureUserCredentialsAndSyncTx_def split: sum.split)
qed

lemma keeps_sync_access: "keeps_vpn d (sync_access cfg env p access d)"
  unfolding sync_access_def by (rule vpn.keeps_andthen [OF keeps_sync vpn.keeps_return])

lemma keeps_apply_quotas: "keeps_vpn d (apply_quotas cfg env p node key usage t tids d)"
proof (induction tids arbitrary: d)
  case (Cons tid tids)
  have "stays_vpn e (if b then publishCDNRevoke cfg env p tid node key r e else e)" for b r e
    by (simp add: stays_CDNRevoke vpn.stays_refl)
  from vpn.keeps_after [OF this Cons.IH] show ?case
    by (auto intro!: vpn.keeps_andthen keeps_observation split: prod.split option.split)
qed simp

lemma keeps_traffic: "keeps_vpn d (ApplyNodeTraffic cfg env p nodeID key items t d)"
proof -
  have users: "stays_vpn e (fold (\<lambda>tid d. case tget agg tid of None \<Rightarrow> d
      | Some (up, down) \<Rightarrow> UpsertUserNodeTrafficTx tid node up down d) tids e)" for agg node tids e
    by (induction tids arbitrary: e)
      (auto simp: vpn.stays_refl intro: vpn.stays_trans stays_small split: option.split)
  have "keeps_vpn e (applyCDNQuota cfg env p node key usage t e)" for node usage e
    by (simp add: applyCDNQuota_def keeps_apply_quotas)
  from vpn.keeps_after [OF users this] show ?thesis
    by (auto simp: ApplyNodeTraffic_def Let_def)
qed

lemma keeps_sub_event:
  assumes "limit_positive cfg"
  shows "keeps_vpn d (handle_sub_event cfg env p e d)"
proof (cases e)
  case (SubscriptionActivatedEvent tid pc at until left country source pid ar arev)
  have "keeps_vpn e (resetCDNQuotaOnPayment cfg env tid pid at e)" for e
    using assms by (auto simp: resetCDNQuotaOnPayment_def limit_positive_def vpn.keeps_return
        intro!: vpn.keeps_andthen keeps_ResetQuotaForUser simp del: keeps_tx_Inr)
  then show ?thesis
    unfolding SubscriptionActivatedEvent handle_sub_event.simps ApplyActivated_def Let_def
    by (rule vpn.keeps_andthen [OF vpn.keeps_after [OF stays_projection] keeps_sync_access])
next
  case (SubscriptionCanceledEvent tid at until atEnd arev)
  have "stays_vpn d (publishRevokeCommands cfg env p tid arev r (UpsertAccessProjectionTx access d))" for r access
    by (rule vpn.stays_trans [OF stays_projection stays_revoke])
  then show ?thesis
    using vpn.keeps_after [OF stays_projection keeps_sync_access]
    by (auto simp: SubscriptionCanceledEvent ApplyCanceled_def Let_def vpn.keeps_value simp del: keeps_tx_Inr)
next
  case (SubscriptionSuspendedEvent tid at r arev)
  have "stays_vpn d (publishRevokeCommands cfg env p tid arev r (UpsertAccessProjectionTx access d))" for r access
    by (rule vpn.stays_trans [OF stays_projection stays_revoke])
  then show ?thesis
    by (simp add: SubscriptionSuspendedEvent ApplySuspended_def Let_def vpn.keeps_value del: keeps_tx_Inr)
qed (simp_all add: ApplyTrialStarted_def ApplyGraceStarted_def Let_def vpn.keeps_after [OF stays_projection keeps_sync_access])

lemma keeps_vpn_event: "keeps_vpn d (handle_vpn_event cfg env p e d)"
proof (cases e)
  case (EvNodeUserSynced x)
  have "stays_vpn d (ApplyNodeUserSynced env x d)"
    by (auto simp: ApplyNodeUserSynced_def Let_def intro: stays_small vpn.stays_trans)
  then show ?thesis by (simp add: EvNodeUserSynced vpn.keeps_value del: keeps_tx_Inr)
qed (simp_all add: ApplyNodeHeartbeat_def ApplyNodeUserRevoked_def ApplyNodeError_def keeps_traffic vpn.keeps_value stays_small
      del: keeps_tx_Inr)

end
