(* ===== verification/VpnSystem.thy ===== *)
theory VpnSystem
  imports VpnHandlers
begin

text \<open>
  The orchestrator as a whole: its runs are sequences of messages of both topics, passes of the two workers, feeds,
  requests to the administration, and what the other services do to the tables they share. Then what holds of all
  of them.
\<close>

section \<open>Steps\<close>

text \<open>
  The other services leave the orchestrator's tables alone, and write no command to the nodes: of the outbox they
  change what is not a command, and the state of a row's delivery.
\<close>

definition vpn_elsewhere :: "'z vpn_db_scheme \<Rightarrow> 'z vpn_db_scheme \<Rightarrow> bool" where
  "vpn_elsewhere d d' \<longleftrightarrow> node_credentials d' = node_credentials d \<and> vpn_servers d' = vpn_servers d
   \<and> vpn_user_access d' = vpn_user_access d \<and> cdn_quota d' = cdn_quota d \<and> user_traffic_node d' = user_traffic_node d
   \<and> (\<forall>row \<in> set (event_outbox d'). (\<forall>cmd. ob_payload row \<noteq> PVpnCommand cmd)
        \<or> (\<exists>r \<in> set (event_outbox d). ob_message_key r = ob_message_key row \<and> ob_payload r = ob_payload row))"

inductive vpn_step :: "vpn_config \<Rightarrow> 'f float_lib \<Rightarrow> 'z vpn_db_scheme \<Rightarrow> 'z vpn_db_scheme \<Rightarrow> bool"
  for cfg fl where
  VpnSubscription: "ve_float env = fl \<Longrightarrow> vpn_step cfg fl d (snd (subscription_events_consumer cfg env out m d))"
| VpnNode: "ve_float env = fl \<Longrightarrow> vpn_step cfg fl d (snd (vpn_events_consumer cfg env out v d))"
| VpnReconcile: "(\<And>t. ve_float (envs t) = fl) \<Longrightarrow> reconcileOnce fuel cfg lock fails envs outs now n d = Some d'
    \<Longrightarrow> vpn_step cfg fl d d'"
| VpnCalendar: "cdnQuotaPassOnce fuel lock lt fails' outs' (vg_quota cfg) now n d = Some d' \<Longrightarrow> vpn_step cfg fl d d'"
| VpnFeed: "ve_float env = fl \<Longrightarrow> vpn_step cfg fl d (snd (ensureUserCredentials cfg env out a d))"
| VpnAdministration: "ve_float env = fl \<Longrightarrow> vpn_step cfg fl d (snd (RegisterAdmin cfg j env out q d))"
| VpnElsewhere: "vpn_elsewhere d d' \<Longrightarrow> vpn_step cfg fl d d'"

inductive_cases vpn_stepE: "vpn_step cfg fl d d'"

abbreviation vpn_steps :: "vpn_config \<Rightarrow> 'f float_lib \<Rightarrow> 'z vpn_db_scheme \<Rightarrow> 'z vpn_db_scheme \<Rightarrow> bool" where
  "vpn_steps cfg fl \<equiv> (vpn_step cfg fl)\<^sup>*\<^sup>*"

section \<open>Steps keep the invariant\<close>

context history
begin

lemma stays_run_tx: "keeps_tx valid later d (f d) \<Longrightarrow> stays valid later d (snd (run_tx out f d))"
  by (cases rule: run_tx_cases [of out f d]) (auto simp: stays_def later_refl)

lemma stays_paged:
  assumes "\<And>r s. stays valid later s (step r s)" and "paged fuel page key step n c s = Some s'"
  shows "stays valid later s s'"
proof -
  have rows: "stays valid later s (fold step rows s)" for rows s
    by (induction rows arbitrary: s) (auto simp: stays_refl intro: stays_trans assms(1))
  show ?thesis
    using assms(2)
  proof (induction fuel arbitrary: c s)
    case (Suc fuel)
    then show ?case
      using stays_trans [OF rows Suc.IH] by (auto simp: stays_refl rows split: option.splits if_splits)
  qed simp
qed

end

lemma keeps_orch_result: "keeps_tx vpn_inv vpn_later d (orch_result r) = keeps_tx vpn_inv vpn_later d r"
  by (cases r) (auto simp: orch_result_def keeps_tx_def ends_def)

lemma keeps_decoded: "(\<And>e. keeps_vpn d (handle e d)) \<Longrightarrow> keeps_tx vpn_inv vpn_later d (decoded x handle d)"
  by (auto simp: decoded_def keeps_orch_result vpn.keeps_return simp del: keeps_tx_Inr split: option.split sum.split)

lemma stays_marked: "stays_vpn d (orch_marked now en m d)"
  by (rule stays_vpn_frame) (auto simp: orch_marked_def)

lemma stays_orch_consumer:
  fixes d :: "'z vpn_db_scheme"
  assumes "\<And>v d1 :: 'z vpn_db_scheme. keeps_tx vpn_inv vpn_later d1 (handle v d1)"
  shows "stays_vpn d (snd (orch_consumer flds handle out now m d))"
proof -
  have "stays_vpn d (snd (processOrchestratorMessageOnce out now en m (handle v) d))" for en v
  proof (cases rule: orch_once_cases [of out now en m "handle v" d])
    case 1
    then show ?thesis by (simp add: vpn.stays_refl)
  next
    case (2 d2)
    then have "keeps_tx vpn_inv vpn_later (orch_marked now en m d) (Inr ((), d2) :: orch_error + _)"
      using assms [of "orch_marked now en m d" v] by simp
    then have "stays_vpn (orch_marked now en m d) d2" by (simp add: stays_def)
    from vpn.stays_trans [OF stays_marked this] show ?thesis by (simp add: 2(3))
  qed
  then show ?thesis by (auto simp: orch_consumer_def vpn.stays_refl split: option.split)
qed

lemma stays_admin_table:
  "stays_vpn d (d\<lparr>vpn_pool_items := a, pool_item_seq := b\<rparr>)" "stays_vpn d (d\<lparr>cdn_endpoints := e\<rparr>)"
  "stays_vpn d (d\<lparr>grpc_endpoints := f\<rparr>)" "stays_vpn d (d\<lparr>hysteria_endpoints := g\<rparr>)" "stays_vpn d (d\<lparr>reality_endpoints := h\<rparr>)"
  by (rule stays_vpn_frame; auto)+

lemmas admin_statement_defs = UpsertAdminPoolItem_def UpsertAdminCDNEndpoint_def UpsertAdminGRPCEndpoint_def
  UpsertAdminHysteriaEndpoint_def UpsertAdminRealityEndpoint_def DeleteCDNEndpoint_def DeleteGRPCEndpoint_def
  DeleteHysteriaEndpoint_def DeleteRealityEndpoint_def Let_def

lemma keeps_admin_statements:
  "keeps_vpn d (UpsertAdminNode nq d)" "keeps_vpn d (SetAdminNodeEnabled node enabled d)"
  "keeps_vpn d (UpsertAdminPoolItem pq d)" "keeps_vpn d (UpsertAdminCDNEndpoint cq d)" "keeps_vpn d (UpsertAdminGRPCEndpoint gq d)"
  "keeps_vpn d (UpsertAdminHysteriaEndpoint hq d)" "keeps_vpn d (UpsertAdminRealityEndpoint rq d)"
  "keeps_vpn d (DeleteCDNEndpoint k d)" "keeps_vpn d (DeleteGRPCEndpoint k d)"
  "keeps_vpn d (DeleteHysteriaEndpoint k d)" "keeps_vpn d (DeleteRealityEndpoint k d)"
proof -
  have "stays_vpn d (d\<lparr>vpn_servers := tput key f (vpn_servers d)\<rparr>)" for key f
    by (rule stays_servers) (auto simp: tget_tput)
  then show "keeps_vpn d (UpsertAdminNode nq d)"
    by (simp add: UpsertAdminNode_def vpn.keeps_value del: keeps_tx_Inr)
  have "stays_vpn d (d\<lparr>vpn_servers := map (\<lambda>(k, s). (k, f k s)) (vpn_servers d)\<rparr>)" for f
    by (rule stays_servers) (auto simp: twf_map_rows tget_map_rows)
  then show "keeps_vpn d (SetAdminNodeEnabled node enabled d)"
    by (simp add: SetAdminNodeEnabled_def vpn.keeps_value del: keeps_tx_Inr)
qed (simp_all add: admin_statement_defs stays_admin_table vpn.keeps_value del: keeps_tx_Inr)

lemma stays_admin_exec: "keeps_vpn d (f d) \<Longrightarrow> stays_vpn d (snd (admin_exec out f d))"
  using vpn.stays_run_tx [of d f out] by (auto simp: admin_exec_def split: prod.split option.split)

lemma stays_admin_post: "(\<And>r. keeps_vpn d (write r d)) \<Longrightarrow> stays_vpn d (snd (admin_post decode complete write out q d))"
  by (auto simp: admin_post_def vpn.stays_refl split: option.split intro: stays_admin_exec)

lemma stays_admin_delete: "(\<And>k. keeps_vpn d (delete k d)) \<Longrightarrow> stays_vpn d (snd (admin_delete base delete out q d))"
  by (auto simp: admin_delete_def Let_def vpn.stays_refl intro: stays_admin_exec)

lemma stays_ensure_sync: "stays_vpn d (snd (ensureUserCredentialsAndSync cfg env out a d))"
  unfolding ensureUserCredentialsAndSync_def by (rule vpn.stays_run_tx [OF keeps_sync])

lemma stays_admin_actions: "stays_vpn d (snd (handleAdminUserActions cfg env out q d))"
proof -
  have "stays_vpn d d'" if "ensureUserCredentialsAndSync cfg env out a d = (e, d')" for a e d'
    using stays_ensure_sync [of d cfg env out a] that by simp
  then show ?thesis
    by (auto simp: handleAdminUserActions_def vpn.stays_refl split: list.split option.split prod.split)
qed

lemmas admin_handler_defs = handleAdminNodes_def handleAdminPoolItems_def handleAdminCDNEndpoints_def
  handleAdminGRPCEndpoints_def handleAdminHysteriaEndpoints_def handleAdminRealityEndpoints_def
  handleAdminCDNEndpointByKey_def handleAdminGRPCEndpointByKey_def handleAdminHysteriaEndpointByKey_def
  handleAdminRealityEndpointByKey_def

lemma stays_node_by_id: "stays_vpn d (snd (handleAdminNodeByID j out q d))"
  by (auto simp: handleAdminNodeByID_def Let_def vpn.stays_refl split: option.split intro: stays_admin_exec keeps_admin_statements)

lemma stays_admin: "stays_vpn d (snd (RegisterAdmin cfg j env out q d))"
proof -
  have auth: "stays_vpn d (snd (withAdminAuth getenv h q d))" if "stays_vpn d (snd (h q d))" for getenv h
    using that by (auto simp: withAdminAuth_def Let_def vpn.stays_refl)
  show ?thesis
    unfolding RegisterAdmin_def Let_def admin_handler_defs
    by (auto simp: vpn.stays_refl intro!: auth stays_admin_post stays_admin_delete keeps_admin_statements
      stays_admin_actions stays_node_by_id)
qed

lemma vpn_step_stays:
  assumes "limit_positive cfg" and "vpn_step cfg fl d d'"
  shows "stays_vpn d d'"
  using assms(2)
proof cases
  case (VpnSubscription env out m)
  then show ?thesis
    unfolding VpnSubscription subscription_events_consumer_def
    by (intro stays_orch_consumer keeps_decoded keeps_sub_event [OF assms(1)])
next
  case (VpnNode env out v)
  then show ?thesis
    unfolding VpnNode vpn_events_consumer_def by (intro stays_orch_consumer keeps_decoded keeps_vpn_event)
next
  case (VpnReconcile envs fuel lock fails outs now n)
  have "stays_vpn e (reconcile_user cfg envs outs a e)" for a e
    unfolding reconcile_user_def by (rule stays_ensure_sync)
  from vpn.stays_paged [OF this] VpnReconcile(2) show ?thesis
    unfolding reconcileOnce_def by (cases "lock = Some True") (auto simp: vpn.stays_refl)
next
  case (VpnCalendar fuel lock lt fails outs now n)
  have "stays_vpn e (reset_pair outs period (qp_limit_bytes (vg_quota cfg)) now x e)" for period x e
    unfolding reset_pair_def using assms(1)
    by (intro vpn.stays_run_tx keeps_ResetQuota) (simp add: limit_positive_def)
  from vpn.stays_paged [OF this] VpnCalendar show ?thesis
    unfolding cdnQuotaPassOnce_def runCalendarReset_def Let_def by (auto simp: vpn.stays_refl split: if_splits)
next
  case (VpnFeed env out a)
  have "stays_vpn d e" if "run_tx out (EnsureCredentialsForItemsTx u tid arev items) d = (b, e)" for u tid arev items b e
    using vpn.stays_run_tx [where f = "EnsureCredentialsForItemsTx u tid arev items" and d = d and out = out, OF keeps_ensure] that by simp
  then show ?thesis
    unfolding VpnFeed ensureUserCredentials_def Let_def
    by (auto simp: vpn.stays_refl split: sum.split prod.split)
next
  case (VpnAdministration env j out q)
  then show ?thesis by (simp add: stays_admin)
next
  case VpnElsewhere
  show ?thesis
  proof (rule stays_vpn_frame)
    fix row
    assume "row \<in> set (event_outbox d')"
    with VpnElsewhere show "command_ok d (ob_message_key row) (ob_payload row)
        \<or> (\<exists>r \<in> set (event_outbox d). ob_message_key r = ob_message_key row \<and> ob_payload r = ob_payload row)"
      unfolding vpn_elsewhere_def by (auto simp: command_ok_def split: payload.split)
  qed (use VpnElsewhere in \<open>simp_all add: vpn_elsewhere_def\<close>)
qed

lemma vpn_steps_stay:
  assumes "limit_positive cfg" and "vpn_steps cfg fl d d'" and "vpn_inv d"
  shows "vpn_inv d' \<and> vpn_later d d'"
  using assms(2)
proof induction
  case (step e e')
  from staysD [OF vpn_step_stays [OF assms(1) step(2)]] step(3) show ?case by (blast intro: vpn_later_trans)
qed (simp add: assms(3))

section \<open>What holds in every run\<close>

text \<open>A small installation: the administrator adds a node and an item, then a user's trial starts.\<close>

definition sample_settings :: vpn_config where
  "sample_settings = VpnService.NewService [] 0 True \<lparr>qp_enabled = True, qp_enforce = True, qp_limit_bytes = 100, qp_stale_after = 0,
     qp_fail_mode = CDNQuotaFailOpen\<rparr> True
     (\<lambda>k. if k = ''CDN_CONFIG_ENABLED'' then ''true'' else if k = ''ORCHESTRATOR_ADMIN_USER'' then ''root'' else if k = ''ORCHESTRATOR_ADMIN_PASS'' then ''secret'' else [])"

definition sample_env :: "time \<Rightarrow> int vpn_env" where
  "sample_env now = \<lparr>ve_now = now, ve_float = int_lib, ve_cred_uuid = (\<lambda>k. ''uuid-'' @ k), ve_cmd_uuid = (\<lambda>n. ''cmd-'' @ n),
     ve_fails = (\<lambda>_. False), ve_node_order = (\<lambda>ns. ns), ve_user_order = (\<lambda>us. us)\<rparr>"

definition sample_admin_json :: admin_json where
  "sample_admin_json = \<lparr>
     aj_node = (\<lambda>_. Some \<lparr>an_server_key = ''lt1'', an_node_id = ''n1'', an_country_code = ''lt'', an_title = ''Vilnius'',
       an_public_host = ''lt.example'', an_port = 443, an_transport = ''ws'', an_security = ''tls'',
       an_default_inbound_tag = ''vless-ws-in'', an_host_header = [], an_sni = [], an_ws_path = ''/ws'', an_flow = [],
       an_max_users = 10, an_weight = 100, an_bandwidth_mbps = 100, an_enabled = True\<rparr>),
     aj_enabled = (\<lambda>_. None),
     aj_pool = (\<lambda>_. Some \<lparr>ap_item_key = ''lt-main'', ap_server_key = ''lt1'', ap_country_code = ''lt'', ap_title = ''Vilnius'',
       ap_profile_type = ''main'', ap_enabled = True, ap_sort_order = 10, ap_inbound_tag = ''vless-ws-in'', ap_host_header = [],
       ap_sni = [], ap_ws_path = ''/ws'', ap_flow = [], ap_level = 0\<rparr>),
     aj_cdn = (\<lambda>_. None), aj_grpc = (\<lambda>_. None), aj_hysteria = (\<lambda>_. None), aj_reality = (\<lambda>_. None)\<rparr>"

definition sample_post :: "string \<Rightarrow> admin_request" where
  "sample_post path = \<lparr>aq_method = ''POST'', aq_path = path, aq_auth = Some (''root'', ''secret''), aq_body = []\<rparr>"

definition message_of :: "json_obj \<Rightarrow> json_obj option kmsg" where
  "message_of ob = \<lparr>km_topic = ''t'', km_key = ''7'', km_partition = 0, km_offset = 0, km_time = 0, km_value = Some ob\<rparr>"

definition trial_message :: "string \<Rightarrow> json_obj" where
  "trial_message i = [(''type'', JStr ''subscription.trial_started''), (''command_id'', JStr i), (''telegram_id'', JNum 7),
     (''trial_until'', JTime (days 3)), (''days_left'', JNum 3), (''country'', JStr ''lt''), (''access_rev'', JNum 1)]"

definition suspended_message :: "string \<Rightarrow> int \<Rightarrow> json_obj" where
  "suspended_message i arev = [(''type'', JStr ''subscription.suspended''), (''command_id'', JStr i), (''telegram_id'', JNum 7),
     (''suspended_at'', JTime 9), (''reason'', JStr ''expired''), (''access_rev'', JNum arev)]"

definition with_node :: vpn_db where
  "with_node = snd (RegisterAdmin sample_settings sample_admin_json (sample_env 1) Up (sample_post ''/admin/nodes'') empty_vpn_db)"

definition with_item :: vpn_db where
  "with_item = snd (RegisterAdmin sample_settings sample_admin_json (sample_env 2) Up (sample_post ''/admin/pool-items'') with_node)"

definition with_trial :: vpn_db where
  "with_trial = snd (subscription_events_consumer sample_settings (sample_env 3) Up (message_of (trial_message ''e1'')) with_item)"

definition without_access :: vpn_db where
  "without_access = snd (subscription_events_consumer sample_settings (sample_env 4) Up (message_of (suspended_message ''e2'' 2)) with_trial)"

lemma sample_env_simps [simp]: "ve_float (sample_env now) = int_lib"
  by (simp add: sample_env_def)

lemma sample_run:
  "vpn_steps sample_settings int_lib empty_vpn_db with_trial"
  "vpn_steps sample_settings int_lib with_trial without_access"
proof -
  have "vpn_step sample_settings int_lib empty_vpn_db with_node" "vpn_step sample_settings int_lib with_node with_item"
    unfolding with_node_def with_item_def by (rule VpnAdministration, simp)+
  moreover have "vpn_step sample_settings int_lib with_item with_trial"
    unfolding with_trial_def by (rule VpnSubscription) simp
  ultimately show "vpn_steps sample_settings int_lib empty_vpn_db with_trial"
    by (meson r_into_rtranclp rtranclp_trans)
  show "vpn_steps sample_settings int_lib with_trial without_access"
    unfolding without_access_def by (rule r_into_rtranclp, rule VpnSubscription) simp
qed

lemma sample_limit: "limit_positive sample_settings"
  by (simp add: limit_positive_def sample_settings_def VpnService.NewService_def)

lemma empty_vpn_inv: "vpn_inv empty_vpn_db"
  by (simp add: vpn_inv_def quotas_ok_def empty_vpn_db_def sub_db.defs vpn_db.defs twf_def tget_def VpnMetering.empty_sub_db_def)



text \<open>
  C26. In every reachable state each command in the outbox goes to the node it names, and each of its profiles is an
  account of the user it names: that account's UUID, with its e-mail or the e-mail of its CDN account. Nobody's
  command carries another user's account, and no node is told about an account that does not exist.
\<close>

theorem commands_carry_own_accounts:
  assumes "limit_positive cfg" and "vpn_steps cfg fl empty_vpn_db d" and "row \<in> set (event_outbox d)"
    and "ob_payload row = PVpnCommand cmd" and "q \<in> set (vc_profiles cmd)"
  shows "ob_message_key row = vc_node_id cmd
    \<and> (\<exists>c. tget (node_credentials d) (vc_telegram_id cmd, up_item_key q) = Some c \<and> up_vless_uuid q = cw_vless_uuid c
        \<and> cw_email c = buildEmail (vc_telegram_id cmd) (up_item_key q) \<and> up_email q \<in> {cw_email c, cdnEmail (cw_email c)})"
proof -
  have inv: "vpn_inv d" using vpn_steps_stay [OF assms(1,2) empty_vpn_inv] by blast
  from vpn_invD(8) [OF inv assms(3)] assms(4,5)
  have "ob_message_key row = vc_node_id cmd" "own_profile d (vc_telegram_id cmd) q" by (simp_all add: command_ok_def)
  then show ?thesis using vpn_invD(6) [OF inv] unfolding own_profile_def cred_ok_def by fastforce
qed

definition first_profile :: "payload \<Rightarrow> (vpn_command \<times> VPNNodeUserProfile) option" where
  "first_profile pl = (case pl of PVpnCommand cmd \<Rightarrow> (case vc_profiles cmd of q # _ \<Rightarrow> Some (cmd, q) | [] \<Rightarrow> None) | _ \<Rightarrow> None)"

lemma first_profileD: "first_profile pl = Some (cmd, q) \<Longrightarrow> pl = PVpnCommand cmd \<and> q \<in> set (vc_profiles cmd)"
  by (cases pl) (auto simp: first_profile_def split: list.splits)

definition trial_view :: "vpn_db \<Rightarrow> string option list \<times> string option \<times> (int \<times> int \<times> bool) option \<times> int" where
  "trial_view d = (map (map_option (up_vless_uuid \<circ> snd) \<circ> first_profile \<circ> ob_payload) (event_outbox d),
     map_option cw_vless_uuid (tget (node_credentials d) (7, ''lt-main'')),
     map_option (\<lambda>a. (ac_telegram_id a, ac_access_rev a, accessAllowed (days 9) a)) (tget (vpn_user_access d) 7),
     fst (handleAdminUserActions sample_settings (sample_env (days 9)) Up (sample_post ''/admin/users/7/resync'') d))"

lemma with_trial_view: "trial_view with_trial = ([Some ''uuid-lt-main''], Some ''uuid-lt-main'', Some (7, 1, False), 204)"
  by code_simp

lemmas with_trial_values = with_trial_view [unfolded trial_view_def prod.inject]

lemma commands_carry_own_accounts_witness:
  "\<exists>row \<in> set (event_outbox with_trial). \<exists>cmd q. ob_payload row = PVpnCommand cmd \<and> q \<in> set (vc_profiles cmd)
     \<and> up_vless_uuid q = ''uuid-lt-main'' \<and> ob_message_key row = vc_node_id cmd
     \<and> tget (node_credentials with_trial) (vc_telegram_id cmd, up_item_key q) \<noteq> None"
proof -
  obtain row where row: "event_outbox with_trial = [row]"
      "map_option (up_vless_uuid \<circ> snd) (first_profile (ob_payload row)) = Some ''uuid-lt-main''"
    using with_trial_values by (auto simp: Cons_eq_map_conv map_eq_Cons_conv)
  then obtain cmd q where q: "first_profile (ob_payload row) = Some (cmd, q)" "up_vless_uuid q = ''uuid-lt-main''" by auto
  have "row \<in> set (event_outbox with_trial)" by (simp add: row(1))
  from commands_carry_own_accounts [OF sample_limit sample_run(1) this] first_profileD [OF q(1)] q(2)
  show ?thesis by (intro bexI [of _ row] exI [of _ cmd] exI [of _ q]) (auto simp: row(1))
qed

text \<open>
  C27. An account is for ever: whatever follows, suspensions, returns, moves to another node and resynchronisations
  included, it keeps its UUID and its e-mail, so that a link once given out works again with the access, and
  neither its revision nor the last revision a node confirmed goes back; nor does the revision of a user's access.
\<close>

theorem accounts_are_permanent:
  assumes "limit_positive cfg" and "vpn_steps cfg fl empty_vpn_db d1" and "vpn_steps cfg fl d1 d2"
    and "tget (node_credentials d1) k = Some c" and "tget (vpn_user_access d1) tid = Some a"
  shows "(\<exists>c'. tget (node_credentials d2) k = Some c' \<and> cw_vless_uuid c' = cw_vless_uuid c \<and> cw_email c' = cw_email c
      \<and> cw_access_rev c \<le> cw_access_rev c' \<and> cw_last_synced_rev c \<le> cw_last_synced_rev c')
    \<and> (\<exists>a'. tget (vpn_user_access d2) tid = Some a' \<and> ac_access_rev a \<le> ac_access_rev a')"
proof -
  have "vpn_inv d1" using vpn_steps_stay [OF assms(1,2) empty_vpn_inv] by blast
  then have "vpn_later d1 d2" using vpn_steps_stay [OF assms(1,3)] by blast
  then show ?thesis using assms(4,5) unfolding vpn_later_def same_account_def by blast
qed

lemma accounts_are_permanent_witness:
  "\<exists>c a. tget (node_credentials without_access) (7, ''lt-main'') = Some c \<and> cw_vless_uuid c = ''uuid-lt-main''
     \<and> tget (vpn_user_access without_access) 7 = Some a \<and> 1 \<le> ac_access_rev a"
proof -
  obtain c a where old: "tget (node_credentials with_trial) (7, ''lt-main'') = Some c" "cw_vless_uuid c = ''uuid-lt-main''"
      "tget (vpn_user_access with_trial) 7 = Some a" "ac_access_rev a = 1"
    using with_trial_values by auto
  from accounts_are_permanent [OF sample_limit sample_run old(1,3)] old(2,4) show ?thesis by auto
qed

end
