(* ===== verification/VpnFrame.thy ===== *)
theory VpnFrame
  imports VpnSystem
begin

text \<open>
  No handler of the orchestrator touches the inbox or the tables of the subscriptions: a fourth instance of
  \<open>history\<close>, without an invariant.
\<close>

definition foreign_kept :: "'z vpn_db_scheme \<Rightarrow> 'z vpn_db_scheme \<Rightarrow> bool" where
  "foreign_kept d d' \<longleftrightarrow> processed_messages d' = processed_messages d \<and> user_subscriptions d' = user_subscriptions d"

interpretation foreign: history "\<lambda>_. True" foreign_kept
  by unfold_locales (auto simp: foreign_kept_def)

abbreviation stays_foreign :: "'z vpn_db_scheme \<Rightarrow> 'z vpn_db_scheme \<Rightarrow> bool" where
  "stays_foreign \<equiv> stays (\<lambda>_. True) foreign_kept"

abbreviation keeps_foreign :: "'z vpn_db_scheme \<Rightarrow> tx_error + ('a \<times> 'z vpn_db_scheme) \<Rightarrow> bool" where
  "keeps_foreign \<equiv> keeps_tx (\<lambda>_. True) foreign_kept"

lemma stays_foreignI:
  "processed_messages d' = processed_messages d \<Longrightarrow> user_subscriptions d' = user_subscriptions d \<Longrightarrow> stays_foreign d d'"
  by (simp add: stays_def foreign_kept_def)

lemma foreign_small:
  "stays_foreign d (AddTx now e d)" "stays_foreign d (bump_active_users n key d)"
  "stays_foreign d (UpsertAccessProjectionTx a d)" "stays_foreign d (MarkCredentialsSyncedTx now tid arev node d)"
  "stays_foreign d (UpdateNodeHeartbeatTx node key t online up down d)" "stays_foreign d (SaveNodeSyncResultTx now d)"
  "stays_foreign d (UpsertUserNodeTrafficTx tid node up down d)"
  by (auto intro!: stays_foreignI simp: AddTx_def bump_active_users_def UpsertAccessProjectionTx_def Let_def
      MarkCredentialsSyncedTx_def UpdateNodeHeartbeatTx_def SaveNodeSyncResultTx_def UpsertUserNodeTrafficTx_def
      split: option.split)

lemma foreign_fold:
  assumes "\<And>x d. stays_foreign d (f x d)"
  shows "stays_foreign d (fold f xs d)"
  by (induction xs arbitrary: d) (auto simp: foreign.stays_refl intro: foreign.stays_trans assms)

lemma foreign_publish: "stays_foreign d (publish_all now cmd nodes d)"
  unfolding publish_all_def by (rule foreign_fold [OF foreign_small(1)])

lemma foreign_sync: "stays_foreign d (publishSyncCommands cfg env p a items d)"
  by (simp add: publishSyncCommands_def foreign.stays_refl foreign_publish)

lemma foreign_disable: "stays_foreign d (snd (DisableUserCredentialsTx tid arev d))"
proof -
  have "stays_foreign e (fold (\<lambda>c d. if uc_server_key c \<noteq> [] then bump_active_users n (uc_server_key c) d else d) cs e)" for n cs e
    by (rule foreign_fold) (simp add: foreign.stays_refl foreign_small)
  moreover have "stays_foreign d (disabled_db tid arev d)" by (rule stays_foreignI) (simp_all add: disabled_db_def)
  ultimately show ?thesis
    unfolding DisableUserCredentialsTx_def Let_def snd_conv disabled_db_def [symmetric] by (rule foreign.stays_trans [rotated])
qed

lemma foreign_revoke: "stays_foreign d (publishRevokeCommands cfg env p tid arev r d)"
  using foreign.stays_trans [OF foreign_disable foreign_publish]
  by (auto simp: publishRevokeCommands_def foreign.stays_refl Let_def split_beta)

lemma foreign_CDNRevoke: "stays_foreign d (publishCDNRevoke cfg env p tid node key r d)"
  by (simp add: publishCDNRevoke_def Let_def foreign.stays_refl foreign_small)

lemma foreign_upsert: "keeps_foreign d (upsert_credential uuid tid arev it d)"
  by (auto simp: upsert_credential_def Let_def foreign_kept_def split: option.split)

lemma foreign_ensure:
  fixes d :: "'z vpn_db_scheme"
  shows "keeps_foreign d (EnsureCredentialsForItemsTx uuid tid arev items d)"
proof (induction items arbitrary: d)
  case (Cons it items)
  have moved: "stays_foreign e (moved_users it ins prev e)" for e :: "'z vpn_db_scheme" and ins prev
    by (auto simp: moved_users_def foreign.stays_refl intro: foreign.stays_trans foreign_small)
  show ?case
    unfolding ensure_Cons
  proof (rule foreign.keeps_andthen [OF foreign_upsert], rule foreign.keeps_andthen)
    fix x and d1 :: "'z vpn_db_scheme"
    show "keeps_foreign d1 (EnsureCredentialsForItemsTx uuid tid arev items (moved_users it (fst (snd x)) (snd (snd x)) d1))"
      by (rule foreign.keeps_after [OF moved Cons.IH])
  qed (rule foreign.keeps_return)
qed (simp add: foreign_kept_def)

lemma foreign_ensure_sync: "keeps_foreign d (ensureUserCredentialsAndSyncTx cfg env p a d)"
  unfolding ensureUserCredentialsAndSyncTx_def
  by (auto intro!: foreign.keeps_andthen foreign_ensure foreign.keeps_value foreign_sync simp del: keeps_tx_Inr split: sum.split)

lemma foreign_sync_access: "keeps_foreign d (sync_access cfg env p a d)"
  unfolding sync_access_def by (rule foreign.keeps_andthen [OF foreign_ensure_sync foreign.keeps_return])

lemma foreign_quotas:
  "keeps_foreign d (ApplyObservationTx tid node observed uplink limit period t d)"
  "keeps_foreign d (ResetQuotaForUserTx tid period limit t d)"
  by (auto simp: ApplyObservationTx_def ResetQuotaForUserTx_def Let_def foreign_kept_def)

lemma foreign_apply_quotas: "keeps_foreign d (apply_quotas cfg env p node key usage t tids d)"
proof (induction tids arbitrary: d)
  case (Cons tid tids)
  have "stays_foreign e (if b then publishCDNRevoke cfg env p tid node key r e else e)" for b r e
    by (simp add: foreign_CDNRevoke foreign.stays_refl)
  from foreign.keeps_after [OF this Cons.IH] show ?case
    by (auto intro!: foreign.keeps_andthen foreign_quotas simp del: keeps_tx_Inr split: prod.split option.split)
qed (simp add: foreign_kept_def)

lemma foreign_traffic: "keeps_foreign d (ApplyNodeTraffic cfg env p nodeID key items t d)"
proof -
  have "stays_foreign e (fold (\<lambda>tid d. case tget agg tid of None \<Rightarrow> d
      | Some (up, down) \<Rightarrow> UpsertUserNodeTrafficTx tid node up down d) tids e)" for agg node tids e
    by (rule foreign_fold) (auto simp: foreign.stays_refl foreign_small split: option.split)
  note users = this
  have "keeps_foreign e (applyCDNQuota cfg env p node key usage t e)" for node usage e
    by (simp add: applyCDNQuota_def foreign_apply_quotas foreign.keeps_return del: keeps_tx_Inr)
  from foreign.keeps_after [OF users this] show ?thesis
    by (auto simp: ApplyNodeTraffic_def Let_def foreign.keeps_return simp del: keeps_tx_Inr)
qed

lemma foreign_sub_event: "keeps_foreign d (handle_sub_event cfg env p e d)"
proof (cases e)
  case (SubscriptionActivatedEvent tid pc at until left country source pid ar arev)
  have "keeps_foreign e (resetCDNQuotaOnPayment cfg env tid pid at e)" for e
    by (auto simp: resetCDNQuotaOnPayment_def foreign.keeps_return intro!: foreign.keeps_andthen foreign_quotas simp del: keeps_tx_Inr)
  then show ?thesis
    unfolding SubscriptionActivatedEvent handle_sub_event.simps ApplyActivated_def Let_def
    by (rule foreign.keeps_andthen [OF foreign.keeps_after [OF foreign_small(3)] foreign_sync_access])
next
  case (SubscriptionCanceledEvent tid at until atEnd arev)
  show ?thesis
    using foreign.keeps_after [OF foreign_small(3) foreign_sync_access]
      foreign.keeps_value [OF foreign.stays_trans [OF foreign_small(3) foreign_revoke]]
    by (auto simp: SubscriptionCanceledEvent ApplyCanceled_def Let_def simp del: keeps_tx_Inr)
next
  case (SubscriptionSuspendedEvent tid at r arev)
  show ?thesis
    unfolding SubscriptionSuspendedEvent handle_sub_event.simps ApplySuspended_def Let_def
    by (rule foreign.keeps_value [OF foreign.stays_trans [OF foreign_small(3) foreign_revoke]])
qed (simp_all add: ApplyTrialStarted_def ApplyGraceStarted_def Let_def foreign.keeps_return
    foreign.keeps_after [OF foreign_small(3) foreign_sync_access] del: keeps_tx_Inr)

lemma foreign_vpn_event: "keeps_foreign d (handle_vpn_event cfg env p e d)"
proof (cases e)
  case (EvNodeUserSynced x)
  have "stays_foreign d (ApplyNodeUserSynced env x d)"
    by (auto simp: ApplyNodeUserSynced_def Let_def intro: foreign_small foreign.stays_trans)
  then show ?thesis by (simp add: EvNodeUserSynced foreign.keeps_value del: keeps_tx_Inr)
qed (simp_all add: ApplyNodeHeartbeat_def ApplyNodeUserRevoked_def ApplyNodeError_def foreign_traffic foreign.keeps_value
      foreign_small del: keeps_tx_Inr)

end
