(* ===== verification/VpnProperties.thy ===== *)
theory VpnProperties
  imports VpnFrame
begin

text \<open>
  What single operations of the orchestrator promise: one effect per message, which profiles a command carries, what
  a revocation covers, the pass of the reconciliation; and where an event that came too late, a payment and the
  administrator do what nobody expects.
\<close>

section \<open>One effect per message\<close>

text \<open>The same message, delivered again and again, each time under other circumstances.\<close>

definition redelivered ::
    "vpn_config \<Rightarrow> json_obj option kmsg \<Rightarrow> ('f vpn_env \<times> outage) list \<Rightarrow> 'z vpn_db_scheme \<Rightarrow> 'z vpn_db_scheme" where
  "redelivered cfg m xs d = fold (\<lambda>(env, out) d. snd (subscription_events_consumer cfg env out m d)) xs d"

lemma foreign_orch_result: "keeps_tx (\<lambda>_. True) foreign_kept d (orch_result r) = keeps_tx (\<lambda>_. True) foreign_kept d r"
  by (cases r) (auto simp: orch_result_def keeps_tx_def ends_def)

lemma foreign_decoded: "(\<And>e. keeps_foreign d (handle e d)) \<Longrightarrow> keeps_tx (\<lambda>_. True) foreign_kept d (decoded x handle d)"
  by (auto simp: decoded_def foreign_orch_result foreign.keeps_return simp del: keeps_tx_Inr split: option.split sum.split)

text \<open>One delivery does nothing, or applies the message in one transaction that also files it.\<close>

lemma one_delivery:
  fixes d :: "'z vpn_db_scheme"
  obtains "snd (subscription_events_consumer cfg env out m d) = d"
  | ob en d2 where "km_value m = Some ob" and "decode_envelope ob = Some en" and "\<not> orch_seen en m d"
      and "decoded (decode_subscription_event ob) (handle_sub_event cfg env d) (orch_marked (ve_now env) en m d) = Inr ((), d2)"
      and "snd (subscription_events_consumer cfg env out m d) = d2" and "orch_seen en m d2"
proof (cases "snd (subscription_events_consumer cfg env out m d) = d")
  case False
  let ?h = "\<lambda>ob. decoded (decode_subscription_event ob) (handle_sub_event cfg env d)"
  obtain ob en where ob: "km_value m = Some ob" "decode_envelope ob = Some en"
      "subscription_events_consumer cfg env out m d = processOrchestratorMessageOnce out (ve_now env) en m (?h ob) d"
    using False by (auto simp: subscription_events_consumer_def orch_consumer_def split: option.splits)
  show thesis
  proof (cases rule: orch_once_cases [of out "ve_now env" en m "?h ob" d])
    case 1
    then show thesis using False ob(3) by simp
  next
    case (2 d2)
    have "processed_messages d2 = processed_messages (orch_marked (ve_now env) en m d)"
      using foreign_decoded [where d = "orch_marked (ve_now env) en m d" and x = "decode_subscription_event ob"
          and handle = "handle_sub_event cfg env d", OF foreign_sub_event] 2(2)
      by (simp add: foreign_kept_def)
    then have "orch_seen en m d2" using orch_seen_marked [of en m "ve_now env" d] by (simp add: orch_seen_def)
    then show thesis using that(2) [OF ob(1,2) 2(1,2) _] 2(3) ob(3) by simp
  qed
qed (rule that(1))

lemma seen_for_ever:
  assumes "km_value m = Some ob" and "decode_envelope ob = Some en" and "orch_seen en m d"
  shows "redelivered cfg m xs d = d"
proof (induction xs)
  case (Cons x xs)
  obtain env out where x: "x = (env, out)" by (cases x)
  have "snd (subscription_events_consumer cfg env out m d) = d"
    using assms by (simp add: subscription_events_consumer_def orch_consumer_def orch_once_seen)
  then show ?case using Cons by (simp add: redelivered_def x)
qed (simp add: redelivered_def)

text \<open>
  C28. However often an event of the subscription service is delivered, and whatever fails on the way, its effect is
  there not at all or exactly once: all deliveries together leave the tables as they were, or as one of them did,
  in the one transaction that applied the event and filed it in the inbox.
\<close>

theorem subscription_event_applied_once:
  "redelivered cfg m xs d = d
   \<or> (\<exists>ys env out zs ob en d2. xs = ys @ (env, out) # zs \<and> redelivered cfg m ys d = d
        \<and> km_value m = Some ob \<and> decode_envelope ob = Some en \<and> \<not> orch_seen en m d
        \<and> decoded (decode_subscription_event ob) (handle_sub_event cfg env d) (orch_marked (ve_now env) en m d) = Inr ((), d2)
        \<and> redelivered cfg m xs d = d2 \<and> orch_seen en m d2)"
proof (induction xs)
  case (Cons x xs)
  obtain env out where x: "x = (env, out)" by (cases x)
  have step: "redelivered cfg m (x # xs) d = redelivered cfg m xs (snd (subscription_events_consumer cfg env out m d))" for xs
    by (simp add: redelivered_def x)
  show ?case
  proof (cases rule: one_delivery [of cfg env out m d])
    case 1
    then have same: "redelivered cfg m (x # ys) d = redelivered cfg m ys d" for ys using step by simp
    show ?thesis
      using Cons unfolding same by (elim disjE exE conjE) (blast, metis append_Cons same)
  next
    case (2 ob en d2)
    have "redelivered cfg m (x # xs) d = d2" using step 2(5) seen_for_ever [OF 2(1,2,6)] by simp
    then show ?thesis using 2 unfolding x by (intro disjI2 exI [of _ "[]"]) (auto simp: redelivered_def)
  qed
qed (simp add: redelivered_def)

section \<open>Profiles\<close>

lemma add_option_keys: "profile_key ` set (add_option o' out) = profile_key ` set out \<union> profile_key ` set_option o'"
  by (auto simp: add_option_def add_profile_def split: option.split)

lemma profile_keys: "profile_key ` set (buildUserProfiles base key cdn grpc rea skip) =
    {profile_key base}
    \<union> (if skip then {} else profile_key ` set_option (buildCDNProfile base key cdn))
    \<union> profile_key ` set_option (map_option (\<lambda>e. base\<lparr>up_inbound_tag := or_default (ge_inbound_tag e) ''vless-grpc-cdn-in'',
         up_optional := True\<rparr>) (selectGRPCForServer grpc key))
    \<union> profile_key ` set_option (map_option (\<lambda>e. base\<lparr>up_inbound_tag := or_default (re_inbound_tag e) ''vless-reality-in'',
         up_flow := trim_space (re_flow e), up_optional := True\<rparr>) (selectRealityForServer rea key))"
  unfolding buildUserProfiles_def add_option_keys by simp

text \<open>The keys depend on the tag and the e-mail only, and a list without the CDN has none but those of one with it.\<close>

lemma profile_keys_mono:
  assumes "up_inbound_tag a = up_inbound_tag b" and "up_email a = up_email b"
  shows "profile_key ` set (buildUserProfiles a key cdn grpc rea skip) \<subseteq> profile_key ` set (buildUserProfiles b key cdn grpc rea False)"
proof -
  have cdn: "profile_key ` set_option (buildCDNProfile a key cdn) = profile_key ` set_option (buildCDNProfile b key cdn)"
    using assms by (auto simp: buildCDNProfile_def profile_key_def split: option.split)
  have keys: "profile_key (a\<lparr>up_inbound_tag := i, up_optional := o1\<rparr>) = profile_key (b\<lparr>up_inbound_tag := i, up_optional := o2\<rparr>)"
    "profile_key (a\<lparr>up_inbound_tag := i, up_flow := f, up_optional := o1\<rparr>) = profile_key (b\<lparr>up_inbound_tag := i, up_flow := f, up_optional := o2\<rparr>)"
    "profile_key a = profile_key b" for i f o1 o2
    using assms by (simp_all add: profile_key_def)
  show ?thesis
    unfolding profile_keys cdn keys(3) using keys(1,2) [where ?o1.0 = True and ?o2.0 = True]
    by (auto simp: option.set_map image_image)
qed

lemma without_cdn:
  assumes "q \<in> set (buildUserProfiles base key cdn grpc rea True)"
  shows "up_email q = up_email base"
  using assms unfolding buildUserProfiles_def by (auto dest!: add_optionD)

lemma with_cdn:
  assumes "selectCDNForServer cdn key = Some e" and "cdnEmail (up_email base) \<noteq> []"
  shows "or_default (ce_inbound_tag e) ''vless-xhttp-cdn-in'' @ ''|'' @ cdnEmail (up_email base)
    \<in> profile_key ` set (buildUserProfiles base key cdn grpc rea False)"
  unfolding profile_keys using assms by (auto simp: buildCDNProfile_def profile_key_def)

lemma sync_profiles: "set (vc_profiles (sync_command cfg env p access items node)) =
    (\<Union>it \<in> {it \<in> set items. pi_node_id (fi_pool_item it) = node}.
      set (buildUserProfiles (sync_profile access it) (pi_server_key (fi_pool_item it)) (cdn_now cfg env p) (grpc_now cfg env p)
        (reality_now cfg env p) (node \<in> set (exhausted_nodes cfg env p (ac_telegram_id access)))))"
  by (auto simp: sync_command_def Let_def)

lemma sync_profile_account [simp]:
  "up_email (sync_profile access it) = uc_email (fi_credential it)"
  "up_inbound_tag (sync_profile access it) = uc_inbound_tag (fi_credential it)"
  "up_vless_uuid (sync_profile access it) = uc_vless_uuid (fi_credential it)"
  by (simp_all add: sync_profile_def)

lemma exhausted_listed:
  "node \<in> set (exhausted_nodes cfg env p tid) \<longleftrightarrow> qp_enabled (vg_quota cfg) \<and> qp_enforce (vg_quota cfg) \<and> \<not> ve_fails env QExhausted
     \<and> (\<exists>r. ((tid, node), r) \<in> set (cdn_quota p) \<and> qr_exhausted r)"
  by (force simp: exhausted_nodes_def ExhaustedNodesForUser_def)


text \<open>An installation with a CDN endpoint, and a feed item of the user.\<close>

definition sample_endpoint :: CDNEndpoint where
  "sample_endpoint = cdn_row \<lparr>acd_cdn_key = ''cdn1'', acd_server_key = ''lt1'', acd_enabled = None, acd_sort_order = None,
     acd_inbound_tag = [], acd_address = ''cdn.example'', acd_server_name = [], acd_host = [], acd_port = None,
     acd_xhttp_path = [], acd_mode = [], acd_fingerprint = [], acd_alpn = [], acd_remarks = [], acd_padding_obfs_mode = None,
     acd_padding_placement = [], acd_padding_key = [], acd_padding_method = [], acd_sc_max_buffered_posts = None,
     acd_sc_min_posts_interval_ms = [], acd_uplink_http_method = [], acd_uplink_data_placement = [], acd_uplink_data_key = [],
     acd_uplink_chunk_size = None, acd_sc_max_each_post_bytes = None, acd_session_id_placement = [], acd_session_id_key = [],
     acd_seq_placement = [], acd_seq_key = [], acd_x_padding_bytes = [], acd_x_padding_header = [], acd_enable_xmux = False,
     acd_xmux_json = []\<rparr>"

definition sample_feed_item :: FeedItem where
  "sample_feed_item = \<lparr>fi_pool_item = (sample_item 1 ''lt-main'')\<lparr>pi_server_key := ''lt1'', pi_node_id := ''n1''\<rparr>,
     fi_credential = \<lparr>uc_telegram_id = 7, uc_item_key = ''lt-main'', uc_server_key = ''lt1'', uc_node_id = ''n1'',
       uc_inbound_tag = ''vless-ws-in'', uc_email = ''a@b'', uc_vless_uuid = ''u'', uc_access_rev = 1, uc_enabled = True\<rparr>,
     fi_url = []\<rparr>"

definition sample_access :: AccessState where
  "sample_access = \<lparr>ac_telegram_id = 7, ac_status = StatusActive, ac_access_until = Some (days 30), ac_grace_until = None,
     ac_access_rev = 1, ac_country_code = ''lt''\<rparr>"

definition cdn_db :: "bool \<Rightarrow> vpn_db" where
  "cdn_db b = empty_vpn_db\<lparr>cdn_endpoints := [(''cdn1'', sample_endpoint)],
     cdn_quota := [((7, ''n1''), (first_row 0 0 10 ''cal:2024-05'' 0)\<lparr>qr_exhausted := b\<rparr>)]\<rparr>"


section \<open>Revocation\<close>

text \<open>The commands are appended in order, one per node, each under its node.\<close>

lemma published:
  fixes d :: "'z platform_scheme"
  shows "\<exists>rows. event_outbox (publish_all now cmd nodes d) = event_outbox d @ rows
     \<and> map (\<lambda>r. (ob_message_key r, ob_payload r)) rows = map (\<lambda>n. (n, PVpnCommand (cmd n))) nodes"
proof (induction nodes arbitrary: d)
  case (Cons n ns)
  let ?e = "vpn_event_of n (cmd n)"
  obtain rows where "event_outbox (publish_all now cmd ns (AddTx now ?e d)) = event_outbox (AddTx now ?e d) @ rows"
      "map (\<lambda>r. (ob_message_key r, ob_payload r)) rows = map (\<lambda>n. (n, PVpnCommand (cmd n))) ns"
    using Cons.IH by blast
  then show ?case
    by (intro exI [of _ "new_row now (outbox_seq d) ?e # rows"]) (simp add: publish_all_def AddTx_def new_row_def vpn_event_of_def)
qed (simp add: publish_all_def)

lemma published_command:
  assumes "node \<in> set nodes"
  shows "\<exists>row \<in> set (event_outbox (publish_all now cmd nodes d)). ob_message_key row = node \<and> ob_payload row = PVpnCommand (cmd node)"
proof -
  obtain rows where rows: "event_outbox (publish_all now cmd nodes d) = event_outbox d @ rows"
      "map (\<lambda>r. (ob_message_key r, ob_payload r)) rows = map (\<lambda>n. (n, PVpnCommand (cmd n))) nodes"
    using published by blast
  have "(node, PVpnCommand (cmd node)) \<in> set (map (\<lambda>r. (ob_message_key r, ob_payload r)) rows)"
    using assms unfolding rows(2) by auto
  then show ?thesis unfolding rows(1) by auto
qed

lemma upsert_row:
  assumes "upsert_credential uuid tid arev it d = Inr ((c, ins, prev), d')"
  shows "tget (node_credentials d') k = (if k = (tid, pi_item_key it) then Some c else tget (node_credentials d) k)
    \<and> cw_node_id c = pi_node_id it \<and> cw_server_key c = pi_server_key it \<and> cw_enabled c"
  using assms by (auto simp: upsert_credential_def Let_def tget_tins tget_tupd split: option.splits if_splits)

text \<open>Every item of a feed is the account the tables hold: enabled, on the item's node and server.\<close>

lemma ensure_rows:
  fixes d :: "'z vpn_db_scheme"
  assumes "EnsureCredentialsForItemsTx uuid tid arev items d = Inr (out, d')" and "distinct (map pi_item_key items)"
  shows "(\<forall>k. k \<notin> (\<lambda>it. (tid, pi_item_key it)) ` set items \<longrightarrow> tget (node_credentials d') k = tget (node_credentials d) k)
    \<and> (\<forall>x \<in> set out. \<exists>c. tget (node_credentials d') (tid, pi_item_key (fi_pool_item x)) = Some c
        \<and> fi_credential x = credential (tid, pi_item_key (fi_pool_item x)) c
        \<and> cw_node_id c = pi_node_id (fi_pool_item x) \<and> cw_server_key c = pi_server_key (fi_pool_item x) \<and> cw_enabled c)"
  using assms
proof (induction items arbitrary: d out)
  case (Cons it items)
  obtain x d1 rest where up: "upsert_credential (uuid (pi_item_key it)) tid arev it d = Inr (x, d1)"
    and rec: "EnsureCredentialsForItemsTx uuid tid arev items (moved_users it (fst (snd x)) (snd (snd x)) d1) = Inr (rest, d')"
    and out: "out = \<lparr>fi_pool_item = it, fi_credential = credential (tid, pi_item_key it) (fst x),
      fi_url = BuildVLESSURL it (credential (tid, pi_item_key it) (fst x))\<rparr> # rest"
    using Cons.prems(1) unfolding ensure_Cons by blast
  obtain c ins prev where x: "x = (c, ins, prev)" by (cases x)
  note row = upsert_row [OF up [unfolded x]]
  have moved: "node_credentials (moved_users it (fst (snd x)) (snd (snd x)) d1) = node_credentials d1" by (simp add: moved_users_def)
  from Cons.IH [OF rec] Cons.prems(2)
  have ih: "\<forall>k. k \<notin> (\<lambda>it. (tid, pi_item_key it)) ` set items \<longrightarrow> tget (node_credentials d') k = tget (node_credentials d1) k"
    "\<forall>x \<in> set rest. \<exists>c. tget (node_credentials d') (tid, pi_item_key (fi_pool_item x)) = Some c
        \<and> fi_credential x = credential (tid, pi_item_key (fi_pool_item x)) c
        \<and> cw_node_id c = pi_node_id (fi_pool_item x) \<and> cw_server_key c = pi_server_key (fi_pool_item x) \<and> cw_enabled c"
    unfolding moved by simp_all
  have "(tid, pi_item_key it) \<notin> (\<lambda>it. (tid, pi_item_key it)) ` set items" using Cons.prems(2) by auto
  then have "tget (node_credentials d') (tid, pi_item_key it) = tget (node_credentials d1) (tid, pi_item_key it)" using ih(1) by blast
  also have "\<dots> = Some c" using row [of "(tid, pi_item_key it)"] by simp
  finally have "\<exists>c. tget (node_credentials d') (tid, pi_item_key (fi_pool_item y)) = Some c
        \<and> fi_credential y = credential (tid, pi_item_key (fi_pool_item y)) c
        \<and> cw_node_id c = pi_node_id (fi_pool_item y) \<and> cw_server_key c = pi_server_key (fi_pool_item y) \<and> cw_enabled c"
    if "y \<in> set out" for y
    using that ih(2) row unfolding out x by (cases "y \<in> set rest") auto
  moreover have "tget (node_credentials d') k = tget (node_credentials d) k"
    if "k \<notin> (\<lambda>it. (tid, pi_item_key it)) ` set (it # items)" for k
    using that ih(1) row by simp
  ultimately show ?case by blast
qed simp

lemma base_profile: "base \<in> set (buildUserProfiles base key cdn grpc rea skip)"
proof -
  have "x \<in> set (add_option o' out)" if "x \<in> set out" for x o' out
    using that by (auto simp: add_option_def add_profile_def split: option.split)
  then show ?thesis by (simp add: buildUserProfiles_def)
qed

lemma profile_uuid: "q \<in> set (buildUserProfiles base key cdn grpc rea skip) \<Longrightarrow> up_vless_uuid q = up_vless_uuid base"
  using buildUserProfiles_own by blast


lemma item_synced:
  "map_sum (\<lambda>_. ()) (\<lambda>(items, _). map (\<lambda>i. (pi_item_key (fi_pool_item i), pi_node_id (fi_pool_item i))) items)
     (ensureUserCredentialsAndSyncTx sample_settings (sample_env 5) with_item sample_access with_item) = Inr [(''lt-main'', ''n1'')]"
  by code_simp

lemma with_item_inv: "vpn_inv with_item"
proof -
  have "vpn_step sample_settings int_lib empty_vpn_db with_node" "vpn_step sample_settings int_lib with_node with_item"
    unfolding with_node_def with_item_def by (rule VpnAdministration, simp)+
  then have "vpn_steps sample_settings int_lib empty_vpn_db with_item" by (meson r_into_rtranclp rtranclp_trans)
  from vpn_steps_stay [OF sample_limit this empty_vpn_inv] show ?thesis by blast
qed


section \<open>Events that come too late\<close>

lemma disabled_rows: "tget (node_credentials (disabled_db tid arev d)) k
    = map_option (\<lambda>c. if fst k = tid then disable_cred arev c else c) (tget (node_credentials d) k)"
  unfolding disabled_db_def by (simp add: tget_map_rows)

lemma publish_all_credentials [simp]: "node_credentials (publish_all now cmd nodes d) = node_credentials d"
  "vpn_user_access (publish_all now cmd nodes d) = vpn_user_access d" "cdn_quota (publish_all now cmd nodes d) = cdn_quota d"
  unfolding publish_all_def by (induction nodes arbitrary: d) (simp_all add: AddTx_def)

lemma revoke_rows:
  assumes "vg_producer cfg"
  shows "node_credentials (publishRevokeCommands cfg env p tid arev reason d) = node_credentials (disabled_db tid arev d)"
    and "vpn_user_access (publishRevokeCommands cfg env p tid arev reason d) = vpn_user_access d"
  using assms disable_parts(2) [of tid arev d]
  by (simp_all add: publishRevokeCommands_def Let_def split_beta DisableUserCredentialsTx_def)

text \<open>
  C32. A suspension of an earlier revision than the access the service knows of is not recorded, yet it cuts the
  user off: every account of the user is disabled and the nodes are told to remove it, although the access on
  record goes on.
\<close>

theorem stale_suspension_cuts_live_access:
  assumes "tget (vpn_user_access d) tid = Some a" and "arev < ac_access_rev a" and "vg_producer cfg"
  shows "\<exists>d'. ApplySuspended cfg env p tid at arev d = Inr ((), d') \<and> tget (vpn_user_access d') tid = Some a
    \<and> (\<forall>k c. fst k = tid \<longrightarrow> tget (node_credentials d') k = Some c \<longrightarrow> \<not> cw_enabled c)"
proof -
  let ?s = "\<lparr>ac_telegram_id = tid, ac_status = StatusExpired, ac_access_until = Some at, ac_grace_until = None,
        ac_access_rev = arev, ac_country_code = ''ALL''\<rparr>"
  have "UpsertAccessProjectionTx ?s d = d" using assms(1,2) by (simp add: UpsertAccessProjectionTx_def Let_def)
  then have run: "ApplySuspended cfg env p tid at arev d = Inr ((), publishRevokeCommands cfg env p tid arev ''subscription_suspended'' d)"
    by (simp add: ApplySuspended_def Let_def)
  show ?thesis
    unfolding run using assms(1) by (auto simp: revoke_rows [OF assms(3)] disabled_rows disable_cred_def)
qed

lemma stale_suspension_cuts_live_access_witness:
  "\<exists>d'. ApplySuspended sample_settings (sample_env 4) with_trial 7 9 0 with_trial = Inr ((), d')
     \<and> (\<exists>a. tget (vpn_user_access d') 7 = Some a \<and> ac_access_rev a = 1)
     \<and> \<not> (\<exists>k c. fst k = 7 \<and> tget (node_credentials d') k = Some c \<and> cw_enabled c)"
proof -
  obtain a where a: "tget (vpn_user_access with_trial) 7 = Some a" "ac_access_rev a = 1"
    using with_trial_values by auto
  have "vg_producer sample_settings" by (simp add: sample_settings_def VpnService.NewService_def)
  from stale_suspension_cuts_live_access [OF a(1) _ this, of 0 "sample_env 4" with_trial 9] a show ?thesis by auto
qed

section \<open>A payment and the quota\<close>

lemma ensure_frame:
  fixes d :: "'z vpn_db_scheme"
  assumes "EnsureCredentialsForItemsTx uuid tid arev items d = Inr (out, d')"
  shows "event_outbox d' = event_outbox d \<and> cdn_quota d' = cdn_quota d"
  using assms
proof (induction items arbitrary: d out)
  case (Cons it items)
  obtain x d1 rest where up: "upsert_credential (uuid (pi_item_key it)) tid arev it d = Inr (x, d1)"
    and rec: "EnsureCredentialsForItemsTx uuid tid arev items (moved_users it (fst (snd x)) (snd (snd x)) d1) = Inr (rest, d')"
    using Cons.prems(1) unfolding ensure_Cons by blast
  have "event_outbox d1 = event_outbox d \<and> cdn_quota d1 = cdn_quota d"
    using up by (auto simp: upsert_credential_def Let_def split: option.splits if_splits)
  then show ?case using Cons.IH [OF rec] by (simp add: moved_users_def)
qed simp

lemma sync_access_rows:
  assumes "sync_access cfg env p access d = Inr ((), d')" and "row \<in> set (event_outbox d')"
  shows "cdn_quota d' = cdn_quota d \<and> (row \<in> set (event_outbox d)
    \<or> (\<exists>items. ob_payload row = PVpnCommand (sync_command cfg env p access items (ob_message_key row))))"
proof -
  obtain sel items d0 where ens: "EnsureCredentialsForItemsTx (ve_cred_uuid env) (ac_telegram_id access) (ac_access_rev access) sel d = Inr (items, d0)"
      and d': "d' = publishSyncCommands cfg env p access items d0"
    using assms(1) unfolding sync_access_def ensureUserCredentialsAndSyncTx_def by (auto split: sum.splits)
  note frame = ensure_frame [OF ens]
  show ?thesis
  proof (cases "vg_producer cfg")
    case True
    let ?nodes = "ve_node_order env (nodes_of (map (\<lambda>it. pi_node_id (fi_pool_item it)) items))"
    obtain rows where rows: "event_outbox d' = event_outbox d0 @ rows"
        "map (\<lambda>r. (ob_message_key r, ob_payload r)) rows = map (\<lambda>n. (n, PVpnCommand (sync_command cfg env p access items n))) ?nodes"
      using published [of "ve_now env" "sync_command cfg env p access items" ?nodes d0] True
      unfolding d' publishSyncCommands_def by auto
    have "cdn_quota d' = cdn_quota d" using True frame by (simp add: d' publishSyncCommands_def)
    moreover have "ob_payload row = PVpnCommand (sync_command cfg env p access items (ob_message_key row))" if "row \<in> set rows"
    proof -
      have "(ob_message_key row, ob_payload row) \<in> set (map (\<lambda>r. (ob_message_key r, ob_payload r)) rows)" using that by auto
      then show ?thesis unfolding rows(2) by auto
    qed
    ultimately show ?thesis using assms(2) frame unfolding rows(1) by auto
  next
    case False
    then show ?thesis using assms(2) frame by (simp add: d' publishSyncCommands_def)
  qed
qed

text \<open>
  C33. A payment opens a new period of the quota, but the synchronisation in the same transaction still asks the
  committed tables, where the quota is used up: the commands it sends to that node leave the CDN accounts out, so
  a user who paid gets no CDN there until something else synchronises, against what the comment in the code says.
\<close>

theorem paid_reset_is_not_seen_by_its_sync:
  assumes "ApplyActivated cfg env p tid at until country paymentID arev d = Inr ((), d')"
    and "qp_enabled (vg_quota cfg)" and "qp_enforce (vg_quota cfg)" and "\<not> ve_fails env QExhausted"
    and "((tid, node), r) \<in> set (cdn_quota p)" and "qr_exhausted r" and "cdn_quota d = cdn_quota p" and "twf (cdn_quota p)"
    and "paymentPeriodKey paymentID \<noteq> []" and "qr_period_key r \<noteq> paymentPeriodKey paymentID"
  shows "(\<exists>r'. tget (cdn_quota d') (tid, node) = Some r' \<and> \<not> qr_exhausted r' \<and> used_bytes r' = 0)
    \<and> (\<forall>row \<in> set (event_outbox d') - set (event_outbox d). ob_message_key row = node \<longrightarrow>
        (\<exists>items. ob_payload row = PVpnCommand (sync_command cfg env p \<lparr>ac_telegram_id = tid, ac_status = StatusActive,
            ac_access_until = Some until, ac_grace_until = None, ac_access_rev = arev, ac_country_code = country\<rparr> items node)
          \<and> (\<forall>q \<in> set (vc_profiles (sync_command cfg env p \<lparr>ac_telegram_id = tid, ac_status = StatusActive,
            ac_access_until = Some until, ac_grace_until = None, ac_access_rev = arev, ac_country_code = country\<rparr> items node)).
              \<exists>i \<in> set items. up_email q = uc_email (fi_credential i))))"
proof -
  define access where "access = \<lparr>ac_telegram_id = tid, ac_status = StatusActive, ac_access_until = Some until,
    ac_grace_until = None, ac_access_rev = arev, ac_country_code = country\<rparr>"
  let ?P = "paymentPeriodKey paymentID" and ?t = "if at = zero_time then ve_now env else at"
  let ?d1 = "UpsertAccessProjectionTx access d"
  let ?d2 = "?d1\<lparr>cdn_quota := map (\<lambda>(k, r). (k, if fst k = tid \<and> qr_period_key r \<noteq> ?P
      then reset_row ?P (qp_limit_bytes (vg_quota cfg)) ?t r else r)) (cdn_quota ?d1)\<rparr>"
  have d1: "cdn_quota ?d1 = cdn_quota p" "event_outbox ?d1 = event_outbox d"
    using assms(7) by (simp_all add: UpsertAccessProjectionTx_def Let_def split: option.split)
  have sync: "sync_access cfg env p access ?d2 = Inr ((), d')"
    using assms(1,2,9) by (simp add: ApplyActivated_def Let_def resetCDNQuotaOnPayment_def ResetQuotaForUserTx_def access_def)
  have row: "tget (cdn_quota ?d2) (tid, node) = Some (reset_row ?P (qp_limit_bytes (vg_quota cfg)) ?t r)"
    using tget_in_set [OF assms(8), THEN iffD2, OF assms(5)] assms(10) by (simp add: d1 tget_map_rows)
  have quota: "cdn_quota d' = cdn_quota ?d2"
  proof -
    obtain sel items d0 where ens: "EnsureCredentialsForItemsTx (ve_cred_uuid env) (ac_telegram_id access) (ac_access_rev access) sel ?d2 = Inr (items, d0)"
        and d': "d' = publishSyncCommands cfg env p access items d0"
      using sync unfolding sync_access_def ensureUserCredentialsAndSyncTx_def by (auto split: sum.splits)
    show ?thesis using ensure_frame [OF ens] by (simp add: d' publishSyncCommands_def)
  qed
  have ex: "node \<in> set (exhausted_nodes cfg env p (ac_telegram_id access))"
    using assms(2-6) unfolding exhausted_listed by (auto simp: access_def)
  have profiles: "\<exists>i \<in> set items. up_email q = uc_email (fi_credential i)"
    if "q \<in> set (vc_profiles (sync_command cfg env p access items node))" for items q
    using that ex unfolding sync_profiles by (auto dest!: without_cdn)
  have rows: "\<exists>items. ob_payload row = PVpnCommand (sync_command cfg env p access items node)"
    if "row \<in> set (event_outbox d') - set (event_outbox d)" "ob_message_key row = node" for row
    using sync_access_rows [OF sync, of row] that d1(2) by auto
  have "\<not> qr_exhausted (reset_row ?P (qp_limit_bytes (vg_quota cfg)) ?t r)" "used_bytes (reset_row ?P (qp_limit_bytes (vg_quota cfg)) ?t r) = 0"
    by (simp_all add: reset_row_def used_bytes_def)
  then have reset: "\<exists>r'. tget (cdn_quota d') (tid, node) = Some r' \<and> \<not> qr_exhausted r' \<and> used_bytes r' = 0"
    using row unfolding quota by blast
  show ?thesis
    unfolding access_def [symmetric] using reset rows profiles by (intro conjI ballI impI) blast+
qed

definition used_up :: vpn_db where
  "used_up = with_item\<lparr>cdn_quota := [((7, ''n1''), (first_row 0 0 10 ''cal:2024-05'' 0)\<lparr>qr_observed := 10, qr_exhausted := True\<rparr>)]\<rparr>"

lemma used_up_pays:
  "map_sum (\<lambda>_. False) (\<lambda>(_, d). length (event_outbox d) = 1) (ApplyActivated sample_settings (sample_env 5) used_up 7 5 (days 40) ''lt'' ''p1'' 2 used_up)
     = Inr True"
  by code_simp

lemma paid_reset_is_not_seen_by_its_sync_witness:
  "\<exists>d' row. ApplyActivated sample_settings (sample_env 5) used_up 7 5 (days 40) ''lt'' ''p1'' 2 used_up = Inr ((), d')
     \<and> event_outbox d' = [row] \<and> (\<exists>r'. tget (cdn_quota d') (7, ''n1'') = Some r' \<and> \<not> qr_exhausted r')"
proof -
  obtain d' where run: "ApplyActivated sample_settings (sample_env 5) used_up 7 5 (days 40) ''lt'' ''p1'' 2 used_up = Inr ((), d')"
      "length (event_outbox d') = 1"
    using used_up_pays by (cases "ApplyActivated sample_settings (sample_env 5) used_up 7 5 (days 40) ''lt'' ''p1'' 2 used_up") auto
  obtain row where "event_outbox d' = [row]" using run(2) by (cases "event_outbox d'") auto
  moreover have "\<exists>r'. tget (cdn_quota d') (7, ''n1'') = Some r' \<and> \<not> qr_exhausted r'"
    by (rule paid_reset_is_not_seen_by_its_sync [OF run(1), of "''n1''", THEN conjunct1, THEN exE])
      (auto simp: used_up_def sample_settings_def VpnService.NewService_def sample_env_def first_row_def twf_def
        paymentPeriodKey_def trim_space_def is_space_def)
  ultimately show ?thesis using run(1) by blast
qed

section \<open>The reconciliation\<close>

definition accesses_after :: "time \<Rightarrow> int \<Rightarrow> 'z sub_db_scheme \<Rightarrow> AccessState list" where
  "accesses_after now c d = map (\<lambda>(tid, r). sub_access tid r)
     (sort_key fst (filter (\<lambda>(tid, r). live_access now r \<and> c < tid) (user_subscriptions d)))"

lemma reconcile_user_frame: "user_subscriptions (reconcile_user cfg envs outs a d) = user_subscriptions d"
proof -
  have "stays_foreign d (reconcile_user cfg envs outs a d)"
    unfolding reconcile_user_def ensureUserCredentialsAndSync_def by (rule foreign.stays_run_tx [OF foreign_ensure_sync])
  then show ?thesis by (simp add: stays_def foreign_kept_def)
qed

lemma sorted_rows:
  fixes t :: "(int, 'v) table"
  assumes "twf t"
  shows "sorted_wrt (\<lambda>a b. fst a < fst b) (sort_key fst t)"
proof -
  have "distinct (map fst (sort_key fst t))"
    using assms by (simp add: twf_def distinct_map)
  then have "sorted_wrt (<) (map fst (sort_key fst t))"
    using sorted_sort_key [of fst t] by (simp add: strict_sorted_iff)
  then show ?thesis by (simp add: sorted_wrt_map)
qed

lemma reconcile_rest:
  assumes wf: "twf (user_subscriptions d)" and after: "accesses_after now c d = a # as"
  shows "accesses_after now (ac_telegram_id a) (reconcile_user cfg envs outs a d) = as"
proof -
  let ?S = "sort_key fst (user_subscriptions d)" and ?P = "\<lambda>x. live_access now (snd x)" and ?L = "\<lambda>a b :: int \<times> sub_row. fst a < fst b"
  have filt: "sort_key fst (filter (\<lambda>(tid, r). live_access now r \<and> c < tid) (user_subscriptions d))
      = filter (\<lambda>x. ?P x \<and> c < fst x) ?S" for c
    by (simp add: filter_sort split_beta')
  obtain x xs where x: "filter (\<lambda>x. ?P x \<and> c < fst x) ?S = x # xs" and a: "a = (\<lambda>(tid, r). sub_access tid r) x"
      and as: "as = map (\<lambda>(tid, r). sub_access tid r) xs"
    using after unfolding accesses_after_def filt by (auto simp: map_eq_Cons_conv)
  have "filter (\<lambda>y. ?P y \<and> ?L x y) ?S = xs"
    by (rule filter_after_next [where L = ?L and P = ?P and C = "\<lambda>x. c < fst x", OF sorted_rows [OF wf] _ _ x]) auto
  moreover have "ac_telegram_id a = fst x" by (simp add: a sub_access_def split_beta)
  ultimately show ?thesis unfolding accesses_after_def reconcile_user_frame filt as by simp
qed

interpretation reconciliation: pagination "accesses_after now" ac_telegram_id "reconcile_user cfg envs outs" "\<lambda>d. twf (user_subscriptions d)"
  for now cfg envs outs
  by unfold_locales (simp_all add: reconcile_rest reconcile_user_frame)

text \<open>
  C31. A pass of the reconciliation that holds the lock and whose queries succeed ends, and synchronises each user
  with a live access exactly once, in the order of their ids, whatever the size of its pages and whatever
  happens to the transactions of single users.
\<close>

theorem reconcile_pass_result:
  assumes "twf (user_subscriptions d)" and "0 < n" and "length (user_subscriptions d) < fuel"
  shows "reconcileOnce fuel cfg (Some True) (\<lambda>_. False) envs outs now n d
      = Some (fold (reconcile_user cfg envs outs) (accesses_after now 0 d) d)
    \<and> sorted_wrt (<) (map ac_telegram_id (accesses_after now 0 d))
    \<and> ac_telegram_id ` set (accesses_after now 0 d)
      = {tid. 0 < tid \<and> (\<exists>r. tget (user_subscriptions d) tid = Some r \<and> live_access now r)}"
proof (intro conjI)
  have "length (accesses_after now 0 d) < fuel"
    unfolding accesses_after_def length_map length_sort using assms(3) by (intro le_less_trans [OF length_filter_le])
  then show "reconcileOnce fuel cfg (Some True) (\<lambda>_. False) envs outs now n d
      = Some (fold (reconcile_user cfg envs outs) (accesses_after now 0 d) d)"
    using assms(2) unfolding reconcileOnce_def
    by (simp add: reconciliation.paged_all [OF assms(1)] ListActiveAccessesForReconcile_def accesses_after_def)
  have keys: "map ac_telegram_id (accesses_after now 0 d)
      = map fst (sort_key fst (filter (\<lambda>(tid, r). live_access now r \<and> 0 < tid) (user_subscriptions d)))"
    by (simp add: accesses_after_def sub_access_def split_beta)
  have "twf (filter (\<lambda>(tid, r). live_access now r \<and> 0 < tid) (user_subscriptions d))"
    using assms(1) unfolding twf_def by (rule distinct_map_filter)
  from sorted_rows [OF this] show "sorted_wrt (<) (map ac_telegram_id (accesses_after now 0 d))"
    unfolding keys by (simp add: sorted_wrt_map)
  have "set (map ac_telegram_id (accesses_after now 0 d))
      = {tid. 0 < tid \<and> (\<exists>r. tget (user_subscriptions d) tid = Some r \<and> live_access now r)}"
    unfolding keys by (force simp: tget_in_set [OF assms(1)])
  then show "ac_telegram_id ` set (accesses_after now 0 d)
      = {tid. 0 < tid \<and> (\<exists>r. tget (user_subscriptions d) tid = Some r \<and> live_access now r)}" by simp
qed

definition live_row :: "time \<Rightarrow> sub_row" where
  "live_row t = (new_sub_row ''lt'')\<lparr>us_status := StatusActive, us_expires_at := Some t\<rparr>"

definition subscribed_db :: vpn_db where
  "subscribed_db = empty_vpn_db\<lparr>user_subscriptions := [(9, live_row 2), (8, live_row 20), (7, live_row 20)]\<rparr>"

lemma reconcile_pass_result_witness:
  "map ac_telegram_id (accesses_after 5 0 subscribed_db) = [7, 8]
   \<and> reconcileOnce 4 sample_settings (Some True) (\<lambda>_. False) sample_env (\<lambda>_. Lost) 5 1 subscribed_db
     = Some (fold (reconcile_user sample_settings sample_env (\<lambda>_. Lost)) (accesses_after 5 0 subscribed_db) subscribed_db)"
proof
  show "map ac_telegram_id (accesses_after 5 0 subscribed_db) = [7, 8]" by code_simp
  have "twf (user_subscriptions subscribed_db)" "length (user_subscriptions subscribed_db) < 4"
    by (simp_all add: subscribed_db_def twf_def)
  from reconcile_pass_result [OF this(1) _ this(2), of 1 sample_settings sample_env "\<lambda>_. Lost" 5, THEN conjunct1] show
    "reconcileOnce 4 sample_settings (Some True) (\<lambda>_. False) sample_env (\<lambda>_. Lost) 5 1 subscribed_db
     = Some (fold (reconcile_user sample_settings sample_env (\<lambda>_. Lost)) (accesses_after 5 0 subscribed_db) subscribed_db)" by simp
qed

section \<open>The administrator\<close>

lemma ensure_keeps_enabled:
  assumes "EnsureCredentialsForItemsTx uuid tid arev items d = Inr (out, d')"
    and "\<exists>c. tget (node_credentials d) k = Some c \<and> cw_enabled c"
  shows "\<exists>c. tget (node_credentials d') k = Some c \<and> cw_enabled c"
  using assms
proof (induction items arbitrary: d out)
  case (Cons it items)
  obtain x d1 rest where up: "upsert_credential (uuid (pi_item_key it)) tid arev it d = Inr (x, d1)"
    and rec: "EnsureCredentialsForItemsTx uuid tid arev items (moved_users it (fst (snd x)) (snd (snd x)) d1) = Inr (rest, d')"
    using Cons.prems(1) unfolding ensure_Cons by blast
  obtain c ins prev where x: "x = (c, ins, prev)" by (cases x)
  show ?case
    by (rule Cons.IH [OF rec]) (use Cons.prems(2) upsert_row [OF up [unfolded x], of k] in \<open>auto simp: moved_users_def\<close>)
qed simp

lemma ensure_enables:
  assumes "EnsureCredentialsForItemsTx uuid tid arev items d = Inr (out, d')" and "items \<noteq> []"
  shows "\<exists>k c. tget (node_credentials d') (tid, k) = Some c \<and> cw_enabled c"
proof (cases items)
  case (Cons it rest)
  obtain x d1 out' where up: "upsert_credential (uuid (pi_item_key it)) tid arev it d = Inr (x, d1)"
    and rec: "EnsureCredentialsForItemsTx uuid tid arev rest (moved_users it (fst (snd x)) (snd (snd x)) d1) = Inr (out', d')"
    using assms(1) unfolding Cons ensure_Cons by blast
  obtain c ins prev where x: "x = (c, ins, prev)" by (cases x)
  have "\<exists>c. tget (node_credentials d') (tid, pi_item_key it) = Some c \<and> cw_enabled c"
    by (rule ensure_keeps_enabled [OF rec]) (use upsert_row [OF up [unfolded x]] in \<open>auto simp: moved_users_def\<close>)
  then show ?thesis by blast
qed (use assms(2) in simp)



end
